(* ===== verification/Prelude.thy ===== *)
theory Prelude
  imports Main "HOL-Library.Sublist" "HOL-Library.Multiset"
begin

text \<open>
  The parts of the Go language and of its standard library that the modelled packages share:
  byte strings with \<open>strings.TrimSpace\<close>, \<open>strings.ToLower\<close> and \<open>strings.ToUpper\<close>, fixed
  width integers, maps of maps, the iteration order of a Go map and the contract of
  \<open>sort.Slice\<close>.

  A Go string is a byte sequence, so it is a list of characters of 8 bits. Case mapping is exact
  on ASCII; a byte of a non-ASCII rune is left alone, so the model speaks of the identifiers the
  program uses (chain names, token symbols, hex addresses), which are ASCII. \<open>TrimSpace\<close> strips
  every UTF-8 encoded rune of \<open>unicode.IsSpace\<close>, the non-ASCII ones included.
\<close>

named_theorems go_lookup \<open>reading a map of maps after a write\<close>
named_theorems go_string \<open>normalisation of byte strings\<close>

section \<open>Integers of a fixed width\<close>

text \<open>Go integers are HOL integers; an operation that may leave the range is wrapped explicitly.\<close>

definition wrap_s :: "nat \<Rightarrow> int \<Rightarrow> int" where
  "wrap_s w x = (x + 2 ^ (w - 1)) mod 2 ^ w - 2 ^ (w - 1)"

definition wrap_u :: "nat \<Rightarrow> int \<Rightarrow> int" where
  "wrap_u w x = x mod 2 ^ w"

abbreviation in_range_s :: "nat \<Rightarrow> int \<Rightarrow> bool" where
  "in_range_s w x \<equiv> - (2 ^ (w - 1)) \<le> x \<and> x < 2 ^ (w - 1)"

lemma wrap_s_id: "0 < w \<Longrightarrow> in_range_s w x \<Longrightarrow> wrap_s w x = x"
proof -
  assume w: "0 < w" and r: "in_range_s w x"
  have "(2::int) ^ w = 2 * 2 ^ (w - 1)" using w by (cases w) auto
  then show ?thesis using r by (simp add: wrap_s_def)
qed

lemma wrap_s_range: "0 < w \<Longrightarrow> in_range_s w (wrap_s w x)"
proof -
  assume w: "0 < w"
  have "(2::int) ^ w = 2 * 2 ^ (w - 1)" using w by (cases w) auto
  moreover have "0 \<le> (x + 2 ^ (w - 1)) mod 2 ^ w" "(x + 2 ^ (w - 1)) mod 2 ^ w < 2 ^ w"
    by auto
  ultimately show ?thesis unfolding wrap_s_def by linarith
qed

lemma wrap_s_cong: "wrap_s w x mod 2 ^ w = x mod 2 ^ w"
  by (simp add: wrap_s_def mod_diff_left_eq)

section \<open>Byte strings\<close>

definition is_upper :: "char \<Rightarrow> bool" where
  "is_upper c \<longleftrightarrow> (let n = (of_char c :: nat) in 65 \<le> n \<and> n \<le> 90)"

definition is_lower :: "char \<Rightarrow> bool" where
  "is_lower c \<longleftrightarrow> (let n = (of_char c :: nat) in 97 \<le> n \<and> n \<le> 122)"

definition lower_char :: "char \<Rightarrow> char" where
  "lower_char c = (if is_upper c then char_of (of_char c + 32 :: nat) else c)"

definition upper_char :: "char \<Rightarrow> char" where
  "upper_char c = (if is_lower c then char_of (of_char c - 32 :: nat) else c)"

definition ToLower :: "string \<Rightarrow> string" where
  "ToLower s = map lower_char s"

definition ToUpper :: "string \<Rightarrow> string" where
  "ToUpper s = map upper_char s"

lemma is_lower_lower_char: "is_upper c \<Longrightarrow> is_lower (lower_char c)"
  by (simp add: is_upper_def is_lower_def lower_char_def Let_def)

lemma not_upper_lower_char [simp]: "\<not> is_upper (lower_char c)"
  using is_lower_lower_char [of c]
  by (auto simp: is_upper_def is_lower_def lower_char_def Let_def)

lemma lower_char_idem [simp]: "lower_char (lower_char c) = lower_char c"
  by (metis lower_char_def not_upper_lower_char)

lemma mod_256_minus_32: "(n::nat) \<le> 122 \<Longrightarrow> (n - 32) mod 256 = n - 32"
  by simp

lemma upper_char_upper: "is_lower c \<Longrightarrow> is_upper (upper_char c)"
  by (auto simp: is_upper_def is_lower_def upper_char_def Let_def mod_256_minus_32)

lemma not_lower_upper_char [simp]: "\<not> is_lower (upper_char c)"
  using upper_char_upper [of c]
  by (auto simp: is_upper_def is_lower_def upper_char_def Let_def)

lemma upper_lower_char [simp]: "upper_char (lower_char c) = upper_char c"
proof (cases "is_upper c")
  case True
  then have "\<not> is_lower c" by (auto simp: is_upper_def is_lower_def Let_def)
  moreover have "is_lower (lower_char c)" using True by (rule is_lower_lower_char)
  moreover from True have "(of_char (lower_char c) :: nat) = of_char c + 32"
    using True by (simp add: lower_char_def is_upper_def Let_def)
  ultimately show ?thesis by (simp add: upper_char_def)
next
  case False
  then show ?thesis by (simp add: lower_char_def)
qed

lemma lower_upper_char [simp]: "lower_char (upper_char c) = lower_char c"
proof (cases "is_lower c")
  case True
  then have "\<not> is_upper c" by (auto simp: is_upper_def is_lower_def Let_def)
  moreover have "is_upper (upper_char c)" using True by (rule upper_char_upper)
  moreover have "(of_char (upper_char c) :: nat) + 32 = of_char c"
    using True by (auto simp: upper_char_def is_lower_def Let_def mod_256_minus_32)
  ultimately show ?thesis by (simp add: lower_char_def)
next
  case False
  then show ?thesis by (simp add: upper_char_def)
qed

lemma ToLower_idem [simp, go_string]: "ToLower (ToLower s) = ToLower s"
  by (simp add: ToLower_def)

lemma ToUpper_ToLower [simp, go_string]: "ToUpper (ToLower s) = ToUpper s"
  by (simp add: ToUpper_def ToLower_def)

lemma ToLower_ToUpper [simp, go_string]: "ToLower (ToUpper s) = ToLower s"
  by (simp add: ToUpper_def ToLower_def)

lemma ToUpper_eq_iff_ToLower_eq: "ToUpper s = ToUpper t \<longleftrightarrow> ToLower s = ToLower t"
  by (metis ToLower_ToUpper ToUpper_ToLower)

lemma length_ToLower [simp]: "length (ToLower s) = length s"
  by (simp add: ToLower_def)

subsection \<open>\<open>strings.TrimSpace\<close>\<close>

text \<open>The UTF-8 encodings of the runes for which \<open>unicode.IsSpace\<close> holds.\<close>

definition space_runes :: "string list" where
  "space_runes =
     [[CHR 0x09], [CHR 0x0A], [CHR 0x0B], [CHR 0x0C], [CHR 0x0D], [CHR 0x20], 
      [CHR 0xC2, CHR 0x85], [CHR 0xC2, CHR 0xA0], [CHR 0xE1, CHR 0x9A, CHR 0x80], 
      [CHR 0xE2, CHR 0x80, CHR 0x80], [CHR 0xE2, CHR 0x80, CHR 0x81], 
      [CHR 0xE2, CHR 0x80, CHR 0x82], [CHR 0xE2, CHR 0x80, CHR 0x83], 
      [CHR 0xE2, CHR 0x80, CHR 0x84], [CHR 0xE2, CHR 0x80, CHR 0x85], 
      [CHR 0xE2, CHR 0x80, CHR 0x86], [CHR 0xE2, CHR 0x80, CHR 0x87], 
      [CHR 0xE2, CHR 0x80, CHR 0x88], [CHR 0xE2, CHR 0x80, CHR 0x89], 
      [CHR 0xE2, CHR 0x80, CHR 0x8A], [CHR 0xE2, CHR 0x80, CHR 0xA8], 
      [CHR 0xE2, CHR 0x80, CHR 0xA9], [CHR 0xE2, CHR 0x80, CHR 0xAF], 
      [CHR 0xE2, CHR 0x81, CHR 0x9F], [CHR 0xE3, CHR 0x80, CHR 0x80]]"

function strip :: "string list \<Rightarrow> string \<Rightarrow> string" where
  "strip ps s = (case find (\<lambda>p. p \<noteq> [] \<and> prefix p s) ps of
                   None \<Rightarrow> s
                 | Some p \<Rightarrow> strip ps (drop (length p) s))"
  by pat_completeness auto
termination
proof (relation "measure (\<lambda>(ps, s). length s)")
  fix ps :: "string list" and s p
  assume "find (\<lambda>p. p \<noteq> [] \<and> prefix p s) ps = Some p"
  then have "p \<noteq> []" "prefix p s" by (auto simp: find_Some_iff)
  then show "((ps, drop (length p) s), ps, s) \<in> measure (\<lambda>(ps, s). length s)"
    by (auto simp: prefix_def)
qed simp

declare strip.simps [simp del]

definition TrimLeft :: "string \<Rightarrow> string" where
  "TrimLeft s = strip space_runes s"

definition TrimRight :: "string \<Rightarrow> string" where
  "TrimRight s = rev (strip (map rev space_runes) (rev s))"

definition TrimSpace :: "string \<Rightarrow> string" where
  "TrimSpace s = TrimRight (TrimLeft s)"

lemma strip_none: "find (\<lambda>p. p \<noteq> [] \<and> prefix p s) ps = None \<Longrightarrow> strip ps s = s"
  by (simp add: strip.simps [of ps s])

lemma find_strip: "find (\<lambda>p. p \<noteq> [] \<and> prefix p (strip ps s)) ps = None"
proof (induction ps s rule: strip.induct)
  case (1 ps s)
  show ?case
  proof (cases "find (\<lambda>p. p \<noteq> [] \<and> prefix p s) ps")
    case None
    then show ?thesis by (simp add: strip_none)
  next
    case (Some p)
    with 1 show ?thesis by (simp add: strip.simps [of ps s])
  qed
qed

lemma strip_idem [simp]: "strip ps (strip ps s) = strip ps s"
  by (rule strip_none) (rule find_strip)

lemma suffix_strip: "suffix (strip ps s) s"
proof (induction ps s rule: strip.induct)
  case (1 ps s)
  show ?case
  proof (cases "find (\<lambda>p. p \<noteq> [] \<and> prefix p s) ps")
    case None
    then show ?thesis by (simp add: strip_none)
  next
    case (Some p)
    with 1 have "suffix (strip ps (drop (length p) s)) (drop (length p) s)" by simp
    moreover have "suffix (drop (length p) s) s" by (rule suffix_drop)
    ultimately show ?thesis using Some
      by (simp add: strip.simps [of ps s])
  qed
qed

lemma prefix_TrimRight: "prefix (TrimRight s) s"
  using suffix_strip [of "map rev space_runes" "rev s"]
  by (simp add: TrimRight_def suffix_to_prefix)

lemma TrimLeft_TrimRight: "TrimLeft s = s \<Longrightarrow> TrimLeft (TrimRight s) = TrimRight s"
proof -
  assume s: "TrimLeft s = s"
  have none: "find (\<lambda>p. p \<noteq> [] \<and> prefix p s) space_runes = None"
    using find_strip [of space_runes s] s by (simp add: TrimLeft_def)
  then have "find (\<lambda>p. p \<noteq> [] \<and> prefix p (TrimRight s)) space_runes = None"
    using prefix_TrimRight [of s] by (fastforce simp: find_None_iff intro: prefix_order.trans)
  then show ?thesis unfolding TrimLeft_def by (rule strip_none)
qed

lemma TrimSpace_idem [simp, go_string]: "TrimSpace (TrimSpace s) = TrimSpace s"
proof -
  have "TrimLeft (TrimRight (TrimLeft s)) = TrimRight (TrimLeft s)"
    by (rule TrimLeft_TrimRight) (simp add: TrimLeft_def)
  then show ?thesis by (simp add: TrimSpace_def TrimRight_def)
qed

text \<open>Case mapping does not touch a space, so the two normalisations commute.\<close>

lemma lower_char_eq_iff: "\<not> is_lower p \<Longrightarrow> \<not> is_upper p \<Longrightarrow> lower_char c = p \<longleftrightarrow> c = p"
  by (metis is_lower_lower_char lower_char_def)

lemma eq_lower_char_iff: "\<not> is_lower p \<Longrightarrow> \<not> is_upper p \<Longrightarrow> p = lower_char c \<longleftrightarrow> p = c"
  using lower_char_eq_iff [of p c] by auto

lemma prefix_map_lower:
  "\<forall>c\<in>set p. \<not> is_lower c \<and> \<not> is_upper c \<Longrightarrow> prefix p (map lower_char s) \<longleftrightarrow> prefix p s"
proof (induction p arbitrary: s)
  case Nil
  then show ?case by simp
next
  case (Cons a p)
  then show ?case by (cases s) (simp_all add: eq_lower_char_iff)
qed

lemma strip_map_lower:
  "\<forall>p\<in>set ps. \<forall>c\<in>set p. \<not> is_lower c \<and> \<not> is_upper c \<Longrightarrow>
   strip ps (map lower_char s) = map lower_char (strip ps s)"
proof (induction ps s rule: strip.induct)
  case (1 ps s)
  have eq: "find (\<lambda>p. p \<noteq> [] \<and> prefix p (map lower_char s)) ps =
            find (\<lambda>p. p \<noteq> [] \<and> prefix p s) ps"
    by (rule find_cong) (auto simp: "1.prems" prefix_map_lower)
  show ?case
  proof (cases "find (\<lambda>p. p \<noteq> [] \<and> prefix p s) ps")
    case None
    then show ?thesis using eq by (simp add: strip_none)
  next
    case (Some p)
    then have "strip ps (drop (length p) (map lower_char s)) =
               map lower_char (strip ps (drop (length p) s))"
      using 1 by (simp add: drop_map)
    then show ?thesis
      using Some eq by (simp add: strip.simps [of ps "map lower_char s"] strip.simps [of ps s])
  qed
qed

lemma space_runes_no_letter: "\<forall>p\<in>set space_runes. \<forall>c\<in>set p. \<not> is_lower c \<and> \<not> is_upper c"
  by (simp add: space_runes_def is_lower_def is_upper_def Let_def)

lemma TrimSpace_ToLower [simp, go_string]: "TrimSpace (ToLower s) = ToLower (TrimSpace s)"
proof -
  have "strip (map rev space_runes) (map lower_char t) =
        map lower_char (strip (map rev space_runes) t)" for t
    by (rule strip_map_lower) (use space_runes_no_letter in auto)
  moreover have "strip space_runes (map lower_char t) = map lower_char (strip space_runes t)" for t
    by (rule strip_map_lower) (rule space_runes_no_letter)
  ultimately show ?thesis
    by (simp add: TrimSpace_def TrimRight_def TrimLeft_def ToLower_def rev_map)
qed

text \<open>The key under which every manager stores and looks up a name.\<close>

definition norm_key :: "string \<Rightarrow> string" where
  "norm_key s = ToLower (TrimSpace s)"

lemma norm_key_idem [simp, go_string]: "norm_key (norm_key s) = norm_key s"
  by (simp add: norm_key_def)

lemma norm_key_TrimSpace [simp, go_string]: "norm_key (TrimSpace s) = norm_key s"
  by (simp add: norm_key_def)

lemma norm_key_ToLower [simp, go_string]: "norm_key (ToLower s) = norm_key s"
  by (simp add: norm_key_def)

lemma ToLower_TrimSpace: "ToLower (TrimSpace s) = norm_key s"
  by (simp add: norm_key_def)

definition HasPrefix :: "string \<Rightarrow> string \<Rightarrow> bool" where
  "HasPrefix s p \<longleftrightarrow> prefix p s"

definition TrimPrefix :: "string \<Rightarrow> string \<Rightarrow> string" where
  "TrimPrefix s p = (if prefix p s then drop (length p) s else s)"

fun split_on :: "char \<Rightarrow> string \<Rightarrow> string list" where
  \<comment> \<open>\<open>strings.Split\<close> by a separator of one character\<close>
  "split_on sep [] = [[]]"
| "split_on sep (c # s) =
     (if c = sep then [] # split_on sep s
      else case split_on sep s of p # ps \<Rightarrow> (c # p) # ps | [] \<Rightarrow> [[c]])"

lemma split_on_Nil [simp]: "split_on sep a \<noteq> []"
  by (induction a) (auto split: list.splits)

lemma split_on_key:
  "split_on sep (a @ sep # b) = split_on sep a @ split_on sep b"
  by (induction a) (auto split: list.splits)

lemma split_on_free: "sep \<notin> set a \<Longrightarrow> split_on sep a = [a]"
  by (induction a) auto

lemma split_on_length: "length (split_on sep a) = Suc (length (filter (\<lambda>c. c = sep) a))"
  by (induction a) (auto split: list.splits)

section \<open>Maps of maps\<close>

text \<open>
  The managers build their indexes with the Go idiom \<open>inner, ok := m[a]; if !ok {inner = make(..);
  m[a] = inner}; inner[b] = v\<close>. The inner map is reached only through \<open>m\<close>, so the reference the
  idiom keeps is the entry of \<open>m\<close> itself.
\<close>

definition inner :: "('a \<Rightarrow> ('b \<rightharpoonup> 'c) option) \<Rightarrow> 'a \<Rightarrow> 'b \<rightharpoonup> 'c" where
  "inner m a = (case m a of None \<Rightarrow> Map.empty | Some n \<Rightarrow> n)"

definition put2 :: "'a \<Rightarrow> 'b \<Rightarrow> 'c \<Rightarrow> ('a \<Rightarrow> ('b \<rightharpoonup> 'c) option) \<Rightarrow> ('a \<Rightarrow> ('b \<rightharpoonup> 'c) option)" where
  "put2 a b v m = m(a \<mapsto> (inner m a)(b \<mapsto> v))"

definition get2 :: "('a \<Rightarrow> ('b \<rightharpoonup> 'c) option) \<Rightarrow> 'a \<Rightarrow> 'b \<Rightarrow> 'c option" where
  "get2 m a b = (case m a of None \<Rightarrow> None | Some n \<Rightarrow> n b)"

definition put3 where
  "put3 a b c v m = m(a \<mapsto> put2 b c v (inner m a))"

definition get3 where
  "get3 m a b c = (case m a of None \<Rightarrow> None | Some n \<Rightarrow> get2 n b c)"

definition put5 where
  "put5 a b c d e v m = m(a \<mapsto> put2 b c (put2 d e v (inner (inner (inner m a) b) c)) (inner m a))"

definition get5 where
  "get5 m a b c d e = (case get3 m a b c of None \<Rightarrow> None | Some n \<Rightarrow> get2 n d e)"

lemma inner_empty [simp]: "inner Map.empty a = Map.empty"
  by (simp add: inner_def)

lemma inner_upd [simp]: "inner (m(a \<mapsto> n)) a' = (if a' = a then n else inner m a')"
  by (simp add: inner_def)

lemma get2_inner: "get2 m a b = inner m a b"
  by (simp add: get2_def inner_def split: option.splits)

lemma get3_inner: "get3 m a b c = inner (inner m a) b c"
  by (simp add: get3_def get2_inner inner_def split: option.splits)

lemma get5_inner: "get5 m a b c d e = inner (inner (inner (inner m a) b) c) d e"
  by (simp add: get5_def get3_inner get2_inner inner_def split: option.splits)

lemma get2_empty [simp, go_lookup]: "get2 Map.empty a b = None"
  by (simp add: get2_def)

lemma get3_empty [simp, go_lookup]: "get3 Map.empty a b c = None"
  by (simp add: get3_def)

lemma get5_empty [simp, go_lookup]: "get5 Map.empty a b c d e = None"
  by (simp add: get5_def)

lemma inner_put2 [simp]:
  "inner (put2 a b v m) a' = (if a' = a then (inner m a)(b \<mapsto> v) else inner m a')"
  by (simp add: put2_def)

lemma get2_put2 [simp, go_lookup]:
  "get2 (put2 a b v m) a' b' = (if a' = a \<and> b' = b then Some v else get2 m a' b')"
  by (simp add: get2_inner)

lemma get3_put3 [simp, go_lookup]:
  "get3 (put3 a b c v m) a' b' c' =
     (if a' = a \<and> b' = b \<and> c' = c then Some v else get3 m a' b' c')"
  by (simp add: get3_inner put3_def)

lemma get5_put5 [simp, go_lookup]:
  "get5 (put5 a b c d e v m) a' b' c' d' e' =
     (if a' = a \<and> b' = b \<and> c' = c \<and> d' = d \<and> e' = e then Some v else get5 m a' b' c' d' e')"
  by (simp add: get5_inner put5_def)

text \<open>A map whose values are slices, written with \<open>m[a] = append(m[a], v)\<close>.\<close>

definition slice_at :: "('a \<rightharpoonup> 'v list) \<Rightarrow> 'a \<Rightarrow> 'v list" where
  "slice_at m a = (case m a of None \<Rightarrow> [] | Some vs \<Rightarrow> vs)"

definition app1 :: "'a \<Rightarrow> 'v \<Rightarrow> ('a \<rightharpoonup> 'v list) \<Rightarrow> ('a \<rightharpoonup> 'v list)" where
  "app1 a v m = m(a \<mapsto> slice_at m a @ [v])"

definition slice_at2 where
  "slice_at2 m a b = slice_at (inner m a) b"

definition app2 where
  "app2 a b v m = m(a \<mapsto> app1 b v (inner m a))"

lemma slice_at_empty [simp, go_lookup]: "slice_at Map.empty a = []"
  by (simp add: slice_at_def)

lemma slice_at_app1 [simp, go_lookup]:
  "slice_at (app1 a v m) a' = slice_at m a' @ (if a' = a then [v] else [])"
  by (simp add: slice_at_def app1_def)

lemma slice_at2_empty [simp, go_lookup]: "slice_at2 Map.empty a b = []"
  by (simp add: slice_at2_def)

lemma slice_at2_app2 [simp, go_lookup]:
  "slice_at2 (app2 a b v m) a' b' = slice_at2 m a' b' @ (if a' = a \<and> b' = b then [v] else [])"
  by (simp add: slice_at2_def app2_def)

section \<open>Iteration order and sorting\<close>

text \<open>
  \<open>for k := range m\<close> visits the keys of \<open>m\<close> once each in an order the runtime chooses: an
  operation that ranges over a map takes that order as an argument, and its properties hold for
  every order.
\<close>

definition iter_order :: "('k \<rightharpoonup> 'v) \<Rightarrow> 'k list \<Rightarrow> bool" where
  "iter_order m ks \<longleftrightarrow> distinct ks \<and> set ks = dom m"

definition range_vals :: "('k \<rightharpoonup> 'v) \<Rightarrow> 'k list \<Rightarrow> 'v list" where
  "range_vals m ks = concat (map (\<lambda>k. case m k of None \<Rightarrow> [] | Some v \<Rightarrow> [v]) ks)"

definition range_keys :: "('k \<rightharpoonup> 'v) \<Rightarrow> 'k list \<Rightarrow> 'k list" where
  "range_keys m ks = filter (\<lambda>k. m k \<noteq> None) ks"

lemma range_keys_order: "iter_order m ks \<Longrightarrow> range_keys m ks = ks"
  by (auto simp: range_keys_def iter_order_def filter_id_conv)

lemma set_range_vals: "iter_order m ks \<Longrightarrow> set (range_vals m ks) = ran m"
  by (force simp: range_vals_def iter_order_def ran_def dom_def split: option.splits)

lemma map_range_vals:
  "(\<And>k v. m k = Some v \<Longrightarrow> f v = k) \<Longrightarrow> map f (range_vals m ks) = range_keys m ks"
  by (induction ks) (auto simp: range_vals_def range_keys_def split: option.splits)

lemma length_range_vals: "iter_order m ks \<Longrightarrow> length (range_vals m ks) = card (dom m)"
proof -
  assume ks: "iter_order m ks"
  have "length (range_vals m xs) = length xs" if "set xs \<subseteq> dom m" for xs
    using that by (induction xs) (auto simp: range_vals_def)
  with ks show ?thesis by (simp add: iter_order_def distinct_card [symmetric])
qed

text \<open>
  \<open>sort.Slice\<close> permutes its slice so that no later element is less than an earlier one; the
  order of equal elements is not specified, so the sort is an argument with this contract.
\<close>

definition sort_slice_spec :: "('a \<Rightarrow> 'a \<Rightarrow> bool) \<Rightarrow> ('a list \<Rightarrow> 'a list) \<Rightarrow> bool" where
  "sort_slice_spec lt srt \<longleftrightarrow>
     (\<forall>xs. mset (srt xs) = mset xs \<and> sorted_wrt (\<lambda>x y. \<not> lt y x) (srt xs))"

lemma sort_slice_set: "sort_slice_spec lt srt \<Longrightarrow> set (srt xs) = set xs"
  unfolding sort_slice_spec_def by (metis mset_eq_setD)

lemma sort_slice_sorted: "sort_slice_spec lt srt \<Longrightarrow> sorted_wrt (\<lambda>x y. \<not> lt y x) (srt xs)"
  by (simp add: sort_slice_spec_def)

lemma sort_slice_mset: "sort_slice_spec lt srt \<Longrightarrow> mset (srt xs) = mset xs"
  by (simp add: sort_slice_spec_def)

lemma sort_slice_length: "sort_slice_spec lt srt \<Longrightarrow> length (srt xs) = length xs"
  unfolding sort_slice_spec_def by (metis mset_eq_length)

lemma sort_slice_sort_key: "sort_slice_spec (\<lambda>x y. f x < (f y :: 'b :: linorder)) (sort_key f)"
proof -
  have "sorted_wrt (\<lambda>x y. \<not> f y < f x) (sort_key f xs)" for xs
    using sorted_sort_key [of f xs] by (simp add: sorted_map not_less)
  then show ?thesis by (simp add: sort_slice_spec_def)
qed

section \<open>First match and first minimum\<close>

lemma find_first:
  "find P xs = Some x \<longleftrightarrow> (\<exists>pre post. xs = pre @ x # post \<and> P x \<and> list_all (\<lambda>y. \<not> P y) pre)"
proof
  assume "find P xs = Some x"
  then show "\<exists>pre post. xs = pre @ x # post \<and> P x \<and> list_all (\<lambda>y. \<not> P y) pre"
  proof (induction xs)
    case (Cons y ys)
    show ?case
    proof (cases "P y")
      case True
      then show ?thesis using Cons.prems by (intro exI [of _ "[]"] exI [of _ ys]) simp
    next
      case False
      with Cons obtain pre post where "ys = pre @ x # post" "P x" "list_all (\<lambda>y. \<not> P y) pre" by auto
      then show ?thesis using False by (intro exI [of _ "y # pre"] exI [of _ post]) simp
    qed
  qed simp
next
  assume "\<exists>pre post. xs = pre @ x # post \<and> P x \<and> list_all (\<lambda>y. \<not> P y) pre"
  then obtain pre post where "xs = pre @ x # post" "P x" "list_all (\<lambda>y. \<not> P y) pre" by blast
  then show "find P xs = Some x" by (induction pre arbitrary: xs) auto
qed

text \<open>
  The value \<open>b\<close> that a loop keeps when it replaces its best offer only by a strictly cheaper one:
  offered by an element \<open>x\<close>, cheaper than every earlier offer and not dearer than any later one.
\<close>

definition first_min :: "('a \<Rightarrow> 'b option) \<Rightarrow> ('b \<Rightarrow> 'c::linorder) \<Rightarrow> 'a list \<Rightarrow> 'b \<Rightarrow> bool" where
  "first_min offer cost xs b \<longleftrightarrow>
     (\<exists>pre x post. xs = pre @ x # post \<and> offer x = Some b \<and>
        (\<forall>y\<in>set pre. \<forall>c. offer y = Some c \<longrightarrow> cost b < cost c) \<and>
        (\<forall>y\<in>set post. \<forall>c. offer y = Some c \<longrightarrow> cost b \<le> cost c))"

lemma first_min_keep:
  "first_min offer cost xs b \<Longrightarrow> (\<And>c. offer x = Some c \<Longrightarrow> cost b \<le> cost c) \<Longrightarrow>
   first_min offer cost (xs @ [x]) b"
proof -
  assume fm: "first_min offer cost xs b" and x: "\<And>c. offer x = Some c \<Longrightarrow> cost b \<le> cost c"
  from fm obtain pre z post where
    "xs = pre @ z # post" "offer z = Some b"
    "\<forall>y\<in>set pre. \<forall>c. offer y = Some c \<longrightarrow> cost b < cost c"
    "\<forall>y\<in>set post. \<forall>c. offer y = Some c \<longrightarrow> cost b \<le> cost c"
    unfolding first_min_def by blast
  then show ?thesis using x unfolding first_min_def
    by (intro exI [of _ pre] exI [of _ z] exI [of _ "post @ [x]"]) auto
qed

lemma first_min_best:
  "first_min offer cost xs b \<Longrightarrow> y \<in> set xs \<Longrightarrow> offer y = Some c \<Longrightarrow> cost b \<le> cost c"
  by (auto simp: first_min_def less_imp_le)

lemma first_min_new:
  "offer x = Some b \<Longrightarrow> (\<And>y c. y \<in> set xs \<Longrightarrow> offer y = Some c \<Longrightarrow> cost b < cost c) \<Longrightarrow>
   first_min offer cost (xs @ [x]) b"
  unfolding first_min_def by (intro exI [of _ xs] exI [of _ x] exI [of _ "[]"]) auto

lemma first_min_replace:
  "first_min offer cost xs b0 \<Longrightarrow> offer x = Some b \<Longrightarrow> cost b < cost b0 \<Longrightarrow>
   first_min offer cost (xs @ [x]) b"
  by (rule first_min_new) (auto dest: first_min_best)

end
