(* ===== verification/GoNum.thy ===== *)
theory GoNum
  imports Complex_Main Prelude
begin

text \<open>
  The number formatting and parsing of Go's standard library that the program relies on:
  \<open>strconv.FormatInt\<close>, \<open>ParseInt\<close> and \<open>ParseUint\<close> in base 10, \<open>big.Int.SetString\<close> in bases 0
  and 10, \<open>big.Rat.SetString\<close> and \<open>big.Rat.FloatString\<close>. The scanners follow the library's:
  base prefixes, digit separators, the radix point and the exponent limits included. The lemmas
  are the round trips between printing and parsing.
\<close>

section \<open>Decimal digits\<close>

definition is_digit :: "char \<Rightarrow> bool" where
  "is_digit c \<longleftrightarrow> (let n = (of_char c :: nat) in 48 \<le> n \<and> n \<le> 57)"

definition digit_val :: "char \<Rightarrow> nat" where
  "digit_val c = of_char c - 48"

definition digit_char :: "nat \<Rightarrow> char" where
  "digit_char n = char_of (48 + n)"

fun utoa :: "nat \<Rightarrow> string" where
  "utoa n = (if n < 10 then [digit_char n] else utoa (n div 10) @ [digit_char (n mod 10)])"

declare utoa.simps [simp del]

definition FormatInt :: "int \<Rightarrow> string" where
  "FormatInt i = (if i < 0 then CHR ''-'' # utoa (nat (- i)) else utoa (nat i))"

definition dec_value :: "nat \<Rightarrow> string \<Rightarrow> nat" where
  "dec_value v s = foldl (\<lambda>n c. n * 10 + digit_val c) v s"

lemma digit_char_digit [simp]: "n < 10 \<Longrightarrow> is_digit (digit_char n)"
  by (simp add: is_digit_def digit_char_def Let_def)

lemma digit_val_char [simp]: "n < 10 \<Longrightarrow> digit_val (digit_char n) = n"
  by (simp add: digit_val_def digit_char_def)

lemma digit_val_less: "is_digit c \<Longrightarrow> digit_val c < 10"
  by (auto simp: is_digit_def digit_val_def Let_def)

lemma dec_value_Nil [simp]: "dec_value v [] = v"
  by (simp add: dec_value_def)

lemma dec_value_Cons [simp]: "dec_value v (c # s) = dec_value (v * 10 + digit_val c) s"
  by (simp add: dec_value_def)

lemma dec_value_append [simp]: "dec_value v (s @ t) = dec_value (dec_value v s) t"
  by (simp add: dec_value_def)

lemma dec_value_shift: "dec_value v s = v * 10 ^ length s + dec_value 0 s"
proof (induction s arbitrary: v)
  case Nil
  then show ?case by simp
next
  case (Cons c s)
  have "dec_value v (c # s) = (v * 10 + digit_val c) * 10 ^ length s + dec_value 0 s"
    using Cons [of "v * 10 + digit_val c"] by (simp only: dec_value_Cons)
  moreover have "dec_value 0 (c # s) = digit_val c * 10 ^ length s + dec_value 0 s"
    using Cons [of "digit_val c"] by (simp only: dec_value_Cons mult_zero_left add_0)
  ultimately show ?case by (simp add: algebra_simps)
qed

lemma utoa_digits: "\<forall>c\<in>set (utoa n). is_digit c"
proof (induction n rule: utoa.induct)
  case (1 n)
  then show ?case by (simp add: utoa.simps [of n])
qed

lemma utoa_nonempty [simp]: "utoa n \<noteq> []"
  by (simp add: utoa.simps [of n])

lemma dec_value_utoa [simp]: "dec_value 0 (utoa n) = n"
proof (induction n rule: utoa.induct)
  case (1 n)
  then show ?case by (simp add: utoa.simps [of n])
qed

lemma length_utoa: "n < 10 ^ k \<Longrightarrow> 0 < k \<Longrightarrow> length (utoa n) \<le> k"
proof (induction n arbitrary: k rule: utoa.induct)
  case (1 n)
  show ?case
  proof (cases "n < 10")
    case True
    then show ?thesis using 1 by (simp add: utoa.simps [of n])
  next
    case False
    obtain j where "k = Suc j" using 1 by (cases k) auto
    moreover have "0 < j" using 1 False \<open>k = Suc j\<close> by (cases j) auto
    ultimately have k: "k = Suc j" "0 < j" by auto
    then have "n div 10 < 10 ^ j" using 1 by (simp add: less_mult_imp_div_less)
    then show ?thesis using 1 False k by (simp add: utoa.simps [of n])
  qed
qed

lemma utoa_head: "\<exists>c t. utoa n = c # t \<and> is_digit c \<and> (c = CHR ''0'' \<longrightarrow> t = [])"
proof (induction n rule: utoa.induct)
  case (1 n)
  show ?case
  proof (cases "n < 10")
    case True
    then show ?thesis by (simp add: utoa.simps [of n])
  next
    case False
    with 1 obtain c t where ct: "utoa (n div 10) = c # t" "is_digit c" "c = CHR ''0'' \<longrightarrow> t = []"
      by auto
    have "c \<noteq> CHR ''0''"
    proof
      assume "c = CHR ''0''"
      with ct have "utoa (n div 10) = [CHR ''0'']" by simp
      then have "n div 10 = 0" using dec_value_utoa [of "n div 10"] by (simp add: digit_val_def)
      with False show False by simp
    qed
    with ct False show ?thesis by (simp add: utoa.simps [of n])
  qed
qed

lemma digit_neq: "is_digit c \<Longrightarrow> c \<noteq> CHR ''-'' \<and> c \<noteq> CHR ''+'' \<and> c \<noteq> CHR ''.'' \<and> c \<noteq> CHR ''_'' \<and> c \<noteq> CHR ''/''"
  by (auto simp: is_digit_def)

section \<open>\<open>strconv.ParseInt\<close> and \<open>strconv.ParseUint\<close>, base 10\<close>

datatype num_error = ErrSyntax | ErrRange

fun parse_digits :: "nat \<Rightarrow> string \<Rightarrow> nat \<Rightarrow> num_error + nat" where
  "parse_digits mx [] n = Inr n"
| "parse_digits mx (c # cs) n =
     (if \<not> is_digit c then Inl ErrSyntax
      else let n1 = n * 10 + digit_val c in
           if mx < n1 then Inl ErrRange else parse_digits mx cs n1)"

definition ParseUint10 :: "nat \<Rightarrow> string \<Rightarrow> nat \<times> num_error option" where
  "ParseUint10 w s =
     (if s = [] then (0, Some ErrSyntax)
      else case parse_digits (2 ^ w - 1) s 0 of
             Inl ErrSyntax \<Rightarrow> (0, Some ErrSyntax)
           | Inl ErrRange \<Rightarrow> (2 ^ w - 1, Some ErrRange)
           | Inr n \<Rightarrow> (n, None))"

definition ParseInt10 :: "nat \<Rightarrow> string \<Rightarrow> int \<times> num_error option" where
  "ParseInt10 w s =
     (if s = [] then (0, Some ErrSyntax)
      else let neg = (hd s = CHR ''-'');
               ds = (if hd s = CHR ''+'' \<or> hd s = CHR ''-'' then tl s else s);
               (un, err) = ParseUint10 w ds in
           if err = Some ErrSyntax then (0, err)
           else if \<not> neg \<and> 2 ^ (w - 1) \<le> un then (2 ^ (w - 1) - 1, Some ErrRange)
           else if neg \<and> 2 ^ (w - 1) < un then (- (2 ^ (w - 1)), Some ErrRange)
           else (if neg then - int un else int un, None))"

lemma parse_digits_ok:
  "\<forall>c\<in>set s. is_digit c \<Longrightarrow> dec_value v s \<le> mx \<Longrightarrow> parse_digits mx s v = Inr (dec_value v s)"
proof (induction s arbitrary: v)
  case Nil
  then show ?case by simp
next
  case (Cons c s)
  have "v * 10 + digit_val c \<le> dec_value (v * 10 + digit_val c) s"
    by (subst dec_value_shift) (metis le_add1 mult_le_mono2 one_le_numeral one_le_power mult.right_neutral le_trans)
  with Cons show ?case by (simp add: Let_def)
qed

lemma parse_digits_bound: "parse_digits mx s v = Inr n \<Longrightarrow> v \<le> mx \<Longrightarrow> n \<le> mx"
  by (induction s arbitrary: v) (auto simp: Let_def split: if_splits)

lemma ParseUint10_utoa: "n < 2 ^ w \<Longrightarrow> ParseUint10 w (utoa n) = (n, None)"
  by (simp add: ParseUint10_def parse_digits_ok utoa_digits)

lemma ParseInt10_FormatInt:
  assumes w: "0 < w" and r: "in_range_s w i"
  shows "ParseInt10 w (FormatInt i) = (i, None)"
proof -
  have two: "(2::nat) ^ w = 2 * 2 ^ (w - 1)" using w by (cases w) auto
  show ?thesis
  proof (cases "i < 0")
    case True
    then have "int (nat (- i)) \<le> 2 ^ (w - 1)" using r by simp
    then have n: "nat (- i) \<le> 2 ^ (w - 1)" by (metis of_nat_le_iff of_nat_power of_nat_numeral)
    then have "nat (- i) < 2 ^ w" using two by (metis le_less_trans less_add_same_cancel1 mult_2 zero_less_numeral zero_less_power)
    then show ?thesis using True n
      by (simp add: ParseInt10_def FormatInt_def ParseUint10_utoa Let_def)
  next
    case False
    then have "int (nat i) < 2 ^ (w - 1)" using r by simp
    then have n: "nat i < 2 ^ (w - 1)" by (metis of_nat_less_iff of_nat_power of_nat_numeral)
    then have "nat i < 2 ^ w" using two by linarith
    moreover obtain c t where "utoa (nat i) = c # t" "is_digit c" using utoa_head by blast
    ultimately show ?thesis using False n ParseUint10_utoa [of "nat i" w]
      by (simp add: ParseInt10_def FormatInt_def Let_def digit_neq not_le)
  qed
qed

lemma ParseInt10_range: "in_range_s w (fst (ParseInt10 w s))"
proof -
  obtain un err where u: "ParseUint10 w (if hd s = CHR ''+'' \<or> hd s = CHR ''-'' then tl s else s) = (un, err)"
    by force
  have pos: "0 < (2::int) ^ (w - 1)" by simp
  have le: "un \<le> 2 ^ (w - 1) \<Longrightarrow> int un \<le> 2 ^ (w - 1)"
    by (metis of_nat_le_iff of_nat_power of_nat_numeral)
  have lt: "\<not> 2 ^ (w - 1) \<le> un \<Longrightarrow> int un < 2 ^ (w - 1)"
    by (metis not_le of_nat_less_iff of_nat_power of_nat_numeral)
  have "- int un < 2 ^ (w - 1)" and "- (2 ^ (w - 1)) \<le> int un"
    using pos by linarith+
  then show ?thesis
    using u pos le lt unfolding ParseInt10_def Let_def
    by (cases "s = []"; cases "hd s = CHR ''-''"; cases "err = Some ErrSyntax") auto
qed

lemma parse_digits_overflow:
  "\<forall>c\<in>set s. is_digit c \<Longrightarrow> mx < dec_value v s \<Longrightarrow> v \<le> mx \<Longrightarrow> parse_digits mx s v = Inl ErrRange"
proof (induction s arbitrary: v)
  case (Cons c s)
  then show ?case by (cases "mx < v * 10 + digit_val c") (auto simp: Let_def)
qed simp

lemma ParseUint10_utoa_overflow:
  "2 ^ w \<le> n \<Longrightarrow> ParseUint10 w (utoa n) = (2 ^ w - 1, Some ErrRange)"
proof -
  assume "2 ^ w \<le> n"
  then have "2 ^ w - 1 < dec_value 0 (utoa n)"
    by (metis dec_value_utoa diff_less le_less_trans less_le_trans nat_zero_less_power_iff zero_less_numeral zero_less_one)
  then show ?thesis by (simp add: ParseUint10_def parse_digits_overflow utoa_digits)
qed

text \<open>Parsing saturates: a number out of range gives the nearest value of the type and an error.\<close>

lemma ParseInt10_saturates:
  assumes w: "1 < w"
  shows "ParseInt10 w (FormatInt i) =
    (if i < - (2 ^ (w - 1)) then (- (2 ^ (w - 1)), Some ErrRange)
     else if 2 ^ (w - 1) \<le> i then (2 ^ (w - 1) - 1, Some ErrRange)
     else (i, None))"
proof -
  have two: "(2::nat) ^ w = 2 * 2 ^ (w - 1)" using w by (cases w) auto
  have big: "\<exists>un err. ParseUint10 w (utoa n) = (un, err) \<and> err \<noteq> Some ErrSyntax \<and> 2 ^ (w - 1) \<le> un \<and> (2 ^ (w - 1) < n \<longrightarrow> 2 ^ (w - 1) < un)"
    if "2 ^ (w - 1) \<le> n" for n
  proof (cases "n < 2 ^ w")
    case True
    then show ?thesis using that by (simp add: ParseUint10_utoa)
  next
    case False
    have "(1::nat) < 2 ^ (w - 1)" using w one_less_power [of "2::nat" "w - 1"] by simp
    then have "(2::nat) ^ (w - 1) < 2 ^ w - 1" using two by linarith
    then show ?thesis using False by (simp add: ParseUint10_utoa_overflow)
  qed
  have le: "(2::int) ^ (w - 1) \<le> int n \<longleftrightarrow> 2 ^ (w - 1) \<le> n"
    and lt: "(2::int) ^ (w - 1) < int n \<longleftrightarrow> 2 ^ (w - 1) < n" for n
    by (metis of_nat_le_iff of_nat_power of_nat_numeral, metis of_nat_less_iff of_nat_power of_nat_numeral)
  consider "i < - (2 ^ (w - 1))" | "2 ^ (w - 1) \<le> i" | "in_range_s w i" by linarith
  then show ?thesis
  proof cases
    case 1
    then have neg: "i < 0" by (smt (verit) zero_less_power)
    then have "2 ^ (w - 1) < nat (- i)" using 1 lt [of "nat (- i)"] by linarith
    then obtain un err where "ParseUint10 w (utoa (nat (- i))) = (un, err)" "err \<noteq> Some ErrSyntax"
      "2 ^ (w - 1) < un" using big [of "nat (- i)"] by auto
    then show ?thesis using 1 neg by (simp add: ParseInt10_def FormatInt_def Let_def)
  next
    case 2
    have pos: "\<not> i < 0" "\<not> i < - (2 ^ (w - 1))" using 2 by (smt (verit) zero_less_power)+
    then have "2 ^ (w - 1) \<le> nat i" using 2 le [of "nat i"] by linarith
    then obtain un err where "ParseUint10 w (utoa (nat i)) = (un, err)" "err \<noteq> Some ErrSyntax"
      "2 ^ (w - 1) \<le> un" using big [of "nat i"] by auto
    moreover obtain c t where "utoa (nat i) = c # t" "is_digit c" using utoa_head by blast
    ultimately show ?thesis using 2 pos by (simp add: ParseInt10_def FormatInt_def Let_def digit_neq)
  next
    case 3
    then show ?thesis using ParseInt10_FormatInt [of w i] w by simp
  qed
qed

section \<open>\<open>big.Int.Exp\<close>\<close>

text \<open>\<open>big.Int.Exp\<close> with a nil modulus: an exponent below 1 gives 1.\<close>

definition exp10 :: "int \<Rightarrow> int" where
  "exp10 d = (if d \<le> 0 then 1 else 10 ^ nat d)"

lemma exp10_pos: "0 < exp10 d"
  by (simp add: exp10_def)

section \<open>The mantissa scanner of \<open>math/big\<close>\<close>

text \<open>
  \<open>nat.scan\<close> reads an unsigned number: an optional base prefix when the base argument is 0, then
  digits with single separators between them, and a radix point where fractions are allowed. It
  keeps the class of the previous character to reject misplaced separators.
\<close>

datatype prev_class = PDot | PDigit | PSep

record scan_state =
  sc_rest :: string
  sc_prev :: prev_class
  sc_inval :: bool
  sc_count :: nat
  sc_dp :: "nat option"
  sc_val :: nat

definition char_digit :: "char \<Rightarrow> nat" where
  "char_digit c =
     (if is_digit c then digit_val c
      else if is_lower c then of_char c - 97 + 10
      else if is_upper c then of_char c - 65 + 10
      else 63)"

fun scan_mant ::
  "bool \<Rightarrow> nat \<Rightarrow> bool \<Rightarrow> prev_class \<Rightarrow> bool \<Rightarrow> nat \<Rightarrow> nat option \<Rightarrow> nat \<Rightarrow> string \<Rightarrow> scan_state" where
  "scan_mant sep b fracOk prev bad cnt dp v [] =
     \<lparr>sc_rest = [], sc_prev = prev, sc_inval = bad, sc_count = cnt, sc_dp = dp, sc_val = v\<rparr>"
| "scan_mant sep b fracOk prev bad cnt dp v (c # cs) =
     (if c = CHR ''.'' \<and> fracOk
      then scan_mant sep b False PDot (bad \<or> prev = PSep) cnt (Some cnt) v cs
      else if c = CHR ''_'' \<and> sep
      then scan_mant sep b fracOk PSep (bad \<or> prev \<noteq> PDigit) cnt dp v cs
      else if b \<le> char_digit c
      then \<lparr>sc_rest = c # cs, sc_prev = prev, sc_inval = bad, sc_count = cnt, sc_dp = dp, sc_val = v\<rparr>
      else scan_mant sep b fracOk PDigit bad (Suc cnt) dp (v * b + char_digit c) cs)"

definition scan_prefix :: "nat \<Rightarrow> bool \<Rightarrow> string \<Rightarrow> nat \<times> bool \<times> prev_class \<times> nat \<times> string" where
  \<comment> \<open>the actual base, whether the prefix is a lone \<open>0\<close>, and the scanner's start\<close>
  "scan_prefix base fracOk s =
     (if base \<noteq> 0 then (base, False, PDot, 0, s)
      else case s of
             [] \<Rightarrow> (10, False, PDot, 0, [])
           | z # t \<Rightarrow>
               if z \<noteq> CHR ''0'' then (10, False, PDot, 0, s)
               else (case t of
                       [] \<Rightarrow> (10, False, PDigit, 1, [])
                     | c # u \<Rightarrow>
                         if c = CHR ''b'' \<or> c = CHR ''B'' then (2, False, PDigit, 0, u)
                         else if c = CHR ''o'' \<or> c = CHR ''O'' then (8, False, PDigit, 0, u)
                         else if c = CHR ''x'' \<or> c = CHR ''X'' then (16, False, PDigit, 0, u)
                         else if \<not> fracOk then (8, True, PDigit, 0, t)
                         else (10, False, PDigit, 1, t)))"

definition nat_scan :: "nat \<Rightarrow> bool \<Rightarrow> string \<Rightarrow> (nat \<times> nat \<times> int \<times> string) option" where
  \<comment> \<open>value, base, digit count (minus the fraction digits when there is a point), unread rest\<close>
  "nat_scan base fracOk s =
     (let (b, oct, prev, cnt, t) = scan_prefix base fracOk s;
          r = scan_mant (base = 0) b fracOk prev False cnt None 0 t
      in if sc_inval r \<or> sc_prev r = PSep then None
         else if sc_count r = 0 then (if oct then Some (0, 10, 1, sc_rest r) else None)
         else Some (sc_val r, b,
                    (case sc_dp r of None \<Rightarrow> int (sc_count r)
                     | Some d \<Rightarrow> int d - int (sc_count r)), sc_rest r))"

definition scan_sign :: "string \<Rightarrow> (bool \<times> string) option" where
  "scan_sign s =
     (case s of
        [] \<Rightarrow> None
      | c # t \<Rightarrow> if c = CHR ''-'' then Some (True, t)
                 else if c = CHR ''+'' then Some (False, t) else Some (False, s))"

definition Int_SetString :: "nat \<Rightarrow> string \<Rightarrow> int option" where
  "Int_SetString base s =
     (case scan_sign s of
        None \<Rightarrow> None
      | Some (neg, t) \<Rightarrow>
          (case nat_scan base False t of
             None \<Rightarrow> None
           | Some (v, b, c, rest) \<Rightarrow>
               if rest \<noteq> [] then None else Some (if neg then - int v else int v)))"

section \<open>\<open>big.Rat\<close>\<close>

fun exp_digits :: "string \<Rightarrow> prev_class \<Rightarrow> bool \<Rightarrow> string \<times> prev_class \<times> bool \<times> string" where
  "exp_digits [] prev bad = ([], prev, bad, [])"
| "exp_digits (c # cs) prev bad =
     (if is_digit c
      then (let (ds, p, i, r) = exp_digits cs PDigit bad in (c # ds, p, i, r))
      else if c = CHR ''_'' then exp_digits cs PSep (bad \<or> prev \<noteq> PDigit)
      else ([], prev, bad, c # cs))"

definition scan_exponent :: "string \<Rightarrow> (int \<times> nat \<times> string) option" where
  "scan_exponent s =
     (case s of
        [] \<Rightarrow> Some (0, 10, [])
      | c # t \<Rightarrow>
          if c \<noteq> CHR ''e'' \<and> c \<noteq> CHR ''E'' \<and> c \<noteq> CHR ''p'' \<and> c \<noteq> CHR ''P'' then Some (0, 10, s)
          else
            (let eb = (if c = CHR ''e'' \<or> c = CHR ''E'' then 10 else 2);
                 neg = (t \<noteq> [] \<and> hd t = CHR ''-'');
                 u = (if t \<noteq> [] \<and> (hd t = CHR ''+'' \<or> hd t = CHR ''-'') then tl t else t);
                 (ds, p, i, r) = exp_digits u PDot False
             in if ds = [] then None
                else (case ParseInt10 64 ((if neg then ''-'' else []) @ ds) of
                        (e, Some _) \<Rightarrow> None
                      | (e, None) \<Rightarrow> if i \<or> p = PSep then None else Some (e, eb, r))))"

definition rat_pow :: "rat \<Rightarrow> int \<Rightarrow> rat" where
  "rat_pow x e = (if 0 \<le> e then x ^ nat e else inverse (x ^ nat (- e)))"

definition scan_fraction :: "string \<Rightarrow> string \<Rightarrow> rat option" where
  "scan_fraction a b =
     (case Int_SetString 0 a of
        None \<Rightarrow> None
      | Some n \<Rightarrow>
          (case nat_scan 0 False b of
             None \<Rightarrow> None
           | Some (d, _, _, rest) \<Rightarrow>
               if rest \<noteq> [] \<or> d = 0 then None else Some (of_int n / of_nat d)))"

definition scan_decimal :: "string \<Rightarrow> rat option" where
  "scan_decimal s =
     (case scan_sign s of
        None \<Rightarrow> None
      | Some (neg, t) \<Rightarrow>
          (case nat_scan 0 True t of
             None \<Rightarrow> None
           | Some (v, b, fc, r) \<Rightarrow>
               (case scan_exponent r of
                  None \<Rightarrow> None
                | Some (e, eb, r') \<Rightarrow>
                    if r' \<noteq> [] then None
                    else if v = 0 then Some 0
                    else
                      (let e5 = (if fc < 0 \<and> b = 10 then fc else 0) + (if eb = 10 then e else 0);
                           e2 = (if fc < 0 then (if b = 8 then 3 * fc else if b = 16 then 4 * fc else fc)
                                 else 0) + e
                       in if 1000000 < \<bar>e5\<bar> then None
                          else if e2 < - 10000000 \<or> 10000000 < e2 then None
                          else Some ((if neg then - 1 else 1) * of_nat v * rat_pow 5 e5 * rat_pow 2 e2)))))"

definition Rat_SetString :: "string \<Rightarrow> rat option" where
  "Rat_SetString s =
     (if s = [] then None
      else if CHR ''/'' \<in> set s
      then scan_fraction (takeWhile (\<lambda>c. c \<noteq> CHR ''/'') s) (tl (dropWhile (\<lambda>c. c \<noteq> CHR ''/'') s))
      else scan_decimal s)"

text \<open>\<open>FloatString\<close>: \<open>prec\<close> digits after the point, rounded half away from zero.\<close>

definition Rat_FloatString :: "rat \<Rightarrow> int \<Rightarrow> string" where
  "Rat_FloatString x prec =
     (let (n, d) = quotient_of x; k = nat prec in
      if d = 1 then FormatInt n @ (if 0 < prec then CHR ''.'' # replicate k CHR ''0'' else [])
      else
        (let a = nat \<bar>n\<bar>; b = nat d; q = a div b; p = 10 ^ k;
             r = a mod b * p; r1 = r div b; r2 = r mod b;
             (q', r') = (if b \<le> 2 * r2
                         then (if p \<le> r1 + 1 then (q + 1, r1 + 1 - p) else (q, r1 + 1))
                         else (q, r1))
         in (if n < 0 then ''-'' else []) @ utoa q' @
            (if 0 < prec
             then CHR ''.'' # replicate (k - length (utoa r')) CHR ''0'' @ utoa r'
             else [])))"

subsection \<open>Scanning what was printed\<close>

lemma char_digit_digit: "is_digit c \<Longrightarrow> char_digit c = digit_val c"
  by (simp add: char_digit_def)

lemma scan_mant_digits:
  "\<forall>c\<in>set ds. is_digit c \<Longrightarrow>
   scan_mant sep 10 fracOk prev bad cnt dp v (ds @ rest) =
     scan_mant sep 10 fracOk (if ds = [] then prev else PDigit) bad (cnt + length ds) dp
       (dec_value v ds) rest"
proof (induction ds arbitrary: prev cnt v)
  case Nil
  then show ?case by simp
next
  case (Cons c ds)
  then have "is_digit c" by simp
  then have "c \<noteq> CHR ''.''" "c \<noteq> CHR ''_''" "char_digit c < 10" "char_digit c = digit_val c"
    using digit_neq [of c] by (auto simp: char_digit_digit digit_val_less)
  with Cons show ?case by simp
qed

lemma digit_no_prefix:
  "is_digit c \<Longrightarrow> c \<notin> {CHR ''b'', CHR ''B'', CHR ''o'', CHR ''O'', CHR ''x'', CHR ''X''}"
  by (auto simp: is_digit_def)

text \<open>Decimal digits without a redundant leading zero are read in base 10.\<close>

lemma scan_prefix_decimal:
  assumes "ds \<noteq> []" "\<forall>c\<in>set ds. is_digit c" "hd ds = CHR ''0'' \<longrightarrow> tl ds = []"
  shows "scan_prefix 0 fracOk ds =
           (if hd ds = CHR ''0'' then (10, False, PDigit, 1, []) else (10, False, PDot, 0, ds))"
    and "scan_prefix 0 True (ds @ CHR ''.'' # fs) =
           (if hd ds = CHR ''0'' then (10, False, PDigit, 1, CHR ''.'' # fs)
            else (10, False, PDot, 0, ds @ CHR ''.'' # fs))"
  using assms by (cases ds; auto simp: scan_prefix_def)+

lemma nat_scan_integer:
  assumes "ds \<noteq> []" "\<forall>c\<in>set ds. is_digit c" "hd ds = CHR ''0'' \<longrightarrow> tl ds = []"
  shows "nat_scan 0 fracOk ds = Some (dec_value 0 ds, 10, int (length ds), [])"
proof (cases "hd ds = CHR ''0''")
  case True
  then have "ds = ''0''" using assms by (cases ds) auto
  then show ?thesis
    by (simp add: nat_scan_def scan_prefix_def digit_val_def)
next
  case False
  then show ?thesis
    using assms scan_mant_digits [OF assms(2), where rest = "[]"]
    by (simp add: nat_scan_def scan_prefix_decimal)
qed

lemma nat_scan_point:
  assumes "ds \<noteq> []" "\<forall>c\<in>set ds. is_digit c" "hd ds = CHR ''0'' \<longrightarrow> tl ds = []"
    and "\<forall>c\<in>set fs. is_digit c"
  shows "nat_scan 0 True (ds @ CHR ''.'' # fs) =
           Some (dec_value 0 (ds @ fs), 10, - int (length fs), [])"
proof (cases "hd ds = CHR ''0''")
  case True
  then have "ds = ''0''" using assms by (cases ds) auto
  then show ?thesis
    using scan_mant_digits [OF assms(4), where rest = "[]"]
    by (simp add: nat_scan_def scan_prefix_def digit_val_def)
next
  case False
  then show ?thesis
    using assms scan_mant_digits [OF assms(2)] scan_mant_digits [OF assms(4), where rest = "[]"]
    by (simp add: nat_scan_def scan_prefix_decimal)
qed

lemma utoa_scannable:
  "utoa n \<noteq> []" "\<forall>c\<in>set (utoa n). is_digit c" "hd (utoa n) = CHR ''0'' \<longrightarrow> tl (utoa n) = []"
  using utoa_digits [of n] utoa_head [of n] by auto

lemma scan_sign_digits: "is_digit c \<Longrightarrow> scan_sign (c # s) = Some (False, c # s)"
  by (simp add: scan_sign_def digit_neq)

lemma scan_sign_utoa [simp]: "scan_sign (utoa n @ s) = Some (False, utoa n @ s)"
proof -
  obtain c t where "utoa n = c # t" "is_digit c" using utoa_head by blast
  then show ?thesis by (simp add: scan_sign_digits)
qed

lemma scan_sign_minus [simp]: "scan_sign (CHR ''-'' # s) = Some (True, s)"
  by (simp add: scan_sign_def)

lemma Int_SetString_FormatInt: "Int_SetString 0 (FormatInt i) = Some i"
  using scan_sign_utoa [of "nat i" "[]"] nat_scan_integer [OF utoa_scannable]
  by (simp add: Int_SetString_def FormatInt_def)

subsection \<open>\<open>FloatString\<close> of a decimal fraction and its round trip\<close>

lemma nat_scale_div:
  assumes "a * p = m * b" "0 < b" "0 < (p::nat)"
  shows "a div b = m div p" "(a mod b) * p = (m mod p) * b"
proof -
  have "a div b = (a * p) div (b * p)" using assms(2,3) by simp
  also have "\<dots> = (m * b) div (p * b)" using assms by (simp add: mult.commute)
  also have "\<dots> = m div p" using assms by (simp add: div_mult_mult2)
  finally show "a div b = m div p" .
  have "(a mod b) * p = (a * p) mod (b * p)" by (simp add: mult_mod_left)
  also have "\<dots> = (m * b) mod (p * b)" using assms by (simp add: mult.commute)
  finally show "(a mod b) * p = (m mod p) * b" by (simp add: mult_mod_left)
qed

definition decimal_string :: "nat \<Rightarrow> nat \<Rightarrow> string" where
  "decimal_string m k =
     utoa (m div 10 ^ k) @
     (if 0 < k then CHR ''.'' # replicate (k - length (utoa (m mod 10 ^ k))) CHR ''0'' @
        utoa (m mod 10 ^ k) else [])"

lemma utoa_0: "utoa 0 = ''0''"
  by code_simp

lemma FloatString_decimal:
  assumes x: "x * 10 ^ k = of_int m"
  shows "Rat_FloatString x (int k) = (if x < 0 then ''-'' else []) @ decimal_string (nat \<bar>m\<bar>) k"
proof -
  obtain n d where q: "quotient_of x = (n, d)" by force
  then have d: "0 < d" and xe: "x = of_int n / of_int d"
    by (auto simp: quotient_of_denom_pos quotient_of_div)
  have sgn: "x < 0 \<longleftrightarrow> n < 0" using d xe by (simp add: divide_less_0_iff)
  have "(of_int (n * 10 ^ k) :: rat) = of_int (m * d)"
    using x d unfolding xe by (simp add: field_simps)
  then have "n * 10 ^ k = m * d" by (simp only: of_int_eq_iff)
  then have "\<bar>n\<bar> * 10 ^ k = \<bar>m\<bar> * d" using d by (metis abs_mult abs_of_pos power_abs abs_numeral)
  then have "nat (\<bar>n\<bar> * 10 ^ k) = nat (\<bar>m\<bar> * d)" by simp
  then have nd: "nat \<bar>n\<bar> * 10 ^ k = nat \<bar>m\<bar> * nat d" using d by (simp add: nat_mult_distrib nat_power_eq)
  show ?thesis
  proof (cases "d = 1")
    case True
    then have "nat \<bar>m\<bar> = nat \<bar>n\<bar> * 10 ^ k" using nd by simp
    moreover have "replicate k c = replicate (k - 1) c @ [c]" if "0 < k" for c :: char
      using that by (cases k) (auto simp: replicate_append_same)
    ultimately show ?thesis
      using True q sgn by (simp add: Rat_FloatString_def decimal_string_def FormatInt_def utoa_0)
  next
    case False
    have b: "0 < nat d" using d by simp
    note scale = nat_scale_div [OF nd b]
    then show ?thesis
      using False q sgn b by (simp add: Rat_FloatString_def decimal_string_def Let_def)
  qed
qed

lemma dec_value_replicate_0: "dec_value v (replicate j CHR ''0'') = v * 10 ^ j"
  by (induction j arbitrary: v) (simp_all add: digit_val_def)

lemma dec_value_pad:
  assumes "r < 10 ^ k" "0 < k"
  shows "dec_value v (replicate (k - length (utoa r)) CHR ''0'' @ utoa r) = v * 10 ^ k + r"
proof -
  let ?l = "length (utoa r)"
  have "?l \<le> k" using assms by (rule length_utoa)
  then have "(10::nat) ^ (k - ?l) * 10 ^ ?l = 10 ^ k" by (simp flip: power_add)
  then show ?thesis
    using dec_value_shift [of "v * 10 ^ (k - ?l)" "utoa r"]
    by (simp add: dec_value_replicate_0 mult.assoc)
qed

lemma decimal_string_chars: "c \<in> set (decimal_string m k) \<Longrightarrow> is_digit c \<or> c = CHR ''.''"
  using utoa_digits by (auto simp: decimal_string_def is_digit_def split: if_splits)

lemma scan_decimal_string:
  "nat_scan 0 True (decimal_string m k) = Some (m, 10, (if 0 < k then - int k else int (length (utoa m))), [])"
proof (cases "0 < k")
  case True
  let ?fs = "replicate (k - length (utoa (m mod 10 ^ k))) CHR ''0'' @ utoa (m mod 10 ^ k)"
  have len: "length ?fs = k" using length_utoa [of "m mod 10 ^ k" k] True by simp
  have digits: "\<forall>c\<in>set ?fs. is_digit c" using utoa_digits by (auto simp: is_digit_def)
  have "dec_value 0 (utoa (m div 10 ^ k) @ ?fs) = m"
    using dec_value_pad [of "m mod 10 ^ k" k "m div 10 ^ k"] True
    by (simp only: dec_value_append dec_value_utoa) (simp add: div_mult_mod_eq)
  then show ?thesis
    using nat_scan_point [OF utoa_scannable digits, of "m div 10 ^ k"] len True
    by (simp add: decimal_string_def)
next
  case False
  then show ?thesis
    using nat_scan_integer [OF utoa_scannable] by (simp add: decimal_string_def)
qed

lemma rat_pow_10: "rat_pow 5 e * rat_pow 2 e = rat_pow 10 e"
  by (simp add: rat_pow_def flip: power_mult_distrib inverse_mult_distrib)

lemma rat_pow_minus: "rat_pow x (- int k) = inverse (x ^ k)"
  by (simp add: rat_pow_def)

lemma scan_decimal_decimal_string:
  assumes "k \<le> 1000000"
  shows "scan_decimal (decimal_string m k) = Some (of_nat m / 10 ^ k)"
    and "scan_decimal (CHR ''-'' # decimal_string m k) = Some (- (of_nat m / 10 ^ k))"
proof -
  have sign: "scan_sign (decimal_string m k) = Some (False, decimal_string m k)"
    unfolding decimal_string_def by (rule scan_sign_utoa)
  have pow: "rat_pow 5 (- int k) * rat_pow 2 (- int k) = inverse (10 ^ k)"
    by (simp only: rat_pow_10) (simp only: rat_pow_minus)
  have val: "scan_exponent [] = Some (0, 10, [])" by (simp add: scan_exponent_def)
  show "scan_decimal (decimal_string m k) = Some (of_nat m / 10 ^ k)"
    using assms pow by (auto simp: scan_decimal_def sign scan_decimal_string val rat_pow_def
        field_simps Let_def simp flip: power_mult_distrib)
  show "scan_decimal (CHR ''-'' # decimal_string m k) = Some (- (of_nat m / 10 ^ k))"
    using assms pow by (auto simp: scan_decimal_def scan_decimal_string val rat_pow_def
        field_simps Let_def simp flip: power_mult_distrib)
qed

text \<open>Printing a decimal fraction with enough digits and parsing it back is the identity.\<close>

lemma Rat_SetString_FloatString:
  assumes x: "x * 10 ^ k = of_int m" and k: "k \<le> 1000000"
  shows "Rat_SetString (Rat_FloatString x (int k)) = Some x"
proof -
  have ne: "decimal_string (nat \<bar>m\<bar>) k \<noteq> []" by (simp add: decimal_string_def)
  have slash: "CHR ''/'' \<notin> set (decimal_string (nat \<bar>m\<bar>) k)"
    using decimal_string_chars [of "CHR ''/''"] by (auto simp: is_digit_def)
  have xm: "x = of_int m / 10 ^ k" using x by (simp add: field_simps)
  have neg: "x < 0 \<longleftrightarrow> m < 0" using xm by (simp add: divide_less_0_iff)
  have abs: "(of_nat (nat \<bar>m\<bar>) :: rat) = of_int \<bar>m\<bar>" by simp
  note parse = scan_decimal_decimal_string [OF k, of "nat \<bar>m\<bar>"]
  show ?thesis
  proof (cases "m < 0")
    case True
    then have "Rat_FloatString x (int k) = CHR ''-'' # decimal_string (nat \<bar>m\<bar>) k"
      using neg by (simp add: FloatString_decimal [OF x])
    then show ?thesis using True slash xm abs parse by (simp add: Rat_SetString_def)
  next
    case False
    then have "Rat_FloatString x (int k) = decimal_string (nat \<bar>m\<bar>) k"
      using neg by (simp add: FloatString_decimal [OF x])
    then show ?thesis using False slash ne xm abs parse by (simp add: Rat_SetString_def)
  qed
qed

end
