(* ===== verification/Rows.thy ===== *)
theory Rows
  imports Prelude
begin

text \<open>
  What every manager of \<open>src/loader\<close> does with a table: run a query, scan the rows one by one
  with an alert for a row that does not scan, check \<open>rows.Err()\<close>, and only then replace the
  indexes under the lock. The database is not under \<open>src/\<close>: the outcome of \<open>db.Query\<close>, of each
  \<open>rows.Scan\<close> and of \<open>rows.Err()\<close> is an argument, a value of type \<open>query\<close>.

  The theory holds the loop, and three interfaces that the managers provide: \<open>reloadable\<close> (a load
  replaces the view as a whole or leaves it alone), \<open>row_index\<close> (a map index: the last row of a
  key wins) and \<open>row_group\<close> (a slice index: the rows of a key in their order).
\<close>

type_synonym alert = "string \<times> string option"  \<comment> \<open>message and error, \<open>None\<close> for \<open>nil\<close>\<close>

datatype 'r scan = Scanned 'r | ScanErr string

datatype 'r query = QueryErr string | Rows "'r scan list" "string option"

fun scan_loop ::
  "string \<Rightarrow> ('r \<Rightarrow> 's \<Rightarrow> alert list \<times> 's) \<Rightarrow> 'r scan list \<Rightarrow> 's \<Rightarrow> alert list \<times> 's" where
  "scan_loop msg body [] s = ([], s)"
| "scan_loop msg body (ScanErr e # rs) s =
     (let (al, s') = scan_loop msg body rs s in ((msg, Some e) # al, s'))"
| "scan_loop msg body (Scanned r # rs) s =
     (let (al, s') = body r s; (al', s'') = scan_loop msg body rs s' in (al @ al', s''))"

fun scanned :: "'r scan list \<Rightarrow> 'r list" where
  "scanned [] = []"
| "scanned (ScanErr e # rs) = scanned rs"
| "scanned (Scanned r # rs) = r # scanned rs"

definition load_table ::
  "string \<Rightarrow> string \<Rightarrow> string \<Rightarrow> ('r \<Rightarrow> 's \<Rightarrow> alert list \<times> 's) \<Rightarrow> 's \<Rightarrow> ('s \<Rightarrow> 'm \<Rightarrow> 'm) \<Rightarrow>
   'r query \<Rightarrow> 'm \<Rightarrow> alert list \<times> 'm" where
  "load_table selmsg scanmsg nextmsg body init install q mgr =
     (case q of
        QueryErr e \<Rightarrow> ([(selmsg, Some e)], mgr)
      | Rows rs err \<Rightarrow>
          (let (al, s) = scan_loop scanmsg body rs init in
           case err of
             Some e \<Rightarrow> (al @ [(nextmsg, Some e)], mgr)
           | None \<Rightarrow> (al, install s mgr)))"

fun good_query :: "'r query \<Rightarrow> bool" where
  "good_query (Rows rs None) = True"
| "good_query _ = False"

fun query_rows :: "'r query \<Rightarrow> 'r list" where
  "query_rows (Rows rs err) = scanned rs"
| "query_rows (QueryErr e) = []"

definition last_row :: "('r \<Rightarrow> bool) \<Rightarrow> 'r list \<Rightarrow> 'r option" where
  "last_row P rs = find P (rev rs)"

lemma last_row_None: "last_row P rs = None \<longleftrightarrow> (\<forall>r\<in>set rs. \<not> P r)"
  by (auto simp: last_row_def find_None_iff)

lemma last_row_Some: "last_row P rs = Some r \<Longrightarrow> r \<in> set rs \<and> P r"
  by (auto simp: last_row_def find_Some_iff) (metis nth_mem set_rev length_rev)

lemma last_row_Nil [simp]: "last_row P [] = None"
  by (simp add: last_row_def)

lemma last_row_snoc [simp]: "last_row P (rs @ [r]) = (if P r then Some r else last_row P rs)"
  by (simp add: last_row_def)

lemma scan_loop_state:
  "snd (scan_loop msg body rs s) = fold (\<lambda>r s. snd (body r s)) (scanned rs) s"
proof (induction rs arbitrary: s)
  case (Cons r rs)
  then show ?case by (cases r) (simp_all add: case_prod_unfold Let_def)
qed simp

lemma scan_loop_invariant:
  "(\<And>r s. P s \<Longrightarrow> P (snd (body r s))) \<Longrightarrow> P s \<Longrightarrow> P (snd (scan_loop msg body rs s))"
proof (induction rs arbitrary: s)
  case (Cons r rs)
  then show ?case by (cases r) (simp_all add: case_prod_unfold Let_def)
qed simp

text \<open>Every row that does not scan is reported: nothing is dropped silently.\<close>

lemma scan_loop_alerts:
  "ScanErr e \<in> set rs \<Longrightarrow> (msg, Some e) \<in> set (fst (scan_loop msg body rs s))"
proof (induction rs arbitrary: s)
  case (Cons r rs)
  then show ?case by (cases r) (auto simp: case_prod_unfold Let_def)
qed simp

lemma scan_loop_silent:
  assumes "\<And>r s. fst (body r s) = []"
  shows "fst (scan_loop msg body rs s) =
    List.concat (map (\<lambda>r. case r of ScanErr e \<Rightarrow> [(msg, Some e)] | Scanned _ \<Rightarrow> []) rs)"
proof (induction rs arbitrary: s)
  case (Cons r rs)
  then show ?case by (cases r) (simp_all add: case_prod_unfold Let_def assms)
qed simp

lemma good_query_cases: "good_query q \<longleftrightarrow> (\<exists>rs. q = Rows rs None)"
  by (cases q rule: good_query.cases) auto

section \<open>A load is all or nothing\<close>

locale reloadable =
  fixes load :: "'q \<Rightarrow> 'm \<Rightarrow> alert list \<times> 'm"
    and good :: "'q \<Rightarrow> bool"
    and view :: "'m \<Rightarrow> 'v"
    and build :: "'q \<Rightarrow> 'v"
  assumes load_bad: "\<not> good q \<Longrightarrow> view (snd (load q m)) = view m"
    and load_good: "good q \<Longrightarrow> view (snd (load q m)) = build q"
begin

lemma view_step: "view (snd (load q m)) = (if good q then build q else view m)"
  using load_bad load_good by simp

lemma view_reloads:
  "view (fold (\<lambda>q m. snd (load q m)) qs m) =
     (case last_row good qs of None \<Rightarrow> view m | Some q \<Rightarrow> build q)"
proof (induction qs rule: rev_induct)
  case Nil
  then show ?case by simp
next
  case (snoc q qs)
  then show ?case by (simp add: view_step)
qed

lemma reload_twice: "view (snd (load q (snd (load q m)))) = view (snd (load q m))"
  by (simp add: view_step)

end

lemma load_table_bad:
  "\<not> good_query q \<Longrightarrow> snd (load_table a b c body init install q m) = m"
  by (cases q rule: good_query.cases) (auto simp: load_table_def split: prod.splits)

lemma load_table_good:
  "good_query q \<Longrightarrow> snd (load_table a b c body init install q m) =
     install (fold (\<lambda>r s. snd (body r s)) (query_rows q) init) m"
proof -
  assume "good_query q"
  then obtain rs where q: "q = Rows rs None" by (auto simp: good_query_cases)
  obtain al s where loop: "scan_loop b body rs init = (al, s)" by force
  have "s = fold (\<lambda>r s. snd (body r s)) (scanned rs) init"
    using scan_loop_state [of b body rs init] loop by simp
  with q loop show ?thesis by (simp add: load_table_def)
qed

lemma load_table_alerts:
  "load_table a b c body init install (QueryErr e) m = ([(a, Some e)], m)"
  "(c, Some e) \<in> set (fst (load_table a b c body init install (Rows rs (Some e)) m))"
  by (auto simp: load_table_def split: prod.splits)

lemma load_table_reloadable:
  "(\<And>s m. view (install s m) = h s) \<Longrightarrow>
   reloadable (load_table a b c body init install) good_query view
     (\<lambda>q. h (fold (\<lambda>r s. snd (body r s)) (query_rows q) init))"
  by unfold_locales (simp_all add: load_table_bad load_table_good)

section \<open>The indexes a load builds\<close>

locale row_index =
  fixes get :: "'s \<Rightarrow> 'k \<Rightarrow> 'v option"
    and put :: "'r \<Rightarrow> 's \<Rightarrow> 's"
    and key :: "'r \<Rightarrow> 'k"
    and val :: "'r \<Rightarrow> 'v"
    and ok :: "'r \<Rightarrow> bool"
  assumes get_put: "get (put r s) k = (if ok r \<and> key r = k then Some (val r) else get s k)"
begin

lemma get_fold:
  "get (fold put rs s) k =
     (case last_row (\<lambda>r. ok r \<and> key r = k) rs of None \<Rightarrow> get s k | Some r \<Rightarrow> Some (val r))"
proof (induction rs rule: rev_induct)
  case Nil
  then show ?case by simp
next
  case (snoc r rs)
  then show ?case by (simp add: get_put)
qed

lemma get_fold_sound:
  "get (fold put rs s) k = Some v \<Longrightarrow> get s k = None \<Longrightarrow>
   \<exists>r\<in>set rs. ok r \<and> key r = k \<and> val r = v"
  by (auto simp: get_fold split: option.splits dest: last_row_Some)

lemma get_fold_complete:
  "r \<in> set rs \<Longrightarrow> ok r \<Longrightarrow> get (fold put rs s) (key r) \<noteq> None"
  by (auto simp: get_fold last_row_None split: option.splits)

end

locale row_group =
  fixes get :: "'s \<Rightarrow> 'k \<Rightarrow> 'v list"
    and put :: "'r \<Rightarrow> 's \<Rightarrow> 's"
    and key :: "'r \<Rightarrow> 'k"
    and val :: "'r \<Rightarrow> 'v"
    and ok :: "'r \<Rightarrow> bool"
  assumes get_put: "get (put r s) k = get s k @ (if ok r \<and> key r = k then [val r] else [])"
begin

lemma get_fold:
  "get (fold put rs s) k = get s k @ map val (filter (\<lambda>r. ok r \<and> key r = k) rs)"
  by (induction rs arbitrary: s) (auto simp: get_put)

end

end
