(* ===== verification/Aggregator.thy ===== *)
theory Aggregator
  imports GoNum Rows
begin

text \<open>
  \<open>src/loader/aggregator_route.go\<close>: the aggregator configurations, the routes with their fee
  segments, and the choice of the cheapest route for an amount. A scanned row is the record the
  code fills from it; a pointer to an immutable row is the row. The four loads do not look at
  \<open>rows.Err()\<close>, so they do not use \<open>load_table\<close>: a result that ends early is installed.

  Amounts are \<open>big.Rat\<close> and \<open>big.Int\<close> values, here \<open>rat\<close> and \<open>int\<close>; \<open>Div\<close> on a positive divisor is
  HOL's \<open>div\<close>. A failed \<open>big.Rat.SetString\<close> leaves an unspecified value behind, which
  \<open>calculateFee\<close> goes on to use: it is the argument \<open>bad\<close>.
\<close>

section \<open>Data\<close>

type_synonym AggregatorID = int

definition AggregatorNone :: AggregatorID where "AggregatorNone = 0"
definition AggregatorAcross :: AggregatorID where "AggregatorAcross = 1"
definition AggregatorRelay :: AggregatorID where "AggregatorRelay = 2"
definition AggregatorDebridge :: AggregatorID where "AggregatorDebridge = 3"

definition AggregatorID_String :: "AggregatorID \<Rightarrow> string" where
  "AggregatorID_String a =
     (if a = AggregatorAcross then ''Across''
      else if a = AggregatorRelay then ''Relay''
      else if a = AggregatorDebridge then ''Debridge''
      else ''Unknown'')"

record AggregatorConfig =
  agc_ID :: AggregatorID
  agc_Name :: string
  agc_IsEnabled :: bool
  agc_Priority :: int
  agc_APIBaseURL :: string

record AggregateChainConfig =
  acc_ID :: int
  acc_AggregateID :: AggregatorID
  acc_ChainName :: string
  acc_ChainID :: int
  acc_DepositContractAddress :: string
  acc_BridgeFeeRateBps :: int
  acc_FillDeadlineSeconds :: int
  acc_SwapperAddress :: string
  acc_IsEnabled :: bool
  acc_Priority :: int

record RouteConfig =
  rc_ID :: int
  rc_AggregateID :: AggregatorID
  rc_FromChainID :: int
  rc_FromChainName :: string
  rc_FromTokenAddress :: string
  rc_FromTokenSymbol :: string
  rc_ToChainID :: int
  rc_ToChainName :: string
  rc_ToTokenAddress :: string
  rc_ToTokenSymbol :: string
  rc_IsNative :: bool
  rc_MinAmount :: string
  rc_MaxAmount :: string
  rc_IsEnabled :: bool
  rc_Priority :: int

record FeeSegment =
  fs_ID :: int
  fs_RouteID :: int
  fs_MinAmountUI :: string
  fs_MaxAmountUI :: string
  fs_OwltoFeeFixedUI :: string
  fs_OwltoFeeRateBps :: int
  fs_ProtocolFeeRateBps :: int
  fs_IsEnabled :: bool
  fs_Priority :: int

record FeeResult =
  fr_BestAggregator :: AggregatorID
  fr_ChannelFee :: int
  fr_OwltoFee :: int
  fr_TotalGasFee :: int
  fr_ProtocolFee :: int
  fr_ChannelFeeUI :: string
  fr_OwltoFeeUI :: string
  fr_TotalGasFeeUI :: string
  fr_ProtocolFeeRateBps :: int

record SupportedChain =
  sup_ChainID :: int
  sup_ChainName :: string

record BestRouteResult =
  br_Aggregator :: AggregatorID
  br_Route :: RouteConfig
  br_FeeSegment :: FeeSegment
  br_FeeResult :: FeeResult
  br_IsAggregator :: bool

record AggregatorManager =
  ag_aggregatorConfigs :: "AggregatorID \<rightharpoonup> AggregatorConfig"
  ag_chainConfigs :: "AggregatorID \<Rightarrow> (int \<rightharpoonup> AggregateChainConfig) option"
  ag_chainConfigsByName :: "AggregatorID \<Rightarrow> (string \<rightharpoonup> AggregateChainConfig) option"
  ag_routesByChainPair :: "int \<Rightarrow> (int \<rightharpoonup> RouteConfig list) option"
  ag_routesBySymbol :: "string \<rightharpoonup> RouteConfig list"
  ag_routesByID :: "int \<rightharpoonup> RouteConfig"
  ag_feeSegmentsByRouteID :: "int \<rightharpoonup> FeeSegment list"

definition NewAggregatorManager :: AggregatorManager where
  "NewAggregatorManager =
     \<lparr>ag_aggregatorConfigs = Map.empty, ag_chainConfigs = Map.empty,
      ag_chainConfigsByName = Map.empty, ag_routesByChainPair = Map.empty,
      ag_routesBySymbol = Map.empty, ag_routesByID = Map.empty,
      ag_feeSegmentsByRouteID = Map.empty\<rparr>"

text \<open>A row of \<open>t_aggregate_chain_config\<close>, with the columns that may be null.\<close>

record chain_config_row =
  ccr_ID :: int
  ccr_aggID :: int
  ccr_ChainName :: string
  ccr_ChainID :: int
  ccr_depositContractAddress :: "string option"
  ccr_bridgeFeeRateBps :: "int option"
  ccr_fillDeadlineSeconds :: "int option"
  ccr_swapperAddress :: "string option"
  ccr_IsEnabled :: bool
  ccr_Priority :: int

definition null_string :: "string option \<Rightarrow> string" where
  "null_string v = (case v of None \<Rightarrow> [] | Some s \<Rightarrow> s)"

definition null_int :: "int option \<Rightarrow> int" where
  "null_int v = (case v of None \<Rightarrow> 0 | Some i \<Rightarrow> i)"

definition chain_config_of_row :: "chain_config_row \<Rightarrow> AggregateChainConfig" where
  "chain_config_of_row r =
     \<lparr>acc_ID = ccr_ID r, acc_AggregateID = ccr_aggID r, acc_ChainName = ccr_ChainName r,
      acc_ChainID = ccr_ChainID r,
      acc_DepositContractAddress = null_string (ccr_depositContractAddress r),
      acc_BridgeFeeRateBps = null_int (ccr_bridgeFeeRateBps r),
      acc_FillDeadlineSeconds = null_int (ccr_fillDeadlineSeconds r),
      acc_SwapperAddress = null_string (ccr_swapperAddress r),
      acc_IsEnabled = ccr_IsEnabled r, acc_Priority = ccr_Priority r\<rparr>"

section \<open>Loading\<close>

type_synonym agg_load = "alert list \<times> string option \<times> AggregatorManager"

definition agg_table ::
  "string \<Rightarrow> ('r \<Rightarrow> 's \<Rightarrow> 's) \<Rightarrow> 's \<Rightarrow> ('s \<Rightarrow> AggregatorManager \<Rightarrow> AggregatorManager) \<Rightarrow>
   'r query \<Rightarrow> AggregatorManager \<Rightarrow> agg_load" where
  "agg_table scanmsg put init install q mgr =
     (case q of
        QueryErr e \<Rightarrow> ([], Some e, mgr)
      | Rows rs err \<Rightarrow>
          (let (al, s) = scan_loop scanmsg (\<lambda>r s. ([], put r s)) rs init
           in (al, None, install s mgr)))"

definition put_config ::
  "AggregatorConfig \<Rightarrow> (AggregatorID \<rightharpoonup> AggregatorConfig) \<Rightarrow> AggregatorID \<rightharpoonup> AggregatorConfig" where
  "put_config c m = m(agc_ID c \<mapsto> c)"

definition loadAggregatorConfigs :: "AggregatorConfig query \<Rightarrow> AggregatorManager \<Rightarrow> agg_load" where
  "loadAggregatorConfigs =
     agg_table ''scan aggregator config error'' put_config Map.empty
       (\<lambda>m mgr. mgr\<lparr>ag_aggregatorConfigs := m\<rparr>)"

definition put_chain_config where
  "put_chain_config row = (\<lambda>(byID, byName).
     let cfg = chain_config_of_row row in
     (put2 (acc_AggregateID cfg) (acc_ChainID cfg) cfg byID,
      put2 (acc_AggregateID cfg) (norm_key (acc_ChainName cfg)) cfg byName))"

definition loadAggregateChainConfigs ::
  "chain_config_row query \<Rightarrow> AggregatorManager \<Rightarrow> agg_load" where
  "loadAggregateChainConfigs =
     agg_table ''scan aggregate chain config error'' put_chain_config (Map.empty, Map.empty)
       (\<lambda>(byID, byName) mgr. mgr\<lparr>ag_chainConfigs := byID, ag_chainConfigsByName := byName\<rparr>)"

definition put_route where
  "put_route r = (\<lambda>(byPair, bySymbol, byID).
     (app2 (rc_FromChainID r) (rc_ToChainID r) r byPair,
      app1 (ToLower (rc_FromTokenSymbol r)) r bySymbol,
      byID(rc_ID r \<mapsto> r)))"

definition loadRouteConfigs :: "RouteConfig query \<Rightarrow> AggregatorManager \<Rightarrow> agg_load" where
  "loadRouteConfigs =
     agg_table ''scan route config error'' put_route (Map.empty, Map.empty, Map.empty)
       (\<lambda>(byPair, bySymbol, byID) mgr.
          mgr\<lparr>ag_routesByChainPair := byPair, ag_routesBySymbol := bySymbol,
              ag_routesByID := byID\<rparr>)"

definition put_segment ::
  "FeeSegment \<Rightarrow> (int \<rightharpoonup> FeeSegment list) \<Rightarrow> int \<rightharpoonup> FeeSegment list" where
  "put_segment seg m = app1 (fs_RouteID seg) seg m"

definition loadFeeSegments :: "FeeSegment query \<Rightarrow> AggregatorManager \<Rightarrow> agg_load" where
  "loadFeeSegments =
     agg_table ''scan fee segment error'' put_segment Map.empty
       (\<lambda>m mgr. mgr\<lparr>ag_feeSegmentsByRouteID := m\<rparr>)"

text \<open>\<open>LoadAll\<close> stops at the first load that fails; the loads before it stay installed.\<close>

definition LoadAll ::
  "AggregatorConfig query \<Rightarrow> chain_config_row query \<Rightarrow> RouteConfig query \<Rightarrow> FeeSegment query \<Rightarrow>
   AggregatorManager \<Rightarrow> agg_load" where
  "LoadAll q1 q2 q3 q4 mgr =
     (case loadAggregatorConfigs q1 mgr of
        (a1, Some e, m1) \<Rightarrow> (a1, Some (''load aggregator configs: '' @ e), m1)
      | (a1, None, m1) \<Rightarrow>
          (case loadAggregateChainConfigs q2 m1 of
             (a2, Some e, m2) \<Rightarrow> (a1 @ a2, Some (''load aggregate chain configs: '' @ e), m2)
           | (a2, None, m2) \<Rightarrow>
               (case loadRouteConfigs q3 m2 of
                  (a3, Some e, m3) \<Rightarrow> (a1 @ a2 @ a3, Some (''load route configs: '' @ e), m3)
                | (a3, None, m3) \<Rightarrow>
                    (case loadFeeSegments q4 m3 of
                       (a4, Some e, m4) \<Rightarrow>
                         (a1 @ a2 @ a3 @ a4, Some (''load fee segments: '' @ e), m4)
                     | (a4, None, m4) \<Rightarrow> (a1 @ a2 @ a3 @ a4, None, m4)))))"

section \<open>Lookups\<close>

definition GetAggregateChainConfigByChainID ::
  "AggregatorManager \<Rightarrow> AggregatorID \<Rightarrow> int \<Rightarrow> AggregateChainConfig option" where
  "GetAggregateChainConfigByChainID mgr a c = get2 (ag_chainConfigs mgr) a c"

definition GetAggregateChainConfigByChainName ::
  "AggregatorManager \<Rightarrow> AggregatorID \<Rightarrow> string \<Rightarrow> AggregateChainConfig option" where
  "GetAggregateChainConfigByChainName mgr a n =
     get2 (ag_chainConfigsByName mgr) a (ToLower (TrimSpace n))"

definition GetAllRoutes :: "AggregatorManager \<Rightarrow> int list \<Rightarrow> RouteConfig list" where
  "GetAllRoutes mgr ks = range_vals (ag_routesByID mgr) ks"

text \<open>
  Three map iterations: over the aggregators (\<open>as\<close>), over the chains of each (\<open>cs\<close>), and over the
  map collected so far (\<open>ks\<close>).
\<close>

definition chain_entries ::
  "AggregatorManager \<Rightarrow> AggregatorID list \<Rightarrow> (AggregatorID \<Rightarrow> int list) \<Rightarrow>
   (int \<times> AggregateChainConfig) list" where
  "chain_entries mgr as cs =
     concat (map (\<lambda>a. case ag_chainConfigs mgr a of
                        None \<Rightarrow> []
                      | Some m \<Rightarrow> concat (map (\<lambda>c. case m c of None \<Rightarrow> [] | Some cfg \<Rightarrow> [(c, cfg)]) (cs a)))
              as)"

definition add_chain ::
  "int \<times> AggregateChainConfig \<Rightarrow> (int \<rightharpoonup> SupportedChain) \<Rightarrow> int \<rightharpoonup> SupportedChain" where
  "add_chain = (\<lambda>(c, cfg) m.
     if m c \<noteq> None then m
     else m(c \<mapsto> \<lparr>sup_ChainID = c, sup_ChainName = acc_ChainName cfg\<rparr>))"

definition supported_map ::
  "AggregatorManager \<Rightarrow> AggregatorID list \<Rightarrow> (AggregatorID \<Rightarrow> int list) \<Rightarrow> int \<rightharpoonup> SupportedChain" where
  "supported_map mgr as cs = fold add_chain (chain_entries mgr as cs) Map.empty"

definition GetAllSupportedChains ::
  "(SupportedChain list \<Rightarrow> SupportedChain list) \<Rightarrow> AggregatorManager \<Rightarrow> AggregatorID list \<Rightarrow>
   (AggregatorID \<Rightarrow> int list) \<Rightarrow> int list \<Rightarrow> SupportedChain list" where
  "GetAllSupportedChains srt mgr as cs ks = srt (range_vals (supported_map mgr as cs) ks)"

definition GetRoutesByChainPair :: "AggregatorManager \<Rightarrow> int \<Rightarrow> int \<Rightarrow> RouteConfig list" where
  "GetRoutesByChainPair mgr f t = slice_at2 (ag_routesByChainPair mgr) f t"

definition GetRoutesByChainPairAndSymbol ::
  "AggregatorManager \<Rightarrow> int \<Rightarrow> int \<Rightarrow> string \<Rightarrow> RouteConfig list" where
  "GetRoutesByChainPairAndSymbol mgr f t tokenSymbol =
     (let tokenUpper = ToUpper (TrimSpace tokenSymbol) in
      filter (\<lambda>r. ToUpper (rc_FromTokenSymbol r) = tokenUpper)
        (slice_at2 (ag_routesByChainPair mgr) f t))"

definition GetFeeSegments :: "AggregatorManager \<Rightarrow> int \<Rightarrow> FeeSegment list" where
  "GetFeeSegments mgr r = slice_at (ag_feeSegmentsByRouteID mgr) r"

section \<open>Fees and the best route\<close>

definition isAmountInRouteRange :: "rat \<Rightarrow> RouteConfig \<Rightarrow> bool" where
  "isAmountInRouteRange amt route =
     ((if rc_MinAmount route \<noteq> [] \<and> rc_MinAmount route \<noteq> ''0''
       then (case Rat_SetString (rc_MinAmount route) of None \<Rightarrow> False | Some mn \<Rightarrow> \<not> amt < mn)
       else True) \<and>
      (if rc_MaxAmount route \<noteq> [] \<and> rc_MaxAmount route \<noteq> ''0''
       then (case Rat_SetString (rc_MaxAmount route) of None \<Rightarrow> False | Some mx \<Rightarrow> \<not> mx < amt)
       else True))"

fun find_segment :: "rat \<Rightarrow> FeeSegment list \<Rightarrow> FeeSegment option" where
  "find_segment amt [] = None"
| "find_segment amt (seg # segs) =
     (case (if fs_MinAmountUI seg \<noteq> [] then Rat_SetString (fs_MinAmountUI seg) else Some 0) of
        None \<Rightarrow> find_segment amt segs
      | Some mn \<Rightarrow>
          (let unlimited = (fs_MaxAmountUI seg = [] \<or> fs_MaxAmountUI seg = ''0'') in
           case (if unlimited then Some 0 else Rat_SetString (fs_MaxAmountUI seg)) of
             None \<Rightarrow> find_segment amt segs
           | Some mx \<Rightarrow>
               if mn \<le> amt \<and> (unlimited \<or> amt < mx) then Some seg else find_segment amt segs))"

definition findMatchingSegment :: "AggregatorManager \<Rightarrow> int \<Rightarrow> rat \<Rightarrow> FeeSegment option" where
  "findMatchingSegment mgr r amt = find_segment amt (GetFeeSegments mgr r)"

definition rat_floor_div :: "rat \<Rightarrow> int" where
  "rat_floor_div x = (let (n, d) = quotient_of x in n div d)"

definition weiToUI :: "int \<Rightarrow> int \<Rightarrow> string" where
  "weiToUI wei decimals =
     (if wei = 0 then ''0''
      else Rat_FloatString (of_int wei / of_int (exp10 decimals)) decimals)"

definition owlto_fixed_ui :: "(string \<Rightarrow> rat) \<Rightarrow> FeeSegment \<Rightarrow> rat" where
  "owlto_fixed_ui bad seg =
     (if fs_OwltoFeeFixedUI seg \<noteq> [] \<and> fs_OwltoFeeFixedUI seg \<noteq> ''0''
      then (case Rat_SetString (fs_OwltoFeeFixedUI seg) of
              None \<Rightarrow> bad (fs_OwltoFeeFixedUI seg)
            | Some x \<Rightarrow> x)
      else 0)"

definition bps_of :: "int \<Rightarrow> int \<Rightarrow> int" where
  "bps_of amtWei bps = (if 0 < bps then amtWei * bps div 10000 else 0)"

definition calculateFee ::
  "(string \<Rightarrow> rat) \<Rightarrow> rat \<Rightarrow> FeeSegment \<Rightarrow> int \<Rightarrow> FeeResult" where
  "calculateFee bad amt seg decimals =
     (let factor = of_int (exp10 decimals);
          amtWei = rat_floor_div (amt * factor);
          fixedWei = rat_floor_div (owlto_fixed_ui bad seg * factor);
          owltoFee = fixedWei + bps_of amtWei (fs_OwltoFeeRateBps seg);
          channelFee = fixedWei;
          total = channelFee + owltoFee
      in \<lparr>fr_BestAggregator = AggregatorNone, fr_ChannelFee = channelFee, fr_OwltoFee = owltoFee,
          fr_TotalGasFee = total,
          fr_ProtocolFee = bps_of amtWei (fs_ProtocolFeeRateBps seg),
          fr_ChannelFeeUI = weiToUI channelFee decimals,
          fr_OwltoFeeUI = weiToUI owltoFee decimals,
          fr_TotalGasFeeUI = weiToUI total decimals,
          fr_ProtocolFeeRateBps = fs_ProtocolFeeRateBps seg\<rparr>)"

fun best_route ::
  "(string \<Rightarrow> rat) \<Rightarrow> AggregatorManager \<Rightarrow> rat \<Rightarrow> int \<Rightarrow> RouteConfig list \<Rightarrow>
   (BestRouteResult \<times> rat) option \<Rightarrow> (BestRouteResult \<times> rat) option" where
  \<comment> \<open>the loop of \<open>FindBestRoute\<close>, with \<open>bestResult\<close> and \<open>lowestFee\<close>, nil together, as one option\<close>
  "best_route bad mgr amt decimals [] best = best"
| "best_route bad mgr amt decimals (route # routes) best =
     (if \<not> isAmountInRouteRange amt route then best_route bad mgr amt decimals routes best
      else case findMatchingSegment mgr (rc_ID route) amt of
             None \<Rightarrow> best_route bad mgr amt decimals routes best
           | Some seg \<Rightarrow>
               (let fee = (calculateFee bad amt seg decimals)
                            \<lparr>fr_BestAggregator := rc_AggregateID route\<rparr>;
                    feeRat = of_int (fr_TotalGasFee fee);
                    better = (case best of None \<Rightarrow> True | Some (_, lowest) \<Rightarrow> feeRat < lowest)
                in best_route bad mgr amt decimals routes
                     (if better
                      then Some (\<lparr>br_Aggregator = rc_AggregateID route, br_Route = route,
                                  br_FeeSegment = seg, br_FeeResult = fee,
                                  br_IsAggregator = True\<rparr>, feeRat)
                      else best)))"

definition FindBestRoute ::
  "(string \<Rightarrow> rat) \<Rightarrow> AggregatorManager \<Rightarrow> int \<Rightarrow> int \<Rightarrow> string \<Rightarrow> string \<Rightarrow> int \<Rightarrow>
   string + BestRouteResult" where
  "FindBestRoute bad mgr f t tokenSymbol amountUI decimals =
     (let routes = GetRoutesByChainPairAndSymbol mgr f t tokenSymbol in
      if routes = []
      then Inl (''no routes found for '' @ FormatInt f @ ''->'' @ FormatInt t @ '' '' @ tokenSymbol)
      else case Rat_SetString amountUI of
             None \<Rightarrow> Inl (''invalid amount: '' @ amountUI)
           | Some amt \<Rightarrow>
               if amt \<le> 0 then Inl (''invalid amount: '' @ amountUI)
               else (case best_route bad mgr amt decimals routes None of
                       None \<Rightarrow> Inl (''no matching fee segment for amount '' @ amountUI)
                     | Some (b, _) \<Rightarrow> Inr b))"

section \<open>What a load builds\<close>

fun answered :: "'r query \<Rightarrow> bool" where
  "answered (Rows rs err) = True"
| "answered (QueryErr e) = False"

lemma agg_table_Rows:
  "snd (agg_table msg put init install (Rows rs err) mgr) =
     (None, install (fold put (scanned rs) init) mgr)"
  using scan_loop_state [of msg "\<lambda>r s. ([], put r s)" rs init]
  by (auto simp: agg_table_def split: prod.splits)

lemma agg_table_QueryErr [simp]:
  "agg_table msg put init install (QueryErr e) mgr = ([], Some e, mgr)"
  by (simp add: agg_table_def)

lemma agg_table_view:
  "snd (snd (agg_table msg put init install q mgr)) =
     (if answered q then install (fold put (query_rows q) init) mgr else mgr)"
  by (cases q) (simp_all add: agg_table_Rows)

lemma agg_table_error: "fst (snd (agg_table msg put init install q mgr)) = None \<longleftrightarrow> answered q"
  by (cases q) (simp_all add: agg_table_Rows)

lemma agg_table_reloadable:
  "(\<And>s m. view (install s m) = h s) \<Longrightarrow>
   reloadable (\<lambda>q m. (fst (agg_table msg put init install q m), snd (snd (agg_table msg put init install q m))))
     answered view (\<lambda>q. h (fold put (query_rows q) init))"
  by unfold_locales (simp_all add: agg_table_view)

lemmas agg_loads = loadAggregatorConfigs_def loadAggregateChainConfigs_def
  loadRouteConfigs_def loadFeeSegments_def

interpretation agg_configs: row_index "\<lambda>m k. m k" put_config agc_ID "\<lambda>c. c" "\<lambda>_. True"
  by unfold_locales (auto simp: put_config_def)

interpretation agg_by_id: row_index "\<lambda>(byID, byName) (a, c). get2 byID a c" put_chain_config
  "\<lambda>r. (ccr_aggID r, ccr_ChainID r)" chain_config_of_row "\<lambda>_. True"
  by unfold_locales
    (auto simp: put_chain_config_def chain_config_of_row_def Let_def split: if_split_asm)

interpretation agg_by_name: row_index "\<lambda>(byID, byName) (a, n). get2 byName a n" put_chain_config
  "\<lambda>r. (ccr_aggID r, norm_key (ccr_ChainName r))" chain_config_of_row "\<lambda>_. True"
  by unfold_locales
    (auto simp: put_chain_config_def chain_config_of_row_def Let_def split: if_split_asm)

interpretation agg_pair: row_group "\<lambda>(byPair, bySymbol, byID) (f, t). slice_at2 byPair f t" put_route
  "\<lambda>r. (rc_FromChainID r, rc_ToChainID r)" "\<lambda>r. r" "\<lambda>_. True"
  by unfold_locales (auto simp: put_route_def split: if_split_asm)

interpretation agg_route_id: row_index "\<lambda>(byPair, bySymbol, byID) k. byID k" put_route rc_ID
  "\<lambda>r. r" "\<lambda>_. True"
  by unfold_locales (auto simp: put_route_def)

interpretation agg_segment: row_group slice_at put_segment fs_RouteID "\<lambda>s. s" "\<lambda>_. True"
  by unfold_locales (auto simp: put_segment_def)

interpretation agg_route_load: reloadable
  "\<lambda>q m. (fst (loadRouteConfigs q m), snd (snd (loadRouteConfigs q m)))" answered
  "\<lambda>m. (ag_routesByChainPair m, ag_routesBySymbol m, ag_routesByID m)"
  "\<lambda>q. fold put_route (query_rows q) (Map.empty, Map.empty, Map.empty)"
  unfolding loadRouteConfigs_def by (rule agg_table_reloadable) auto

lemma routes_by_pair_loaded:
  "slice_at2 (ag_routesByChainPair (snd (snd (loadRouteConfigs (Rows rs err) mgr)))) f t =
     filter (\<lambda>r. rc_FromChainID r = f \<and> rc_ToChainID r = t) (scanned rs)"
proof -
  let ?init = "(Map.empty, Map.empty, Map.empty)"
  obtain p y i where fold: "fold put_route (scanned rs) ?init = (p, y, i)"
    by (metis prod_cases3)
  then have "slice_at2 p f t = filter (\<lambda>r. rc_FromChainID r = f \<and> rc_ToChainID r = t) (scanned rs)"
    using agg_pair.get_fold [of "scanned rs" ?init "(f, t)"] by simp
  then show ?thesis using fold by (simp add: loadRouteConfigs_def agg_table_view)
qed

lemma chain_config_loaded:
  "GetAggregateChainConfigByChainName
       (snd (snd (loadAggregateChainConfigs (Rows rs err) mgr))) a n =
     map_option chain_config_of_row
       (last_row (\<lambda>r. ccr_aggID r = a \<and> norm_key (ccr_ChainName r) = norm_key n) (scanned rs))"
proof -
  let ?init = "(Map.empty, Map.empty)"
  obtain i n' where fold: "fold put_chain_config (scanned rs) ?init = (i, n')" by force
  then have "get2 n' a (norm_key n) = map_option chain_config_of_row
      (last_row (\<lambda>r. ccr_aggID r = a \<and> norm_key (ccr_ChainName r) = norm_key n) (scanned rs))"
    using agg_by_name.get_fold [of "scanned rs" ?init "(a, norm_key n)"] by (simp split: option.splits)
  then show ?thesis using fold
    by (simp add: GetAggregateChainConfigByChainName_def ToLower_TrimSpace
        loadAggregateChainConfigs_def agg_table_view)
qed

text \<open>
  After the routes are loaded, a query by chain pair and symbol returns, in row order, exactly
  the scanned rows of that pair whose symbol equals the trimmed argument up to case. The symbol of
  the row itself is not trimmed.
\<close>

theorem agg_routes_loaded:
  "GetRoutesByChainPairAndSymbol (snd (snd (loadRouteConfigs (Rows rs err) mgr))) f t tokenSymbol =
     filter (\<lambda>r. rc_FromChainID r = f \<and> rc_ToChainID r = t \<and>
                 ToLower (rc_FromTokenSymbol r) = norm_key tokenSymbol) (scanned rs)"
  by (auto simp: GetRoutesByChainPairAndSymbol_def routes_by_pair_loaded norm_key_def Let_def
      ToUpper_eq_iff_ToLower_eq intro: filter_cong)

lemmas LoadAll_simps = LoadAll_def agg_loads agg_table_Rows case_prod_unfold

text \<open>
  \<open>LoadAll\<close> succeeds exactly when all four queries are answered. Otherwise it is not atomic: the
  indexes of the queries before the failing one are already replaced, so new chain configurations
  can be served with old routes, and new routes with old fee segments.
\<close>

theorem agg_LoadAll_effect:
  "let m = snd (snd (LoadAll q1 q2 q3 q4 mgr)) in
   (fst (snd (LoadAll q1 q2 q3 q4 mgr)) = None \<longleftrightarrow>
      answered q1 \<and> answered q2 \<and> answered q3 \<and> answered q4) \<and>
   ag_aggregatorConfigs m =
     (if answered q1 then fold put_config (query_rows q1) Map.empty else ag_aggregatorConfigs mgr) \<and>
   (ag_chainConfigs m, ag_chainConfigsByName m) =
     (if answered q1 \<and> answered q2
      then fold put_chain_config (query_rows q2) (Map.empty, Map.empty)
      else (ag_chainConfigs mgr, ag_chainConfigsByName mgr)) \<and>
   (ag_routesByChainPair m, ag_routesBySymbol m, ag_routesByID m) =
     (if answered q1 \<and> answered q2 \<and> answered q3
      then fold put_route (query_rows q3) (Map.empty, Map.empty, Map.empty)
      else (ag_routesByChainPair mgr, ag_routesBySymbol mgr, ag_routesByID mgr)) \<and>
   ag_feeSegmentsByRouteID m =
     (if answered q1 \<and> answered q2 \<and> answered q3 \<and> answered q4
      then fold put_segment (query_rows q4) Map.empty else ag_feeSegmentsByRouteID mgr)"
  by (cases q1; cases q2; cases q3; cases q4) (simp_all add: LoadAll_simps Let_def)

section \<open>The chains the aggregators support\<close>

lemma add_chain_dom: "dom (add_chain e m) = insert (fst e) (dom m)"
  by (cases e) (auto simp: add_chain_def)

lemma fold_add_chain_dom: "dom (fold add_chain es m) = fst ` set es \<union> dom m"
  by (induction es arbitrary: m) (auto simp: add_chain_dom)

lemma fold_add_chain_val:
  "\<forall>c s. m c = Some s \<longrightarrow> (\<exists>cfg. (c, cfg) \<in> E \<and> s = \<lparr>sup_ChainID = c, sup_ChainName = acc_ChainName cfg\<rparr>) \<Longrightarrow>
   set es \<subseteq> E \<Longrightarrow> fold add_chain es m c = Some s \<Longrightarrow>
   \<exists>cfg. (c, cfg) \<in> E \<and> s = \<lparr>sup_ChainID = c, sup_ChainName = acc_ChainName cfg\<rparr>"
proof (induction es arbitrary: m)
  case Nil
  then show ?case by auto
next
  case (Cons e es)
  have "\<forall>c s. add_chain e m c = Some s \<longrightarrow>
      (\<exists>cfg. (c, cfg) \<in> E \<and> s = \<lparr>sup_ChainID = c, sup_ChainName = acc_ChainName cfg\<rparr>)"
    using Cons.prems by (cases e) (auto simp: add_chain_def)
  then show ?case using Cons by simp
qed

definition chain_orders ::
  "AggregatorManager \<Rightarrow> AggregatorID list \<Rightarrow> (AggregatorID \<Rightarrow> int list) \<Rightarrow> bool" where
  \<comment> \<open>admissible orders for the two nested iterations\<close>
  "chain_orders mgr as cs \<longleftrightarrow>
     iter_order (ag_chainConfigs mgr) as \<and>
     (\<forall>a m. ag_chainConfigs mgr a = Some m \<longrightarrow> iter_order m (cs a))"

lemma in_chain_entries:
  "(c, cfg) \<in> set (chain_entries mgr as cs) \<longleftrightarrow>
   (\<exists>a\<in>set as. \<exists>m. ag_chainConfigs mgr a = Some m \<and> c \<in> set (cs a) \<and> m c = Some cfg)"
  by (auto simp: chain_entries_def split: option.splits; metis)

lemma set_chain_entries:
  assumes "chain_orders mgr as cs"
  shows "(c, cfg) \<in> set (chain_entries mgr as cs) \<longleftrightarrow>
    (\<exists>a. GetAggregateChainConfigByChainID mgr a c = Some cfg)"
proof -
  have "a \<in> set as" if "ag_chainConfigs mgr a = Some m" for a m
    using assms that by (auto simp: chain_orders_def iter_order_def)
  moreover have "c \<in> set (cs a)" if "ag_chainConfigs mgr a = Some m" "m c = Some cfg" for a m
    using assms that by (auto simp: chain_orders_def iter_order_def)
  moreover have "GetAggregateChainConfigByChainID mgr a c = Some cfg \<longleftrightarrow>
      (\<exists>m. ag_chainConfigs mgr a = Some m \<and> m c = Some cfg)" for a
    by (simp add: GetAggregateChainConfigByChainID_def get2_def split: option.splits)
  ultimately show ?thesis unfolding in_chain_entries by blast
qed

lemma supported_map_dom:
  assumes "chain_orders mgr as cs"
  shows "dom (supported_map mgr as cs) =
    {c. \<exists>a. GetAggregateChainConfigByChainID mgr a c \<noteq> None}"
proof -
  have "c \<in> fst ` set (chain_entries mgr as cs) \<longleftrightarrow>
      (\<exists>a. GetAggregateChainConfigByChainID mgr a c \<noteq> None)" for c
    using set_chain_entries [OF assms, of c] by (force simp: image_iff)
  then show ?thesis by (simp add: supported_map_def fold_add_chain_dom set_eq_iff)
qed

lemma supported_map_val:
  assumes "chain_orders mgr as cs" and "supported_map mgr as cs c = Some s"
  shows "sup_ChainID s = c \<and> (\<exists>a cfg. GetAggregateChainConfigByChainID mgr a c = Some cfg \<and>
    sup_ChainName s = acc_ChainName cfg)"
proof -
  have "\<exists>cfg. (c, cfg) \<in> set (chain_entries mgr as cs) \<and>
      s = \<lparr>sup_ChainID = c, sup_ChainName = acc_ChainName cfg\<rparr>"
    by (rule fold_add_chain_val [OF _ subset_refl assms(2) [unfolded supported_map_def]]) simp
  then show ?thesis using set_chain_entries [OF assms(1)] by force
qed

lemma range_vals_key:
  "(\<And>k v. m k = Some v \<Longrightarrow> f v = k) \<Longrightarrow> set ks \<subseteq> dom m \<Longrightarrow> map f (range_vals m ks) = ks"
  by (induction ks) (auto simp: range_vals_def)

text \<open>
  Whatever orders the runtime picks for the map iterations and for equal elements of the sort,
  \<open>GetAllSupportedChains\<close> lists every chain that some aggregator has a configuration for, each
  once, in increasing order of its id, with the chain name of one of its configurations.
\<close>

theorem agg_supported_chains:
  assumes "sort_slice_spec (\<lambda>x y. sup_ChainID x < sup_ChainID y) srt"
    and "chain_orders mgr as cs"
    and "iter_order (supported_map mgr as cs) ks"
  shows "sorted_wrt (<) (map sup_ChainID (GetAllSupportedChains srt mgr as cs ks)) \<and>
    sup_ChainID ` set (GetAllSupportedChains srt mgr as cs ks) =
      {c. \<exists>a. GetAggregateChainConfigByChainID mgr a c \<noteq> None} \<and>
    (\<forall>s\<in>set (GetAllSupportedChains srt mgr as cs ks).
       \<exists>a cfg. GetAggregateChainConfigByChainID mgr a (sup_ChainID s) = Some cfg \<and>
               sup_ChainName s = acc_ChainName cfg)"
proof -
  let ?m = "supported_map mgr as cs" and ?r = "GetAllSupportedChains srt mgr as cs ks"
  note val = supported_map_val [OF assms(2)]
  have ids: "map sup_ChainID (range_vals ?m ks) = ks"
    by (rule range_vals_key) (use val assms(3) in \<open>auto simp: iter_order_def\<close>)
  have perm: "mset (map sup_ChainID ?r) = mset ks"
    using sort_slice_mset [OF assms(1), of "range_vals ?m ks"] ids
    by (metis GetAllSupportedChains_def mset_map)
  then have "distinct (map sup_ChainID ?r)"
    using assms(3) by (metis iter_order_def mset_eq_imp_distinct_iff)
  moreover have "sorted (map sup_ChainID ?r)"
    using sort_slice_sorted [OF assms(1), of "range_vals ?m ks"]
    by (simp add: GetAllSupportedChains_def sorted_wrt_map not_less)
  ultimately have "sorted_wrt (<) (map sup_ChainID ?r)"
    by (simp add: strict_sorted_iff)
  moreover have "sup_ChainID ` set ?r = dom ?m"
    using perm assms(3) by (metis iter_order_def mset_eq_setD set_map)
  moreover have "set ?r = ran ?m"
    using sort_slice_set [OF assms(1)] set_range_vals [OF assms(3)] by (simp add: GetAllSupportedChains_def)
  ultimately show ?thesis
    using supported_map_dom [OF assms(2)] val by (fastforce simp: ran_def)
qed

section \<open>Fees\<close>

lemma rat_floor_div_floor: "rat_floor_div x = \<lfloor>x\<rfloor>"
proof -
  obtain n d where q: "quotient_of x = (n, d)" by force
  then have "x = of_int n / of_int d" by (rule quotient_of_div)
  then show ?thesis using q by (simp add: rat_floor_div_def floor_divide_of_int_eq)
qed

lemma bps_of_bounds:
  assumes "0 \<le> a" and "0 \<le> b"
  shows "(of_int (bps_of a b) :: rat) \<le> of_int a * of_int b / 10000 \<and>
    of_int a * of_int b / 10000 < (of_int (bps_of a b) :: rat) + 1"
proof -
  have "bps_of a b = a * b div 10000" using assms by (auto simp: bps_of_def)
  also have "\<dots> = \<lfloor>(of_int (a * b) / of_int 10000 :: rat)\<rfloor>"
    by (rule floor_divide_of_int_eq [symmetric])
  finally have "bps_of a b = \<lfloor>of_int a * of_int b / (10000 :: rat)\<rfloor>" by simp
  then show ?thesis by linarith
qed

text \<open>
  C4. For an amount that is not negative and a rate between 0 and 10000 basis points, the Owlto fee never
  exceeds the exact fee (fixed part plus basis points of the amount, both in the smallest unit), and
  rounding loses less than three units of it. The total is the fixed part once more, the placeholder
  channel fee. The code does not check the rate: \<open>agg_fee_large_rate\<close> shows a rate above 100 percent
  for which more is lost.
\<close>

theorem agg_fee_bounds:
  assumes "0 \<le> amt" and "0 \<le> fs_OwltoFeeRateBps seg" and "fs_OwltoFeeRateBps seg \<le> 10000"
  shows "let factor = of_int (exp10 decimals);
             exact = owlto_fixed_ui bad seg * factor
                     + amt * factor * of_int (fs_OwltoFeeRateBps seg) / 10000;
             fee = calculateFee bad amt seg decimals
         in of_int (fr_OwltoFee fee) \<le> exact \<and> exact < of_int (fr_OwltoFee fee) + 3 \<and>
            fr_TotalGasFee fee = fr_OwltoFee fee + \<lfloor>owlto_fixed_ui bad seg * factor\<rfloor>"
proof -
  define f where "f = (of_int (exp10 decimals) :: rat)"
  define b where "b = fs_OwltoFeeRateBps seg"
  define x where "x = owlto_fixed_ui bad seg * f"
  define w where "w = \<lfloor>amt * f\<rfloor>"
  have f: "0 < f" using exp10_pos by (simp add: f_def)
  have w0: "0 \<le> w" using assms(1) f by (simp add: w_def)
  have b: "0 \<le> b" "b \<le> 10000" using assms by (simp_all add: b_def)
  have wb: "of_int w \<le> amt * f" "amt * f < of_int w + 1" unfolding w_def by linarith+
  have fx: "of_int \<lfloor>x\<rfloor> \<le> x" "x < of_int \<lfloor>x\<rfloor> + 1" by linarith+
  note r = bps_of_bounds [OF w0 b(1)]
  have scaled: "of_int w * of_int b / 10000 \<le> amt * f * of_int b / (10000 :: rat)"
    using wb b by (intro divide_right_mono mult_right_mono) auto
  have "amt * f * of_int b \<le> (of_int w + 1) * (of_int b :: rat)"
    using wb b by (intro mult_right_mono) auto
  moreover have "(of_int b :: rat) \<le> 10000" using b by simp
  ultimately have scaled': "amt * f * of_int b / 10000 \<le> of_int w * of_int b / 10000 + (1 :: rat)"
    by (simp add: algebra_simps)
  have "fr_OwltoFee (calculateFee bad amt seg decimals) = \<lfloor>x\<rfloor> + bps_of w b"
    "fr_TotalGasFee (calculateFee bad amt seg decimals) =
       fr_OwltoFee (calculateFee bad amt seg decimals) + \<lfloor>x\<rfloor>"
    by (simp_all add: calculateFee_def Let_def rat_floor_div_floor x_def w_def f_def b_def)
  moreover have "of_int (\<lfloor>x\<rfloor> + bps_of w b) \<le> x + amt * f * of_int b / 10000"
    "x + amt * f * of_int b / 10000 < of_int (\<lfloor>x\<rfloor> + bps_of w b) + (3 :: rat)"
    unfolding of_int_add using fx r scaled scaled' by linarith+
  ultimately show ?thesis unfolding Let_def f_def [symmetric] b_def [symmetric] x_def [symmetric]
    by simp
qed

definition sample_segment :: FeeSegment where
  "sample_segment =
     \<lparr>fs_ID = 1, fs_RouteID = 1, fs_MinAmountUI = ''1'', fs_MaxAmountUI = ''50'',
      fs_OwltoFeeFixedUI = ''2'', fs_OwltoFeeRateBps = 30, fs_ProtocolFeeRateBps = 10,
      fs_IsEnabled = True, fs_Priority = 0\<rparr>"

theorem agg_fee_bounds_witness:
  "let fee = calculateFee (\<lambda>_. 0) 7 sample_segment 2
   in of_int (fr_OwltoFee fee) \<le> (owlto_fixed_ui (\<lambda>_. 0) sample_segment * 100 + 21 / 10 :: rat) \<and>
      owlto_fixed_ui (\<lambda>_. 0) sample_segment * 100 + 21 / 10 < (of_int (fr_OwltoFee fee) + 3 :: rat)"
  using agg_fee_bounds [of 7 sample_segment 2 "\<lambda>_. 0"]
  by (simp add: Let_def exp10_def sample_segment_def)

text \<open>
  Nothing in the code bounds the rate. The amount is cut to whole units before the rate is applied, so
  with a rate of 1000 percent the part of a unit that is cut costs nine units of fee.
\<close>

lemma agg_fee_large_rate:
  "fr_OwltoFee (calculateFee (\<lambda>_. 0) (9 / 10)
     (sample_segment\<lparr>fs_OwltoFeeFixedUI := ''0'', fs_OwltoFeeRateBps := 100000\<rparr>) 0) = 0"
  by code_simp

text \<open>
  The UI amount of a fee parses back to exactly the fee: \<open>weiToUI\<close> prints enough digits to lose
  nothing, for every sign and every non-negative number of decimals up to the exponent limit of
  \<open>big.Rat\<close>.
\<close>

theorem agg_weiToUI_exact:
  assumes "0 \<le> decimals" and "decimals \<le> 1000000"
  shows "Rat_SetString (weiToUI wei decimals) = Some (of_int wei / of_int (exp10 decimals))"
proof (cases "wei = 0")
  case True
  have "Rat_SetString (Rat_FloatString 0 (int 0)) = Some 0"
    by (rule Rat_SetString_FloatString [where m = 0]) simp_all
  moreover have "Rat_FloatString 0 (int 0) = ''0''"
    by (simp add: Rat_FloatString_def FormatInt_def utoa_0)
  ultimately show ?thesis using True by (simp add: weiToUI_def)
next
  case False
  have "exp10 decimals = 10 ^ nat decimals" using assms by (cases "decimals = 0") (auto simp: exp10_def)
  then have "(of_int wei / of_int (exp10 decimals)) * 10 ^ nat decimals = (of_int wei :: rat)"
    by simp
  from Rat_SetString_FloatString [OF this] show ?thesis
    using assms False by (simp add: weiToUI_def)
qed

theorem agg_weiToUI_exact_witness:
  "Rat_SetString (weiToUI (- 1234567) 6) = Some (- 1234567 / 1000000)"
  using agg_weiToUI_exact [of 6 "- 1234567"] by (simp add: exp10_def)

section \<open>The segment of an amount and the best route\<close>

definition seg_bounds :: "FeeSegment \<Rightarrow> (rat \<times> rat option) option" where
  \<comment> \<open>the half-open interval a segment stands for; \<open>None\<close> when a bound does not parse\<close>
  "seg_bounds seg =
     (case (if fs_MinAmountUI seg = [] then Some 0 else Rat_SetString (fs_MinAmountUI seg)) of
        None \<Rightarrow> None
      | Some mn \<Rightarrow>
          if fs_MaxAmountUI seg = [] \<or> fs_MaxAmountUI seg = ''0'' then Some (mn, None)
          else map_option (\<lambda>mx. (mn, Some mx)) (Rat_SetString (fs_MaxAmountUI seg)))"

definition seg_covers :: "rat \<Rightarrow> FeeSegment \<Rightarrow> bool" where
  "seg_covers amt seg =
     (case seg_bounds seg of
        None \<Rightarrow> False
      | Some (mn, mx) \<Rightarrow> mn \<le> amt \<and> (case mx of None \<Rightarrow> True | Some m \<Rightarrow> amt < m))"

lemma find_segment_find: "find_segment amt segs = find (seg_covers amt) segs"
proof (induction segs)
  case (Cons seg segs)
  then show ?case
    by (simp add: seg_covers_def seg_bounds_def Let_def split: option.splits)
qed simp

text \<open>
  \<open>findMatchingSegment\<close> returns the first segment of the route, in the order of the table, whose
  half-open interval contains the amount. It returns nil exactly when no segment does; a segment
  with a bound that does not parse covers nothing.
\<close>

theorem agg_find_segment:
  "(findMatchingSegment mgr r amt = None) =
     (\<not> (\<exists>seg\<in>set (GetFeeSegments mgr r). seg_covers amt seg)) \<and>
   (findMatchingSegment mgr r amt = Some seg) =
     (\<exists>pre post. GetFeeSegments mgr r = pre @ seg # post \<and> seg_covers amt seg \<and>
        list_all (\<lambda>s. \<not> seg_covers amt s) pre)"
  unfolding findMatchingSegment_def find_segment_find find_first [symmetric]
  by (auto simp: find_None_iff)

definition route_offer ::
  "(string \<Rightarrow> rat) \<Rightarrow> AggregatorManager \<Rightarrow> rat \<Rightarrow> int \<Rightarrow> RouteConfig \<Rightarrow> BestRouteResult option" where
  \<comment> \<open>what one route charges for an amount, if it takes it at all\<close>
  "route_offer bad mgr amt decimals route =
     (if isAmountInRouteRange amt route
      then map_option
             (\<lambda>seg. \<lparr>br_Aggregator = rc_AggregateID route, br_Route = route, br_FeeSegment = seg,
                     br_FeeResult = (calculateFee bad amt seg decimals)
                       \<lparr>fr_BestAggregator := rc_AggregateID route\<rparr>,
                     br_IsAggregator = True\<rparr>)
             (findMatchingSegment mgr (rc_ID route) amt)
      else None)"

abbreviation offer_fee :: "BestRouteResult \<Rightarrow> int" where
  "offer_fee b \<equiv> fr_TotalGasFee (br_FeeResult b)"

fun cheaper :: "BestRouteResult option \<Rightarrow> (BestRouteResult \<times> rat) option \<Rightarrow> (BestRouteResult \<times> rat) option" where
  "cheaper None best = best"
| "cheaper (Some b) None = Some (b, of_int (offer_fee b))"
| "cheaper (Some b) (Some (b0, l)) =
     (if of_int (offer_fee b) < l then Some (b, of_int (offer_fee b)) else Some (b0, l))"

lemma best_route_fold:
  "best_route bad mgr amt decimals routes best =
     fold (\<lambda>r. cheaper (route_offer bad mgr amt decimals r)) routes best"
proof (induction routes arbitrary: best)
  case (Cons r routes)
  then show ?case
    by (cases best) (auto simp: route_offer_def Let_def split: option.splits)
qed simp

lemma best_route_None:
  "best_route bad mgr amt decimals routes None = None \<longleftrightarrow>
     (\<forall>r\<in>set routes. route_offer bad mgr amt decimals r = None)"
proof -
  have some: "cheaper ob (Some x) \<noteq> None" for ob x
    by (cases ob; cases x) auto
  then have keep: "fold (\<lambda>r. cheaper (g r)) rs (Some x) \<noteq> None" for g rs x
  proof (induction rs arbitrary: x)
    case (Cons r rs)
    then show ?case using some by (metis fold_simps(2) not_None_eq)
  qed simp
  have "fold (\<lambda>r. cheaper (g r)) rs None = None \<longleftrightarrow> (\<forall>r\<in>set rs. g r = None)"
    for g and rs :: "RouteConfig list"
  proof (induction rs)
    case (Cons r rs)
    then show ?case using keep by (cases "g r") simp_all
  qed simp
  then show ?thesis by (simp add: best_route_fold)
qed

lemma best_route_first_min:
  "best_route bad mgr amt decimals routes None = Some (b, l) \<Longrightarrow>
   l = of_int (offer_fee b) \<and> first_min (route_offer bad mgr amt decimals) offer_fee routes b"
proof (induction routes arbitrary: b l rule: rev_induct)
  case Nil
  then show ?case by simp
next
  case (snoc r routes)
  let ?o = "route_offer bad mgr amt decimals" and ?best = "best_route bad mgr amt decimals routes None"
  have step: "cheaper (?o r) ?best = Some (b, l)"
    using snoc.prems by (simp add: best_route_fold)
  show ?case
  proof (cases ?best)
    case None
    then have "\<forall>r\<in>set routes. ?o r = None" by (simp add: best_route_None)
    then show ?thesis using step None by (cases "?o r") (auto intro: first_min_new)
  next
    case (Some bl)
    then obtain b0 l0 where bl: "?best = Some (b0, l0)" by (cases bl) simp
    note ih = snoc.IH [OF bl]
    show ?thesis
    proof (cases "?o r")
      case None
      then show ?thesis using step bl ih by (auto intro: first_min_keep)
    next
      case (Some c)
      then show ?thesis using step bl ih
        by (auto intro: first_min_keep first_min_replace split: if_split_asm)
    qed
  qed
qed

text \<open>
  C1. A route that \<open>FindBestRoute\<close> returns is optimal: among the routes of the pair and the symbol
  whose range admits the positive amount and that have a segment for it, none has a lower total
  fee, and of equally cheap ones the first in the table is taken.
\<close>

theorem agg_best_route_optimal:
  assumes "FindBestRoute bad mgr f t tokenSymbol amountUI decimals = Inr b"
  shows "\<exists>amt. Rat_SetString amountUI = Some amt \<and> 0 < amt \<and>
    first_min (route_offer bad mgr amt decimals) offer_fee
      (GetRoutesByChainPairAndSymbol mgr f t tokenSymbol) b"
  using assms best_route_first_min
  by (fastforce simp: FindBestRoute_def Let_def split: if_split_asm option.split_asm)

text \<open>
  C2. Which outcome \<open>FindBestRoute\<close> has, and with which message: no route of the pair and symbol is the
  first error; a text that does not parse to a positive number the second; a positive amount that no
  route takes (outside its range, or without a segment) the third; in all other cases, that is for a
  positive amount that some route takes, a route is returned.
\<close>

theorem agg_best_route_complete:
  "let result = FindBestRoute bad mgr f t tokenSymbol amountUI decimals;
       routes = GetRoutesByChainPairAndSymbol mgr f t tokenSymbol;
       taken = (\<lambda>amt. \<exists>r\<in>set routes. route_offer bad mgr amt decimals r \<noteq> None)
   in (result = Inl (''no routes found for '' @ FormatInt f @ ''->'' @ FormatInt t @ '' '' @ tokenSymbol)) =
        (routes = []) \<and>
      (result = Inl (''invalid amount: '' @ amountUI)) =
        (routes \<noteq> [] \<and> \<not> (\<exists>amt. Rat_SetString amountUI = Some amt \<and> 0 < amt)) \<and>
      (result = Inl (''no matching fee segment for amount '' @ amountUI)) =
        (routes \<noteq> [] \<and> (\<exists>amt. Rat_SetString amountUI = Some amt \<and> 0 < amt \<and> \<not> taken amt)) \<and>
      (\<exists>b. result = Inr b) = (\<exists>amt. Rat_SetString amountUI = Some amt \<and> 0 < amt \<and> taken amt)"
proof (cases "Rat_SetString amountUI")
  case None
  then show ?thesis by (simp add: FindBestRoute_def Let_def)
next
  case (Some amt)
  let ?rs = "GetRoutesByChainPairAndSymbol mgr f t tokenSymbol"
  show ?thesis
  proof (cases "best_route bad mgr amt decimals ?rs None")
    case None
    moreover from None have "\<not> (\<exists>r\<in>set ?rs. route_offer bad mgr amt decimals r \<noteq> None)"
      by (simp add: best_route_None)
    ultimately show ?thesis using Some by (auto simp: FindBestRoute_def Let_def)
  next
    case (Some bl)
    moreover from Some have "\<exists>r\<in>set ?rs. route_offer bad mgr amt decimals r \<noteq> None"
      using best_route_None [of bad mgr amt decimals ?rs] by auto
    ultimately show ?thesis using \<open>Rat_SetString amountUI = Some amt\<close>
      by (cases bl) (auto simp: FindBestRoute_def Let_def)
  qed
qed

definition sample_route :: "int \<Rightarrow> AggregatorID \<Rightarrow> RouteConfig" where
  "sample_route i a =
     \<lparr>rc_ID = i, rc_AggregateID = a, rc_FromChainID = 1, rc_FromChainName = ''Ethereum'',
      rc_FromTokenAddress = ''0xa'', rc_FromTokenSymbol = ''USDC'', rc_ToChainID = 10,
      rc_ToChainName = ''Optimism'', rc_ToTokenAddress = ''0xb'', rc_ToTokenSymbol = ''USDC'',
      rc_IsNative = False, rc_MinAmount = ''1'', rc_MaxAmount = ''0'', rc_IsEnabled = True,
      rc_Priority = 0\<rparr>"

definition sample_chain_row :: "AggregatorID \<Rightarrow> int \<Rightarrow> string \<Rightarrow> chain_config_row" where
  "sample_chain_row a c n =
     \<lparr>ccr_ID = 1, ccr_aggID = a, ccr_ChainName = n, ccr_ChainID = c,
      ccr_depositContractAddress = None, ccr_bridgeFeeRateBps = Some 10,
      ccr_fillDeadlineSeconds = None, ccr_swapperAddress = None, ccr_IsEnabled = True,
      ccr_Priority = 0\<rparr>"

definition sample_manager :: AggregatorManager where
  "sample_manager = NewAggregatorManager
     \<lparr>ag_routesByChainPair :=
        [1 \<mapsto> [10 \<mapsto> [sample_route 1 AggregatorAcross, sample_route 2 AggregatorRelay]]],
      ag_feeSegmentsByRouteID :=
        [1 \<mapsto> [sample_segment], 2 \<mapsto> [sample_segment\<lparr>fs_OwltoFeeFixedUI := ''1''\<rparr>]]\<rparr>"

lemma sample_best:
  "map_sum id br_Aggregator (FindBestRoute (\<lambda>_. 0) sample_manager 1 10 '' usdc '' ''7'' 0) =
     Inr AggregatorRelay"
  by code_simp

theorem agg_best_route_optimal_witness:
  "\<exists>b amt. br_Aggregator b = AggregatorRelay \<and>
     first_min (route_offer (\<lambda>_. 0) sample_manager amt 0) offer_fee
       (GetRoutesByChainPairAndSymbol sample_manager 1 10 '' usdc '') b"
proof -
  obtain b where b: "FindBestRoute (\<lambda>_. 0) sample_manager 1 10 '' usdc '' ''7'' 0 = Inr b"
    "br_Aggregator b = AggregatorRelay"
    using sample_best by (cases "FindBestRoute (\<lambda>_. 0) sample_manager 1 10 '' usdc '' ''7'' 0") auto
  then show ?thesis using agg_best_route_optimal [OF b(1)] by blast
qed

definition sample_chains :: AggregatorManager where
  "sample_chains =
     snd (snd (loadAggregateChainConfigs
       (Rows [Scanned (sample_chain_row 1 10 ''Optimism''), Scanned (sample_chain_row 2 10 ''OP'')] None)
       NewAggregatorManager))"

lemma sample_chain_configs:
  "ag_chainConfigs sample_chains =
     [1 \<mapsto> [10 \<mapsto> chain_config_of_row (sample_chain_row 1 10 ''Optimism'')],
      2 \<mapsto> [10 \<mapsto> chain_config_of_row (sample_chain_row 2 10 ''OP'')]]"
  by (simp add: sample_chains_def loadAggregateChainConfigs_def agg_table_Rows put_chain_config_def
      Let_def put2_def chain_config_of_row_def sample_chain_row_def case_prod_unfold)

theorem agg_supported_chains_witness:
  "sup_ChainID ` set (GetAllSupportedChains (sort_key sup_ChainID) sample_chains [2, 1] (\<lambda>_. [10]) [10]) =
     {c. \<exists>a. GetAggregateChainConfigByChainID sample_chains a c \<noteq> None}"
proof -
  have orders: "chain_orders sample_chains [2, 1] (\<lambda>_. [10])"
    by (auto simp: chain_orders_def iter_order_def sample_chain_configs split: if_split_asm)
  have "iter_order (supported_map sample_chains [2, 1] (\<lambda>_. [10])) [10]"
    by (auto simp: iter_order_def supported_map_def chain_entries_def sample_chain_configs add_chain_def)
  from agg_supported_chains [OF sort_slice_sort_key orders this] show ?thesis by blast
qed

end
