(* ===== verification/Alert.thy ===== *)
theory Alert
  imports GoNum
begin

text \<open>
  \<open>src/alert\<close>: the throttled alerter of \<open>common.go\<close>, the Lark web hook alerter of \<open>larknotice.go\<close>
  that embeds it, and the card messages of \<open>lark.go\<close>. The clock is an argument of each call; what
  a call writes or posts is the list of sinks it returns; the Lark client of \<open>lark.go\<close> is a
  third-party package and its answer is an argument.
\<close>

section \<open>Alerters\<close>

datatype sink = LogLine string | WebHook string string  \<comment> \<open>a log line; a text posted to a URL\<close>

record CommonAlerter =
  ca_lazyInterval :: int
  ca_lazyReset :: int
  ca_lazyTimer :: "string \<rightharpoonup> int"

definition NewCommonAlerter :: "int \<Rightarrow> int \<Rightarrow> CommonAlerter" where
  "NewCommonAlerter interval reset =
     \<lparr>ca_lazyInterval = interval, ca_lazyReset = reset, ca_lazyTimer = Map.empty\<rparr>"

definition show_error :: "string option \<Rightarrow> string" where
  "show_error err = (case err of None \<Rightarrow> ''<nil>'' | Some e \<Rightarrow> e)"

definition CommonAlertText :: "string \<Rightarrow> string option \<Rightarrow> sink list" where
  "CommonAlertText msg err = [LogLine (msg @ '' : '' @ show_error err)]"

definition DoAlertTextLazy ::
  "(string \<Rightarrow> string option \<Rightarrow> sink list) \<Rightarrow> int \<Rightarrow> string \<Rightarrow> string \<Rightarrow> string option \<Rightarrow>
   CommonAlerter \<Rightarrow> sink list \<times> CommonAlerter" where
  \<comment> \<open>\<open>target\<close> is the \<open>AlertText\<close> of the target alerter\<close>
  "DoAlertTextLazy target now grp msg err ca =
     (case ca_lazyTimer ca grp of
        None \<Rightarrow> ([], ca\<lparr>ca_lazyTimer := (ca_lazyTimer ca)(grp \<mapsto> now)\<rparr>)
      | Some timer \<Rightarrow>
          if ca_lazyReset ca \<le> now - timer
          then ([], ca\<lparr>ca_lazyTimer := (ca_lazyTimer ca)(grp \<mapsto> now)\<rparr>)
          else if ca_lazyInterval ca \<le> now - timer
          then (target msg err, ca\<lparr>ca_lazyTimer := (ca_lazyTimer ca)(grp \<mapsto> now)\<rparr>)
          else ([], ca))"

definition CommonAlertTextLazyGroup ::
  "int \<Rightarrow> string \<Rightarrow> string \<Rightarrow> string option \<Rightarrow> CommonAlerter \<Rightarrow> sink list \<times> CommonAlerter" where
  "CommonAlertTextLazyGroup now grp msg err ca = DoAlertTextLazy CommonAlertText now grp msg err ca"

definition CommonAlertTextLazy ::
  "int \<Rightarrow> string \<Rightarrow> string option \<Rightarrow> CommonAlerter \<Rightarrow> sink list \<times> CommonAlerter" where
  "CommonAlertTextLazy now msg err ca = DoAlertTextLazy CommonAlertText now [] msg err ca"

record LarkAlerter =
  la_CommonAlerter :: CommonAlerter
  la_webhook :: string

definition NewLarkAlerter :: "string \<Rightarrow> LarkAlerter" where
  "NewLarkAlerter webhook =
     \<lparr>la_CommonAlerter = NewCommonAlerter 120 900, la_webhook = TrimSpace webhook\<rparr>"

definition LarkAlertText :: "LarkAlerter \<Rightarrow> string \<Rightarrow> string option \<Rightarrow> sink list" where
  "LarkAlertText la msg err =
     [WebHook (la_webhook la) (msg @ '' : '' @ show_error err),
      LogLine (msg @ '' : '' @ show_error err)]"

definition LarkAlertTextLazyGroup ::
  "int \<Rightarrow> string \<Rightarrow> string \<Rightarrow> string option \<Rightarrow> LarkAlerter \<Rightarrow> sink list \<times> LarkAlerter" where
  "LarkAlertTextLazyGroup now grp msg err la =
     (let (out, ca) = DoAlertTextLazy (LarkAlertText la) now grp msg err (la_CommonAlerter la)
      in (out, la\<lparr>la_CommonAlerter := ca\<rparr>))"

definition LarkAlertTextLazy ::
  "int \<Rightarrow> string \<Rightarrow> string option \<Rightarrow> LarkAlerter \<Rightarrow> sink list \<times> LarkAlerter" where
  "LarkAlertTextLazy now msg err la = LarkAlertTextLazyGroup now [] msg err la"

definition LarkAlertMessage :: "LarkAlerter \<Rightarrow> string \<Rightarrow> sink list" where
  "LarkAlertMessage la msg = [WebHook (la_webhook la) msg, LogLine msg]"

section \<open>Card messages\<close>

datatype card = ChatCard string string | UserCard string string  \<comment> \<open>recipient and card text\<close>

definition card_text :: "string \<Rightarrow> string \<Rightarrow> string" where
  "card_text cardID json =
     ''{\"type\":\"template\",\"data\":{\"template_id\":\"'' @ cardID @
     ''\",\"template_variable\":'' @ json @ ''}}''"

record Bot =
  bot_appID :: string
  bot_appSecret :: string

definition NewLarkBot :: "(Bot \<Rightarrow> string option) \<Rightarrow> string \<Rightarrow> string \<Rightarrow> Bot option \<Rightarrow> (string + Bot) \<times> Bot option" where
  \<comment> \<open>the start of the heartbeat, and the global \<open>LarkBot\<close>\<close>
  "NewLarkBot StartHeartbeat appID appSecret LarkBot =
     (let bot = \<lparr>bot_appID = appID, bot_appSecret = appSecret\<rparr> in
      case StartHeartbeat bot of
        Some err \<Rightarrow> (Inl err, LarkBot)
      | None \<Rightarrow> (Inr bot, Some bot))"

definition post_card :: "(card \<Rightarrow> string + (int \<times> string)) \<Rightarrow> card \<Rightarrow> string option" where
  "post_card post c =
     (case post c of
        Inl err \<Rightarrow> Some err
      | Inr (code, msg) \<Rightarrow>
          if code \<noteq> 0
          then Some (''send message to lark fail, code: '' @ FormatInt code @ '', msg: '' @ msg)
          else None)"

definition SendMessageCardByID ::
  "(card \<Rightarrow> string + (int \<times> string)) \<Rightarrow> string \<Rightarrow> string \<Rightarrow> string \<Rightarrow> string option" where
  \<comment> \<open>\<open>json\<close> is the serialised template; the result is the error\<close>
  "SendMessageCardByID post cardID recipient json =
     (if HasPrefix recipient ''oc_'' then post_card post (ChatCard recipient (card_text cardID json))
      else if HasPrefix recipient ''ou_'' then post_card post (UserCard recipient (card_text cardID json))
      else Some (''unknown chatIDOrOpenID: '' @ recipient))"

section \<open>Throttling\<close>

text \<open>A sequence of lazy calls, each with its time and group; an alert is recorded with both.\<close>

type_synonym lazy_call = "int \<times> string \<times> string \<times> string option"

fun lazy_run ::
  "(string \<Rightarrow> string option \<Rightarrow> sink list) \<Rightarrow> lazy_call list \<Rightarrow> CommonAlerter \<Rightarrow> (int \<times> string) list" where
  "lazy_run target [] ca = []"
| "lazy_run target ((now, grp, msg, err) # calls) ca =
     (let (out, ca') = DoAlertTextLazy target now grp msg err ca
      in (if out = [] then [] else [(now, grp)]) @ lazy_run target calls ca')"

definition alert_times :: "string \<Rightarrow> (int \<times> string) list \<Rightarrow> int list" where
  "alert_times g sent = map fst (filter (\<lambda>(t, h). h = g) sent)"

lemma alert_times_simps [simp]:
  "alert_times g [] = []"
  "alert_times g ((t, h) # sent) = (if h = g then t # alert_times g sent else alert_times g sent)"
  by (auto simp: alert_times_def)

lemma lazy_config [simp]:
  "ca_lazyInterval (snd (DoAlertTextLazy target now grp msg err ca)) = ca_lazyInterval ca"
  "ca_lazyReset (snd (DoAlertTextLazy target now grp msg err ca)) = ca_lazyReset ca"
  by (auto simp: DoAlertTextLazy_def split: option.split)

lemma lazy_timer:
  "ca_lazyTimer (snd (DoAlertTextLazy target now grp msg err ca)) g =
     (if g \<noteq> grp then ca_lazyTimer ca g
      else case ca_lazyTimer ca g of
             None \<Rightarrow> Some now
           | Some t \<Rightarrow> if ca_lazyReset ca \<le> now - t \<or> ca_lazyInterval ca \<le> now - t then Some now else Some t)"
  by (auto simp: DoAlertTextLazy_def split: option.split)

lemma lazy_out:
  "fst (DoAlertTextLazy target now grp msg err ca) =
     (case ca_lazyTimer ca grp of
        None \<Rightarrow> []
      | Some t \<Rightarrow> if ca_lazyInterval ca \<le> now - t \<and> now - t < ca_lazyReset ca then target msg err else [])"
  by (auto simp: DoAlertTextLazy_def split: option.split)

lemma alert_times_after:
  assumes "ca_lazyTimer ca g = Some t" and "0 \<le> ca_lazyReset ca" and "0 \<le> ca_lazyInterval ca"
  shows "\<forall>a\<in>set (alert_times g (lazy_run target calls ca)). ca_lazyInterval ca \<le> a - t"
  using assms
proof (induction calls arbitrary: ca t)
  case (Cons c calls)
  obtain now h msg err where c: "c = (now, h, msg, err)" by (cases c)
  let ?r = "DoAlertTextLazy target now h msg err ca"
  obtain t' where t': "ca_lazyTimer (snd ?r) g = Some t'" "t \<le> t'"
    using Cons.prems lazy_timer [of target now h msg err ca g] by (auto split: if_split_asm)
  then have "\<forall>a\<in>set (alert_times g (lazy_run target calls (snd ?r))). ca_lazyInterval ca \<le> a - t'"
    using Cons.IH [OF t'(1)] Cons.prems by simp
  then have "\<forall>a\<in>set (alert_times g (lazy_run target calls (snd ?r))). ca_lazyInterval ca \<le> a - t"
    using t'(2) by force
  moreover have "h = g \<Longrightarrow> fst ?r \<noteq> [] \<Longrightarrow> ca_lazyInterval ca \<le> now - t"
    using Cons.prems lazy_out [of target now h msg err ca] by (auto split: if_split_asm)
  ultimately show ?case by (auto simp: c case_prod_unfold Let_def)
qed simp

text \<open>
  C29. Whatever calls are made at whatever times, the alerts that a group sends are at least
  \<open>lazyInterval\<close> seconds apart: in the order they are sent, any later one is that much later than
  any earlier one.
\<close>

theorem alert_throttled:
  assumes "0 \<le> ca_lazyReset ca" and "0 \<le> ca_lazyInterval ca"
  shows "sorted_wrt (\<lambda>a b. ca_lazyInterval ca \<le> b - a) (alert_times g (lazy_run target calls ca))"
  using assms
proof (induction calls arbitrary: ca)
  case (Cons c calls)
  obtain now h msg err where c: "c = (now, h, msg, err)" by (cases c)
  let ?r = "DoAlertTextLazy target now h msg err ca"
  have rest: "sorted_wrt (\<lambda>a b. ca_lazyInterval ca \<le> b - a)
      (alert_times g (lazy_run target calls (snd ?r)))"
    using Cons.IH [of "snd ?r"] Cons.prems by simp
  have "\<forall>a\<in>set (alert_times g (lazy_run target calls (snd ?r))). ca_lazyInterval ca \<le> a - now"
    if "h = g" "fst ?r \<noteq> []"
  proof -
    have "ca_lazyTimer (snd ?r) g = Some now"
      using that lazy_timer [of target now h msg err ca g] lazy_out [of target now h msg err ca]
      by (auto split: option.splits if_split_asm)
    then show ?thesis using alert_times_after [of "snd ?r" g now] Cons.prems by simp
  qed
  then show ?case using rest by (auto simp: c case_prod_unfold Let_def)
qed simp

definition sample_calls :: "lazy_call list" where
  "sample_calls =
     [(0, ''db'', ''m'', None), (130, ''db'', ''m'', None), (140, ''db'', ''m'', None), (300, ''db'', ''m'', None)]"

lemma sample_alerts:
  "lazy_run CommonAlertText sample_calls (NewCommonAlerter 120 900) = [(130, ''db''), (300, ''db'')]"
  by (simp add: sample_calls_def NewCommonAlerter_def DoAlertTextLazy_def CommonAlertText_def)

theorem alert_throttled_witness:
  "sorted_wrt (\<lambda>a b. 120 \<le> b - a)
     (alert_times ''db'' (lazy_run CommonAlertText sample_calls (NewCommonAlerter 120 900)))"
  using alert_throttled [of "NewCommonAlerter 120 900" "''db''" CommonAlertText sample_calls]
  by (simp only: NewCommonAlerter_def CommonAlerter.simps)

lemma lazy_run_cause:
  "(t, g) \<in> set (lazy_run target calls ca) \<Longrightarrow>
   \<exists>t0. (ca_lazyTimer ca g = Some t0 \<or> t0 \<in> set (map fst (filter (\<lambda>c. fst (snd c) = g) calls))) \<and>
        ca_lazyInterval ca \<le> t - t0 \<and> t - t0 < ca_lazyReset ca"
proof (induction calls arbitrary: ca)
  case (Cons c calls)
  obtain now h msg err where c: "c = (now, h, msg, err)" by (cases c)
  let ?r = "DoAlertTextLazy target now h msg err ca"
  consider "fst ?r \<noteq> []" "t = now" "h = g" | "(t, g) \<in> set (lazy_run target calls (snd ?r))"
    using Cons.prems by (auto simp: c case_prod_unfold Let_def split: if_split_asm)
  then show ?case
  proof cases
    case 1
    then show ?thesis using lazy_out [of target now h msg err ca] by (auto split: option.splits if_split_asm)
  next
    case 2
    from Cons.IH [OF this] obtain t0 where t0:
      "ca_lazyTimer (snd ?r) g = Some t0 \<or> t0 \<in> set (map fst (filter (\<lambda>c. fst (snd c) = g) calls))"
      "ca_lazyInterval ca \<le> t - t0" "t - t0 < ca_lazyReset ca" by auto
    moreover have "ca_lazyTimer ca g = Some t0 \<or> h = g \<and> t0 = now" if "ca_lazyTimer (snd ?r) g = Some t0"
      using that lazy_timer [of target now h msg err ca g] by (auto split: option.splits if_split_asm)
    ultimately show ?thesis by (auto simp: c)
  qed
qed simp

text \<open>
  An isolated error is never reported: every alert of a fresh alerter answers an earlier call of
  the same group that lies at least \<open>lazyInterval\<close> and less than \<open>lazyReset\<close> seconds back. In
  particular the first call of a group only starts its timer.
\<close>

theorem alert_needs_recurrence:
  assumes "(t, g) \<in> set (lazy_run target calls (NewCommonAlerter interval reset))"
  shows "\<exists>t0 msg err. (t0, g, msg, err) \<in> set calls \<and> interval \<le> t - t0 \<and> t - t0 < reset"
  using lazy_run_cause [OF assms] by (auto simp: NewCommonAlerter_def)

theorem alert_needs_recurrence_witness:
  "\<exists>t0 msg err. (t0, ''db'', msg, err) \<in> set sample_calls \<and> 120 \<le> 300 - t0 \<and> 300 - t0 < 900"
  using alert_needs_recurrence [of 300 "''db''" CommonAlertText sample_calls 120 900]
  by (simp add: sample_alerts)

end
