(* ===== verification/AsyncCache.thy ===== *)
theory AsyncCache
  imports Prelude
begin

text \<open>
  \<open>src/asynccache/asynccache.go\<close> and \<open>atomic_error.go\<close>: one cache, its entries and its
  operations, each as one atomic step. The shared tickers that call \<open>expire\<close> and \<open>refresh\<close> are the
  theory \<open>Ticker\<close>; what the operations promise together is the theory \<open>CacheSpec\<close>.

  An \<open>interface{}\<close> value is nil or a value with its dynamic type, because \<open>atomic.Value\<close> panics when
  it is stored to with a second type: the operations that may panic return an option. The result
  of the user's \<open>Fetcher\<close> is an argument of each operation that calls it; the handlers that an
  operation starts are returned as events.
\<close>

section \<open>Data\<close>

type_synonym iface = "(string \<times> int) option"  \<comment> \<open>dynamic type and value, \<open>None\<close> for nil\<close>
type_synonym go_error = "string option"
type_synonym fetcher = "string \<Rightarrow> iface \<times> go_error"

record Options =
  op_RefreshDuration :: int
  op_EnableExpire :: bool
  op_ExpireDuration :: int
  op_ErrorHandler :: bool   \<comment> \<open>whether the handler is set\<close>
  op_ChangeHandler :: bool
  op_DeleteHandler :: bool
  op_IsSame :: "(string \<Rightarrow> iface \<Rightarrow> iface \<Rightarrow> bool) option"

text \<open>\<open>atomic.Value\<close>: \<open>None\<close> until the first store. \<open>Error\<close> wraps the error in a holder, so a nil error
  can be stored too.\<close>

record entry =
  en_val :: iface
  en_expire :: int
  en_err :: "go_error option"

definition new_entry :: entry where
  "new_entry = \<lparr>en_val = None, en_expire = 0, en_err = None\<rparr>"

definition Error_Load :: "go_error option \<Rightarrow> go_error" where
  "Error_Load v = (case v of None \<Rightarrow> None | Some eh \<Rightarrow> eh)"

definition Error_Store :: "go_error \<Rightarrow> go_error option \<Rightarrow> go_error option" where
  "Error_Store err v = Some err"

definition value_Store :: "string \<times> int \<Rightarrow> iface \<Rightarrow> iface option" where
  \<comment> \<open>\<open>atomic.Value.Store\<close> of a non-nil value: a panic when the dynamic type changes\<close>
  "value_Store x v =
     (case v of None \<Rightarrow> Some (Some x) | Some y \<Rightarrow> if fst y = fst x then Some (Some x) else None)"

definition entry_Store :: "iface \<Rightarrow> go_error \<Rightarrow> entry \<Rightarrow> entry option" where
  "entry_Store x err e =
     (case (case x of Some y \<Rightarrow> value_Store y (en_val e) | None \<Rightarrow> Some None) of
        None \<Rightarrow> None
      | Some v \<Rightarrow> Some (e\<lparr>en_val := v, en_err := Error_Store err (en_err e)\<rparr>))"

definition Touch :: "entry \<Rightarrow> entry" where
  "Touch e = e\<lparr>en_expire := 0\<rparr>"

type_synonym cache = "string \<rightharpoonup> entry"  \<comment> \<open>the \<open>sync.Map\<close>\<close>

datatype event =
    ErrorEvent string string
  | ChangeEvent string iface iface
  | DeleteEvent string entry

section \<open>Operations\<close>

text \<open>A store into a fresh entry cannot change a type.\<close>

definition fresh :: "iface \<Rightarrow> go_error \<Rightarrow> entry" where
  "fresh x err = \<lparr>en_val = x, en_expire = 0, en_err = Some err\<rparr>"

lemma entry_Store_fresh: "entry_Store x err new_entry = Some (fresh x err)"
  by (simp add: entry_Store_def new_entry_def fresh_def value_Store_def Error_Store_def
      split: option.splits)

definition SetDefault :: "string \<Rightarrow> iface \<Rightarrow> cache \<Rightarrow> bool \<times> cache" where
  "SetDefault key val c =
     (case c key of
        Some e \<Rightarrow> (True, c(key \<mapsto> Touch e))
      | None \<Rightarrow> (False, c(key \<mapsto> the (entry_Store val None new_entry))))"

text \<open>
  \<open>singleflight.Group.Do\<close>: a call either runs its function or, when another call of the key is in
  flight, waits for that one and shares its result without running anything. The argument
  \<open>joined\<close> is the shared result, \<open>None\<close> for the call that runs its own function.
\<close>

definition sfg_Do ::
  "(iface \<times> go_error) option \<Rightarrow> (cache \<Rightarrow> (iface \<times> go_error) \<times> cache) \<Rightarrow> cache \<Rightarrow>
   (iface \<times> go_error) \<times> cache" where
  "sfg_Do joined fn c = (case joined of Some r \<Rightarrow> (r, c) | None \<Rightarrow> fn c)"

definition Get_flight ::
  "(iface \<times> go_error) option \<Rightarrow> fetcher \<Rightarrow> string \<Rightarrow> cache \<Rightarrow> (iface \<times> go_error) \<times> cache" where
  "Get_flight joined fetch key c =
     (case c key of
        Some e \<Rightarrow> ((en_val e, Error_Load (en_err e)), c(key \<mapsto> Touch e))
      | None \<Rightarrow>
          sfg_Do joined
            (\<lambda>c. let (v, err) = fetch key
                 in ((v, err), c(key \<mapsto> the (entry_Store v err new_entry)))) c)"

definition GetOrSet_flight ::
  "(iface \<times> go_error) option \<Rightarrow> fetcher \<Rightarrow> string \<Rightarrow> iface \<Rightarrow> cache \<Rightarrow> iface \<times> cache" where
  "GetOrSet_flight joined fetch key dflt c =
     (case c key of
        Some e \<Rightarrow>
          if Error_Load (en_err e) \<noteq> None
          then (dflt, c(key \<mapsto> the (entry_Store dflt None new_entry)))
          else (en_val e, c(key \<mapsto> Touch e))
      | None \<Rightarrow>
          (let ((v, _), c') =
             sfg_Do joined
               (\<lambda>c. let (fv, err) = fetch key; v = (if err \<noteq> None then dflt else fv)
                    in ((v, None), c(key \<mapsto> the (entry_Store v None new_entry)))) c
           in (v, c')))"

definition ac_Get :: "fetcher \<Rightarrow> string \<Rightarrow> cache \<Rightarrow> (iface \<times> go_error) \<times> cache" where
  "ac_Get fetch key c = Get_flight None fetch key c"

definition GetOrSet :: "fetcher \<Rightarrow> string \<Rightarrow> iface \<Rightarrow> cache \<Rightarrow> iface \<times> cache" where
  "GetOrSet fetch key dflt c = GetOrSet_flight None fetch key dflt c"

lemmas get_defs = ac_Get_def Get_flight_def GetOrSet_def GetOrSet_flight_def sfg_Do_def

text \<open>\<open>sync.Map.Range\<close> visits the keys in an order of its own, the argument \<open>ks\<close>.\<close>

definition Dump :: "string list \<Rightarrow> cache \<Rightarrow> string \<rightharpoonup> iface" where
  "Dump ks c =
     fold (\<lambda>k d. case c k of None \<Rightarrow> d | Some e \<Rightarrow> d(k \<mapsto> en_val e)) ks Map.empty"

fun DeleteIf :: "Options \<Rightarrow> (string \<Rightarrow> bool) \<Rightarrow> string list \<Rightarrow> cache \<Rightarrow> event list \<times> cache" where
  "DeleteIf opt p [] c = ([], c)"
| "DeleteIf opt p (k # ks) c =
     (case c k of
        None \<Rightarrow> DeleteIf opt p ks c
      | Some e \<Rightarrow>
          if p k
          then (let (evs, c') = DeleteIf opt p ks (c(k := None))
                in (if op_DeleteHandler opt then DeleteEvent k e # evs else evs, c'))
          else DeleteIf opt p ks c)"

fun expire :: "Options \<Rightarrow> string list \<Rightarrow> cache \<Rightarrow> event list \<times> cache" where
  "expire opt [] c = ([], c)"
| "expire opt (k # ks) c =
     (case c k of
        None \<Rightarrow> expire opt ks c
      | Some e \<Rightarrow>
          if en_expire e = 0 then expire opt ks (c(k \<mapsto> e\<lparr>en_expire := 1\<rparr>))
          else (let (evs, c') = expire opt ks (c(k := None))
                in (if op_DeleteHandler opt then DeleteEvent k e # evs else evs, c')))"

definition refresh_entry ::
  "Options \<Rightarrow> fetcher \<Rightarrow> string \<Rightarrow> entry \<Rightarrow> (event list \<times> entry) option" where
  "refresh_entry opt fetch k e =
     (case fetch k of
        (newVal, Some err) \<Rightarrow>
          Some (if op_ErrorHandler opt then [ErrorEvent k err] else [],
                if Error_Load (en_err e) \<noteq> None then e\<lparr>en_err := Error_Store (Some err) (en_err e)\<rparr> else e)
      | (newVal, None) \<Rightarrow>
          map_option
            (\<lambda>e'. (case op_IsSame opt of
                     None \<Rightarrow> []
                   | Some same \<Rightarrow>
                       if \<not> same k (en_val e) newVal \<and> op_ChangeHandler opt
                       then [ChangeEvent k (en_val e) newVal] else [], e'))
            (entry_Store newVal None e))"

fun refresh ::
  "Options \<Rightarrow> fetcher \<Rightarrow> string list \<Rightarrow> cache \<Rightarrow> (event list \<times> cache) option" where
  "refresh opt fetch [] c = Some ([], c)"
| "refresh opt fetch (k # ks) c =
     (case c k of
        None \<Rightarrow> refresh opt fetch ks c
      | Some e \<Rightarrow>
          (case refresh_entry opt fetch k e of
             None \<Rightarrow> None
           | Some (evs, e') \<Rightarrow>
               (case refresh opt fetch ks (c(k \<mapsto> e')) of
                  None \<Rightarrow> None
                | Some (evs', c') \<Rightarrow> Some (evs @ evs', c'))))"

section \<open>Single operations\<close>

text \<open>
  \<open>Get\<close> caches what its fetch returned, an error included: a second \<open>Get\<close> of the key returns the
  same value and error, whatever the fetcher would answer by then.
\<close>

theorem cache_Get_sticky:
  "fst (ac_Get fetch2 k (snd (ac_Get fetch1 k c))) = fst (ac_Get fetch1 k c)"
  by (cases "c k"; cases "fetch1 k"; cases "snd (fetch1 k)")
    (simp_all add: get_defs entry_Store_fresh fresh_def Error_Load_def Touch_def)

text \<open>
  \<open>GetOrSet\<close> leaves a usable entry behind: whether the value was cached, fetched or is the
  default, a following \<open>Get\<close> returns that value without an error, and it is the default exactly
  when the cached entry holds an error, or there is none and the fetch fails (or they coincide).
\<close>

theorem cache_GetOrSet_usable:
  "fst (ac_Get fetch2 k (snd (GetOrSet fetch k dflt c))) = (fst (GetOrSet fetch k dflt c), None) \<and>
   fst (GetOrSet fetch k dflt c) =
     (case c k of
        Some e \<Rightarrow> if Error_Load (en_err e) = None then en_val e else dflt
      | None \<Rightarrow> if snd (fetch k) = None then fst (fetch k) else dflt)"
  by (auto simp: get_defs entry_Store_fresh fresh_def Error_Load_def Touch_def Let_def
      split: option.splits prod.splits)

text \<open>
  A \<open>GetOrSet\<close> that joins the flight of a \<open>Get\<close> does not apply its default: when the fetch of that
  \<open>Get\<close> fails with a nil value, \<open>GetOrSet\<close> returns nil, although the same call made after the
  \<open>Get\<close> returns the default.
\<close>

theorem cache_joined_default:
  assumes "c k = None" and "fetch k = (None, Some err)"
  shows "fst (GetOrSet_flight (Some (fst (ac_Get fetch k c))) fetch k (Some d) c) = None \<and>
    fst (GetOrSet fetch k (Some d) (snd (ac_Get fetch k c))) = Some d"
  using assms by (simp add: get_defs entry_Store_fresh fresh_def Error_Load_def)

theorem cache_joined_default_witness:
  "fst (GetOrSet_flight (Some (fst (ac_Get (\<lambda>_. (None, Some ''down'')) ''a'' Map.empty)))
     (\<lambda>_. (None, Some ''down'')) ''a'' (Some (''int'', 1)) Map.empty) = None"
  using cache_joined_default [of Map.empty "''a''" "\<lambda>_. (None, Some ''down'')" "''down''" "(''int'', 1)"]
  by simp

lemma SetDefault_keeps:
  "c k = Some e \<Longrightarrow> SetDefault k val c = (True, c(k \<mapsto> Touch e))"
  "c k = None \<Longrightarrow> SetDefault k val c = (False, c(k \<mapsto> fresh val None))"
  by (simp_all add: SetDefault_def entry_Store_fresh)

lemma Dump_eq: "iter_order c ks \<Longrightarrow> Dump ks c k = map_option en_val (c k)"
proof -
  have "fold (\<lambda>k d. case c k of None \<Rightarrow> d | Some e \<Rightarrow> d(k \<mapsto> en_val e)) ks d k =
      (if k \<in> set ks \<and> c k \<noteq> None then map_option en_val (c k) else d k)" for ks d
    by (induction ks arbitrary: d) (auto split: option.splits)
  then show "iter_order c ks \<Longrightarrow> Dump ks c k = map_option en_val (c k)"
    by (auto simp: Dump_def iter_order_def domIff)
qed

lemma DeleteIf_eq:
  "snd (DeleteIf opt p ks c) k = (if k \<in> set ks \<and> p k then None else c k)"
proof (induction ks arbitrary: c)
  case (Cons k' ks)
  then show ?case by (cases "c k'") (simp_all add: case_prod_unfold Let_def)
qed simp

lemma expire_eq:
  "distinct ks \<Longrightarrow> snd (expire opt ks c) k =
     (if k \<in> set ks
      then (case c k of
              None \<Rightarrow> None
            | Some e \<Rightarrow> if en_expire e = 0 then Some (e\<lparr>en_expire := 1\<rparr>) else None)
      else c k)"
proof (induction ks arbitrary: c)
  case (Cons k' ks)
  then show ?case by (cases "c k'") (auto simp: case_prod_unfold Let_def)
qed simp

lemma refresh_eq:
  "distinct ks \<Longrightarrow> refresh opt fetch ks c = Some (evs, c') \<Longrightarrow>
   c' k = (if k \<in> set ks
           then (case c k of
                   None \<Rightarrow> None
                 | Some e \<Rightarrow> map_option snd (refresh_entry opt fetch k e))
           else c k)"
proof (induction ks arbitrary: c evs c')
  case (Cons k' ks)
  show ?case
  proof (cases "c k'")
    case None
    then have "refresh opt fetch ks c = Some (evs, c')" using Cons.prems(2) by simp
    then have "c' k = (if k \<in> set ks then (case c k of None \<Rightarrow> None
        | Some e \<Rightarrow> map_option snd (refresh_entry opt fetch k e)) else c k)"
      using Cons.prems(1) by (intro Cons.IH) simp_all
    then show ?thesis using None by auto
  next
    case (Some e)
    then obtain ev e' evs' where step: "refresh_entry opt fetch k' e = Some (ev, e')"
      "refresh opt fetch ks (c(k' \<mapsto> e')) = Some (evs', c')"
      using Cons.prems by (auto split: option.split_asm prod.split_asm)
    show ?thesis using Cons.IH [OF _ step(2)] Cons.prems(1) Some step(1) by auto
  qed
qed simp

lemma refresh_None:
  "distinct ks \<Longrightarrow> refresh opt fetch ks c = None \<longleftrightarrow>
     (\<exists>k\<in>set ks. \<exists>e. c k = Some e \<and> refresh_entry opt fetch k e = None)"
proof (induction ks arbitrary: c)
  case (Cons k' ks)
  show ?case
  proof (cases "c k'")
    case None
    then show ?thesis using Cons by auto
  next
    case (Some e)
    show ?thesis
    proof (cases "refresh_entry opt fetch k' e")
      case None
      then show ?thesis using Some by simp
    next
      case (Some r)
      then have "refresh opt fetch (k' # ks) c = None \<longleftrightarrow> refresh opt fetch ks (c(k' \<mapsto> snd r)) = None"
        using \<open>c k' = Some e\<close> by (simp split: option.splits prod.splits)
      moreover have "(\<exists>k\<in>set ks. \<exists>e. (c(k' \<mapsto> snd r)) k = Some e \<and> refresh_entry opt fetch k e = None) \<longleftrightarrow>
          (\<exists>k\<in>set ks. \<exists>e. c k = Some e \<and> refresh_entry opt fetch k e = None)"
        using Cons.prems by (intro bex_cong) auto
      moreover note Cons.IH [of "c(k' \<mapsto> snd r)"]
      ultimately have "refresh opt fetch (k' # ks) c = None \<longleftrightarrow>
          (\<exists>k\<in>set ks. \<exists>e. c k = Some e \<and> refresh_entry opt fetch k e = None)"
        using Cons.prems by (metis distinct.simps(2))
      then show ?thesis using Some \<open>c k' = Some e\<close> by (metis list.set_intros(2) option.distinct(1)
            option.inject set_ConsD)
    qed
  qed
qed simp

lemma refresh_at:
  assumes "iter_order c ks" and "refresh opt f ks c = Some (evs, c')"
  shows "c k = None \<and> c' k = None \<or>
    (\<exists>e ev e'. c k = Some e \<and> refresh_entry opt f k e = Some (ev, e') \<and> c' k = Some e')"
proof -
  have ks: "distinct ks" "set ks = dom c" using assms(1) by (simp_all add: iter_order_def)
  have at: "c' k = (case c k of None \<Rightarrow> None | Some e \<Rightarrow> map_option snd (refresh_entry opt f k e))"
    using refresh_eq [OF ks(1) assms(2), of k] ks(2) by (auto simp: domIff)
  show ?thesis
  proof (cases "c k")
    case None
    then show ?thesis using at by simp
  next
    case (Some e)
    then have "refresh_entry opt f k e \<noteq> None"
      using refresh_None [OF ks(1), of opt f c] assms(2) ks(2)
      by (metis domI option.distinct(1))
    then show ?thesis using Some at by (cases "refresh_entry opt f k e") auto
  qed
qed

lemma refresh_entry_effect:
  "refresh_entry opt f k e = Some (ev, e') \<Longrightarrow>
   en_expire e' = en_expire e \<and>
   (case snd (f k) of
      None \<Rightarrow> en_val e' = fst (f k) \<and> Error_Load (en_err e') = None
    | Some err \<Rightarrow> en_val e' = en_val e \<and>
        Error_Load (en_err e') = (if Error_Load (en_err e) = None then None else Some err))"
  by (auto simp: refresh_entry_def entry_Store_def value_Store_def Error_Load_def Error_Store_def
      split: prod.split_asm option.split_asm if_split_asm)

text \<open>
  A refresh that does not panic keeps exactly the cached keys and their expiry marks. A key whose
  fetch succeeds gets the new value and no error. A key whose fetch fails keeps its old value, and
  the new error is recorded only if an error was cached already: a good value is served stale
  rather than turned into an error.
\<close>

theorem cache_refresh:
  assumes "iter_order c ks" and "refresh opt f ks c = Some (evs, c')"
  shows "c k = None \<and> c' k = None \<or>
    (\<exists>e e'. c k = Some e \<and> c' k = Some e' \<and> en_expire e' = en_expire e \<and>
       (case snd (f k) of
          None \<Rightarrow> en_val e' = fst (f k) \<and> Error_Load (en_err e') = None
        | Some err \<Rightarrow> en_val e' = en_val e \<and>
            Error_Load (en_err e') = (if Error_Load (en_err e) = None then None else Some err)))"
  using refresh_at [OF assms, of k] refresh_entry_effect by blast

section \<open>Sequences of operations\<close>

datatype cache_op =
    OpSetDefault string iface
  | OpGet fetcher string
  | OpGetOrSet fetcher string iface
  | OpDeleteIf "string \<Rightarrow> bool"
  | OpExpire
  | OpRefresh fetcher

inductive ac_step :: "Options \<Rightarrow> cache \<Rightarrow> cache_op \<Rightarrow> cache \<Rightarrow> bool" for opt where
  st_SetDefault: "ac_step opt c (OpSetDefault k v) (snd (SetDefault k v c))"
| st_Get: "ac_step opt c (OpGet f k) (snd (ac_Get f k c))"
| st_GetOrSet: "ac_step opt c (OpGetOrSet f k v) (snd (GetOrSet f k v c))"
| st_DeleteIf: "iter_order c ks \<Longrightarrow> ac_step opt c (OpDeleteIf p) (snd (DeleteIf opt p ks c))"
| st_expire: "iter_order c ks \<Longrightarrow> ac_step opt c OpExpire (snd (expire opt ks c))"
| st_refresh: "iter_order c ks \<Longrightarrow> refresh opt f ks c = Some (evs, c') \<Longrightarrow> ac_step opt c (OpRefresh f) c'"

inductive_cases ac_step_cases: "ac_step opt c op c'"

inductive ac_run :: "Options \<Rightarrow> cache \<Rightarrow> cache_op list \<Rightarrow> cache \<Rightarrow> bool" for opt where
  run_Nil: "ac_run opt c [] c"
| run_Cons: "ac_step opt c op c' \<Longrightarrow> ac_run opt c' ops c'' \<Longrightarrow> ac_run opt c (op # ops) c''"

lemma ac_run_invariant:
  "ac_run opt c ops c' \<Longrightarrow> P c \<Longrightarrow> list_all Q ops \<Longrightarrow>
   (\<And>c op c'. ac_step opt c op c' \<Longrightarrow> Q op \<Longrightarrow> P c \<Longrightarrow> P c') \<Longrightarrow> P c'"
  by (induction rule: ac_run.induct) auto

subsection \<open>Expiry\<close>

fun touches :: "string \<Rightarrow> cache_op \<Rightarrow> bool" where
  "touches k (OpSetDefault k' v) = (k' = k)"
| "touches k (OpGet f k') = (k' = k)"
| "touches k (OpGetOrSet f k' v) = (k' = k)"
| "touches k _ = False"

fun removes :: "cache_op \<Rightarrow> bool" where
  "removes (OpDeleteIf p) = True"
| "removes OpExpire = True"
| "removes _ = False"

definition idle :: "string \<Rightarrow> cache \<Rightarrow> bool" where
  "idle k c \<longleftrightarrow> (case c k of None \<Rightarrow> True | Some e \<Rightarrow> en_expire e \<noteq> 0)"

definition used :: "string \<Rightarrow> cache \<Rightarrow> bool" where
  "used k c \<longleftrightarrow> (case c k of None \<Rightarrow> False | Some e \<Rightarrow> en_expire e = 0)"

lemma SetDefault_at:
  "snd (SetDefault k v c) k' =
     (if k' = k then Some (case c k of None \<Rightarrow> fresh v None | Some e \<Rightarrow> Touch e) else c k')"
  by (simp add: SetDefault_def entry_Store_fresh split: option.split)

lemma ac_Get_at:
  "snd (ac_Get f k c) k' =
     (if k' = k then Some (case c k of None \<Rightarrow> fresh (fst (f k)) (snd (f k)) | Some e \<Rightarrow> Touch e) else c k')"
  by (simp add: get_defs entry_Store_fresh case_prod_unfold Let_def split: option.split)

lemma GetOrSet_at:
  "snd (GetOrSet f k v c) k' =
     (if k' = k
      then Some (case c k of
                   None \<Rightarrow> fresh (if snd (f k) = None then fst (f k) else v) None
                 | Some e \<Rightarrow> if Error_Load (en_err e) = None then Touch e else fresh v None)
      else c k')"
  by (simp add: get_defs entry_Store_fresh case_prod_unfold Let_def split: option.split)

lemmas op_at = SetDefault_at ac_Get_at GetOrSet_at DeleteIf_eq expire_eq

lemma expire_Touch [simp]: "en_expire (Touch e) = 0"
  by (simp add: Touch_def)

lemma expire_fresh [simp]: "en_expire (fresh v err) = 0"
  by (simp add: fresh_def)

lemma refresh_entry_kept:
  "iter_order c ks \<Longrightarrow> refresh opt f ks c = Some (evs, c') \<Longrightarrow>
   (c k = None \<and> c' k = None) \<or> (\<exists>e e'. c k = Some e \<and> c' k = Some e' \<and> en_expire e' = en_expire e)"
  using refresh_at [of c ks opt f evs c' k] refresh_entry_effect by blast

lemma idle_step:
  assumes "ac_step opt c op c'" and "\<not> touches k op" and "idle k c"
  shows "idle k c'"
  using assms(1)
proof cases
  case (st_refresh ks f evs)
  then show ?thesis using refresh_entry_kept [of c ks opt f evs c' k] assms by (auto simp: idle_def)
qed (use assms in \<open>auto simp: idle_def op_at iter_order_def split: option.splits\<close>)

lemma used_step:
  assumes "ac_step opt c op c'" and "\<not> removes op" and "used k c"
  shows "used k c'"
  using assms(1)
proof cases
  case (st_refresh ks f evs)
  then show ?thesis using refresh_entry_kept [of c ks opt f evs c' k] assms by (auto simp: used_def)
qed (use assms in \<open>auto simp: used_def op_at split: option.splits\<close>)

lemma touch_used: "ac_step opt c op c' \<Longrightarrow> touches k op \<Longrightarrow> used k c'"
  by (induction rule: ac_step.induct) (auto simp: used_def op_at split: option.split)

text \<open>
  A key that nobody asks for between two expiry ticks is gone after the second, whatever else
  happens in between: other keys are used, refreshes run, entries are deleted.
\<close>

theorem cache_evicts_idle:
  assumes "iter_order c ks" and "ac_run opt (snd (expire opt ks c)) ops c2"
    and "list_all (\<lambda>op. \<not> touches k op) ops" and "iter_order c2 ks2"
  shows "snd (expire opt ks2 c2) k = None"
proof -
  have "idle k (snd (expire opt ks c))"
    using assms(1) expire_eq [of ks opt c k] by (auto simp: idle_def iter_order_def split: option.splits)
  then have "idle k c2"
    using ac_run_invariant [where P = "idle k", OF assms(2) _ assms(3)] idle_step by blast
  then show ?thesis
    using assms(4) expire_eq [of ks2 opt c2 k] by (auto simp: idle_def iter_order_def split: option.splits)
qed

text \<open>
  A key that was read or set since the last expiry tick survives the next one, as long as no
  \<open>DeleteIf\<close> runs in between; refreshes do not count as use and do not take use away.
\<close>

theorem cache_keeps_used:
  assumes "ac_step opt c op c1" and "touches k op" and "ac_run opt c1 ops c2"
    and "list_all (\<lambda>op. \<not> removes op) ops" and "iter_order c2 ks"
  shows "snd (expire opt ks c2) k \<noteq> None"
proof -
  have "used k c1" using assms(1,2) by (rule touch_used)
  then have "used k c2"
    using ac_run_invariant [where P = "used k", OF assms(3) _ assms(4)] used_step by blast
  then show ?thesis
    using assms(5) expire_eq [of ks opt c2 k] by (auto simp: used_def iter_order_def split: option.splits)
qed

subsection \<open>Types\<close>

text \<open>
  A typing gives every key one dynamic type. It is respected by the cache, and by an operation whose
  defaults and fetch results are nil or of that type.
\<close>

definition of_type :: "string \<Rightarrow> iface \<Rightarrow> bool" where
  "of_type t v \<longleftrightarrow> (case v of None \<Rightarrow> True | Some x \<Rightarrow> fst x = t)"

definition cache_typed :: "(string \<Rightarrow> string) \<Rightarrow> cache \<Rightarrow> bool" where
  "cache_typed ty c \<longleftrightarrow> (\<forall>k e. c k = Some e \<longrightarrow> of_type (ty k) (en_val e))"

definition fetch_typed :: "(string \<Rightarrow> string) \<Rightarrow> fetcher \<Rightarrow> bool" where
  "fetch_typed ty f \<longleftrightarrow> (\<forall>k. of_type (ty k) (fst (f k)))"

fun op_typed :: "(string \<Rightarrow> string) \<Rightarrow> cache_op \<Rightarrow> bool" where
  "op_typed ty (OpSetDefault k v) = of_type (ty k) v"
| "op_typed ty (OpGet f k) = fetch_typed ty f"
| "op_typed ty (OpGetOrSet f k v) = (fetch_typed ty f \<and> of_type (ty k) v)"
| "op_typed ty (OpRefresh f) = fetch_typed ty f"
| "op_typed ty _ = True"

lemma val_Touch [simp]: "en_val (Touch e) = en_val e"
  by (simp add: Touch_def)

lemma val_fresh [simp]: "en_val (fresh v err) = v"
  by (simp add: fresh_def)

lemma refresh_entry_typed:
  "of_type t (en_val e) \<Longrightarrow> of_type t (fst (f k)) \<Longrightarrow> refresh_entry opt f k e \<noteq> None"
  by (auto simp: refresh_entry_def entry_Store_def value_Store_def of_type_def
      split: option.splits prod.splits)

lemma cache_typed_step:
  assumes "ac_step opt c op c'" and "op_typed ty op" and "cache_typed ty c"
  shows "cache_typed ty c'"
  using assms(1)
proof cases
  case (st_refresh ks f evs)
  have "of_type (ty k) (en_val e')" if at: "c' k = Some e'" for k e'
  proof -
    obtain e ev where "c k = Some e" "refresh_entry opt f k e = Some (ev, e')"
      using refresh_at [OF st_refresh(2,3), of k] at by auto
    then show ?thesis
      using refresh_entry_effect [of opt f k e ev e'] assms(2,3) st_refresh(1)
      by (auto simp: cache_typed_def fetch_typed_def split: option.split_asm)
  qed
  then show ?thesis by (simp add: cache_typed_def)
qed (use assms in \<open>auto simp: cache_typed_def fetch_typed_def op_at iter_order_def
       split: option.split option.split_asm if_split_asm\<close>)

text \<open>
  C6. As long as defaults and fetch results of a key are nil or of one dynamic type, no sequence of
  operations from the empty cache leads to a refresh that panics. (\<open>atomic.Value\<close> panics on the
  first fetch of another type, and the refresh goroutine does not recover.)
\<close>

theorem cache_never_panics:
  assumes "ac_run opt Map.empty ops c" and "list_all (op_typed ty) ops"
    and "iter_order c ks" and "fetch_typed ty f"
  shows "refresh opt f ks c \<noteq> None"
proof -
  have "cache_typed ty Map.empty" by (simp add: cache_typed_def)
  then have "cache_typed ty c"
    using ac_run_invariant [where P = "cache_typed ty", OF assms(1) _ assms(2)] cache_typed_step by blast
  then have "refresh_entry opt f k e \<noteq> None" if "c k = Some e" for k e
    using that assms(4) by (intro refresh_entry_typed) (auto simp: cache_typed_def fetch_typed_def)
  then show ?thesis
    using refresh_None [of ks opt f c] assms(3) by (auto simp: iter_order_def)
qed

section \<open>Concrete runs\<close>

definition sample_opt :: Options where
  "sample_opt =
     \<lparr>op_RefreshDuration = 1000, op_EnableExpire = True, op_ExpireDuration = 3000,
      op_ErrorHandler = True, op_ChangeHandler = True, op_DeleteHandler = True,
      op_IsSame = Some (\<lambda>_ a b. a = b)\<rparr>"

definition sample_cache :: cache where
  "sample_cache = [''a'' \<mapsto> fresh (Some (''int'', 1)) None, ''b'' \<mapsto> fresh None (Some ''timeout'')]"

definition sample_fetch :: fetcher where
  "sample_fetch k = (if k = ''a'' then (None, Some ''down'') else (Some (''int'', 7), None))"

lemma sample_order: "iter_order sample_cache [''b'', ''a'']"
  by (auto simp: iter_order_def sample_cache_def)

lemma sample_refresh: "\<exists>evs c'. refresh sample_opt sample_fetch [''b'', ''a''] sample_cache = Some (evs, c')"
  by (simp add: sample_cache_def fresh_def sample_fetch_def refresh_entry_def entry_Store_def
      value_Store_def Error_Load_def Error_Store_def sample_opt_def)

theorem cache_refresh_witness:
  "\<exists>evs c' e'. refresh sample_opt sample_fetch [''b'', ''a''] sample_cache = Some (evs, c') \<and>
     c' ''b'' = Some e' \<and> en_val e' = Some (''int'', 7) \<and> Error_Load (en_err e') = None"
proof -
  obtain evs c' where r: "refresh sample_opt sample_fetch [''b'', ''a''] sample_cache = Some (evs, c')"
    using sample_refresh by blast
  show ?thesis using r cache_refresh [OF sample_order r, of "''b''"]
    by (auto simp: sample_cache_def sample_fetch_def)
qed

lemma sample_run:
  "ac_run sample_opt (snd (expire sample_opt [''b'', ''a''] sample_cache)) [OpGet sample_fetch ''b'']
     (snd (ac_Get sample_fetch ''b'' (snd (expire sample_opt [''b'', ''a''] sample_cache))))"
  by (rule run_Cons [OF st_Get run_Nil])

theorem cache_evicts_idle_witness:
  "snd (expire sample_opt [''a'', ''b'']
     (snd (ac_Get sample_fetch ''b'' (snd (expire sample_opt [''b'', ''a''] sample_cache))))) ''a'' = None"
  by (rule cache_evicts_idle [OF sample_order sample_run])
    (auto simp: iter_order_def ac_Get_at expire_eq sample_cache_def fresh_def dom_def)

theorem cache_keeps_used_witness:
  "snd (expire sample_opt [''a'', ''b''] (snd (ac_Get sample_fetch ''b'' sample_cache))) ''b'' \<noteq> None"
  by (rule cache_keeps_used [OF st_Get _ run_Nil])
    (auto simp: iter_order_def ac_Get_at sample_cache_def fresh_def dom_def)

theorem cache_never_panics_witness:
  "refresh sample_opt sample_fetch [''x''] (snd (GetOrSet sample_fetch ''x'' None Map.empty)) \<noteq> None"
  by (rule cache_never_panics [where ty = "\<lambda>_. ''int''", OF run_Cons [OF st_GetOrSet run_Nil]])
    (auto simp: of_type_def fetch_typed_def sample_fetch_def iter_order_def GetOrSet_at dom_def)

end
