(* ===== verification/Ticker.thy ===== *)
theory Ticker
  imports AsyncCache
begin

text \<open>
  The shared tickers of \<open>src/asynccache/asynccache.go\<close>: \<open>NewAsyncCache\<close> and \<open>Close\<close> register and
  unregister a cache with the ticker of its duration, and a goroutine per started ticker runs
  \<open>tick\<close>, which refreshes or expires the registered caches until it reads a stop token.

  The state counts the goroutines by what they do: in the \<open>select\<close>, waiting for the mutex after a
  tick, or holding it. \<open>Close\<close> sends the stop token while it holds the mutex, and the channel has room
  for one token, so a \<open>Close\<close> may block there. The step relation interleaves these actions.
\<close>

section \<open>One shared ticker\<close>

datatype lock = Free | HeldByTick | HeldByClose  \<comment> \<open>the last: blocked on the full channel\<close>

record sharedTicker =
  tk_started :: bool
  tk_stopChan :: bool       \<comment> \<open>whether the channel of capacity one is full\<close>
  tk_caches :: "nat set"    \<comment> \<open>the registered caches, by identity\<close>
  tk_idle :: nat            \<comment> \<open>goroutines in the select\<close>
  tk_waiting :: nat         \<comment> \<open>goroutines that got a tick and wait for the mutex\<close>
  tk_lock :: lock

definition new_ticker :: sharedTicker where
  "new_ticker = \<lparr>tk_started = False, tk_stopChan = False, tk_caches = {}, tk_idle = 0,
                 tk_waiting = 0, tk_lock = Free\<rparr>"

definition register :: "nat \<Rightarrow> sharedTicker \<Rightarrow> sharedTicker" where
  "register c t =
     (let t = t\<lparr>tk_caches := insert c (tk_caches t)\<rparr>
      in if \<not> tk_started t then t\<lparr>tk_started := True, tk_idle := tk_idle t + 1\<rparr> else t)"

definition unregister :: "nat \<Rightarrow> sharedTicker \<Rightarrow> sharedTicker" where
  "unregister c t =
     (let t = t\<lparr>tk_caches := tk_caches t - {c}\<rparr>
      in if tk_caches t = {}
         then (if tk_stopChan t then t\<lparr>tk_lock := HeldByClose\<rparr>
               else t\<lparr>tk_stopChan := True, tk_started := False\<rparr>)
         else t)"

datatype action = New nat | Close nat | CloseSend | Tick | Lock | Unlock | Stop

fun enabled :: "action \<Rightarrow> sharedTicker \<Rightarrow> bool" where
  "enabled (New c) t = (tk_lock t = Free)"
| "enabled (Close c) t = (tk_lock t = Free)"
| "enabled CloseSend t = (tk_lock t = HeldByClose \<and> \<not> tk_stopChan t)"
| "enabled Tick t = (0 < tk_idle t)"
| "enabled Lock t = (0 < tk_waiting t \<and> tk_lock t = Free)"
| "enabled Unlock t = (tk_lock t = HeldByTick)"
| "enabled Stop t = (0 < tk_idle t \<and> tk_stopChan t)"

fun perform :: "action \<Rightarrow> sharedTicker \<Rightarrow> sharedTicker" where
  "perform (New c) t = register c t"
| "perform (Close c) t = unregister c t"
| "perform CloseSend t = t\<lparr>tk_stopChan := True, tk_started := False, tk_lock := Free\<rparr>"
| "perform Tick t = t\<lparr>tk_idle := tk_idle t - 1, tk_waiting := tk_waiting t + 1\<rparr>"
| "perform Lock t = t\<lparr>tk_waiting := tk_waiting t - 1, tk_lock := HeldByTick\<rparr>"
| "perform Unlock t = t\<lparr>tk_lock := Free, tk_idle := tk_idle t + 1\<rparr>"
| "perform Stop t = t\<lparr>tk_stopChan := False, tk_idle := tk_idle t - 1\<rparr>"

section \<open>The registries\<close>

text \<open>
  \<open>refreshTickerMap\<close> and \<open>expireTickerMap\<close> map a duration to its ticker. A call that panics or
  blocks returns \<open>None\<close>; \<open>time.NewTicker\<close> panics on a duration that is not positive.
\<close>

record registry =
  rg_refresh :: "int \<rightharpoonup> sharedTicker"
  rg_expire :: "int \<rightharpoonup> sharedTicker"

definition LoadOrStore :: "(int \<rightharpoonup> sharedTicker) \<Rightarrow> int \<Rightarrow> sharedTicker" where
  "LoadOrStore m d = (case m d of None \<Rightarrow> new_ticker | Some t \<Rightarrow> t)"

definition start :: "int \<Rightarrow> nat \<Rightarrow> sharedTicker \<Rightarrow> sharedTicker option" where
  "start d c t =
     (if tk_lock t \<noteq> Free \<or> (\<not> tk_started t \<and> d \<le> 0) then None else Some (register c t))"

definition NewAsyncCache :: "Options \<Rightarrow> nat \<Rightarrow> registry \<Rightarrow> registry option" where
  "NewAsyncCache opt c r =
     (if op_EnableExpire opt \<and> op_ExpireDuration opt = 0 then None
      else
        (case (if op_EnableExpire opt
               then map_option (\<lambda>t. r\<lparr>rg_expire := (rg_expire r)(op_ExpireDuration opt \<mapsto> t)\<rparr>)
                      (start (op_ExpireDuration opt) c (LoadOrStore (rg_expire r) (op_ExpireDuration opt)))
               else Some r) of
           None \<Rightarrow> None
         | Some r \<Rightarrow>
             map_option (\<lambda>t. r\<lparr>rg_refresh := (rg_refresh r)(op_RefreshDuration opt \<mapsto> t)\<rparr>)
               (start (op_RefreshDuration opt) c (LoadOrStore (rg_refresh r) (op_RefreshDuration opt)))))"

definition close_in :: "(int \<rightharpoonup> sharedTicker) \<Rightarrow> int \<Rightarrow> nat \<Rightarrow> (int \<rightharpoonup> sharedTicker) option" where
  "close_in m d c =
     (case m d of
        None \<Rightarrow> None
      | Some t \<Rightarrow>
          if tk_lock t \<noteq> Free then None
          else (let t' = unregister c t
                in if tk_lock t' = HeldByClose then None else Some (m(d \<mapsto> t'))))"

definition CloseCache :: "Options \<Rightarrow> nat \<Rightarrow> registry \<Rightarrow> registry option" where
  "CloseCache opt c r =
     (case close_in (rg_refresh r) (op_RefreshDuration opt) c of
        None \<Rightarrow> None
      | Some m \<Rightarrow>
          (let r = r\<lparr>rg_refresh := m\<rparr>
           in if op_EnableExpire opt
              then map_option (\<lambda>m. r\<lparr>rg_expire := m\<rparr>) (close_in (rg_expire r) (op_ExpireDuration opt) c)
              else Some r))"

section \<open>Runs\<close>

inductive reaches :: "(action \<Rightarrow> sharedTicker \<Rightarrow> bool) \<Rightarrow> sharedTicker \<Rightarrow> sharedTicker \<Rightarrow> bool"
  for allowed s where
  here: "reaches allowed s s"
| step: "reaches allowed s t \<Longrightarrow> enabled a t \<Longrightarrow> allowed a t \<Longrightarrow> reaches allowed s (perform a t)"

definition anyhow :: "action \<Rightarrow> sharedTicker \<Rightarrow> bool" where
  "anyhow a t = True"

fun disciplined :: "action \<Rightarrow> sharedTicker \<Rightarrow> bool" where
  \<comment> \<open>a cache is created once and closed only while it is open\<close>
  "disciplined (New c) t = (c \<notin> tk_caches t)"
| "disciplined (Close c) t = (c \<in> tk_caches t)"
| "disciplined _ t = True"

definition goroutines :: "sharedTicker \<Rightarrow> nat" where
  "goroutines t = tk_idle t + tk_waiting t + (if tk_lock t = HeldByTick then 1 else 0)"

definition ticker_ok :: "sharedTicker \<Rightarrow> bool" where
  "ticker_ok t \<longleftrightarrow>
     goroutines t = of_bool (tk_started t) + of_bool (tk_stopChan t) \<and>
     (tk_lock t = HeldByClose \<longrightarrow> tk_started t \<and> tk_caches t = {}) \<and>
     (tk_lock t \<noteq> HeldByClose \<longrightarrow> tk_started t = (tk_caches t \<noteq> {}))"

lemma ticker_ok_perform:
  "ticker_ok t \<Longrightarrow> enabled a t \<Longrightarrow> disciplined a t \<Longrightarrow> ticker_ok (perform a t)"
  by (cases a)
    (auto simp: ticker_ok_def goroutines_def register_def unregister_def Let_def of_bool_def
      split: if_split_asm)

text \<open>
  C9. As long as every cache is closed only while it is open, a started ticker has exactly one
  goroutine more than there are pending stop tokens, and a ticker that is not started exactly as
  many: after the tokens are read one goroutine serves the open caches, and none is left over when
  all are closed. The ticker is started exactly while it has caches, up to a \<open>Close\<close> in progress.
\<close>

theorem ticker_goroutines:
  assumes "reaches disciplined new_ticker t"
  shows "goroutines t = of_bool (tk_started t) + of_bool (tk_stopChan t) \<and>
    (tk_lock t = HeldByClose \<or> tk_started t = (tk_caches t \<noteq> {})) \<and>
    (tk_caches t = {} \<or> 0 < goroutines t)"
proof -
  have "ticker_ok t" using assms
  proof (induction rule: reaches.induct)
    case here
    show ?case by (simp add: ticker_ok_def new_ticker_def goroutines_def)
  next
    case (step t a)
    then show ?case using ticker_ok_perform by blast
  qed
  then show ?thesis unfolding ticker_ok_def by auto
qed

theorem ticker_goroutines_witness:
  "goroutines (unregister 4 (register 4 new_ticker)) = 1"
proof -
  have "reaches disciplined new_ticker (perform (Close 4) (perform (New 4) new_ticker))"
    by (rule step [OF step [OF here]]) (simp_all add: new_ticker_def register_def)
  from ticker_goroutines [OF this] show ?thesis
    by (simp add: new_ticker_def register_def unregister_def)
qed

text \<open>
  Closing a cache twice breaks the next one of the same duration: the second \<open>Close\<close> leaves a
  stop token that no goroutine reads, the goroutine started for the next cache reads it and ends,
  and the ticker stays marked as started with a registered cache and no goroutine, so that later
  caches of the duration are never refreshed either.
\<close>

theorem ticker_double_close:
  "\<exists>t. reaches anyhow new_ticker t \<and> tk_caches t = {7} \<and> tk_started t \<and> goroutines t = 0 \<and>
     \<not> tk_stopChan t \<and> goroutines (register c t) = 0"
proof -
  define run where "run = [New 3, Close 3, Stop, Close 3, New 7, Stop]"
  have "reaches anyhow new_ticker (fold perform run new_ticker)"
    unfolding run_def fold_simps
    by (rule step here | simp add: anyhow_def new_ticker_def register_def unregister_def)+
  moreover have "fold perform run new_ticker =
      \<lparr>tk_started = True, tk_stopChan = False, tk_caches = {7}, tk_idle = 0, tk_waiting = 0, tk_lock = Free\<rparr>"
    by (simp add: run_def new_ticker_def register_def unregister_def)
  ultimately show ?thesis by (intro exI) (auto simp: goroutines_def register_def)
qed

text \<open>
  C28. Even with disciplined callers a \<open>Close\<close> can block for ever: when a cache is closed, another
  of the same duration is created and closed before the first goroutine has read its token, and
  both goroutines have taken a tick, the second \<open>Close\<close> waits on the full channel while it holds
  the mutex that both goroutines are waiting for.
\<close>

theorem ticker_close_deadlock:
  "\<exists>t. reaches disciplined new_ticker t \<and> tk_lock t = HeldByClose \<and> goroutines t = 2 \<and>
     list_all (\<lambda>a. \<not> enabled a t) [New c, Close c, CloseSend, Tick, Lock, Unlock, Stop]"
proof -
  define run where "run = [New 3, Tick, Close 3, New 7, Tick, Close 7]"
  have "reaches disciplined new_ticker (fold perform run new_ticker)"
    unfolding run_def fold_simps
    by (rule step here | simp add: new_ticker_def register_def unregister_def)+
  moreover have "fold perform run new_ticker =
      \<lparr>tk_started = True, tk_stopChan = True, tk_caches = {}, tk_idle = 0, tk_waiting = 2, tk_lock = HeldByClose\<rparr>"
    by (simp add: run_def new_ticker_def register_def unregister_def)
  ultimately show ?thesis by (intro exI) (auto simp: goroutines_def)
qed

section \<open>Registering and closing\<close>

text \<open>
  \<open>NewAsyncCache\<close> on fresh registries succeeds exactly for a positive refresh duration and, when
  expiry is enabled, a positive expiry duration; every other option set panics. The duration 0 is
  the only one the code tests for itself.
\<close>

theorem NewAsyncCache_durations:
  "(\<exists>r. NewAsyncCache opt c \<lparr>rg_refresh = Map.empty, rg_expire = Map.empty\<rparr> = Some r) =
     (0 < op_RefreshDuration opt \<and> (if op_EnableExpire opt then 0 < op_ExpireDuration opt else True))"
  by (auto simp: NewAsyncCache_def start_def LoadOrStore_def new_ticker_def)

end
