(* ===== verification/GoFloat.thy ===== *)
theory GoFloat
  imports GoNum
begin

text \<open>
  Go's \<open>float64\<close> as far as the managers use it: \<open>strconv.ParseFloat\<close>, addition and comparison.
  A finite value is the rational number it denotes (the two zeros are one value: no operation
  used tells them apart); arithmetic is exact followed by rounding to the nearest double, ties to
  even, as IEEE 754 prescribes.
\<close>

datatype f64 = FNaN | FInf bool | FFin rat  \<comment> \<open>\<open>FInf True\<close> is minus infinity\<close>

section \<open>Rounding\<close>

fun bitlen :: "nat \<Rightarrow> nat" where
  "bitlen n = (if n = 0 then 0 else Suc (bitlen (n div 2)))"

declare bitlen.simps [simp del]

definition ilog2 :: "rat \<Rightarrow> int" where
  \<comment> \<open>the exponent \<open>e\<close> with \<open>2 ^ e \<le> x < 2 ^ (e + 1)\<close>, for positive \<open>x\<close>\<close>
  "ilog2 x =
     (let (n, d) = quotient_of x; k = int (bitlen (nat n)) - int (bitlen (nat d))
      in if rat_pow 2 k \<le> x then k else k - 1)"

definition round_half_even :: "rat \<Rightarrow> int" where
  "round_half_even x =
     (let (n, d) = quotient_of x; f = n div d; r = 2 * (n - f * d)
      in if r < d then f else if d < r then f + 1 else if even f then f else f + 1)"

definition f64_round :: "rat \<Rightarrow> f64" where
  "f64_round x =
     (if x = 0 then FFin 0
      else
        (let a = \<bar>x\<bar>; q = max (ilog2 a - 52) (- 1074);
             v = of_int (round_half_even (a * rat_pow 2 (- q))) * rat_pow 2 q
         in if 2 ^ 1024 \<le> v then FInf (x < 0) else FFin (if x < 0 then - v else v)))"

fun f64_lt :: "f64 \<Rightarrow> f64 \<Rightarrow> bool" where
  "f64_lt (FFin a) (FFin b) = (a < b)"
| "f64_lt (FFin a) (FInf s) = (\<not> s)"
| "f64_lt (FInf s) (FFin b) = s"
| "f64_lt (FInf s) (FInf t) = (s \<and> \<not> t)"
| "f64_lt _ _ = False"

fun f64_add :: "f64 \<Rightarrow> f64 \<Rightarrow> f64" where
  "f64_add (FFin a) (FFin b) = f64_round (a + b)"
| "f64_add (FFin a) (FInf s) = FInf s"
| "f64_add (FInf s) (FFin b) = FInf s"
| "f64_add (FInf s) (FInf t) = (if s = t then FInf s else FNaN)"
| "f64_add _ _ = FNaN"

lemma f64_lt_irrefl [simp]: "\<not> f64_lt a a"
  by (cases a) auto

lemma f64_lt_trans: "f64_lt a b \<Longrightarrow> f64_lt b c \<Longrightarrow> f64_lt a c"
  by (cases a; cases b; cases c) auto

lemma f64_lt_asym: "f64_lt a b \<Longrightarrow> \<not> f64_lt b a"
  using f64_lt_trans f64_lt_irrefl by blast

lemma f64_lt_linear: "a \<noteq> FNaN \<Longrightarrow> b \<noteq> FNaN \<Longrightarrow> f64_lt a b \<or> a = b \<or> f64_lt b a"
  by (cases a; cases b) auto

text \<open>\<open>int64(f)\<close> and \<open>int32(f)\<close> truncate towards zero; out of range the language leaves the result
  to the implementation, so it is an argument there.\<close>

definition rat_trunc :: "rat \<Rightarrow> int" where
  "rat_trunc x = (let (n, d) = quotient_of x in if 0 \<le> n then n div d else - ((- n) div d))"

definition f64_to_int :: "nat \<Rightarrow> (f64 \<Rightarrow> int) \<Rightarrow> f64 \<Rightarrow> int" where
  "f64_to_int w impl f =
     (case f of
        FFin x \<Rightarrow> (if in_range_s w (rat_trunc x) then rat_trunc x else impl f)
      | _ \<Rightarrow> impl f)"

lemma rat_trunc_of_int [simp]: "rat_trunc (of_int n) = n"
  by (simp add: rat_trunc_def)

section \<open>\<open>strconv.ParseFloat\<close>\<close>

definition is_hex_letter :: "char \<Rightarrow> bool" where
  "is_hex_letter c \<longleftrightarrow> (let n = (of_char (lower_char c) :: nat) in 97 \<le> n \<and> n \<le> 102)"

fun underscore_scan :: "bool \<Rightarrow> char \<Rightarrow> string \<Rightarrow> bool" where
  "underscore_scan hex saw [] = (saw \<noteq> CHR ''_'')"
| "underscore_scan hex saw (c # cs) =
     (if is_digit c \<or> hex \<and> is_hex_letter c then underscore_scan hex CHR ''0'' cs
      else if c = CHR ''_'' then (saw = CHR ''0'' \<and> underscore_scan hex CHR ''_'' cs)
      else saw \<noteq> CHR ''_'' \<and> underscore_scan hex CHR ''!'' cs)"

definition underscore_ok :: "string \<Rightarrow> bool" where
  "underscore_ok s =
     (let t = (if s \<noteq> [] \<and> (hd s = CHR ''-'' \<or> hd s = CHR ''+'') then tl s else s) in
      case t of
        z # c # u \<Rightarrow>
          (if z = CHR ''0'' \<and> lower_char c \<in> {CHR ''b'', CHR ''o'', CHR ''x''}
           then underscore_scan (lower_char c = CHR ''x'') CHR ''0'' u
           else underscore_scan False CHR ''^'' t)
      | _ \<Rightarrow> underscore_scan False CHR ''^'' t)"

fun float_digits ::
  "bool \<Rightarrow> bool \<Rightarrow> bool \<Rightarrow> bool \<Rightarrow> nat \<Rightarrow> nat \<Rightarrow> string \<Rightarrow> bool \<times> bool \<times> nat \<times> nat \<times> string" where
  \<comment> \<open>saw a point, saw digits, saw separators, value and digits after the point so far\<close>
  "float_digits hex dot dig us v fd [] = (dig, us, v, fd, [])"
| "float_digits hex dot dig us v fd (c # cs) =
     (if c = CHR ''_'' then float_digits hex dot dig True v fd cs
      else if c = CHR ''.''
      then (if dot then (dig, us, v, fd, c # cs) else float_digits hex True dig us v fd cs)
      else if is_digit c \<or> hex \<and> is_hex_letter c
      then float_digits hex dot True us (v * (if hex then 16 else 10) + char_digit c)
             (if dot then Suc fd else fd) cs
      else (dig, us, v, fd, c # cs))"

fun float_exp :: "string \<Rightarrow> bool \<Rightarrow> nat \<Rightarrow> bool \<times> nat \<times> string" where
  \<comment> \<open>the exponent stops growing once it has five digits\<close>
  "float_exp [] us e = (us, e, [])"
| "float_exp (c # cs) us e =
     (if is_digit c then float_exp cs us (if e < 10000 then e * 10 + digit_val c else e)
      else if c = CHR ''_'' then float_exp cs True e
      else (us, e, c # cs))"

definition read_float :: "string \<Rightarrow> rat option" where
  \<comment> \<open>the exact value of a number that takes up the whole string\<close>
  "read_float s =
     (let neg = (s \<noteq> [] \<and> hd s = CHR ''-'');
          t = (if s \<noteq> [] \<and> (hd s = CHR ''-'' \<or> hd s = CHR ''+'') then tl s else s);
          hex = (length t > 2 \<and> t ! 0 = CHR ''0'' \<and> lower_char (t ! 1) = CHR ''x'');
          (dig, us, v, fd, r) = float_digits hex False False False 0 0 (if hex then drop 2 t else t);
          num = (\<lambda>us e. if us \<and> \<not> underscore_ok s then None
                  else Some ((if neg then - 1 else 1) * of_nat v *
                    (if hex then rat_pow 2 (e - 4 * int fd) else rat_pow 10 (e - int fd))))
      in if \<not> dig then None
         else case r of
                [] \<Rightarrow> if hex then None else num us 0
              | c # u \<Rightarrow>
                  if lower_char c \<noteq> (if hex then CHR ''p'' else CHR ''e'') then None
                  else
                    (let eneg = (u \<noteq> [] \<and> hd u = CHR ''-'');
                         w = (if u \<noteq> [] \<and> (hd u = CHR ''-'' \<or> hd u = CHR ''+'') then tl u else u)
                     in if w = [] \<or> \<not> is_digit (hd w) then None
                        else (let (us', e, r') = float_exp w us 0
                              in if r' \<noteq> [] then None
                                 else num us' (if eneg then - int e else int e))))"

definition float_special :: "string \<Rightarrow> f64 option" where
  "float_special s =
     (let signed = (s \<noteq> [] \<and> (hd s = CHR ''-'' \<or> hd s = CHR ''+''));
          t = ToLower (if signed then tl s else s)
      in if t = ''inf'' \<or> t = ''infinity'' then Some (FInf (s \<noteq> [] \<and> hd s = CHR ''-''))
         else if \<not> signed \<and> t = ''nan'' then Some FNaN
         else None)"

definition ParseFloat :: "string \<Rightarrow> f64 option" where
  \<comment> \<open>\<open>None\<close> when Go returns an error: a syntax error, or a value out of range\<close>
  "ParseFloat s =
     (case float_special s of
        Some f \<Rightarrow> Some f
      | None \<Rightarrow>
          (case read_float s of
             None \<Rightarrow> None
           | Some x \<Rightarrow> (case f64_round x of FFin y \<Rightarrow> Some (FFin y) | _ \<Rightarrow> None)))"

end
