(* ===== verification/Convert.thy ===== *)
theory Convert
  imports GoFloat
begin

text \<open>
  \<open>src/convert/convert.go\<close>: the generic conversions. The type parameter \<open>T\<close> is its width \<open>w\<close> in bits
  (\<open>int\<close> is 64 bits wide); a conversion to \<open>T\<close> wraps. \<open>json.Marshal\<close> is an argument; the conversions to a
  time are in \<open>Rfc3339\<close>.
\<close>

definition IntToBool :: "int \<Rightarrow> bool" where
  "IntToBool value = (value \<noteq> 0)"

definition BoolToInt :: "bool \<Rightarrow> int" where
  "BoolToInt value = (if value then 1 else 0)"

definition IntToString :: "int \<Rightarrow> string" where
  "IntToString value = FormatInt value"

definition StringToInt :: "nat \<Rightarrow> string \<Rightarrow> int" where
  "StringToInt w value =
     (let (result, err) = ParseInt10 64 value in if err \<noteq> None then 0 else wrap_s w result)"

definition StringToUint64 :: "string \<Rightarrow> int" where
  "StringToUint64 value =
     (let (result, err) = ParseUint10 64 value in if err \<noteq> None then 0 else int result)"

definition StringToFloat64 :: "string \<Rightarrow> f64" where
  "StringToFloat64 value = (case ParseFloat value of None \<Rightarrow> FFin 0 | Some f \<Rightarrow> f)"

definition ConvertToJsonString :: "('a \<Rightarrow> string + string) \<Rightarrow> 'a \<Rightarrow> string" where
  \<comment> \<open>empty on an error\<close>
  "ConvertToJsonString marshal obj = (case marshal obj of Inl err \<Rightarrow> [] | Inr jsonData \<Rightarrow> jsonData)"

lemma IntToBool_BoolToInt [simp]: "IntToBool (BoolToInt b) = b"
  by (simp add: IntToBool_def BoolToInt_def)

lemma pow_mono_int: "w \<le> 64 \<Longrightarrow> (2::int) ^ (w - 1) \<le> 2 ^ 63"
  by (rule power_increasing) auto

lemma StringToInt_IntToString:
  assumes w: "0 < w" "w \<le> 64" and r: "in_range_s w x"
  shows "StringToInt w (IntToString x) = x"
proof -
  have "in_range_s 64 x" using r pow_mono_int [OF w(2)] by auto
  then have "ParseInt10 64 (FormatInt x) = (x, None)" using ParseInt10_FormatInt [of 64 x] by simp
  then show ?thesis using wrap_s_id [OF w(1) r] by (simp add: StringToInt_def IntToString_def)
qed

text \<open>
  Converting an integer of any of the widths to a string and back is the identity, and the
  result of \<open>StringToInt\<close> is always a value of its type. A decimal that fits 64 bits but not the
  type is not an error: it is reduced modulo the type's range.
\<close>

theorem convert_roundtrip:
  assumes "w \<in> {8, 16, 32, 64}"
  shows "in_range_s w (StringToInt w s) \<and>
    (in_range_s w x \<longrightarrow> StringToInt w (IntToString x) = x) \<and>
    (in_range_s 64 x \<longrightarrow> StringToInt w (IntToString x) = wrap_s w x)"
proof -
  have w: "0 < w" "w \<le> 64" using assms by auto
  have "in_range_s w (StringToInt w s)"
    using wrap_s_range [OF w(1)] w(1) by (auto simp: StringToInt_def split: prod.split)
  moreover have "in_range_s 64 x \<longrightarrow> StringToInt w (IntToString x) = wrap_s w x"
    using ParseInt10_FormatInt [of 64 x] by (auto simp: StringToInt_def IntToString_def)
  ultimately show ?thesis using StringToInt_IntToString [OF w] by blast
qed

theorem convert_roundtrip_witness:
  "StringToInt 32 (IntToString (- 7)) = - 7 \<and> StringToInt 8 (IntToString 300) = 44"
  using convert_roundtrip [of 32 "[]" "- 7"] convert_roundtrip [of 8 "[]" 300]
  by (simp add: wrap_s_def)

end
