(* ===== verification/Rfc3339.thy ===== *)
theory Rfc3339
  imports GoNum "HOL-Library.Monad_Syntax"
begin

text \<open>
  The conversions of \<open>src/convert/convert.go\<close> from a text to a time: \<open>time.Parse\<close> of the standard library at
  the layout \<open>RFC3339\<close>, the general parser step by step. Its fast path accepts a part of these texts with the
  same result. A time is an instant, in seconds and nanoseconds since the epoch, and the offset it is
  shown in; which of the locations with that offset it has is not modelled.
\<close>

section \<open>Times\<close>

record go_time =
  gt_sec :: int
  gt_nsec :: nat
  gt_offset :: int   \<comment> \<open>in seconds east of UTC\<close>

definition zero_time :: go_time where
  \<comment> \<open>\<open>time.Time{}\<close>, the beginning of the year 1\<close>
  "zero_time = \<lparr>gt_sec = - 62135596800, gt_nsec = 0, gt_offset = 0\<rparr>"

definition isLeap :: "nat \<Rightarrow> bool" where
  "isLeap year \<longleftrightarrow> year mod 4 = 0 \<and> (year mod 100 \<noteq> 0 \<or> year mod 400 = 0)"

definition daysIn :: "nat \<Rightarrow> nat \<Rightarrow> nat" where
  "daysIn month year =
     (if month = 2 then if isLeap year then 29 else 28
      else if month \<in> {4, 6, 9, 11} then 30 else 31)"

definition year_start :: "nat \<Rightarrow> int" where
  \<comment> \<open>days from the beginning of the year 0 to that of \<open>year\<close>\<close>
  "year_start year = 365 * int year + (int year + 3) div 4 - (int year + 99) div 100 + (int year + 399) div 400"

definition month_start :: "nat \<Rightarrow> nat \<Rightarrow> nat" where
  "month_start month year = sum_list (map (\<lambda>m. daysIn m year) [1..<month])"

definition day_number :: "nat \<Rightarrow> nat \<Rightarrow> nat \<Rightarrow> int" where
  "day_number year month day = year_start year + int (month_start month year + day - 1)"

definition date_seconds :: "nat \<Rightarrow> nat \<Rightarrow> nat \<Rightarrow> nat \<Rightarrow> nat \<Rightarrow> nat \<Rightarrow> int" where
  \<comment> \<open>\<open>time.Date\<close> in UTC of a date and a time of day in range\<close>
  "date_seconds year month day hour minute sec =
     (day_number year month day - 719528) * 86400 + int ((hour * 60 + minute) * 60 + sec)"

section \<open>The parser\<close>

definition getnum :: "bool \<Rightarrow> string \<Rightarrow> (nat \<times> string) option" where
  \<comment> \<open>two digits, or one if the width is not fixed\<close>
  "getnum fixed s =
     (case s of
        [] \<Rightarrow> None
      | c # r \<Rightarrow>
          if \<not> is_digit c then None
          else (case r of
                  d # r' \<Rightarrow>
                    if is_digit d then Some (digit_val c * 10 + digit_val d, r')
                    else if fixed then None else Some (digit_val c, r)
                | [] \<Rightarrow> if fixed then None else Some (digit_val c, r)))"

definition get_year :: "string \<Rightarrow> (nat \<times> string) option" where
  \<comment> \<open>\<open>stdLongYear\<close>\<close>
  "get_year s =
     (if length s < 4 \<or> \<not> list_all is_digit (take 4 s) then None
      else Some (dec_value 0 (take 4 s), drop 4 s))"

definition skip :: "char \<Rightarrow> string \<Rightarrow> string option" where
  "skip c s = (case s of [] \<Rightarrow> None | x # r \<Rightarrow> if x = c then Some r else None)"

definition ranged :: "(nat \<Rightarrow> bool) \<Rightarrow> (nat \<times> string) option \<Rightarrow> (nat \<times> string) option" where
  "ranged ok r = Option.bind r (\<lambda>(n, s). if ok n then Some (n, s) else None)"

definition parseNanoseconds :: "string \<Rightarrow> nat" where
  \<comment> \<open>the digits after the point, of which nine count\<close>
  "parseNanoseconds ds = (let ds = take 9 ds in dec_value 0 ds * 10 ^ (9 - length ds))"

definition get_fraction :: "string \<Rightarrow> nat \<times> string" where
  \<comment> \<open>a fraction of a second that the layout does not ask for\<close>
  "get_fraction s =
     (case s of
        p # d # r \<Rightarrow>
          if (p = CHR ''.'' \<or> p = CHR '','') \<and> is_digit d
          then (parseNanoseconds (takeWhile is_digit (d # r)), dropWhile is_digit (d # r))
          else (0, s)
      | _ \<Rightarrow> (0, s))"

definition get_zone :: "string \<Rightarrow> (int \<times> string) option" where
  \<comment> \<open>\<open>stdISO8601ColonTZ\<close>; an offset of 24 hours or 60 minutes is allowed\<close>
  "get_zone s =
     (if s \<noteq> [] \<and> hd s = CHR ''Z'' then Some (0, tl s)
      else if length s < 6 \<or> s ! 3 \<noteq> CHR '':'' then None
      else do {
        (hr, _) \<leftarrow> ranged (\<lambda>n. n \<le> 24) (getnum True (take 2 (drop 1 s)));
        (mm, _) \<leftarrow> ranged (\<lambda>n. n \<le> 60) (getnum True (take 2 (drop 4 s)));
        (if s ! 0 = CHR ''+'' then Some (int ((hr * 60 + mm) * 60), drop 6 s)
         else if s ! 0 = CHR ''-'' then Some (- int ((hr * 60 + mm) * 60), drop 6 s)
         else None)
      })"

definition time_Parse :: "string \<Rightarrow> go_time option" where
  "time_Parse s = do {
     (year, s) \<leftarrow> get_year s;
     s \<leftarrow> skip CHR ''-'' s;
     (month, s) \<leftarrow> ranged (\<lambda>n. 1 \<le> n \<and> n \<le> 12) (getnum True s);
     s \<leftarrow> skip CHR ''-'' s;
     (day, s) \<leftarrow> getnum True s;
     s \<leftarrow> skip CHR ''T'' s;
     (hour, s) \<leftarrow> ranged (\<lambda>n. n < 24) (getnum False s);
     s \<leftarrow> skip CHR '':'' s;
     (minute, s) \<leftarrow> ranged (\<lambda>n. n < 60) (getnum True s);
     s \<leftarrow> skip CHR '':'' s;
     (sec, s) \<leftarrow> ranged (\<lambda>n. n < 60) (getnum True s);
     (nsec, s) \<leftarrow> Some (get_fraction s);
     (offset, s) \<leftarrow> get_zone s;
     (if s = [] \<and> 1 \<le> day \<and> day \<le> daysIn month year
      then Some \<lparr>gt_sec = date_seconds year month day hour minute sec - offset, gt_nsec = nsec, gt_offset = offset\<rparr>
      else None)
   }"

definition StringToPtrTime :: "string \<Rightarrow> go_time option" where
  \<comment> \<open>\<open>nil\<close> is \<open>None\<close>\<close>
  "StringToPtrTime s = (case time_Parse s of None \<Rightarrow> None | Some t \<Rightarrow> Some t)"

definition StringToTime :: "string \<Rightarrow> go_time" where
  "StringToTime s = (case time_Parse s of None \<Rightarrow> zero_time | Some t \<Rightarrow> t)"

section \<open>The grammar\<close>

definition two :: "nat \<Rightarrow> string" where
  "two n = [digit_char (n div 10), digit_char (n mod 10)]"

datatype zone = Zulu | Offset bool nat nat  \<comment> \<open>west of UTC, hours and minutes\<close>

record rfc =
  rf_year :: nat
  rf_month :: nat
  rf_day :: nat
  rf_hour :: nat
  rf_brief :: bool                          \<comment> \<open>the hour has one digit\<close>
  rf_minute :: nat
  rf_sec :: nat
  rf_fraction :: "(bool \<times> string) option"   \<comment> \<open>after a comma, or a point; the digits\<close>
  rf_zone :: zone

fun zone_ok :: "zone \<Rightarrow> bool" where
  "zone_ok Zulu = True"
| "zone_ok (Offset west hr mm) = (hr \<le> 24 \<and> mm \<le> 60)"

fun zone_text :: "zone \<Rightarrow> string" where
  "zone_text Zulu = ''Z''"
| "zone_text (Offset west hr mm) = (if west then CHR ''-'' else CHR ''+'') # two hr @ '':'' @ two mm"

fun zone_offset :: "zone \<Rightarrow> int" where
  "zone_offset Zulu = 0"
| "zone_offset (Offset west hr mm) = (if west then - 1 else 1) * int ((hr * 60 + mm) * 60)"

fun fraction_ok :: "(bool \<times> string) option \<Rightarrow> bool" where
  "fraction_ok None = True"
| "fraction_ok (Some (comma, ds)) = (ds \<noteq> [] \<and> list_all is_digit ds)"

fun fraction_text :: "(bool \<times> string) option \<Rightarrow> string" where
  "fraction_text None = []"
| "fraction_text (Some (comma, ds)) = (if comma then CHR '','' else CHR ''.'') # ds"

fun fraction_ns :: "(bool \<times> string) option \<Rightarrow> nat" where
  \<comment> \<open>nine digits, cut or filled with zeros\<close>
  "fraction_ns None = 0"
| "fraction_ns (Some (comma, ds)) = dec_value 0 (take 9 (ds @ replicate 9 CHR ''0''))"

definition civil_ok :: "rfc \<Rightarrow> bool" where
  "civil_ok f \<longleftrightarrow> rf_year f < 10000 \<and> 1 \<le> rf_month f \<and> rf_month f \<le> 12 \<and>
     1 \<le> rf_day f \<and> rf_day f \<le> daysIn (rf_month f) (rf_year f) \<and>
     rf_hour f < 24 \<and> rf_minute f < 60 \<and> rf_sec f < 60"

definition rfc_ok :: "rfc \<Rightarrow> bool" where
  "rfc_ok f \<longleftrightarrow> civil_ok f \<and> (rf_brief f \<longrightarrow> rf_hour f < 10) \<and> fraction_ok (rf_fraction f) \<and> zone_ok (rf_zone f)"

definition rfc_text :: "rfc \<Rightarrow> string" where
  "rfc_text f = two (rf_year f div 100) @ two (rf_year f mod 100) @ ''-'' @ two (rf_month f) @ ''-'' @ two (rf_day f) @
     ''T'' @ (if rf_brief f then [digit_char (rf_hour f)] else two (rf_hour f)) @ '':'' @ two (rf_minute f) @ '':'' @
     two (rf_sec f) @ fraction_text (rf_fraction f) @ zone_text (rf_zone f)"

definition rfc_time :: "rfc \<Rightarrow> go_time" where
  "rfc_time f =
     \<lparr>gt_sec = date_seconds (rf_year f) (rf_month f) (rf_day f) (rf_hour f) (rf_minute f) (rf_sec f) - zone_offset (rf_zone f),
      gt_nsec = fraction_ns (rf_fraction f), gt_offset = zone_offset (rf_zone f)\<rparr>"

section \<open>Parsing\<close>

lemma digit_char_val: "is_digit c \<Longrightarrow> digit_char (digit_val c) = c"
  by (simp add: is_digit_def digit_char_def digit_val_def Let_def)

lemma two_val: "is_digit c \<Longrightarrow> is_digit d \<Longrightarrow> two (digit_val c * 10 + digit_val d) = [c, d]"
  using digit_val_less [of c] digit_val_less [of d] by (simp add: two_def digit_char_val)

lemma two_digits: "n < 100 \<Longrightarrow> \<exists>c d. two n = [c, d] \<and> is_digit c \<and> is_digit d \<and> n = digit_val c * 10 + digit_val d"
  by (simp add: two_def)

lemma getnum_two: "getnum True s = Some (n, r) \<longleftrightarrow> n < 100 \<and> s = two n @ r"
proof
  assume "getnum True s = Some (n, r)"
  then obtain c d where "s = c # d # r" "is_digit c" "is_digit d" "n = digit_val c * 10 + digit_val d"
    by (auto simp: getnum_def split: list.splits if_splits)
  then show "n < 100 \<and> s = two n @ r"
    using digit_val_less [of c] digit_val_less [of d] by (simp add: two_val)
next
  assume "n < 100 \<and> s = two n @ r"
  then show "getnum True s = Some (n, r)" using two_digits [of n] by (auto simp: getnum_def)
qed

lemma getnum_one_or_two:
  "getnum False s = Some (n, r) \<longleftrightarrow>
     n < 100 \<and> s = two n @ r \<or> n < 10 \<and> s = digit_char n # r \<and> (r = [] \<or> \<not> is_digit (hd r))"
proof
  assume n: "getnum False s = Some (n, r)"
  then consider (two) c d where "s = c # d # r" "is_digit c" "is_digit d" "n = digit_val c * 10 + digit_val d"
    | (one) c where "s = c # r" "is_digit c" "n = digit_val c" "r = [] \<or> \<not> is_digit (hd r)"
    by (auto simp: getnum_def split: list.splits if_splits)
  then show "n < 100 \<and> s = two n @ r \<or> n < 10 \<and> s = digit_char n # r \<and> (r = [] \<or> \<not> is_digit (hd r))"
  proof cases
    case two
    then show ?thesis using digit_val_less [of c] digit_val_less [of d] by (simp add: two_val)
  next
    case one
    then show ?thesis using digit_val_less [of c] by (simp add: digit_char_val)
  qed
next
  assume "n < 100 \<and> s = two n @ r \<or> n < 10 \<and> s = digit_char n # r \<and> (r = [] \<or> \<not> is_digit (hd r))"
  then show "getnum False s = Some (n, r)"
    using two_digits [of n] by (auto simp: getnum_def split: list.splits)
qed

lemma get_year_iff: "get_year s = Some (y, r) \<longleftrightarrow> y < 10000 \<and> s = two (y div 100) @ two (y mod 100) @ r"
proof
  assume y: "get_year s = Some (y, r)"
  then have "4 \<le> length s" by (auto simp: get_year_def split: if_splits)
  then obtain a b c d t where s: "s = a # b # c # d # t"
    by (auto simp: numeral_eq_Suc Suc_le_length_iff)
  with y have "is_digit a" "is_digit b" "is_digit c" "is_digit d" "t = r"
    and v: "y = (digit_val a * 10 + digit_val b) * 100 + (digit_val c * 10 + digit_val d)"
    by (auto simp: get_year_def split: if_splits)
  moreover define p q where "p = digit_val a * 10 + digit_val b" and "q = digit_val c * 10 + digit_val d"
  moreover from this calculation have "p < 100" "q < 100" "y = p * 100 + q"
    using digit_val_less [of a] digit_val_less [of b] digit_val_less [of c] digit_val_less [of d] by simp_all
  then have "y div 100 = p" "y mod 100 = q" "y < 10000" by simp_all
  ultimately show "y < 10000 \<and> s = two (y div 100) @ two (y mod 100) @ r" by (simp add: s two_val)
next
  assume y: "y < 10000 \<and> s = two (y div 100) @ two (y mod 100) @ r"
  define p q where "p = y div 100" and "q = y mod 100"
  then have "p < 100" "q < 100" "y = p * 100 + q" using y by (simp_all add: less_mult_imp_div_less)
  with y [folded p_def q_def] show "get_year s = Some (y, r)"
    using two_digits [of p] two_digits [of q]
    by (auto simp: get_year_def)
qed

lemma skip_iff: "skip c s = Some r \<longleftrightarrow> s = c # r"
  by (auto simp: skip_def split: list.split)

lemma ranged_iff: "ranged ok m = Some (n, s) \<longleftrightarrow> m = Some (n, s) \<and> ok n"
  by (auto simp: ranged_def split: Option.bind_splits if_splits)

lemma parseNanoseconds_eq: "parseNanoseconds ds = dec_value 0 (take 9 (ds @ replicate 9 CHR ''0''))"
proof -
  have z: "dec_value v (replicate n CHR ''0'') = v * 10 ^ n" for v n
    by (induction n arbitrary: v) (simp_all add: digit_val_def)
  show ?thesis by (simp add: parseNanoseconds_def z min_def)
qed

lemma digits_then:
  assumes "list_all is_digit ds" "r = [] \<or> \<not> is_digit (hd r)"
  shows "takeWhile is_digit (ds @ r) = ds" "dropWhile is_digit (ds @ r) = r"
  using assms by (induction ds) (auto, (cases r; auto)+)

lemma zone_text_Cons: "\<exists>c t. zone_text z = c # t \<and> c \<in> {CHR ''Z'', CHR ''-'', CHR ''+''}"
  by (cases z) simp_all

lemma get_fraction_iff:
  assumes "\<exists>z. zone_ok z \<and> r = zone_text z"
  shows "get_fraction s = (ns, r) \<longleftrightarrow>
    (\<exists>f. fraction_ok f \<and> s = fraction_text f @ r \<and> ns = fraction_ns f)"
proof
  assume g: "get_fraction s = (ns, r)"
  show "\<exists>f. fraction_ok f \<and> s = fraction_text f @ r \<and> ns = fraction_ns f"
  proof (cases "\<exists>p d t. s = p # d # t \<and> (p = CHR ''.'' \<or> p = CHR '','') \<and> is_digit d")
    case True
    then obtain p d t where s: "s = p # d # t" "p = CHR ''.'' \<or> p = CHR '',''" "is_digit d" by blast
    let ?ds = "takeWhile is_digit (d # t)"
    have "dropWhile is_digit (d # t) = r" "parseNanoseconds ?ds = ns" using g s by (auto simp: get_fraction_def)
    then have "s = fraction_text (Some (p = CHR '','', ?ds)) @ r"
      using s takeWhile_dropWhile_id [of is_digit "d # t"] by auto
    moreover have "fraction_ok (Some (p = CHR '','', ?ds))"
      using s(3) set_takeWhileD by (fastforce simp: list_all_iff)
    ultimately show ?thesis using \<open>parseNanoseconds ?ds = ns\<close>
      by (intro exI [of _ "Some (p = CHR '','', ?ds)"]) (simp add: parseNanoseconds_eq)
  next
    case False
    then have "get_fraction s = (0, s)" by (auto simp: get_fraction_def split: list.split)
    then show ?thesis using g by (intro exI [of _ None]) simp
  qed
next
  obtain c t where r: "r = c # t" "c \<in> {CHR ''Z'', CHR ''-'', CHR ''+''}"
    using assms zone_text_Cons by blast
  then have no_digit: "r = [] \<or> \<not> is_digit (hd r)" by (auto simp: is_digit_def)
  assume "\<exists>f. fraction_ok f \<and> s = fraction_text f @ r \<and> ns = fraction_ns f"
  then obtain f where f: "fraction_ok f" "s = fraction_text f @ r" "ns = fraction_ns f" by blast
  show "get_fraction s = (ns, r)"
  proof (cases f rule: fraction_ok.cases)
    case 1
    then show ?thesis using f r by (auto simp: get_fraction_def split: list.split)
  next
    case (2 comma ds)
    then obtain d ds' where "ds = d # ds'" "is_digit d" using f(1) by (cases ds) auto
    then show ?thesis using f 2 digits_then [OF _ no_digit, of ds]
      by (simp add: get_fraction_def parseNanoseconds_eq)
  qed
qed

lemma get_zone_iff: "get_zone s = Some (off, r) \<longleftrightarrow> (\<exists>z. zone_ok z \<and> s = zone_text z @ r \<and> off = zone_offset z)"
proof
  assume g: "get_zone s = Some (off, r)"
  show "\<exists>z. zone_ok z \<and> s = zone_text z @ r \<and> off = zone_offset z"
  proof (cases "s \<noteq> [] \<and> hd s = CHR ''Z''")
    case True
    then show ?thesis using g by (intro exI [of _ Zulu]) (cases s; simp add: get_zone_def)
  next
    case False
    then have "6 \<le> length s" using g by (auto simp: get_zone_def split: if_splits)
    then obtain x a b y c d t where s: "s = x # a # b # y # c # d # t"
      by (auto simp: numeral_eq_Suc Suc_le_length_iff)
    then obtain hr mm where n: "getnum True [a, b] = Some (hr, [])" "getnum True [c, d] = Some (mm, [])"
      and z: "hr \<le> 24" "mm \<le> 60" "y = CHR '':''" "r = t" "x = CHR ''+'' \<or> x = CHR ''-''"
        "off = (if x = CHR ''-'' then - 1 else 1) * int ((hr * 60 + mm) * 60)"
      using g False by (auto simp: get_zone_def ranged_iff getnum_two two_def split: Option.bind_splits if_splits)
    then show ?thesis
      by (intro exI [of _ "Offset (x = CHR ''-'') hr mm"]) (auto simp: s getnum_two)
  qed
next
  assume "\<exists>z. zone_ok z \<and> s = zone_text z @ r \<and> off = zone_offset z"
  then obtain z where z: "zone_ok z" "s = zone_text z @ r" "off = zone_offset z" by blast
  show "get_zone s = Some (off, r)"
  proof (cases z)
    case Zulu
    then show ?thesis using z by (simp add: get_zone_def)
  next
    case (Offset west hr mm)
    then have "hr < 100" "mm < 100" using z(1) by simp_all
    then have "getnum True (two hr) = Some (hr, [])" "getnum True (two mm) = Some (mm, [])" by (simp_all add: getnum_two)
    then show ?thesis using z Offset by (auto simp: get_zone_def ranged_def two_def)
  qed
qed


lemma parses:
  "y < 10000 \<Longrightarrow> get_year (two (y div 100) @ two (y mod 100) @ r) = Some (y, r)"
  "n < 100 \<Longrightarrow> getnum True (two n @ r) = Some (n, r)"
  "n < 100 \<Longrightarrow> getnum False (two n @ r) = Some (n, r)"
  "n < 10 \<Longrightarrow> getnum False (digit_char n # CHR '':'' # r) = Some (n, CHR '':'' # r)"
  "skip c (c # r) = Some r"
  "fraction_ok f \<Longrightarrow> zone_ok z \<Longrightarrow> get_fraction (fraction_text f @ zone_text z) = (fraction_ns f, zone_text z)"
  "zone_ok z \<Longrightarrow> get_zone (zone_text z) = Some (zone_offset z, [])"
proof -
  show "n < 10 \<Longrightarrow> getnum False (digit_char n # CHR '':'' # r) = Some (n, CHR '':'' # r)"
    by (simp add: getnum_one_or_two is_digit_def)
  show "fraction_ok f \<Longrightarrow> zone_ok z \<Longrightarrow> get_fraction (fraction_text f @ zone_text z) = (fraction_ns f, zone_text z)"
    by (subst get_fraction_iff) blast+
  show "zone_ok z \<Longrightarrow> get_zone (zone_text z) = Some (zone_offset z, [])"
    by (subst get_zone_iff) (intro exI [of _ z], simp)
qed (simp_all add: get_year_iff getnum_two getnum_one_or_two skip_iff)

lemma daysIn_less: "daysIn m y < 100"
  by (simp add: daysIn_def)

lemma time_Parse_text:
  assumes "rfc_ok f"
  shows "time_Parse (rfc_text f) = Some (rfc_time f)"
proof -
  have "rf_month f < 100" "rf_day f < 100" "rf_hour f < 100" "rf_minute f < 100" "rf_sec f < 100"
    using assms daysIn_less [of "rf_month f" "rf_year f"] by (simp_all add: rfc_ok_def civil_ok_def)
  with assms show ?thesis
    by (simp add: rfc_ok_def civil_ok_def time_Parse_def rfc_text_def rfc_time_def parses ranged_def)
qed

lemma time_Parse_Some:
  assumes "time_Parse s = Some t"
  shows "\<exists>f. rfc_ok f \<and> s = rfc_text f \<and> t = rfc_time f"
proof -
  obtain year s1 s2 month s3 s4 day s5 s6 hour s7 s8 minute s9 s10 sec s11 offset where
    p: "get_year s = Some (year, s1)" "skip CHR ''-'' s1 = Some s2" "getnum True s2 = Some (month, s3)"
       "skip CHR ''-'' s3 = Some s4" "getnum True s4 = Some (day, s5)" "skip CHR ''T'' s5 = Some s6"
       "getnum False s6 = Some (hour, s7)" "skip CHR '':'' s7 = Some s8" "getnum True s8 = Some (minute, s9)"
       "skip CHR '':'' s9 = Some s10" "getnum True s10 = Some (sec, s11)"
       "get_zone (snd (get_fraction s11)) = Some (offset, [])"
    and ok: "1 \<le> month" "month \<le> 12" "hour < 24" "minute < 60" "sec < 60" "1 \<le> day" "day \<le> daysIn month year"
    and t: "t = \<lparr>gt_sec = date_seconds year month day hour minute sec - offset, gt_nsec = fst (get_fraction s11), gt_offset = offset\<rparr>"
    using assms unfolding time_Parse_def
    by (auto simp: ranged_iff bind_eq_Some_conv case_prod_beta split: if_splits)
  obtain nsec s12 where g: "get_fraction s11 = (nsec, s12)" by (cases "get_fraction s11")
  obtain z where z: "zone_ok z" "s12 = zone_text z" "offset = zone_offset z"
    using p(12) g by (auto simp: get_zone_iff)
  then obtain fr where fr: "fraction_ok fr" "s11 = fraction_text fr @ s12" "nsec = fraction_ns fr"
    using get_fraction_iff [THEN iffD1, OF _ g] by blast
  have "s6 = two hour @ s7 \<or> hour < 10 \<and> s6 = [digit_char hour] @ s7" using p(7) by (auto simp: getnum_one_or_two)
  then obtain brief where b: "brief \<longrightarrow> hour < 10" "s6 = (if brief then [digit_char hour] else two hour) @ s7"
    using that [of False] that [of True] by auto
  let ?f = "\<lparr>rf_year = year, rf_month = month, rf_day = day, rf_hour = hour, rf_brief = brief, rf_minute = minute,
             rf_sec = sec, rf_fraction = fr, rf_zone = z\<rparr>"
  have year: "year < 10000" "s = two (year div 100) @ two (year mod 100) @ s1" using p(1) by (simp_all add: get_year_iff)
  have "s = rfc_text ?f"
    using p(2-6,8-11) year(2) z(2) fr(2) b(2) by (simp add: rfc_text_def getnum_two skip_iff)
  moreover have "rfc_ok ?f" using ok year(1) z(1) fr(1) b(1) by (simp add: rfc_ok_def civil_ok_def)
  moreover have "t = rfc_time ?f" using t g z(3) fr(3) by (simp add: rfc_time_def)
  ultimately show ?thesis by blast
qed

text \<open>
  C21. The texts that are read as times are exactly those of the grammar, with the time of their fields:
  besides the standard's, an hour of one digit, a fraction after a comma of which nine digits count, and
  offsets of 24 hours or 60 minutes, but no small letters, no leap second and no day that its month does
  not have. \<open>StringToTime\<close> gives the zero time on an error, as it does for a text that denotes it.
\<close>

theorem string_to_time:
  "(StringToPtrTime s = Some t \<longleftrightarrow> (\<exists>f. rfc_ok f \<and> s = rfc_text f \<and> t = rfc_time f)) \<and>
   (StringToTime s = t \<longleftrightarrow> StringToPtrTime s = Some t \<or> StringToPtrTime s = None \<and> t = zero_time)"
  using time_Parse_text time_Parse_Some [of s t]
  by (auto simp: StringToPtrTime_def StringToTime_def split: option.split)

section \<open>The calendar\<close>

lemma div_round_up:
  assumes k: "k = Suc c"
  shows "(int y + int k) div int k = (int y + int c) div int k + (if y mod k = 0 then 1 else 0)"
proof -
  define q r where "q = int y div int k" and "r = int y mod int k"
  have y: "int y = r + q * int k" by (simp add: q_def r_def)
  have r: "0 \<le> r" "r < int k" and zero: "y mod k = 0 \<longleftrightarrow> r = 0"
    using k by (simp_all add: r_def of_nat_mod [symmetric] del: of_nat_Suc)
  have up: "(int y + int c) div int k = q + (r + int c) div int k"
    using k div_mult_self1 [of "int k" "r + int c" q] by (simp add: y algebra_simps)
  have next_up: "(int y + int k) div int k = q + 1"
    using k r by (simp add: q_def)
  show ?thesis
  proof (cases "r = 0")
    case True
    then show ?thesis using k up zero next_up by simp
  next
    case False
    have "(r + int c) div int k = ((r - 1) + 1 * int k) div int k" using k by (simp add: algebra_simps)
    also have "\<dots> = 1" using r False k by (subst div_mult_self1) auto
    finally show ?thesis using False up zero next_up by simp
  qed
qed

lemma year_start_Suc: "year_start (Suc y) = year_start y + (if isLeap y then 366 else 365)"
proof -
  have d: "y mod 100 = 0 \<Longrightarrow> y mod 4 = 0" "y mod 400 = 0 \<Longrightarrow> y mod 100 = 0"
    unfolding mod_eq_0_iff_dvd by (erule dvd_trans [rotated], simp)+
  have q: "(int y + 4) div 4 = (int y + 3) div 4 + (if y mod 4 = 0 then 1 else 0)"
    "(int y + 100) div 100 = (int y + 99) div 100 + (if y mod 100 = 0 then 1 else 0)"
    "(int y + 400) div 400 = (int y + 399) div 400 + (if y mod 400 = 0 then 1 else 0)"
    by (rule div_round_up [of 4 3 y, unfolded of_nat_numeral] div_round_up [of 100 99 y, unfolded of_nat_numeral]
        div_round_up [of 400 399 y, unfolded of_nat_numeral], simp)+
  define a b c where "a = (int y + 3) div 4" and "b = (int y + 99) div 100" and "c = (int y + 399) div 400"
  define p4 p100 p400 where "p4 = (y mod 4 = 0)" and "p100 = (y mod 100 = 0)" and "p400 = (y mod 400 = 0)"
  note folds = a_def [symmetric] b_def [symmetric] c_def [symmetric] p4_def [symmetric] p100_def [symmetric] p400_def [symmetric]
  have "year_start (Suc y) = 365 * int y + 365 + (int y + 4) div 4 - (int y + 100) div 100 + (int y + 400) div 400"
  proof -
    have "int (Suc y) + 3 = int y + 4" "int (Suc y) + 99 = int y + 100" "int (Suc y) + 399 = int y + 400"
      "365 * int (Suc y) = 365 * int y + 365" by simp_all
    then show ?thesis unfolding year_start_def by (simp only:)
  qed
  then have "year_start (Suc y) = year_start y + 365 + (if p4 then 1 else 0) - (if p100 then 1 else 0) + (if p400 then 1 else 0)"
    unfolding q folds by (simp add: year_start_def folds)
  moreover have "isLeap y \<longleftrightarrow> p4 \<and> (\<not> p100 \<or> p400)" unfolding isLeap_def folds by simp
  ultimately show ?thesis using d unfolding folds by auto
qed

lemma month_start_Suc: "1 \<le> m \<Longrightarrow> month_start (Suc m) y = month_start m y + daysIn m y"
  by (simp add: month_start_def)

lemma month_start_13: "month_start 13 y = (if isLeap y then 366 else 365)"
  by (simp add: month_start_def daysIn_def upt_rec numeral_eq_Suc)

lemma month_start_mono: "1 \<le> m \<Longrightarrow> m \<le> n \<Longrightarrow> month_start m y \<le> month_start n y"
  by (induction n) (auto simp: le_Suc_eq month_start_Suc)

lemma year_start_mono: "y \<le> z \<Longrightarrow> year_start y \<le> year_start z"
  by (induction z) (auto simp: le_Suc_eq year_start_Suc)

lemma day_number_month:
  assumes "1 \<le> m" "1 \<le> d" "d \<le> daysIn m y" "m < n" "1 \<le> e"
  shows "day_number y m d < day_number y n e"
proof -
  have "month_start m y + daysIn m y \<le> month_start n y"
    using month_start_mono [of "Suc m" n y] assms by (simp add: month_start_Suc)
  then show ?thesis using assms by (simp add: day_number_def)
qed

lemma day_number_year:
  assumes "1 \<le> m" "m \<le> 12" "1 \<le> d" "d \<le> daysIn m y" "y < z" "1 \<le> n" "1 \<le> e"
  shows "day_number y m d < day_number z n e"
proof -
  have "day_number y m d < day_number y 13 1" using assms by (intro day_number_month) simp_all
  also have "\<dots> = year_start (Suc y)" by (simp add: day_number_def month_start_13 year_start_Suc)
  also have "\<dots> \<le> year_start z" using assms by (intro year_start_mono) simp
  also have "\<dots> \<le> day_number z n e" using assms by (simp add: day_number_def)
  finally show ?thesis .
qed

definition civil :: "rfc \<Rightarrow> nat list" where
  \<comment> \<open>the date and the time of day\<close>
  "civil f = [rf_year f, rf_month f, rf_day f, rf_hour f, rf_minute f, rf_sec f]"

fun earlier :: "nat list \<Rightarrow> nat list \<Rightarrow> bool" where
  "earlier (x # xs) (y # ys) = (x < y \<or> x = y \<and> earlier xs ys)"
| "earlier _ _ = False"

lemma earlier_total: "length xs = length ys \<Longrightarrow> earlier xs ys \<or> xs = ys \<or> earlier ys xs"
  by (induction xs ys rule: list_induct2) auto

lemma earlier_asym: "earlier xs ys \<Longrightarrow> \<not> earlier ys xs"
  by (induction xs ys rule: earlier.induct) auto

definition utc_seconds :: "rfc \<Rightarrow> int" where
  "utc_seconds f = date_seconds (rf_year f) (rf_month f) (rf_day f) (rf_hour f) (rf_minute f) (rf_sec f)"

lemma utc_seconds_less:
  assumes f: "civil_ok f" and g: "civil_ok g" and l: "earlier (civil f) (civil g)"
  shows "utc_seconds f < utc_seconds g"
proof -
  let ?day = "\<lambda>f. day_number (rf_year f) (rf_month f) (rf_day f)"
  let ?tod = "\<lambda>f. (rf_hour f * 60 + rf_minute f) * 60 + rf_sec f"
  have sec: "utc_seconds h = (?day h - 719528) * 86400 + int (?tod h)" for h
    by (simp add: utc_seconds_def date_seconds_def)
  have tod: "?tod f < 86400" using f by (simp add: civil_ok_def)
  have first: "1 \<le> rf_month f" "rf_month f \<le> 12" "1 \<le> rf_day f" "rf_day f \<le> daysIn (rf_month f) (rf_year f)"
    "1 \<le> rf_month g" "1 \<le> rf_day g" using f g by (simp_all add: civil_ok_def)
  consider "rf_year f < rf_year g" | "rf_year f = rf_year g" "rf_month f < rf_month g"
    | "rf_year f = rf_year g" "rf_month f = rf_month g" "rf_day f < rf_day g"
    | "rf_year f = rf_year g" "rf_month f = rf_month g" "rf_day f = rf_day g" "?tod f < ?tod g"
    using l f g by (auto simp: civil_def civil_ok_def)
  then consider (day) "?day f < ?day g" | (tod) "?day f = ?day g" "?tod f < ?tod g"
  proof cases
    case 1
    then show ?thesis using first by (intro day day_number_year)
  next
    case 2
    then show ?thesis using first by (intro day) (simp add: day_number_month)
  next
    case 3
    then show ?thesis using first by (intro day) (simp add: day_number_def)
  next
    case 4
    then show ?thesis by (intro tod) simp_all
  qed
  then show ?thesis
  proof cases
    case day
    then have "(?day f - 719528) * 86400 + 86400 \<le> (?day g - 719528) * 86400" by simp
    then show ?thesis using tod unfolding sec by linarith
  next
    case tod
    then show ?thesis unfolding sec by simp
  qed
qed

text \<open>
  Dates are ordered as their instants: of two texts of the grammar with the same zone, the one with the
  lexicographically earlier date and time of day denotes the earlier second, and only that one.
\<close>

theorem time_order:
  assumes "rfc_ok f" "rfc_ok g" "rf_zone f = rf_zone g"
  shows "gt_sec (rfc_time f) < gt_sec (rfc_time g) \<longleftrightarrow> earlier (civil f) (civil g)"
proof -
  have ok: "civil_ok f" "civil_ok g" using assms by (simp_all add: rfc_ok_def)
  have "gt_sec (rfc_time f) < gt_sec (rfc_time g) \<longleftrightarrow> utc_seconds f < utc_seconds g"
    using assms(3) by (simp add: rfc_time_def utc_seconds_def)
  moreover consider "earlier (civil f) (civil g)" | "civil f = civil g" | "earlier (civil g) (civil f)"
    using earlier_total [of "civil f" "civil g"] by (auto simp: civil_def)
  then have "utc_seconds f < utc_seconds g \<longleftrightarrow> earlier (civil f) (civil g)"
  proof cases
    case 1
    then show ?thesis using utc_seconds_less [OF ok] by simp
  next
    case 2
    then show ?thesis by (simp add: civil_def utc_seconds_def)
  next
    case 3
    then show ?thesis using utc_seconds_less [OF ok(2,1)] earlier_asym by auto
  qed
  ultimately show ?thesis by simp
qed

theorem time_order_witness:
  "gt_sec (rfc_time \<lparr>rf_year = 2023, rf_month = 12, rf_day = 31, rf_hour = 23, rf_brief = False, rf_minute = 59, rf_sec = 59,
       rf_fraction = None, rf_zone = Offset False 8 0\<rparr>) <
   gt_sec (rfc_time \<lparr>rf_year = 2024, rf_month = 2, rf_day = 29, rf_hour = 0, rf_brief = True, rf_minute = 0, rf_sec = 0,
       rf_fraction = Some (True, ''5''), rf_zone = Offset False 8 0\<rparr>)"
  by (subst time_order) (simp_all add: rfc_ok_def civil_ok_def civil_def daysIn_def isLeap_def is_digit_def)

lemma sample_times:
  "StringToPtrTime ''2024-02-29T3:05:06,5+08:00'' = Some \<lparr>gt_sec = 1709147106, gt_nsec = 500000000, gt_offset = 28800\<rparr>"
  "StringToPtrTime ''2023-02-29T03:05:06Z'' = None"
  "StringToPtrTime ''0001-01-01T00:00:00Z'' = Some zero_time"
  by (simp_all add: StringToPtrTime_def time_Parse_def zero_time_def getnum_def get_year_def skip_def ranged_def
      get_fraction_def get_zone_def parseNanoseconds_def is_digit_def digit_val_def date_seconds_def day_number_def
      year_start_def month_start_def daysIn_def isLeap_def upt_rec)

end
