(* ===== verification/ChainInfo.thy ===== *)
theory ChainInfo
  imports Convert Rows
begin

text \<open>
  \<open>src/loader/chain_info.go\<close>: the chain table with its four indexes and the client each chain is
  given when it is loaded. Dialling a client is a third-party call: whether it fails, and with
  which message, is the argument \<open>dialers\<close>; a client is represented by what it was dialled with.
  The TON client is created once and kept in the manager, also when the load that created it fails.
\<close>

section \<open>Data\<close>

type_synonym Backend = int

definition EthereumBackend :: Backend where "EthereumBackend = 1"
definition StarknetBackend :: Backend where "StarknetBackend = 2"
definition SolanaBackend :: Backend where "SolanaBackend = 3"
definition BitcoinBackend :: Backend where "BitcoinBackend = 4"
definition ZksliteBackend :: Backend where "ZksliteBackend = 5"
definition TonBackend :: Backend where "TonBackend = 6"
definition CosmosBackend :: Backend where "CosmosBackend = 7"
definition NetworkTypeBfc :: Backend where "NetworkTypeBfc = 8"
definition SuiBackend :: Backend where "SuiBackend = 9"
definition FuelBackend :: Backend where "FuelBackend = 10"

lemmas backend_defs = EthereumBackend_def StarknetBackend_def SolanaBackend_def BitcoinBackend_def
  ZksliteBackend_def TonBackend_def CosmosBackend_def NetworkTypeBfc_def SuiBackend_def FuelBackend_def

datatype client =
    EvmClient string | StarknetClient string | SolanaClient string | SuiClient string
  | TonClient string | FuelClient string

record ChainInfo =
  ci_Id :: int
  ci_ChainId :: string
  ci_RealChainId :: string
  ci_Name :: string
  ci_AliasName :: string
  ci_Backend :: Backend
  ci_Eip1559 :: int
  ci_NetworkCode :: int
  ci_Icon :: string
  ci_BlockInterval :: int
  ci_Timeout :: int
  ci_RpcEndPoint :: string
  ci_ExplorerUrl :: string
  ci_OfficialRpc :: string
  ci_MevRpc :: string
  ci_Disabled :: int
  ci_IsTestnet :: int
  ci_OrderWeight :: int
  ci_GasTokenName :: string
  ci_GasTokenAddress :: string
  ci_GasTokenDecimal :: int
  ci_GasTokenIcon :: string
  ci_EnableBlackListCheck :: int
  ci_TransferContractAddress :: "string option"
  ci_DepositContractAddress :: "string option"
  ci_Layer1 :: "string option"
  ci_Client :: "client option"

definition GetInt32ChainId :: "ChainInfo \<Rightarrow> int" where
  "GetInt32ChainId ci = wrap_s 32 (fst (ParseInt10 32 (ci_ChainId ci)))"

definition GetInt64ChainId :: "ChainInfo \<Rightarrow> int" where
  "GetInt64ChainId ci = fst (ParseInt10 64 (ci_ChainId ci))"

definition IsEvmChain :: "ChainInfo \<Rightarrow> bool" where
  "IsEvmChain ci = (ci_Backend ci = EthereumBackend)"

definition IsSvmChain :: "ChainInfo \<Rightarrow> bool" where
  "IsSvmChain ci = (ci_Backend ci = SolanaBackend)"

record ChainInfoManager =
  cm_idChains :: "int \<rightharpoonup> ChainInfo"
  cm_chainIdChains :: "string \<rightharpoonup> ChainInfo"
  cm_nameChains :: "string \<rightharpoonup> ChainInfo"
  cm_netcodeChains :: "int \<rightharpoonup> ChainInfo"
  cm_allChains :: "ChainInfo list"
  cm_tonClient :: "client option"

definition NewChainInfoManager :: ChainInfoManager where
  "NewChainInfoManager =
     \<lparr>cm_idChains = Map.empty, cm_chainIdChains = Map.empty, cm_nameChains = Map.empty,
      cm_netcodeChains = Map.empty, cm_allChains = [], cm_tonClient = None\<rparr>"

section \<open>Lookups\<close>

definition GetChainInfoAutoIds :: "ChainInfoManager \<Rightarrow> int list \<Rightarrow> int list" where
  "GetChainInfoAutoIds mgr ks = range_keys (cm_idChains mgr) ks"

definition GetChainInfoIDs :: "ChainInfoManager \<Rightarrow> string list \<Rightarrow> int list" where
  "GetChainInfoIDs mgr ks = map (StringToInt 32) (range_keys (cm_chainIdChains mgr) ks)"

definition GetChainInfoById :: "ChainInfoManager \<Rightarrow> int \<Rightarrow> ChainInfo option" where
  "GetChainInfoById mgr i = cm_idChains mgr i"

definition GetChainInfoByChainId :: "ChainInfoManager \<Rightarrow> string \<Rightarrow> ChainInfo option" where
  "GetChainInfoByChainId mgr chainId = cm_chainIdChains mgr (ToLower (TrimSpace chainId))"

definition GetChainInfoByInt32ChainId :: "ChainInfoManager \<Rightarrow> int \<Rightarrow> ChainInfo option" where
  "GetChainInfoByInt32ChainId mgr chainId = GetChainInfoByChainId mgr (FormatInt chainId)"

definition GetChainInfoByInt64ChainId :: "ChainInfoManager \<Rightarrow> int \<Rightarrow> ChainInfo option" where
  "GetChainInfoByInt64ChainId mgr chainId = GetChainInfoByChainId mgr (FormatInt chainId)"

definition GetChainInfoByName :: "ChainInfoManager \<Rightarrow> string \<Rightarrow> ChainInfo option" where
  "GetChainInfoByName mgr n = cm_nameChains mgr (ToLower (TrimSpace n))"

definition GetChainInfoByNetcode :: "ChainInfoManager \<Rightarrow> int \<Rightarrow> ChainInfo option" where
  "GetChainInfoByNetcode mgr netcode = cm_netcodeChains mgr netcode"

definition GetAllChains :: "ChainInfoManager \<Rightarrow> ChainInfo list" where
  "GetAllChains mgr = cm_allChains mgr"

section \<open>Loading\<close>

text \<open>The error message of a dial by its address, \<open>None\<close> when it succeeds.\<close>

record dialers =
  dl_evm :: "string \<Rightarrow> string option"
  dl_starknet :: "string \<Rightarrow> string option"
  dl_ton :: "string \<Rightarrow> string option"

definition ConfigURLTestnet :: string where
  "ConfigURLTestnet = ''https://tonutils.com/testnet-global.config.json''"

definition ConfigURLMainnet :: string where
  "ConfigURLMainnet = ''https://tonutils.com/global.config.json''"

definition trim_chain :: "ChainInfo \<Rightarrow> ChainInfo" where
  "trim_chain c = c
     \<lparr>ci_ChainId := TrimSpace (ci_ChainId c),
      ci_RealChainId := TrimSpace (ci_RealChainId c),
      ci_Name := TrimSpace (ci_Name c),
      ci_AliasName := TrimSpace (ci_AliasName c),
      ci_Icon := TrimSpace (ci_Icon c),
      ci_RpcEndPoint := TrimSpace (ci_RpcEndPoint c),
      ci_ExplorerUrl := TrimSpace (ci_ExplorerUrl c),
      ci_OfficialRpc := TrimSpace (ci_OfficialRpc c),
      ci_MevRpc := TrimSpace (ci_MevRpc c),
      ci_GasTokenName := TrimSpace (ci_GasTokenName c),
      ci_GasTokenAddress := TrimSpace (ci_GasTokenAddress c),
      ci_GasTokenIcon := TrimSpace (ci_GasTokenIcon c),
      ci_TransferContractAddress := map_option TrimSpace (ci_TransferContractAddress c),
      ci_DepositContractAddress := map_option TrimSpace (ci_DepositContractAddress c),
      ci_Layer1 := map_option TrimSpace (ci_Layer1 c)\<rparr>"

definition dial ::
  "dialers \<Rightarrow> ChainInfo \<Rightarrow> client option \<Rightarrow> (string \<times> string) + (client option \<times> client option)" where
  \<comment> \<open>the message and error of a failed dial, or the chain's client and the manager's TON client\<close>
  "dial d c ton =
     (if ci_Backend c = EthereumBackend
      then (case dl_evm d (ci_RpcEndPoint c) of
              Some e \<Rightarrow> Inl (''create evm client error'', e)
            | None \<Rightarrow> Inr (Some (EvmClient (ci_RpcEndPoint c)), ton))
      else if ci_Backend c = StarknetBackend
      then (case dl_starknet d (ci_RpcEndPoint c) of
              Some e \<Rightarrow> Inl (''create starknet client error'', e)
            | None \<Rightarrow> Inr (Some (StarknetClient (ci_RpcEndPoint c)), ton))
      else if ci_Backend c = SolanaBackend then Inr (Some (SolanaClient (ci_RpcEndPoint c)), ton)
      else if ci_Backend c = SuiBackend then Inr (Some (SuiClient (ci_RpcEndPoint c)), ton)
      else if ci_Backend c = TonBackend
      then (case ton of
              None \<Rightarrow>
                (let configUrl = (if ci_IsTestnet c = 0 then ConfigURLMainnet else ConfigURLTestnet)
                 in case dl_ton d configUrl of
                      Some e \<Rightarrow> Inl (''create ton client error'', e)
                    | None \<Rightarrow> Inr (Some (TonClient configUrl), Some (TonClient configUrl)))
            | Some t \<Rightarrow> Inr (Some t, ton))
      else if ci_Backend c = FuelBackend then Inr (Some (FuelClient (ci_RpcEndPoint c)), ton)
      else Inr (ci_Client c, ton))"

definition put_chain :: "ChainInfo \<Rightarrow> ChainInfoManager \<Rightarrow> ChainInfoManager" where
  "put_chain c m = m
     \<lparr>cm_idChains := (cm_idChains m)(ci_Id c \<mapsto> c),
      cm_chainIdChains := (cm_chainIdChains m)(ToLower (ci_ChainId c) \<mapsto> c),
      cm_nameChains := (cm_nameChains m)(ToLower (ci_Name c) \<mapsto> c),
      cm_netcodeChains := (cm_netcodeChains m)(ci_NetworkCode c \<mapsto> c),
      cm_allChains := cm_allChains m @ [c]\<rparr>"

definition load_chain :: "dialers \<Rightarrow> ChainInfo \<Rightarrow> ChainInfoManager \<Rightarrow> alert list \<times> ChainInfoManager" where
  \<comment> \<open>the body of the row loop; the local indexes are those of the manager under construction\<close>
  "load_chain d row m =
     (let c = trim_chain row in
      case dial d c (cm_tonClient m) of
        Inl (msg, e) \<Rightarrow> ([(msg, Some e)], m)
      | Inr (cl, ton) \<Rightarrow> ([], put_chain (c\<lparr>ci_Client := cl\<rparr>) (m\<lparr>cm_tonClient := ton\<rparr>)))"

definition LoadAllChains ::
  "dialers \<Rightarrow> ChainInfo query \<Rightarrow> ChainInfoManager \<Rightarrow> alert list \<times> ChainInfoManager" where
  "LoadAllChains d q mgr =
     (case q of
        QueryErr e \<Rightarrow> ([(''select t_chain_info error'', Some e)], mgr)
      | Rows rs err \<Rightarrow>
          (let (al, m) = scan_loop ''scan t_chain_info row error'' (load_chain d) rs
                           (NewChainInfoManager\<lparr>cm_tonClient := cm_tonClient mgr\<rparr>)
           in case err of
                Some e \<Rightarrow> (al @ [(''get next t_chain_info row error'', Some e)],
                           mgr\<lparr>cm_tonClient := cm_tonClient m\<rparr>)
              | None \<Rightarrow> (al, m)))"

section \<open>Properties\<close>

definition chain_view where
  "chain_view m = (cm_idChains m, cm_chainIdChains m, cm_nameChains m, cm_netcodeChains m, cm_allChains m)"

definition chain_ok :: "ChainInfo \<Rightarrow> bool" where
  "chain_ok c \<longleftrightarrow> TrimSpace (ci_Name c) = ci_Name c \<and> TrimSpace (ci_ChainId c) = ci_ChainId c"

definition chain_indexes_ok :: "ChainInfoManager \<Rightarrow> bool" where
  \<comment> \<open>every index is the map of the last row of \<open>allChains\<close> with the key\<close>
  "chain_indexes_ok m \<longleftrightarrow>
     cm_idChains m = (\<lambda>i. last_row (\<lambda>c. ci_Id c = i) (cm_allChains m)) \<and>
     cm_chainIdChains m = (\<lambda>k. last_row (\<lambda>c. ToLower (ci_ChainId c) = k) (cm_allChains m)) \<and>
     cm_nameChains m = (\<lambda>k. last_row (\<lambda>c. ToLower (ci_Name c) = k) (cm_allChains m)) \<and>
     cm_netcodeChains m = (\<lambda>n. last_row (\<lambda>c. ci_NetworkCode c = n) (cm_allChains m)) \<and>
     list_all chain_ok (cm_allChains m)"

interpretation chains_by_id: row_index cm_idChains put_chain ci_Id "\<lambda>c. c" "\<lambda>_. True"
  by unfold_locales (auto simp: put_chain_def)

interpretation chains_by_chain_id: row_index cm_chainIdChains put_chain
  "\<lambda>c. ToLower (ci_ChainId c)" "\<lambda>c. c" "\<lambda>_. True"
  by unfold_locales (auto simp: put_chain_def)

interpretation chains_by_name: row_index cm_nameChains put_chain
  "\<lambda>c. ToLower (ci_Name c)" "\<lambda>c. c" "\<lambda>_. True"
  by unfold_locales (auto simp: put_chain_def)

interpretation chains_by_netcode: row_index cm_netcodeChains put_chain ci_NetworkCode "\<lambda>c. c" "\<lambda>_. True"
  by unfold_locales (auto simp: put_chain_def)

interpretation chains_all: row_group "\<lambda>m (u::unit). cm_allChains m" put_chain "\<lambda>_. ()" "\<lambda>c. c" "\<lambda>_. True"
  by unfold_locales (auto simp: put_chain_def)

lemma chain_indexes_put:
  "chain_indexes_ok m \<Longrightarrow> chain_ok c \<Longrightarrow> chain_indexes_ok (put_chain c (m\<lparr>cm_tonClient := t\<rparr>))"
  by (auto simp: chain_indexes_ok_def put_chain_def)

lemma trim_chain_ok: "chain_ok (trim_chain c\<lparr>ci_Client := cl\<rparr>)"
  by (simp add: chain_ok_def trim_chain_def)

lemma chain_indexes_load: "chain_indexes_ok m \<Longrightarrow> chain_indexes_ok (snd (load_chain d row m))"
  by (auto simp: load_chain_def Let_def chain_indexes_put trim_chain_ok split: sum.split prod.split)

lemma chain_indexes_view: "chain_indexes_ok (m\<lparr>cm_tonClient := t\<rparr>) = chain_indexes_ok m"
  by (simp add: chain_indexes_ok_def)

lemma chain_indexes_LoadAll:
  assumes m: "chain_indexes_ok m"
  shows "chain_indexes_ok (snd (LoadAllChains d q m))"
proof (cases q)
  case (QueryErr e)
  then show ?thesis using m by (simp add: LoadAllChains_def)
next
  case (Rows rs err)
  have "chain_indexes_ok (NewChainInfoManager\<lparr>cm_tonClient := cm_tonClient m\<rparr>)"
    by (simp add: chain_indexes_ok_def NewChainInfoManager_def)
  then have "chain_indexes_ok (snd (scan_loop ''scan t_chain_info row error'' (load_chain d) rs
      (NewChainInfoManager\<lparr>cm_tonClient := cm_tonClient m\<rparr>)))"
    by (rule scan_loop_invariant [rotated]) (rule chain_indexes_load)
  then show ?thesis using Rows m
    by (cases err) (simp_all add: LoadAllChains_def chain_indexes_view case_prod_unfold Let_def)
qed

definition chain_history :: "(dialers \<times> ChainInfo query) list \<Rightarrow> ChainInfoManager" where
  "chain_history loads = fold (\<lambda>(d, q) m. snd (LoadAllChains d q m)) loads NewChainInfoManager"

lemma chain_history_ok: "chain_indexes_ok (chain_history loads)"
proof -
  have "chain_indexes_ok (fold (\<lambda>(d, q) m. snd (LoadAllChains d q m)) loads m)"
    if "chain_indexes_ok m" for m
    using that by (induction loads arbitrary: m) (auto simp: chain_indexes_LoadAll)
  moreover have "chain_indexes_ok NewChainInfoManager"
    by (simp add: chain_indexes_ok_def NewChainInfoManager_def)
  ultimately show ?thesis unfolding chain_history_def by blast
qed

lemma chain_index_keys:
  assumes "chain_indexes_ok m"
  shows "cm_nameChains m (norm_key s) = last_row (\<lambda>c. norm_key (ci_Name c) = norm_key s) (cm_allChains m)"
    and "cm_chainIdChains m (norm_key s) =
      last_row (\<lambda>c. norm_key (ci_ChainId c) = norm_key s) (cm_allChains m)"
proof -
  have "ToLower (ci_Name c) = norm_key (ci_Name c) \<and> ToLower (ci_ChainId c) = norm_key (ci_ChainId c)"
    if "c \<in> set (cm_allChains m)" for c
    using assms that by (auto simp: chain_indexes_ok_def chain_ok_def norm_key_def list_all_iff)
  then have "last_row (\<lambda>c. ToLower (ci_Name c) = k) (cm_allChains m) =
      last_row (\<lambda>c. norm_key (ci_Name c) = k) (cm_allChains m)"
    and "last_row (\<lambda>c. ToLower (ci_ChainId c) = k) (cm_allChains m) =
      last_row (\<lambda>c. norm_key (ci_ChainId c) = k) (cm_allChains m)" for k
    unfolding last_row_def by (auto intro!: find_cong)
  then show "cm_nameChains m (norm_key s) =
      last_row (\<lambda>c. norm_key (ci_Name c) = norm_key s) (cm_allChains m)"
    and "cm_chainIdChains m (norm_key s) =
      last_row (\<lambda>c. norm_key (ci_ChainId c) = norm_key s) (cm_allChains m)"
    using assms by (simp_all add: chain_indexes_ok_def)
qed

text \<open>
  C12. After any sequence of loads, failed ones included, the five ways to look a chain up agree: each
  returns the last chain of \<open>GetAllChains\<close> with that key, names and chain ids compared up to case
  and surrounding space.
\<close>

theorem chain_lookups_agree:
  "GetChainInfoById (chain_history loads) i =
     last_row (\<lambda>c. ci_Id c = i) (GetAllChains (chain_history loads)) \<and>
   GetChainInfoByChainId (chain_history loads) s =
     last_row (\<lambda>c. norm_key (ci_ChainId c) = norm_key s) (GetAllChains (chain_history loads)) \<and>
   GetChainInfoByInt64ChainId (chain_history loads) j =
     last_row (\<lambda>c. norm_key (ci_ChainId c) = norm_key (FormatInt j)) (GetAllChains (chain_history loads)) \<and>
   GetChainInfoByName (chain_history loads) s =
     last_row (\<lambda>c. norm_key (ci_Name c) = norm_key s) (GetAllChains (chain_history loads)) \<and>
   GetChainInfoByNetcode (chain_history loads) i =
     last_row (\<lambda>c. ci_NetworkCode c = i) (GetAllChains (chain_history loads))"
  using chain_history_ok [of loads] chain_index_keys [OF chain_history_ok [of loads]]
  by (simp add: chain_indexes_ok_def GetChainInfoById_def GetChainInfoByChainId_def
      GetChainInfoByInt64ChainId_def GetChainInfoByName_def GetChainInfoByNetcode_def
      GetAllChains_def ToLower_TrimSpace)

text \<open>
  The numeric chain ids: a decimal id within 64 bits is returned unchanged by \<open>GetInt64ChainId\<close>,
  and finds the chain again; \<open>GetInt32ChainId\<close> drops the range error, so every id of more than 31
  bits becomes the same number, the largest \<open>int32\<close>.
\<close>

theorem chain_numeric_ids:
  assumes "ci_ChainId c = FormatInt i" and "in_range_s 64 i"
  shows "GetInt64ChainId c = i \<and>
    GetChainInfoByInt64ChainId mgr (GetInt64ChainId c) = GetChainInfoByChainId mgr (ci_ChainId c) \<and>
    GetInt32ChainId c = (if i < - (2 ^ 31) then - (2 ^ 31) else if 2 ^ 31 \<le> i then 2 ^ 31 - 1 else i)"
proof -
  have "ParseInt10 64 (FormatInt i) = (i, None)" using ParseInt10_FormatInt [of 64 i] assms(2) by simp
  moreover have "fst (ParseInt10 32 (FormatInt i)) =
      (if i < - (2 ^ 31) then - (2 ^ 31) else if 2 ^ 31 \<le> i then 2 ^ 31 - 1 else i)"
    using ParseInt10_saturates [of 32 i] by simp
  moreover have "wrap_s 32 (fst (ParseInt10 32 s)) = fst (ParseInt10 32 s)" for s
    by (rule wrap_s_id) (use ParseInt10_range [of 32 s] in auto)
  then have "GetInt32ChainId c = fst (ParseInt10 32 (FormatInt i))"
    by (simp only: GetInt32ChainId_def assms(1))
  ultimately show ?thesis using assms(1)
    by (simp add: GetInt64ChainId_def GetChainInfoByInt64ChainId_def)
qed

definition sample_chain :: ChainInfo where
  "sample_chain =
     \<lparr>ci_Id = 1, ci_ChainId = FormatInt 5000000000, ci_RealChainId = ''5000000000'', ci_Name = '' Base '',
      ci_AliasName = ''base'', ci_Backend = EthereumBackend, ci_Eip1559 = 1, ci_NetworkCode = 3,
      ci_Icon = [], ci_BlockInterval = 2, ci_Timeout = 10, ci_RpcEndPoint = ''http://node'',
      ci_ExplorerUrl = [], ci_OfficialRpc = [], ci_MevRpc = [], ci_Disabled = 0, ci_IsTestnet = 0,
      ci_OrderWeight = 0, ci_GasTokenName = ''ETH'', ci_GasTokenAddress = ''0x0'',
      ci_GasTokenDecimal = 18, ci_GasTokenIcon = [], ci_EnableBlackListCheck = 0,
      ci_TransferContractAddress = None, ci_DepositContractAddress = None, ci_Layer1 = None,
      ci_Client = None\<rparr>"

theorem chain_numeric_ids_witness:
  "GetInt64ChainId sample_chain = 5000000000 \<and> GetInt32ChainId sample_chain = 2147483647"
  using chain_numeric_ids [of sample_chain 5000000000] by (simp add: sample_chain_def)

end
