(* ===== verification/TokenInfo.thy ===== *)
theory TokenInfo
  imports ChainInfo
begin

text \<open>
  \<open>src/loader/token_info.go\<close>: the token table, indexed by chain name or chain id and by token
  address or name, completed with the gas token of every chain of the chain manager. The chain
  manager of a load is an argument, and so is the order in which its ids come.
\<close>

section \<open>Data\<close>

record TokenInfo =
  ti_Id :: int
  ti_TokenName :: string
  ti_ChainName :: string
  ti_ChainId :: int
  ti_TokenAddress :: string
  ti_Decimals :: int
  ti_FullName :: string
  ti_TotalSupply :: "int option"
  ti_Icon :: string
  ti_Url :: string

definition zero_token :: TokenInfo where
  "zero_token =
     \<lparr>ti_Id = 0, ti_TokenName = [], ti_ChainName = [], ti_ChainId = 0, ti_TokenAddress = [],
      ti_Decimals = 0, ti_FullName = [], ti_TotalSupply = None, ti_Icon = [], ti_Url = []\<rparr>"

type_synonym 'k token_index = "'k \<Rightarrow> (string \<rightharpoonup> TokenInfo) option"

record TokenInfoManager =
  tm_chainNameTokenAddrs :: "string token_index"
  tm_chainNameTokenNames :: "string token_index"
  tm_chainIdTokenAddrs :: "int token_index"
  tm_chainIdTokenNames :: "int token_index"
  tm_allTokens :: "TokenInfo list"

definition NewTokenInfoManager :: TokenInfoManager where
  "NewTokenInfoManager =
     \<lparr>tm_chainNameTokenAddrs = Map.empty, tm_chainNameTokenNames = Map.empty,
      tm_chainIdTokenAddrs = Map.empty, tm_chainIdTokenNames = Map.empty, tm_allTokens = []\<rparr>"

section \<open>Lookups\<close>

definition GetByChainNameTokenAddr :: "TokenInfoManager \<Rightarrow> string \<Rightarrow> string \<Rightarrow> TokenInfo option" where
  "GetByChainNameTokenAddr mgr chainName tokenAddr =
     get2 (tm_chainNameTokenAddrs mgr) (ToLower (TrimSpace chainName)) (ToLower (TrimSpace tokenAddr))"

definition GetByChainIdTokenAddr :: "TokenInfoManager \<Rightarrow> int \<Rightarrow> string \<Rightarrow> TokenInfo option" where
  "GetByChainIdTokenAddr mgr chainId tokenAddr =
     get2 (tm_chainIdTokenAddrs mgr) chainId (ToLower (TrimSpace tokenAddr))"

definition GetByChainNameTokenName :: "TokenInfoManager \<Rightarrow> string \<Rightarrow> string \<Rightarrow> TokenInfo option" where
  "GetByChainNameTokenName mgr chainName tokenName =
     get2 (tm_chainNameTokenNames mgr) (ToLower (TrimSpace chainName)) (ToLower (TrimSpace tokenName))"

definition GetByChainIdTokenName :: "TokenInfoManager \<Rightarrow> int \<Rightarrow> string \<Rightarrow> TokenInfo option" where
  "GetByChainIdTokenName mgr chainId tokenName =
     get2 (tm_chainIdTokenNames mgr) chainId (ToLower (TrimSpace tokenName))"

definition GetTokenAddresses :: "TokenInfoManager \<Rightarrow> string \<Rightarrow> string list \<Rightarrow> string list" where
  "GetTokenAddresses mgr chainName ks =
     map ti_TokenAddress
       (range_vals (inner (tm_chainNameTokenAddrs mgr) (ToLower (TrimSpace chainName))) ks)"

definition GetTokenAddressesByChainId :: "TokenInfoManager \<Rightarrow> int \<Rightarrow> string list \<Rightarrow> string list" where
  "GetTokenAddressesByChainId mgr chainId ks =
     map ti_TokenAddress (range_vals (inner (tm_chainIdTokenAddrs mgr) chainId) ks)"

definition GetAllTokens :: "TokenInfoManager \<Rightarrow> TokenInfo list" where
  "GetAllTokens mgr = tm_allTokens mgr"

section \<open>Adding tokens\<close>

definition AddTokenInfo :: "TokenInfo \<Rightarrow> TokenInfoManager \<Rightarrow> TokenInfoManager" where
  "AddTokenInfo t mgr = mgr
     \<lparr>tm_chainNameTokenAddrs :=
        put2 (ToLower (ti_ChainName t)) (ToLower (ti_TokenAddress t)) t (tm_chainNameTokenAddrs mgr),
      tm_chainNameTokenNames :=
        put2 (ToLower (ti_ChainName t)) (ToLower (ti_TokenName t)) t (tm_chainNameTokenNames mgr)\<rparr>"

definition AddToken ::
  "string \<Rightarrow> string \<Rightarrow> string \<Rightarrow> int \<Rightarrow> TokenInfoManager \<Rightarrow> TokenInfoManager" where
  "AddToken chainName tokenName tokenAddr decimals mgr =
     AddTokenInfo
       (zero_token\<lparr>ti_ChainName := TrimSpace chainName, ti_TokenAddress := TrimSpace tokenAddr,
                   ti_TokenName := TrimSpace tokenName, ti_Decimals := decimals\<rparr>) mgr"

section \<open>Loading\<close>

definition trim_token :: "TokenInfo \<Rightarrow> TokenInfo" where
  "trim_token t = t
     \<lparr>ti_ChainName := TrimSpace (ti_ChainName t), ti_TokenAddress := TrimSpace (ti_TokenAddress t),
      ti_TokenName := TrimSpace (ti_TokenName t), ti_Icon := TrimSpace (ti_Icon t)\<rparr>"

definition put_token :: "TokenInfo \<Rightarrow> TokenInfoManager \<Rightarrow> TokenInfoManager" where
  "put_token row m =
     (let t = trim_token row;
          m = AddTokenInfo t m;
          m = (if 0 < ti_ChainId t
               then m\<lparr>tm_chainIdTokenAddrs :=
                        put2 (ti_ChainId t) (ToLower (ti_TokenAddress t)) t (tm_chainIdTokenAddrs m),
                      tm_chainIdTokenNames :=
                        put2 (ti_ChainId t) (ToLower (ti_TokenName t)) t (tm_chainIdTokenNames m)\<rparr>
               else m)
      in m\<lparr>tm_allTokens := tm_allTokens m @ [t]\<rparr>)"

definition gas_token :: "ChainInfo \<Rightarrow> TokenInfo" where
  "gas_token c = zero_token
     \<lparr>ti_ChainName := ci_Name c, ti_TokenAddress := ci_GasTokenAddress c,
      ti_TokenName := ci_GasTokenName c, ti_Decimals := ci_GasTokenDecimal c,
      ti_Icon := ci_GasTokenIcon c\<rparr>"

definition ensure :: "'a \<Rightarrow> ('a \<Rightarrow> ('b \<rightharpoonup> 'c) option) \<Rightarrow> 'a \<Rightarrow> ('b \<rightharpoonup> 'c) option" where
  "ensure a m = m(a \<mapsto> inner m a)"

definition add_gas :: "ChainInfo \<Rightarrow> TokenInfoManager \<Rightarrow> TokenInfoManager" where
  "add_gas c m =
     (let t = gas_token c;
          m = m\<lparr>tm_chainNameTokenAddrs := ensure (ToLower (ti_ChainName t)) (tm_chainNameTokenAddrs m),
                tm_chainNameTokenNames := ensure (ToLower (ti_ChainName t)) (tm_chainNameTokenNames m)\<rparr>
      in if get2 (tm_chainNameTokenNames m) (ToLower (ti_ChainName t)) (ToLower (ti_TokenName t)) = None
         then (AddTokenInfo t m)\<lparr>tm_allTokens := tm_allTokens m @ [t]\<rparr>
         else m)"

definition gas_chains :: "ChainInfoManager \<Rightarrow> int list \<Rightarrow> ChainInfo list" where
  \<comment> \<open>the chains in the order \<open>ids\<close> of \<open>GetChainInfoAutoIds\<close>\<close>
  "gas_chains cm ids =
     concat (map (\<lambda>i. case GetChainInfoById cm i of None \<Rightarrow> [] | Some c \<Rightarrow> [c])
       (GetChainInfoAutoIds cm ids))"

definition load_tokens ::
  "ChainInfoManager \<Rightarrow> int list \<Rightarrow> TokenInfo query \<Rightarrow> TokenInfoManager \<Rightarrow> alert list \<times> TokenInfoManager" where
  "load_tokens cm ids =
     load_table ''select t_token_info error'' ''scan t_token_info row error''
       ''get next t_token_info row error'' (\<lambda>r m. ([], put_token r m)) NewTokenInfoManager
       (\<lambda>m mgr. fold add_gas (gas_chains cm ids) m)"

definition LoadAllToken ::
  "ChainInfoManager option \<Rightarrow> int list \<Rightarrow> TokenInfo query \<Rightarrow> TokenInfoManager \<Rightarrow>
   (alert list \<times> TokenInfoManager) option" where
  \<comment> \<open>\<open>None\<close> is the panic on a nil chain manager\<close>
  "LoadAllToken cm ids q mgr =
     (case cm of None \<Rightarrow> None | Some cm \<Rightarrow> Some (load_tokens cm ids q mgr))"

section \<open>The indexes after a load\<close>

lemma get2_ensure [simp]: "get2 (ensure a m) a' b = get2 m a' b"
  by (simp add: ensure_def get2_inner)

lemmas trim_token_simps [simp] = trim_token_def [THEN arg_cong [where f = ti_ChainName], simplified]
  trim_token_def [THEN arg_cong [where f = ti_TokenName], simplified]
  trim_token_def [THEN arg_cong [where f = ti_TokenAddress], simplified]
  trim_token_def [THEN arg_cong [where f = ti_ChainId], simplified]

lemma put_token_get:
  "get2 (tm_chainNameTokenNames (put_token r m)) a b =
     (if ToLower (TrimSpace (ti_ChainName r)) = a \<and> ToLower (TrimSpace (ti_TokenName r)) = b
      then Some (trim_token r) else get2 (tm_chainNameTokenNames m) a b)"
  "get2 (tm_chainNameTokenAddrs (put_token r m)) a b =
     (if ToLower (TrimSpace (ti_ChainName r)) = a \<and> ToLower (TrimSpace (ti_TokenAddress r)) = b
      then Some (trim_token r) else get2 (tm_chainNameTokenAddrs m) a b)"
  "get2 (tm_chainIdTokenNames (put_token r m)) i b =
     (if 0 < ti_ChainId r \<and> ti_ChainId r = i \<and> ToLower (TrimSpace (ti_TokenName r)) = b
      then Some (trim_token r) else get2 (tm_chainIdTokenNames m) i b)"
  "get2 (tm_chainIdTokenAddrs (put_token r m)) i b =
     (if 0 < ti_ChainId r \<and> ti_ChainId r = i \<and> ToLower (TrimSpace (ti_TokenAddress r)) = b
      then Some (trim_token r) else get2 (tm_chainIdTokenAddrs m) i b)"
  by (auto simp: put_token_def AddTokenInfo_def Let_def)

interpretation token_names: row_index "\<lambda>m (a, b). get2 (tm_chainNameTokenNames m) a b" put_token
  "\<lambda>r. (norm_key (ti_ChainName r), norm_key (ti_TokenName r))" trim_token "\<lambda>_. True"
  by unfold_locales (auto simp: put_token_get norm_key_def split: if_split_asm)

interpretation token_addrs: row_index "\<lambda>m (a, b). get2 (tm_chainNameTokenAddrs m) a b" put_token
  "\<lambda>r. (norm_key (ti_ChainName r), norm_key (ti_TokenAddress r))" trim_token "\<lambda>_. True"
  by unfold_locales (auto simp: put_token_get norm_key_def split: if_split_asm)

interpretation token_id_names: row_index "\<lambda>m (i, b). get2 (tm_chainIdTokenNames m) i b" put_token
  "\<lambda>r. (ti_ChainId r, norm_key (ti_TokenName r))" trim_token "\<lambda>r. 0 < ti_ChainId r"
  by unfold_locales (auto simp: put_token_get norm_key_def split: if_split_asm)

interpretation token_id_addrs: row_index "\<lambda>m (i, b). get2 (tm_chainIdTokenAddrs m) i b" put_token
  "\<lambda>r. (ti_ChainId r, norm_key (ti_TokenAddress r))" trim_token "\<lambda>r. 0 < ti_ChainId r"
  by unfold_locales (auto simp: put_token_get norm_key_def split: if_split_asm)

interpretation token_load: reloadable "load_tokens cm ids" good_query "\<lambda>m. m"
  "\<lambda>q. fold add_gas (gas_chains cm ids) (fold put_token (query_rows q) NewTokenInfoManager)" for cm ids
  unfolding load_tokens_def
  using load_table_reloadable [where view = "\<lambda>m. m" and h = "fold add_gas (gas_chains cm ids)"
      and body = "\<lambda>r m. ([], put_token r m)"] by simp

lemma load_tokens_Rows:
  "snd (load_tokens cm ids (Rows rs None) mgr) =
     fold add_gas (gas_chains cm ids) (fold put_token (scanned rs) NewTokenInfoManager)"
  using token_load.load_good [of "Rows rs None" cm ids mgr] by simp

lemma add_gas_simps:
  "tm_chainIdTokenNames (add_gas c m) = tm_chainIdTokenNames m"
  "tm_chainIdTokenAddrs (add_gas c m) = tm_chainIdTokenAddrs m"
  "get2 (tm_chainNameTokenNames (add_gas c m)) a b =
     (case get2 (tm_chainNameTokenNames m) a b of
        Some t \<Rightarrow> Some t
      | None \<Rightarrow> if ToLower (ci_Name c) = a \<and> ToLower (ci_GasTokenName c) = b then Some (gas_token c) else None)"
  "get2 (tm_chainNameTokenAddrs (add_gas c m)) a b =
     (if get2 (tm_chainNameTokenNames m) (ToLower (ci_Name c)) (ToLower (ci_GasTokenName c)) = None \<and>
         ToLower (ci_Name c) = a \<and> ToLower (ci_GasTokenAddress c) = b
      then Some (gas_token c) else get2 (tm_chainNameTokenAddrs m) a b)"
  by (auto simp: add_gas_def AddTokenInfo_def Let_def gas_token_def split: option.split)

lemma fold_add_gas_names:
  "get2 (tm_chainNameTokenNames (fold add_gas cs m)) a b =
     (case get2 (tm_chainNameTokenNames m) a b of
        Some t \<Rightarrow> Some t
      | None \<Rightarrow> map_option gas_token
          (find (\<lambda>c. ToLower (ci_Name c) = a \<and> ToLower (ci_GasTokenName c) = b) cs))"
  by (induction cs arbitrary: m) (auto simp: add_gas_simps split: option.split)

lemma fold_add_gas_ids:
  "tm_chainIdTokenNames (fold add_gas cs m) = tm_chainIdTokenNames m"
  "tm_chainIdTokenAddrs (fold add_gas cs m) = tm_chainIdTokenAddrs m"
  by (induction cs arbitrary: m) (simp_all add: add_gas_simps)

text \<open>
  C17. Lookup by chain and token name after a load: the last scanned row with these names wins; only
  when there is none, the gas token of the first chain with the name is found. A gas token never
  hides a token of the table.
\<close>

theorem token_by_name:
  "GetByChainNameTokenName (snd (load_tokens cm ids (Rows rs None) mgr)) chainName tokenName =
     (case last_row (\<lambda>r. norm_key (ti_ChainName r) = norm_key chainName \<and>
                         norm_key (ti_TokenName r) = norm_key tokenName) (scanned rs) of
        Some r \<Rightarrow> Some (trim_token r)
      | None \<Rightarrow> map_option gas_token
          (find (\<lambda>c. ToLower (ci_Name c) = norm_key chainName \<and>
                     ToLower (ci_GasTokenName c) = norm_key tokenName) (gas_chains cm ids)))"
  using token_names.get_fold [of "scanned rs" NewTokenInfoManager "(norm_key chainName, norm_key tokenName)"]
  by (simp add: GetByChainNameTokenName_def ToLower_TrimSpace load_tokens_Rows fold_add_gas_names
      NewTokenInfoManager_def split: option.split)

text \<open>
  The indexes by chain id hold exactly the scanned rows with a positive chain id, the last row of
  a key; gas tokens are not in them.
\<close>

theorem token_by_chain_id:
  "GetByChainIdTokenAddr (snd (load_tokens cm ids (Rows rs None) mgr)) i tokenAddr =
     map_option trim_token
       (last_row (\<lambda>r. 0 < ti_ChainId r \<and> ti_ChainId r = i \<and>
                      norm_key (ti_TokenAddress r) = norm_key tokenAddr) (scanned rs)) \<and>
   GetByChainIdTokenName (snd (load_tokens cm ids (Rows rs None) mgr)) i tokenName =
     map_option trim_token
       (last_row (\<lambda>r. 0 < ti_ChainId r \<and> ti_ChainId r = i \<and>
                      norm_key (ti_TokenName r) = norm_key tokenName) (scanned rs))"
  using token_id_addrs.get_fold [of "scanned rs" NewTokenInfoManager "(i, norm_key tokenAddr)"]
    token_id_names.get_fold [of "scanned rs" NewTokenInfoManager "(i, norm_key tokenName)"]
  by (simp add: GetByChainIdTokenAddr_def GetByChainIdTokenName_def ToLower_TrimSpace load_tokens_Rows
      fold_add_gas_ids NewTokenInfoManager_def split: option.split)

text \<open>
  A token added with \<open>AddToken\<close> is found by its chain and address or chain and name in any
  spelling that differs in case and surrounding space, and no other lookup changes.
\<close>

theorem token_AddToken:
  "let t = zero_token\<lparr>ti_ChainName := TrimSpace cn, ti_TokenAddress := TrimSpace ta,
                      ti_TokenName := TrimSpace tn, ti_Decimals := d\<rparr>;
       m = AddToken cn tn ta d mgr
   in GetByChainNameTokenAddr m c a =
        (if norm_key c = norm_key cn \<and> norm_key a = norm_key ta then Some t
         else GetByChainNameTokenAddr mgr c a) \<and>
      GetByChainNameTokenName m c n =
        (if norm_key c = norm_key cn \<and> norm_key n = norm_key tn then Some t
         else GetByChainNameTokenName mgr c n)"
  by (auto simp: AddToken_def AddTokenInfo_def GetByChainNameTokenAddr_def GetByChainNameTokenName_def
      ToLower_TrimSpace Let_def)

lemma norm_key_trimmed: "TrimSpace (norm_key s) = norm_key s"
  by (simp add: norm_key_def)

lemma trim_of_lower: "TrimSpace (ToLower s) = ToLower s \<Longrightarrow> length (TrimSpace s) = length s"
  by (metis TrimSpace_ToLower length_ToLower)

text \<open>
  \<open>AddTokenInfo\<close> does not trim its keys: a token whose chain name carries surrounding space is
  stored where no lookup by name or address can find it.
\<close>

theorem token_AddTokenInfo_untrimmed:
  assumes "length (TrimSpace (ti_ChainName t)) \<noteq> length (ti_ChainName t)"
  shows "GetByChainNameTokenAddr (AddTokenInfo t mgr) c a = GetByChainNameTokenAddr mgr c a \<and>
    GetByChainNameTokenName (AddTokenInfo t mgr) c n = GetByChainNameTokenName mgr c n"
proof -
  have "norm_key c \<noteq> ToLower (ti_ChainName t)" for c
    using assms trim_of_lower norm_key_trimmed by metis
  then show ?thesis
    by (simp add: AddTokenInfo_def GetByChainNameTokenAddr_def GetByChainNameTokenName_def ToLower_TrimSpace)
qed

definition sample_token :: TokenInfo where
  "sample_token = zero_token\<lparr>ti_ChainName := ''Base '', ti_TokenName := ''WETH'', ti_TokenAddress := ''0x0''\<rparr>"

theorem token_AddTokenInfo_untrimmed_witness:
  "GetByChainNameTokenName (AddTokenInfo sample_token NewTokenInfoManager) ''base'' ''weth'' = None"
proof -
  have "TrimSpace ''Base '' = ''Base''" by code_simp
  then show ?thesis
    using token_AddTokenInfo_untrimmed [of sample_token NewTokenInfoManager "''base''" "[]" "''weth''"]
    by (simp add: sample_token_def zero_token_def GetByChainNameTokenName_def NewTokenInfoManager_def)
qed

lemma fold_add_gas_other:
  "\<forall>c\<in>set cs. ToLower (ci_Name c) \<noteq> a \<Longrightarrow>
   get2 (tm_chainNameTokenAddrs (fold add_gas cs m)) a b = get2 (tm_chainNameTokenAddrs m) a b \<and>
   get2 (tm_chainNameTokenNames (fold add_gas cs m)) a b = get2 (tm_chainNameTokenNames m) a b"
  by (induction cs arbitrary: m) (auto simp: add_gas_simps split: option.split)

text \<open>
  The address index is not protected like the name index: when the table has no token with the
  name of a chain's gas token, the gas token takes over the gas token address, also from a token
  the table lists under that address.
\<close>

theorem token_gas_shadows_address:
  assumes "gas_chains cm ids = pre @ c # post"
    and "\<forall>c'\<in>set (pre @ post). ToLower (ci_Name c') \<noteq> ToLower (ci_Name c)"
    and "\<forall>r\<in>set (scanned rs). norm_key (ti_ChainName r) = ToLower (ci_Name c) \<longrightarrow>
           norm_key (ti_TokenName r) \<noteq> ToLower (ci_GasTokenName c)"
    and "norm_key chainName = ToLower (ci_Name c)" and "norm_key addr = ToLower (ci_GasTokenAddress c)"
  shows "GetByChainNameTokenAddr (snd (load_tokens cm ids (Rows rs None) mgr)) chainName addr =
    Some (gas_token c)"
proof -
  let ?m = "fold put_token (scanned rs) NewTokenInfoManager"
  let ?a = "ToLower (ci_Name c)" and ?b = "ToLower (ci_GasTokenName c)"
  have "last_row (\<lambda>r. norm_key (ti_ChainName r) = ?a \<and> norm_key (ti_TokenName r) = ?b) (scanned rs) = None"
    using assms(3) by (auto simp: last_row_None)
  then have none: "get2 (tm_chainNameTokenNames ?m) ?a ?b = None"
    using token_names.get_fold [of "scanned rs" NewTokenInfoManager "(?a, ?b)"]
    by (simp add: NewTokenInfoManager_def)
  have "\<forall>c'\<in>set pre. ToLower (ci_Name c') \<noteq> ?a" "\<forall>c'\<in>set post. ToLower (ci_Name c') \<noteq> ?a"
    using assms(2) by auto
  note other = fold_add_gas_other [OF this(1)] fold_add_gas_other [OF this(2)]
  show ?thesis
    using other none assms(4,5)
    by (simp add: GetByChainNameTokenAddr_def ToLower_TrimSpace load_tokens_Rows assms(1) add_gas_simps)
qed

definition token_sample_chains :: ChainInfoManager where
  "token_sample_chains = NewChainInfoManager\<lparr>cm_idChains := [1 \<mapsto> sample_chain\<lparr>ci_Name := ''Base''\<rparr>]\<rparr>"

theorem token_gas_shadows_address_witness:
  "GetByChainNameTokenAddr (snd (load_tokens token_sample_chains [1] (Rows [Scanned sample_token] None)
      NewTokenInfoManager)) ''base'' ''0x0'' = Some (gas_token (sample_chain\<lparr>ci_Name := ''Base''\<rparr>))"
proof (rule token_gas_shadows_address)
  show "gas_chains token_sample_chains [1] = [] @ (sample_chain\<lparr>ci_Name := ''Base''\<rparr>) # []"
    by (simp add: gas_chains_def token_sample_chains_def GetChainInfoById_def GetChainInfoAutoIds_def
        range_keys_def)
  have "norm_key ''WETH'' = ''weth''" by code_simp
  moreover have "ToLower ''ETH'' = ''eth''" by code_simp
  ultimately show "\<forall>r\<in>set (scanned [Scanned sample_token]).
      norm_key (ti_ChainName r) = ToLower (ci_Name (sample_chain\<lparr>ci_Name := ''Base''\<rparr>)) \<longrightarrow>
      norm_key (ti_TokenName r) \<noteq> ToLower (ci_GasTokenName (sample_chain\<lparr>ci_Name := ''Base''\<rparr>))"
    by (simp add: sample_token_def zero_token_def sample_chain_def)
  have "norm_key ''base'' = ''base''" "ToLower ''Base'' = ''base''" by code_simp+
  then show "norm_key ''base'' = ToLower (ci_Name (sample_chain\<lparr>ci_Name := ''Base''\<rparr>))" by simp
  have "norm_key ''0x0'' = ''0x0''" "ToLower ''0x0'' = ''0x0''" by code_simp+
  then show "norm_key ''0x0'' = ToLower (ci_GasTokenAddress (sample_chain\<lparr>ci_Name := ''Base''\<rparr>))"
    by (simp add: sample_chain_def)
qed simp

end
