(* ===== verification/Util.thy ===== *)
theory Util
  imports GoFloat
begin

text \<open>
  \<open>src/util\<close>: hex and address helpers (\<open>common.go\<close>, \<open>address.go\<close>), UI amounts (\<open>common.go\<close>) and
  page normalisation (\<open>page.go\<close>), with the address constants of \<open>src/owlconsts/address.go\<close>. The
  functions of third-party packages and of the hash packages are arguments: the EVM checksum, the
  Starknet and SHA-256 hashes, and the decimal arithmetic.
\<close>

section \<open>Hexadecimal strings\<close>

definition strip_0x :: "string \<Rightarrow> string" where
  "strip_0x s = (if take 2 s = ''0x'' \<or> take 2 s = ''0X'' then drop 2 s else s)"

definition IsHexStringZero :: "string \<Rightarrow> bool" where
  "IsHexStringZero hexString = list_all (\<lambda>ch. ch = CHR ''0'') (strip_0x (TrimSpace hexString))"

definition IsHexCharacter :: "char \<Rightarrow> bool" where
  "IsHexCharacter c = (is_digit c \<or> is_hex_letter c)"

definition IsHex :: "string \<Rightarrow> bool" where
  "IsHex str = (even (length str) \<and> list_all IsHexCharacter str)"

definition SolanaZeroAddress :: string where
  "SolanaZeroAddress = ''11111111111111111111111111111111''"

definition EvmZeroAddress :: string where
  "EvmZeroAddress = ''0x0000000000000000000000000000000000000000''"

definition BFCZeroAddress :: string where
  "BFCZeroAddress = ''BFC00000000000000000000000000000000000000000000000000000000000000000000''"

definition ZksyncEraAddress :: string where
  "ZksyncEraAddress = ''0x000000000000000000000000000000000000800A''"

definition IsNativeAddress :: "string \<Rightarrow> bool" where
  "IsNativeAddress address =
     (IsHexStringZero address \<or> address = SolanaZeroAddress \<or> address = BFCZeroAddress \<or>
      address = ZksyncEraAddress)"

definition IsEvmAddress :: "(string \<Rightarrow> bool) \<Rightarrow> string \<Rightarrow> int \<Rightarrow> bool" where
  \<comment> \<open>the first argument is \<open>common.IsHexAddress\<close>\<close>
  "IsEvmAddress isHexAddress address chainID =
     (isHexAddress address \<and> chainID \<noteq> 666666666 \<and> chainID \<noteq> 83797601)"

definition MaskEVMAddress :: "string \<Rightarrow> string" where
  "MaskEVMAddress address =
     (if length address < 12 then address
      else take 6 address @ ''****'' @ drop (length address - 4) address)"

section \<open>JSON numbers and UI amounts\<close>

datatype json_scalar = JsonFloat f64 | JsonString string | JsonOther

definition GetJsonBigInt :: "(f64 \<Rightarrow> int) \<Rightarrow> json_scalar \<Rightarrow> int" where
  \<comment> \<open>\<open>impl\<close> is the conversion of a float out of the range of \<open>int64\<close>\<close>
  "GetJsonBigInt impl itf =
     (case itf of
        JsonFloat f \<Rightarrow> f64_to_int 64 impl f
      | JsonString s \<Rightarrow> (case Int_SetString 0 (TrimSpace s) of Some i \<Rightarrow> i | None \<Rightarrow> 0)
      | JsonOther \<Rightarrow> 0)"

text \<open>
  The functions of \<open>shopspring/decimal\<close> that the program calls. Their documented meaning, for a
  reading \<open>val\<close> of a decimal as a number: \<open>Shift\<close> multiplies by a power of ten and \<open>BigInt\<close> truncates.
\<close>

record 'd decimal_lib =
  NewFromString :: "string \<Rightarrow> string + 'd"
  NewFromFloat :: "f64 \<Rightarrow> 'd"
  NewFromBigInt :: "int \<Rightarrow> int \<Rightarrow> 'd"
  Shift :: "'d \<Rightarrow> int \<Rightarrow> 'd"
  BigInt :: "'d \<Rightarrow> int"

definition decimal_laws :: "'d decimal_lib \<Rightarrow> ('d \<Rightarrow> rat) \<Rightarrow> bool" where
  "decimal_laws dec val \<longleftrightarrow>
     (\<forall>d n. val (Shift dec d n) = val d * rat_pow 10 n) \<and>
     (\<forall>d. BigInt dec d = rat_trunc (val d))"

definition FromUiString :: "'d decimal_lib \<Rightarrow> string \<Rightarrow> int \<Rightarrow> string + int" where
  "FromUiString dec amount decimals =
     (case NewFromString dec amount of
        Inl err \<Rightarrow> Inl err
      | Inr v \<Rightarrow> Inr (BigInt dec (Shift dec v decimals)))"

definition FromUiFloat :: "'d decimal_lib \<Rightarrow> f64 \<Rightarrow> int \<Rightarrow> int" where
  "FromUiFloat dec amount decimals = BigInt dec (Shift dec (NewFromFloat dec amount) decimals)"

definition StringToUi :: "'d decimal_lib \<Rightarrow> ('d \<Rightarrow> 'f) \<Rightarrow> string \<Rightarrow> int \<Rightarrow> string + 'f" where
  \<comment> \<open>\<open>bigFloat\<close> is the library's conversion to \<open>big.Float\<close>\<close>
  "StringToUi dec bigFloat amountStr decimals =
     (case NewFromString dec amountStr of
        Inl err \<Rightarrow> Inl (''invalid amount string: '' @ amountStr)
      | Inr v \<Rightarrow> Inr (bigFloat (Shift dec v (wrap_s 32 (- decimals)))))"

definition BigIntToUi :: "'d decimal_lib \<Rightarrow> ('d \<Rightarrow> 'f) \<Rightarrow> int \<Rightarrow> int \<Rightarrow> 'f" where
  "BigIntToUi dec bigFloat amount decimals = bigFloat (NewFromBigInt dec amount (wrap_s 32 (- decimals)))"

definition rat_decimal :: "rat decimal_lib" where
  \<comment> \<open>an instance that satisfies the laws, for examples\<close>
  "rat_decimal =
     \<lparr>NewFromString = (\<lambda>s. case Rat_SetString s of None \<Rightarrow> Inl ''can't convert'' | Some x \<Rightarrow> Inr x),
      NewFromFloat = (\<lambda>f. case f of FFin x \<Rightarrow> x | _ \<Rightarrow> 0),
      NewFromBigInt = (\<lambda>i e. of_int i * rat_pow 10 e),
      Shift = (\<lambda>d n. d * rat_pow 10 n), BigInt = rat_trunc\<rparr>"

lemma rat_decimal_laws: "decimal_laws rat_decimal (\<lambda>x. x)"
  by (simp add: decimal_laws_def rat_decimal_def)

lemma FromUiString_value:
  "decimal_laws dec val \<Longrightarrow> FromUiString dec amount decimals =
     (case NewFromString dec amount of
        Inl err \<Rightarrow> Inl err | Inr v \<Rightarrow> Inr (rat_trunc (val v * rat_pow 10 decimals)))"
  by (simp add: FromUiString_def decimal_laws_def split: sum.split)

section \<open>Pages\<close>

definition NormPage :: "int \<Rightarrow> int" where
  "NormPage page = (if page \<le> 0 then 1 else page)"

definition NormPageSize :: "int \<Rightarrow> int" where
  "NormPageSize pageSize =
     (let pageSize = (if pageSize \<le> 0 then 10 else pageSize)
      in if 100 < pageSize then 100 else pageSize)"

lemma NormPage_bounds: "1 \<le> NormPage p \<and> NormPage (NormPage p) = NormPage p"
  by (simp add: NormPage_def)

lemma NormPageSize_bounds:
  "1 \<le> NormPageSize p \<and> NormPageSize p \<le> 100 \<and> NormPageSize (NormPageSize p) = NormPageSize p"
  by (simp add: NormPageSize_def Let_def)

section \<open>Checksum addresses\<close>

fun hex_decode :: "string \<Rightarrow> nat list option" where
  \<comment> \<open>\<open>hex.DecodeString\<close>; \<open>None\<close> for an invalid character or an odd length\<close>
  "hex_decode [] = Some []"
| "hex_decode [c] = None"
| "hex_decode (a # b # s) =
     (if IsHexCharacter a \<and> IsHexCharacter b
      then map_option (\<lambda>bs. (char_digit a * 16 + char_digit b) # bs) (hex_decode s) else None)"

definition GetChecksumAddress40 :: "(string \<Rightarrow> string) \<Rightarrow> string \<Rightarrow> string + string" where
  \<comment> \<open>the first argument is \<open>common.HexToAddress(..).Hex()\<close>\<close>
  "GetChecksumAddress40 evm address = Inr (evm (TrimSpace address))"

definition trim_zeros :: "string \<Rightarrow> string" where
  "trim_zeros s = dropWhile (\<lambda>c. c = CHR ''0'') s"

fun apply_case :: "nat list \<Rightarrow> string \<Rightarrow> string" where
  \<comment> \<open>the two digits of each byte are raised by the two halves of the hash byte\<close>
  "apply_case (h # hs) (a # b # cs) =
     (if 8 \<le> h div 16 then upper_char a else a) # (if 8 \<le> h mod 16 then upper_char b else b)
     # apply_case hs cs"
| "apply_case _ cs = cs"

definition GetChecksumAddress64 :: "(nat list \<Rightarrow> string) \<Rightarrow> string \<Rightarrow> string + string" where
  \<comment> \<open>the first argument is \<open>curve.StarknetKeccak\<close> with the \<open>String\<close> of its result\<close>
  "GetChecksumAddress64 keccak address =
     (let a = trim_zeros (TrimPrefix (ToLower (TrimSpace address)) ''0x'');
          a = (if odd (length a) then CHR ''0'' # a else a)
      in if 64 < length a then Inl ''address too long''
         else
           (let address64 = replicate (64 - length a) CHR ''0'' @ a
            in case hex_decode a of
                 None \<Rightarrow> Inl ''encoding/hex: invalid byte''
               | Some bytes \<Rightarrow>
                   (let hs = trim_zeros (TrimPrefix (keccak bytes) ''0x'')
                    in if 64 < length hs then Inl ''hs too long''
                       else (case hex_decode (replicate (64 - length hs) CHR ''0'' @ hs) of
                               None \<Rightarrow> Inl ''encoding/hex: invalid byte''
                             | Some hashed \<Rightarrow> Inr (''0x'' @ apply_case hashed address64)))))"

definition GetChecksumAddress ::
  "(string \<Rightarrow> string) \<Rightarrow> (nat list \<Rightarrow> string) \<Rightarrow> string \<Rightarrow> string + string" where
  "GetChecksumAddress evm keccak address =
     (let address = TrimSpace address
      in if address = [] then Inl ''empty address''
         else if \<not> HasPrefix address ''0x'' \<and> \<not> HasPrefix address ''0X'' then Inr address
         else if length address = 42 then GetChecksumAddress40 evm address
         else if length address = 66 then GetChecksumAddress64 keccak address
         else Inl (''unsupport address len: '' @ address))"

definition isB256 :: "string \<Rightarrow> bool" where
  "isB256 address =
     (length address = 66 \<and> HasPrefix address ''0x'' \<and> list_all IsHexCharacter (drop 2 address))"

definition toFuelChecksumAddress :: "(string \<Rightarrow> nat list) \<Rightarrow> string \<Rightarrow> string" where
  "toFuelChecksumAddress sha256 address =
     (let addressHex = ToLower (TrimPrefix address ''0x'')
      in ''0x'' @ apply_case (take 32 (sha256 addressHex)) (take 64 addressHex))"

definition GetFuelChecksumAddress :: "(string \<Rightarrow> nat list) \<Rightarrow> string \<Rightarrow> string + string" where
  "GetFuelChecksumAddress sha256 address =
     (if \<not> isB256 address then Inl ''invalid B256 address format''
      else
        (let address = TrimSpace address
         in if address = [] then Inl ''empty address''
            else if length address = 66 then Inr (toFuelChecksumAddress sha256 address)
            else Inl (''unsupport address len: '' @ address)))"

section \<open>Checksums are canonical\<close>

definition printable :: "char \<Rightarrow> bool" where
  "printable c \<longleftrightarrow> 33 \<le> (of_char c :: nat) \<and> (of_char c :: nat) < 128"

lemma space_runes_unprintable: "\<forall>p\<in>set space_runes. p \<noteq> [] \<and> \<not> printable (hd p) \<and> \<not> printable (last p)"
  by (simp add: space_runes_def printable_def)

lemma strip_printable:
  "\<forall>p\<in>set ps. p \<noteq> [] \<longrightarrow> \<not> printable (hd p) \<Longrightarrow> (s \<noteq> [] \<Longrightarrow> printable (hd s)) \<Longrightarrow> strip ps s = s"
  by (rule strip_none) (auto simp: find_None_iff prefix_def)

lemma TrimSpace_printable:
  assumes "list_all printable s"
  shows "TrimSpace s = s"
proof -
  have "TrimLeft s = s" unfolding TrimLeft_def
    by (rule strip_printable) (use space_runes_unprintable assms in \<open>auto simp: list_all_iff\<close>)
  moreover have "TrimRight s = s"
  proof -
    have "strip (map rev space_runes) (rev s) = rev s"
      by (rule strip_printable)
        (use space_runes_unprintable assms in \<open>auto simp: list_all_iff hd_rev last_in_set\<close>)
    then show ?thesis by (simp add: TrimRight_def)
  qed
  ultimately show ?thesis by (simp add: TrimSpace_def)
qed

lemma printable_hex: "IsHexCharacter c \<Longrightarrow> printable c"
  by (auto simp: IsHexCharacter_def is_digit_def is_hex_letter_def lower_char_def is_upper_def printable_def Let_def split: if_split_asm)

lemma hex_lower [simp]: "IsHexCharacter (lower_char c) = IsHexCharacter c"
  by (auto simp: IsHexCharacter_def is_hex_letter_def is_digit_def lower_char_def is_upper_def Let_def split: if_split_asm)

lemma hex_upper [simp]: "IsHexCharacter (upper_char c) = IsHexCharacter c"
  by (metis hex_lower lower_upper_char)

lemma ToLower_apply_case: "ToLower (apply_case hs cs) = ToLower cs"
  by (induction hs cs rule: apply_case.induct) (auto simp: ToLower_def)

lemma length_apply_case [simp]: "length (apply_case hs cs) = length cs"
  by (metis ToLower_apply_case length_ToLower)

lemma hex_apply_case [simp]: "list_all IsHexCharacter (apply_case hs cs) = list_all IsHexCharacter cs"
  by (induction hs cs rule: apply_case.induct) auto

lemma hex_ToLower [simp]: "list_all IsHexCharacter (ToLower s) = list_all IsHexCharacter s"
  by (simp add: ToLower_def list_all_iff)

lemma isB256_TrimSpace: "isB256 a \<Longrightarrow> TrimSpace a = a"
proof (rule TrimSpace_printable)
  assume a: "isB256 a"
  then obtain t where "a = ''0x'' @ t" "list_all IsHexCharacter t"
    by (auto simp: isB256_def HasPrefix_def prefix_def)
  then show "list_all printable a"
    by (auto simp: list_all_iff printable_hex) (simp_all add: printable_def)
qed

text \<open>
  For an address in B256 format \<open>GetFuelChecksumAddress\<close> returns an address in the same format
  that differs from it only in case, and it is a fixed point: checking a checksummed address again
  returns it unchanged, whatever the hash function.
\<close>

theorem fuel_checksum_idem:
  assumes "isB256 address"
  shows "\<exists>r. GetFuelChecksumAddress sha256 address = Inr r \<and> isB256 r \<and>
    ToLower r = ToLower address \<and> GetFuelChecksumAddress sha256 r = Inr r"
proof -
  obtain t where t: "address = ''0x'' @ t" "length t = 64" "list_all IsHexCharacter t"
    using assms by (auto simp: isB256_def HasPrefix_def prefix_def)
  let ?r = "''0x'' @ apply_case (take 32 (sha256 (ToLower t))) (ToLower t)"
  have x: "lower_char CHR ''x'' = CHR ''x''" "lower_char CHR ''0'' = CHR ''0''" by code_simp+
  have fuel: "toFuelChecksumAddress sha256 (''0x'' @ u) =
      ''0x'' @ apply_case (take 32 (sha256 (ToLower u))) (ToLower u)" if "length u = 64" for u
    using that by (simp add: toFuelChecksumAddress_def TrimPrefix_def Let_def)
  have r: "isB256 ?r" using t by (simp add: isB256_def HasPrefix_def)
  have "ToLower (apply_case (take 32 (sha256 (ToLower t))) (ToLower t)) = ToLower t"
    by (simp add: ToLower_apply_case)
  then have "GetFuelChecksumAddress sha256 address = Inr ?r" "GetFuelChecksumAddress sha256 ?r = Inr ?r"
    using assms r t isB256_TrimSpace [OF assms] isB256_TrimSpace [OF r]
    by (simp_all add: GetFuelChecksumAddress_def fuel [of t, simplified] fuel [simplified])
  moreover have "ToLower ?r = ToLower address"
    using t ToLower_apply_case by (simp add: ToLower_def)
  ultimately show ?thesis using r by blast
qed

lemma hex_decode_hex: "hex_decode s = Some bs \<Longrightarrow> list_all IsHexCharacter s \<and> even (length s)"
  by (induction s arbitrary: bs rule: hex_decode.induct) (auto split: if_split_asm)

lemma trim_zeros_pad: "trim_zeros (replicate n CHR ''0'' @ s) = trim_zeros s"
  by (induction n) (simp_all add: trim_zeros_def)

lemma trim_zeros_idem [simp]: "trim_zeros (trim_zeros s) = trim_zeros s"
  by (simp add: trim_zeros_def dropWhile_idem)

lemma list_all_trim_zeros: "list_all P s \<Longrightarrow> list_all P (trim_zeros s)"
  by (auto simp: trim_zeros_def list_all_iff dest: set_dropWhileD)

definition address_core :: "string \<Rightarrow> string" where
  "address_core address = trim_zeros (TrimPrefix (ToLower (TrimSpace address)) ''0x'')"

definition whole_bytes :: "string \<Rightarrow> string" where
  "whole_bytes a = (if odd (length a) then CHR ''0'' # a else a)"

definition canonical64 :: "string \<Rightarrow> string" where
  \<comment> \<open>the digits of an address without prefix and leading zeros, padded to whole bytes\<close>
  "canonical64 address = whole_bytes (address_core address)"

lemma canonical64_of_digits:
  assumes "ToLower r = ''0x'' @ replicate n CHR ''0'' @ canonical64 a" and "TrimSpace r = r"
  shows "canonical64 r = canonical64 a"
proof -
  have "address_core r = trim_zeros (replicate n CHR ''0'' @ canonical64 a)"
    unfolding address_core_def assms by (simp add: TrimPrefix_def)
  also have "\<dots> = trim_zeros (canonical64 a)" by (rule trim_zeros_pad)
  also have "\<dots> = trim_zeros (address_core a)"
    by (simp add: canonical64_def whole_bytes_def) (simp add: trim_zeros_def)
  also have "\<dots> = address_core a" by (simp add: address_core_def)
  finally show ?thesis by (simp add: canonical64_def)
qed

definition checksum64 :: "(nat list \<Rightarrow> string) \<Rightarrow> string \<Rightarrow> string + string" where
  \<comment> \<open>the part of \<open>GetChecksumAddress64\<close> after the normalisation\<close>
  "checksum64 keccak c =
     (if 64 < length c then Inl ''address too long''
      else case hex_decode c of
             None \<Rightarrow> Inl ''encoding/hex: invalid byte''
           | Some bytes \<Rightarrow>
               (let hs = trim_zeros (TrimPrefix (keccak bytes) ''0x'')
                in if 64 < length hs then Inl ''hs too long''
                   else (case hex_decode (replicate (64 - length hs) CHR ''0'' @ hs) of
                           None \<Rightarrow> Inl ''encoding/hex: invalid byte''
                         | Some hashed \<Rightarrow>
                             Inr (''0x'' @ apply_case hashed (replicate (64 - length c) CHR ''0'' @ c)))))"

lemma GetChecksumAddress64_canonical:
  "GetChecksumAddress64 keccak a = checksum64 keccak (canonical64 a)"
  unfolding GetChecksumAddress64_def checksum64_def canonical64_def whole_bytes_def address_core_def Let_def
  by (rule refl)

lemma checksum64_Inr:
  "checksum64 keccak c = Inr r \<Longrightarrow>
   \<exists>hashed. r = ''0x'' @ apply_case hashed (replicate (64 - length c) CHR ''0'' @ c) \<and>
     length c \<le> 64 \<and> list_all IsHexCharacter c"
  using hex_decode_hex [of c]
  by (auto simp: checksum64_def Let_def split: if_split_asm option.split_asm)

text \<open>
  A 64 digit checksum address that \<open>GetChecksumAddress64\<close> returns has 66 characters, spells the
  address padded with zeros in some mixture of cases, and is a fixed point: the result does not
  depend on the case, the prefix or the leading zeros of the input.
\<close>

theorem checksum64_idem:
  assumes "GetChecksumAddress64 keccak address = Inr r"
  shows "length r = 66 \<and> GetChecksumAddress64 keccak r = Inr r \<and>
    ToLower r = ''0x'' @ replicate (64 - length (canonical64 address)) CHR ''0'' @ canonical64 address"
proof -
  let ?c = "canonical64 address"
  let ?d = "replicate (64 - length ?c) CHR ''0'' @ ?c"
  obtain hashed where r: "r = ''0x'' @ apply_case hashed ?d" "length ?c \<le> 64" "list_all IsHexCharacter ?c"
    using checksum64_Inr assms unfolding GetChecksumAddress64_canonical by blast
  have lower_c: "ToLower ?c = ?c"
  proof -
    have "set (trim_zeros (TrimPrefix (ToLower t) ''0x'')) \<subseteq> set (ToLower t)" for t
      by (auto simp: trim_zeros_def TrimPrefix_def dest: set_dropWhileD in_set_dropD)
    then have "\<forall>x\<in>set (trim_zeros (TrimPrefix (ToLower t) ''0x'')). lower_char x = x" for t
      by (force simp: ToLower_def)
    moreover have "lower_char CHR ''0'' = CHR ''0''" by code_simp
    ultimately have "\<forall>x\<in>set ?c. lower_char x = x" by (auto simp: canonical64_def whole_bytes_def address_core_def)
    then show ?thesis by (simp add: ToLower_def map_idI)
  qed
  have zero: "ToLower ''0x'' = ''0x''" "ToLower (replicate n CHR ''0'') = replicate n CHR ''0''" for n
    by (code_simp, simp add: ToLower_def, code_simp)
  have app: "ToLower (u @ v) = ToLower u @ ToLower v" for u v by (simp add: ToLower_def)
  have low: "ToLower r = ''0x'' @ ?d"
    unfolding r(1) app zero ToLower_apply_case lower_c ..
  have "list_all IsHexCharacter (replicate n CHR ''0'')" for n
    by (induction n) (auto simp: IsHexCharacter_def is_digit_def)
  then have "list_all IsHexCharacter (apply_case hashed ?d)" using r(3) by simp
  then have "list_all printable r"
    by (auto simp: r(1) list_all_iff printable_hex) (simp_all add: printable_def)
  then have "canonical64 r = ?c" using canonical64_of_digits [OF low] TrimSpace_printable by blast
  then have "GetChecksumAddress64 keccak r = Inr r" using assms by (simp add: GetChecksumAddress64_canonical)
  then show ?thesis using low r(1,2) by simp
qed

definition sample_address :: string where
  "sample_address = ''0x'' @ replicate 64 CHR ''a''"

theorem fuel_checksum_idem_witness:
  "\<exists>r. GetFuelChecksumAddress (\<lambda>_. [255, 0, 143]) sample_address = Inr r \<and> isB256 r \<and>
     GetFuelChecksumAddress (\<lambda>_. [255, 0, 143]) r = Inr r"
proof -
  have "isB256 sample_address"
    by (simp add: isB256_def sample_address_def HasPrefix_def list_all_iff IsHexCharacter_def)
      (code_simp)
  from fuel_checksum_idem [OF this] show ?thesis by blast
qed

lemma sample_checksum64:
  "(case GetChecksumAddress64 (\<lambda>_. ''0x8f'') '' 0X0abc'' of Inr _ \<Rightarrow> True | Inl _ \<Rightarrow> False)"
  by code_simp

theorem checksum64_idem_witness:
  "\<exists>r. GetChecksumAddress64 (\<lambda>_. ''0x8f'') '' 0X0abc'' = Inr r \<and> length r = 66 \<and>
     GetChecksumAddress64 (\<lambda>_. ''0x8f'') r = Inr r"
proof -
  obtain r where r: "GetChecksumAddress64 (\<lambda>_. ''0x8f'') '' 0X0abc'' = Inr r"
    using sample_checksum64 by (auto split: sum.split_asm)
  then show ?thesis using checksum64_idem [OF r] by blast
qed

text \<open>The empty and the blank address count as native: the loop over no digit finds no other digit.\<close>

lemma native_blank: "IsNativeAddress [] \<and> IsNativeAddress ''  '' \<and> IsNativeAddress ''0x''"
  by code_simp

text \<open>A masked address shows the first six and the last four characters, no more.\<close>

lemma MaskEVMAddress_hides:
  "12 \<le> length a \<Longrightarrow> 12 \<le> length b \<Longrightarrow> take 6 a = take 6 b \<Longrightarrow>
   drop (length a - 4) a = drop (length b - 4) b \<Longrightarrow> MaskEVMAddress a = MaskEVMAddress b"
  by (simp add: MaskEVMAddress_def)

end
