(* ===== verification/BridgeFee.thy ===== *)
theory BridgeFee
  imports TokenInfo Util
begin

text \<open>
  \<open>src/loader/bridge_fee.go\<close>: the tiered bridge fee of a token between two chains, its table, and the
  fee arithmetic. The table has two queries; when the one for the kept decimals fails, the code goes
  on with a nil result and panics, which is the value \<open>None\<close> of the load. The error of a failed
  \<open>strconv.ParseFloat\<close> is reported with the text it could not parse.
\<close>

section \<open>Data\<close>

record BridgeFee =
  bf_TokenName :: string
  bf_FromChainName :: string
  bf_ToChainName :: string
  bf_RatioLv1 :: int
  bf_RatioLv2 :: int
  bf_RatioLv3 :: int
  bf_RatioLv4 :: int
  bf_AmountLv1 :: f64
  bf_AmountLv2 :: f64
  bf_AmountLv3 :: f64
  bf_AmountLv4 :: f64
  bf_KeepDecimal :: int
  bf_AmountLv1Str :: string
  bf_AmountLv2Str :: string
  bf_AmountLv3Str :: string
  bf_AmountLv4Str :: string

record BridgeFeeManager =
  bm_fees :: "string \<Rightarrow> (string \<Rightarrow> (string \<rightharpoonup> BridgeFee) option) option"

definition NewBridgeFeeManager :: BridgeFeeManager where
  "NewBridgeFeeManager = \<lparr>bm_fees = Map.empty\<rparr>"

definition GetBridgeFee :: "BridgeFeeManager \<Rightarrow> string \<Rightarrow> string \<Rightarrow> string \<Rightarrow> BridgeFee option" where
  "GetBridgeFee mgr token src dst =
     get3 (bm_fees mgr) (ToLower (TrimSpace token)) (ToLower (TrimSpace src)) (ToLower (TrimSpace dst))"

section \<open>Loading\<close>

definition parse_amounts ::
  "string \<Rightarrow> (string \<times> string) list \<Rightarrow> alert list + f64 list" where
  \<comment> \<open>parse the named columns in order, stopping with an alert at the first that fails\<close>
  "parse_amounts table cols =
     foldr (\<lambda>(col, s) acc.
       case ParseFloat s of
         None \<Rightarrow> Inl [(table @ '' '' @ col @ '' not float'', Some (''strconv.ParseFloat: '' @ s))]
       | Some f \<Rightarrow> (case acc of Inl al \<Rightarrow> Inl al | Inr fs \<Rightarrow> Inr (f # fs))) cols (Inr [])"

definition trim_fee :: "BridgeFee \<Rightarrow> BridgeFee" where
  "trim_fee r = r
     \<lparr>bf_FromChainName := TrimSpace (bf_FromChainName r), bf_ToChainName := TrimSpace (bf_ToChainName r),
      bf_TokenName := TrimSpace (bf_TokenName r)\<rparr>"

definition prepare_fee ::
  "TokenInfoManager \<Rightarrow> (string \<rightharpoonup> int) \<Rightarrow> BridgeFee \<Rightarrow> alert list + BridgeFee" where
  \<comment> \<open>what the row loop stores for a scanned row, or the alert with which it skips the row\<close>
  "prepare_fee tokens tokenDecimal row =
     (let r = trim_fee row in
      case parse_amounts ''t_dynamic_bridge_fee''
             [(''amount1'', bf_AmountLv1Str r), (''amount2'', bf_AmountLv2Str r),
              (''amount3'', bf_AmountLv3Str r), (''amount4'', bf_AmountLv4Str r)] of
        Inr [a1, a2, a3, a4] \<Rightarrow>
          (let r = r\<lparr>bf_AmountLv1 := a1, bf_AmountLv2 := a2, bf_AmountLv3 := a3, bf_AmountLv4 := a4\<rparr>;
               tokenInfo = GetByChainNameTokenName tokens (ToLower (bf_FromChainName r)) (ToLower (bf_TokenName r))
           in case (tokenDecimal (ToLower (bf_TokenName r)), tokenInfo) of
                (Some d, _) \<Rightarrow> Inr (r\<lparr>bf_KeepDecimal := wrap_s 32 d\<rparr>)
              | (None, Some t) \<Rightarrow> Inr (r\<lparr>bf_KeepDecimal := ti_Decimals t\<rparr>)
              | (None, None) \<Rightarrow>
                  Inl [(''t_dynamic_bridge_fee keep decimal not found: token '' @ bf_TokenName r @
                        '' chain '' @ bf_FromChainName r, None)])
      | Inl al \<Rightarrow> Inl al
      | _ \<Rightarrow> Inl [])"

definition store_fee where
  "store_fee r m =
     put3 (ToLower (bf_TokenName r)) (ToLower (bf_FromChainName r)) (ToLower (bf_ToChainName r)) r m"

definition fee_body where
  "fee_body tokens tokenDecimal row m =
     (case prepare_fee tokens tokenDecimal row of
        Inl al \<Rightarrow> (al, m)
      | Inr r \<Rightarrow> ([], store_fee r m))"

definition load_fees where
  "load_fees tokens tokenDecimal =
     load_table ''select t_dynamic_bridge_fee error'' ''scan t_dynamic_bridge_fee row error''
       ''get next t_dynamic_bridge_fee row error'' (fee_body tokens tokenDecimal) Map.empty
       (\<lambda>m mgr. mgr\<lparr>bm_fees := m\<rparr>)"

definition put_decimal :: "string \<times> int \<Rightarrow> (string \<rightharpoonup> int) \<Rightarrow> string \<rightharpoonup> int" where
  "put_decimal = (\<lambda>(tokenName, keepDecimal) m. m(ToLower (TrimSpace tokenName) \<mapsto> keepDecimal))"

definition LoadAllBridgeFee ::
  "TokenInfoManager \<Rightarrow> BridgeFee query \<Rightarrow> (string \<times> int) query \<Rightarrow> BridgeFeeManager \<Rightarrow>
   (alert list \<times> BridgeFeeManager) option" where
  \<comment> \<open>\<open>None\<close> is the panic on the nil rows of the second query, whose \<open>rows.Err()\<close> is not read\<close>
  "LoadAllBridgeFee tokens q kd mgr =
     (case q of
        QueryErr e \<Rightarrow> Some (load_fees tokens Map.empty q mgr)
      | Rows rs err \<Rightarrow>
          (case kd of
             QueryErr e \<Rightarrow> None
           | Rows kdrows kderr \<Rightarrow>
               (let (al1, tokenDecimal) =
                      scan_loop ''scan t_bridge_fee_decimal row error'' (\<lambda>r m. ([], put_decimal r m))
                        kdrows Map.empty;
                    (al2, mgr') = load_fees tokens tokenDecimal q mgr
                in Some (al1 @ al2, mgr'))))"

section \<open>Fees\<close>

definition bf_FromUiString :: "int \<Rightarrow> int \<Rightarrow> int \<Rightarrow> int \<Rightarrow> int" where
  "bf_FromUiString amount bridgeFee dcm keepDecimal =
     (if 0 < bridgeFee
      then (let bridgeFeeAmount = amount * bridgeFee div 100000000;
                scale = exp10 (wrap_s 32 (dcm - keepDecimal));
                modAmount = bridgeFeeAmount mod scale
            in amount - (bridgeFeeAmount - modAmount))
      else amount)"

definition keep_decimal :: "BridgeFee \<Rightarrow> int \<Rightarrow> int" where
  "keep_decimal bf dcm = (if bf_KeepDecimal bf < dcm then bf_KeepDecimal bf else dcm)"

definition GetIncludedBridgeFeeBigInt ::
  "'d decimal_lib \<Rightarrow> BridgeFeeManager \<Rightarrow> string \<Rightarrow> string \<Rightarrow> string \<Rightarrow> int \<Rightarrow> int \<Rightarrow> int option" where
  "GetIncludedBridgeFeeBigInt dec mgr token src dst value dcm =
     (case GetBridgeFee mgr token src dst of
        None \<Rightarrow> None
      | Some bf \<Rightarrow>
          (let keep = keep_decimal bf dcm in
           case FromUiString dec (bf_AmountLv1Str bf) dcm of Inl _ \<Rightarrow> None | Inr a1 \<Rightarrow>
          (case FromUiString dec (bf_AmountLv2Str bf) dcm of Inl _ \<Rightarrow> None | Inr a2 \<Rightarrow>
          (case FromUiString dec (bf_AmountLv3Str bf) dcm of Inl _ \<Rightarrow> None | Inr a3 \<Rightarrow>
             if bf_FromUiString value (bf_RatioLv1 bf) dcm keep < a1 then Some (bf_RatioLv1 bf)
             else if bf_FromUiString value (bf_RatioLv2 bf) dcm keep < a2 then Some (bf_RatioLv2 bf)
             else if bf_FromUiString value (bf_RatioLv3 bf) dcm keep < a3 then Some (bf_RatioLv3 bf)
             else Some (bf_RatioLv4 bf)))))"

definition GetBridgeFeeDetail ::
  "'d decimal_lib \<Rightarrow> BridgeFeeManager \<Rightarrow> string \<Rightarrow> string \<Rightarrow> string \<Rightarrow> int \<Rightarrow> int \<Rightarrow> int \<times> int" where
  "GetBridgeFeeDetail dec mgr token src dst value dcm =
     (case GetBridgeFee mgr token src dst of
        None \<Rightarrow> (0, 0)
      | Some bf \<Rightarrow>
          (case GetIncludedBridgeFeeBigInt dec mgr token src dst value dcm of
             None \<Rightarrow> (0, 0)
           | Some ratio \<Rightarrow>
               (ratio, value - bf_FromUiString value ratio dcm (keep_decimal bf dcm))))"

definition GetBridgeFeeNotIncluded ::
  "BridgeFeeManager \<Rightarrow> string \<Rightarrow> string \<Rightarrow> string \<Rightarrow> f64 \<Rightarrow> int option" where
  "GetBridgeFeeNotIncluded mgr token src dst value =
     (case GetBridgeFee mgr token src dst of
        None \<Rightarrow> None
      | Some bf \<Rightarrow>
          if f64_lt value (bf_AmountLv1 bf) then Some (bf_RatioLv1 bf)
          else if f64_lt value (bf_AmountLv2 bf) then Some (bf_RatioLv2 bf)
          else if f64_lt value (bf_AmountLv3 bf) then Some (bf_RatioLv3 bf)
          else Some (bf_RatioLv4 bf))"

section \<open>The table after a load\<close>

lemma prepare_fee_names:
  "prepare_fee tokens kd row = Inr r \<Longrightarrow>
   bf_TokenName r = TrimSpace (bf_TokenName row) \<and> bf_FromChainName r = TrimSpace (bf_FromChainName row) \<and>
   bf_ToChainName r = TrimSpace (bf_ToChainName row)"
  by (auto simp: prepare_fee_def trim_fee_def Let_def
      split: sum.split_asm list.split_asm option.split_asm)

definition fee_accepted where
  "fee_accepted tokens kd row \<longleftrightarrow> (case prepare_fee tokens kd row of Inl _ \<Rightarrow> False | Inr _ \<Rightarrow> True)"

definition fee_value where
  "fee_value tokens kd row = (case prepare_fee tokens kd row of Inr r \<Rightarrow> r | Inl _ \<Rightarrow> row)"

definition fee_key where
  "fee_key row =
     (norm_key (bf_TokenName row), norm_key (bf_FromChainName row), norm_key (bf_ToChainName row))"

interpretation fee_index: row_index "\<lambda>m (a, b, c). get3 m a b c"
  "\<lambda>row m. snd (fee_body tokens kd row m)" fee_key "fee_value tokens kd" "fee_accepted tokens kd"
  for tokens kd
proof
  fix row and m :: "string \<Rightarrow> (string \<Rightarrow> (string \<rightharpoonup> BridgeFee) option) option" and k
  show "(case k of (a, b, c) \<Rightarrow> get3 (snd (fee_body tokens kd row m)) a b c) =
      (if fee_accepted tokens kd row \<and> fee_key row = k then Some (fee_value tokens kd row)
       else case k of (a, b, c) \<Rightarrow> get3 m a b c)"
  proof (cases "prepare_fee tokens kd row")
    case (Inl al)
    then show ?thesis by (simp add: fee_body_def fee_accepted_def)
  next
    case (Inr r)
    obtain a b c where k: "k = (a, b, c)" by (cases k)
    show ?thesis
      using prepare_fee_names [OF Inr] Inr
      by (simp add: k fee_body_def fee_accepted_def fee_value_def fee_key_def store_fee_def norm_key_def
          eq_commute [of a] eq_commute [of b] eq_commute [of c])
  qed
qed

interpretation fee_load: reloadable "load_fees tokens kd" good_query bm_fees
  "\<lambda>q. fold (\<lambda>r s. snd (fee_body tokens kd r s)) (query_rows q) Map.empty" for tokens kd
  unfolding load_fees_def
  by (rule load_table_reloadable [where h = "\<lambda>m. m"]) simp

lemma GetBridgeFee_loaded:
  "GetBridgeFee (snd (load_fees tokens kd (Rows rs None) mgr)) token src dst =
     map_option (fee_value tokens kd)
       (last_row (\<lambda>r. fee_accepted tokens kd r \<and> fee_key r = (norm_key token, norm_key src, norm_key dst))
         (scanned rs))"
  using fee_index.get_fold [of tokens kd "scanned rs" Map.empty "(norm_key token, norm_key src, norm_key dst)"]
    fee_load.load_good [of "Rows rs None" tokens kd mgr]
  by (simp add: GetBridgeFee_def ToLower_TrimSpace split: option.split)

text \<open>
  Loading the bridge fees panics exactly when the fee query is answered and the query for the
  kept decimals fails: the failure is reported, and then the nil result is read.
\<close>

theorem bridge_fee_load_panics:
  "(LoadAllBridgeFee tokens q kd mgr = None) =
     ((\<exists>rs err. q = Rows rs err) \<and> (\<exists>e. kd = QueryErr e))"
  by (auto simp: LoadAllBridgeFee_def case_prod_unfold Let_def split: query.split)

section \<open>Bounds of the fee\<close>

lemma div_floor: "(x :: int) div 100000000 * 100000000 \<le> x \<and> x < (x div 100000000 + 1) * 100000000"
proof -
  have "x = x div 100000000 * 100000000 + x mod 100000000" by simp
  moreover have "0 \<le> x mod 100000000" "x mod 100000000 < 100000000" by simp_all
  ultimately show ?thesis unfolding distrib_right by linarith
qed

lemma mod_floor: "0 < s \<Longrightarrow> (f - f mod s) mod s = 0 \<and> f - f mod s \<le> f \<and> f < f - f mod s + (s :: int)"
  using pos_mod_bound [of s f] pos_mod_sign [of s f] by (simp add: mod_diff_left_eq)

text \<open>
  C38. The fee that \<open>FromUiString\<close> takes off an amount is the largest multiple of the unit
  \<open>10 ^ (decimal - keepDecimal)\<close> that does not exceed the proportional fee: it is a multiple of the
  unit, it is never more than the amount times the ratio, and one unit more would be.
\<close>

theorem bridge_fee_rounding:
  assumes "0 < bridgeFee" and "0 \<le> amount" and "keepDecimal \<le> dcm" and "dcm - keepDecimal < 2 ^ 31"
  shows "let fee = amount - bf_FromUiString amount bridgeFee dcm keepDecimal;
             unit = 10 ^ nat (dcm - keepDecimal)
         in 0 \<le> fee \<and> fee mod unit = 0 \<and> fee * 100000000 \<le> amount * bridgeFee \<and>
            amount * bridgeFee < (fee + unit) * 100000000"
proof -
  let ?f = "amount * bridgeFee div 100000000"
  let ?u = "10 ^ nat (dcm - keepDecimal) :: int"
  have "wrap_s 32 (dcm - keepDecimal) = dcm - keepDecimal"
    by (rule wrap_s_id) (use assms in auto)
  then have scale: "exp10 (wrap_s 32 (dcm - keepDecimal)) = ?u"
    using assms(3) by (auto simp: exp10_def)
  have "amount - bf_FromUiString amount bridgeFee dcm keepDecimal = ?f - ?f mod ?u"
    using assms(1) scale by (simp add: bf_FromUiString_def Let_def)
  moreover have "0 \<le> ?f" using assms by (simp add: pos_imp_zdiv_nonneg_iff)
  moreover have "?f mod ?u \<le> ?f" using \<open>0 \<le> ?f\<close> by (rule zmod_le_nonneg_dividend)
  moreover note div_floor [of "amount * bridgeFee"]
  moreover note mod_floor [of ?u ?f]
  ultimately show ?thesis unfolding Let_def by (smt (verit) zero_less_power)
qed

theorem bridge_fee_rounding_witness:
  "(1000000 - bf_FromUiString 1000000 21111111 6 2) mod 10000 = 0 \<and>
   1000000 - bf_FromUiString 1000000 21111111 6 2 = 210000"
  using bridge_fee_rounding [of 21111111 1000000 2 6]
  by (simp add: bf_FromUiString_def exp10_def wrap_s_def Let_def)

lemma bf_FromUiString_bounds:
  assumes "0 \<le> amount" and "ratio \<le> 100000000"
  shows "0 \<le> bf_FromUiString amount ratio d k \<and> bf_FromUiString amount ratio d k \<le> amount"
proof (cases "0 < ratio")
  case True
  let ?f = "amount * ratio div 100000000" and ?s = "exp10 (wrap_s 32 (d - k))"
  have "amount * ratio \<le> amount * 100000000" using assms by (intro mult_left_mono) auto
  then have "?f \<le> amount" by (metis div_mult_self_is_m nonzero_mult_div_cancel_right zdiv_mono1 zero_less_numeral zero_neq_numeral)
  moreover have "0 \<le> ?f" using assms True by (simp add: pos_imp_zdiv_nonneg_iff)
  moreover have "0 \<le> ?f mod ?s" "?f mod ?s \<le> ?f"
    using exp10_pos [of "wrap_s 32 (d - k)"] \<open>0 \<le> ?f\<close> by (auto intro: zmod_le_nonneg_dividend)
  ultimately show ?thesis using True by (simp add: bf_FromUiString_def Let_def)
next
  case False
  then show ?thesis using assms by (simp add: bf_FromUiString_def)
qed

text \<open>
  C10. As long as the four ratios of the matching table entry are at most 100 percent, the fee that
  \<open>GetBridgeFeeDetail\<close> reports for a non-negative value lies between 0 and the value, whatever the
  decimals, the kept decimals and the decimal library.
\<close>

theorem bridge_fee_within_value:
  assumes "0 \<le> value"
    and "\<And>bf. GetBridgeFee mgr token src dst = Some bf \<Longrightarrow>
           bf_RatioLv1 bf \<le> 100000000 \<and> bf_RatioLv2 bf \<le> 100000000 \<and>
           bf_RatioLv3 bf \<le> 100000000 \<and> bf_RatioLv4 bf \<le> 100000000"
  shows "0 \<le> snd (GetBridgeFeeDetail dec mgr token src dst value dcm) \<and>
    snd (GetBridgeFeeDetail dec mgr token src dst value dcm) \<le> value"
proof (cases "GetIncludedBridgeFeeBigInt dec mgr token src dst value dcm")
  case None
  then show ?thesis using assms(1) by (simp add: GetBridgeFeeDetail_def split: option.split)
next
  case (Some ratio)
  then obtain bf where bf: "GetBridgeFee mgr token src dst = Some bf"
    and "ratio \<in> {bf_RatioLv1 bf, bf_RatioLv2 bf, bf_RatioLv3 bf, bf_RatioLv4 bf}"
    by (auto simp: GetIncludedBridgeFeeBigInt_def Let_def split: option.split_asm sum.split_asm if_split_asm)
  then have "ratio \<le> 100000000" using assms(2) by auto
  then show ?thesis
    using bf_FromUiString_bounds [OF assms(1), of ratio dcm "keep_decimal bf dcm"] Some bf
    by (simp add: GetBridgeFeeDetail_def)
qed

definition sample_fee :: BridgeFee where
  "sample_fee =
     \<lparr>bf_TokenName = ''USDC'', bf_FromChainName = ''Base'', bf_ToChainName = ''Linea'',
      bf_RatioLv1 = 400000, bf_RatioLv2 = 300000, bf_RatioLv3 = 200000, bf_RatioLv4 = 100000,
      bf_AmountLv1 = FFin 100, bf_AmountLv2 = FFin 1000, bf_AmountLv3 = FFin 10000,
      bf_AmountLv4 = FFin 0, bf_KeepDecimal = 2, bf_AmountLv1Str = ''100'',
      bf_AmountLv2Str = ''1000'', bf_AmountLv3Str = ''10000'', bf_AmountLv4Str = ''0''\<rparr>"

definition sample_fees :: BridgeFeeManager where
  "sample_fees = \<lparr>bm_fees = store_fee sample_fee Map.empty\<rparr>"

theorem bridge_fee_within_value_witness:
  "snd (GetBridgeFeeDetail rat_decimal sample_fees ''usdc'' '' base'' ''LINEA'' 50000000 6) \<le> 50000000"
proof -
  have "bf = sample_fee" if "GetBridgeFee sample_fees ''usdc'' '' base'' ''LINEA'' = Some bf" for bf
    using that by (simp add: GetBridgeFee_def sample_fees_def store_fee_def split: if_split_asm)
  then have "bf_RatioLv1 bf \<le> 100000000 \<and> bf_RatioLv2 bf \<le> 100000000 \<and>
      bf_RatioLv3 bf \<le> 100000000 \<and> bf_RatioLv4 bf \<le> 100000000"
    if "GetBridgeFee sample_fees ''usdc'' '' base'' ''LINEA'' = Some bf" for bf
    using that by (simp add: sample_fee_def)
  then show ?thesis by (intro conjunct2 [OF bridge_fee_within_value]) simp_all
qed

end
