(* ===== verification/Dtc.thy ===== *)
theory Dtc
  imports BridgeFee
begin

text \<open>
  \<open>src/loader/dtc.go\<close>: the tiered gas charge (dtc) of a transfer. A level applies up to an amount;
  \<open>GetDtcToInclude\<close> chooses by the amount before the charge is added, \<open>GetIncludedDtc\<close> by the amount
  that already includes it, each with a float and a big integer version.
\<close>

section \<open>Data and loading\<close>

record Dtc =
  dt_TokenName :: string
  dt_FromChainName :: string
  dt_ToChainName :: string
  dt_DtcLv1 :: f64
  dt_DtcLv2 :: f64
  dt_DtcLv3 :: f64
  dt_DtcLv4 :: f64
  dt_AmountLv1 :: f64
  dt_AmountLv2 :: f64
  dt_AmountLv3 :: f64
  dt_AmountLv4 :: f64
  dt_DtcLv1Str :: string
  dt_DtcLv2Str :: string
  dt_DtcLv3Str :: string
  dt_DtcLv4Str :: string
  dt_AmountLv1Str :: string
  dt_AmountLv2Str :: string
  dt_AmountLv3Str :: string
  dt_AmountLv4Str :: string

record DtcManager =
  dm_dtcs :: "string \<Rightarrow> (string \<Rightarrow> (string \<rightharpoonup> Dtc) option) option"

definition NewDtcManager :: DtcManager where
  "NewDtcManager = \<lparr>dm_dtcs = Map.empty\<rparr>"

definition GetDtcs where
  "GetDtcs mgr = dm_dtcs mgr"

definition GetDtc :: "DtcManager \<Rightarrow> string \<Rightarrow> string \<Rightarrow> string \<Rightarrow> Dtc option" where
  "GetDtc mgr token src dst =
     get3 (dm_dtcs mgr) (ToLower (TrimSpace token)) (ToLower (TrimSpace src)) (ToLower (TrimSpace dst))"

definition trim_dtc :: "Dtc \<Rightarrow> Dtc" where
  "trim_dtc r = r
     \<lparr>dt_FromChainName := TrimSpace (dt_FromChainName r), dt_ToChainName := TrimSpace (dt_ToChainName r),
      dt_TokenName := TrimSpace (dt_TokenName r)\<rparr>"

definition prepare_dtc :: "Dtc \<Rightarrow> alert list + Dtc" where
  "prepare_dtc row =
     (let r = trim_dtc row in
      case parse_amounts ''t_dynamic_dtc''
             [(''dtc1'', dt_DtcLv1Str r), (''dtc2'', dt_DtcLv2Str r),
              (''dtc3'', dt_DtcLv3Str r), (''dtc4'', dt_DtcLv4Str r),
              (''amount1'', dt_AmountLv1Str r), (''amount2'', dt_AmountLv2Str r),
              (''amount3'', dt_AmountLv3Str r), (''amount4'', dt_AmountLv4Str r)] of
        Inr [d1, d2, d3, d4, a1, a2, a3, a4] \<Rightarrow>
          Inr (r\<lparr>dt_DtcLv1 := d1, dt_DtcLv2 := d2, dt_DtcLv3 := d3, dt_DtcLv4 := d4,
                 dt_AmountLv1 := a1, dt_AmountLv2 := a2, dt_AmountLv3 := a3, dt_AmountLv4 := a4\<rparr>)
      | Inl al \<Rightarrow> Inl al
      | _ \<Rightarrow> Inl [])"

definition store_dtc where
  "store_dtc r m =
     put3 (ToLower (dt_TokenName r)) (ToLower (dt_FromChainName r)) (ToLower (dt_ToChainName r)) r m"

definition dtc_body where
  "dtc_body row m = (case prepare_dtc row of Inl al \<Rightarrow> (al, m) | Inr r \<Rightarrow> ([], store_dtc r m))"

definition LoadAllDtc :: "Dtc query \<Rightarrow> DtcManager \<Rightarrow> alert list \<times> DtcManager" where
  "LoadAllDtc =
     load_table ''select t_dynamic_dtc error'' ''scan t_dynamic_dtc row error''
       ''get next t_dynamic_dtc row error'' dtc_body Map.empty (\<lambda>m mgr. mgr\<lparr>dm_dtcs := m\<rparr>)"

section \<open>Choosing a level\<close>

definition GetIncludedDtc ::
  "DtcManager \<Rightarrow> string \<Rightarrow> string \<Rightarrow> string \<Rightarrow> f64 \<Rightarrow> (f64 \<times> string) option" where
  "GetIncludedDtc mgr token src dst value =
     (case GetDtc mgr token src dst of
        None \<Rightarrow> None
      | Some d \<Rightarrow>
          if f64_lt (f64_add (dt_AmountLv3 d) (dt_DtcLv3 d)) value then Some (dt_DtcLv4 d, dt_DtcLv4Str d)
          else if f64_lt (f64_add (dt_AmountLv2 d) (dt_DtcLv2 d)) value then Some (dt_DtcLv3 d, dt_DtcLv3Str d)
          else if f64_lt (f64_add (dt_AmountLv1 d) (dt_DtcLv1 d)) value then Some (dt_DtcLv2 d, dt_DtcLv2Str d)
          else Some (dt_DtcLv1 d, dt_DtcLv1Str d))"

definition GetDtcToInclude ::
  "DtcManager \<Rightarrow> string \<Rightarrow> string \<Rightarrow> string \<Rightarrow> f64 \<Rightarrow> (f64 \<times> string) option" where
  "GetDtcToInclude mgr token src dst value =
     (case GetDtc mgr token src dst of
        None \<Rightarrow> None
      | Some d \<Rightarrow>
          if f64_lt (dt_AmountLv3 d) value then Some (dt_DtcLv4 d, dt_DtcLv4Str d)
          else if f64_lt (dt_AmountLv2 d) value then Some (dt_DtcLv3 d, dt_DtcLv3Str d)
          else if f64_lt (dt_AmountLv1 d) value then Some (dt_DtcLv2 d, dt_DtcLv2Str d)
          else Some (dt_DtcLv1 d, dt_DtcLv1Str d))"

definition ui_or_zero :: "'d decimal_lib \<Rightarrow> string \<Rightarrow> int \<Rightarrow> int" where
  "ui_or_zero dec s decimals =
     (if s \<noteq> [] then (case FromUiString dec s decimals of Inr v \<Rightarrow> v | Inl _ \<Rightarrow> 0) else 0)"

definition dtc_FromUiString :: "'d decimal_lib \<Rightarrow> string \<Rightarrow> string \<Rightarrow> int \<Rightarrow> int" where
  "dtc_FromUiString dec amount dtc decimals =
     ui_or_zero dec amount decimals + ui_or_zero dec dtc decimals"

definition GetIncludedDtcBigInt ::
  "'d decimal_lib \<Rightarrow> DtcManager \<Rightarrow> string \<Rightarrow> string \<Rightarrow> string \<Rightarrow> int \<Rightarrow> int \<Rightarrow> int option" where
  "GetIncludedDtcBigInt dec mgr token src dst value decimals =
     (case GetDtc mgr token src dst of
        None \<Rightarrow> None
      | Some d \<Rightarrow>
          if value \<le> dtc_FromUiString dec (dt_AmountLv1Str d) (dt_DtcLv1Str d) decimals
          then Some (dtc_FromUiString dec [] (dt_DtcLv1Str d) decimals)
          else if value \<le> dtc_FromUiString dec (dt_AmountLv2Str d) (dt_DtcLv2Str d) decimals
          then Some (dtc_FromUiString dec [] (dt_DtcLv2Str d) decimals)
          else if value \<le> dtc_FromUiString dec (dt_AmountLv3Str d) (dt_DtcLv3Str d) decimals
          then Some (dtc_FromUiString dec [] (dt_DtcLv3Str d) decimals)
          else Some (dtc_FromUiString dec [] (dt_DtcLv4Str d) decimals))"

definition GetDtcToIncludeBigInt ::
  "'d decimal_lib \<Rightarrow> DtcManager \<Rightarrow> string \<Rightarrow> string \<Rightarrow> string \<Rightarrow> int \<Rightarrow> int \<Rightarrow> int option" where
  "GetDtcToIncludeBigInt dec mgr token src dst value decimals =
     (case GetDtc mgr token src dst of
        None \<Rightarrow> None
      | Some d \<Rightarrow>
          if value \<le> dtc_FromUiString dec (dt_AmountLv1Str d) [] decimals
          then Some (dtc_FromUiString dec [] (dt_DtcLv1Str d) decimals)
          else if value \<le> dtc_FromUiString dec (dt_AmountLv2Str d) [] decimals
          then Some (dtc_FromUiString dec [] (dt_DtcLv2Str d) decimals)
          else if value \<le> dtc_FromUiString dec (dt_AmountLv3Str d) [] decimals
          then Some (dtc_FromUiString dec [] (dt_DtcLv3Str d) decimals)
          else Some (dtc_FromUiString dec [] (dt_DtcLv4Str d) decimals))"

fun first_covering ::
  "'d decimal_lib \<Rightarrow> DtcManager \<Rightarrow> string \<Rightarrow> string \<Rightarrow> string \<Rightarrow> int \<Rightarrow> string list \<Rightarrow> string option" where
  "first_covering dec mgr token src dst decimals [] = None"
| "first_covering dec mgr token src dst decimals (val # vals) =
     (let value = dtc_FromUiString dec [] val decimals in
      case GetIncludedDtcBigInt dec mgr token src dst value decimals of
        None \<Rightarrow> first_covering dec mgr token src dst decimals vals
      | Some included \<Rightarrow>
          if included \<le> value then Some val
          else first_covering dec mgr token src dst decimals vals)"

definition GetMinValueIncludeGasFee ::
  "'d decimal_lib \<Rightarrow> DtcManager \<Rightarrow> string \<Rightarrow> string \<Rightarrow> string \<Rightarrow> int \<Rightarrow> string option" where
  "GetMinValueIncludeGasFee dec mgr token src dst decimals =
     (case GetDtc mgr token src dst of
        None \<Rightarrow> None
      | Some d \<Rightarrow> first_covering dec mgr token src dst decimals
          [dt_DtcLv1Str d, dt_DtcLv2Str d, dt_DtcLv3Str d, dt_DtcLv4Str d])"

section \<open>The table after a load\<close>

lemma prepare_dtc_names:
  "prepare_dtc row = Inr r \<Longrightarrow>
   dt_TokenName r = TrimSpace (dt_TokenName row) \<and> dt_FromChainName r = TrimSpace (dt_FromChainName row) \<and>
   dt_ToChainName r = TrimSpace (dt_ToChainName row)"
  by (auto simp: prepare_dtc_def trim_dtc_def Let_def split: sum.split_asm list.split_asm)

definition dtc_accepted where
  "dtc_accepted row \<longleftrightarrow> (case prepare_dtc row of Inl _ \<Rightarrow> False | Inr _ \<Rightarrow> True)"

definition dtc_value where
  "dtc_value row = (case prepare_dtc row of Inr r \<Rightarrow> r | Inl _ \<Rightarrow> row)"

definition dtc_key where
  "dtc_key row =
     (norm_key (dt_TokenName row), norm_key (dt_FromChainName row), norm_key (dt_ToChainName row))"

interpretation dtc_index: row_index "\<lambda>m (a, b, c). get3 m a b c" "\<lambda>row m. snd (dtc_body row m)"
  dtc_key dtc_value dtc_accepted
proof
  fix row and m :: "string \<Rightarrow> (string \<Rightarrow> (string \<rightharpoonup> Dtc) option) option" and k
  show "(case k of (a, b, c) \<Rightarrow> get3 (snd (dtc_body row m)) a b c) =
      (if dtc_accepted row \<and> dtc_key row = k then Some (dtc_value row)
       else case k of (a, b, c) \<Rightarrow> get3 m a b c)"
  proof (cases "prepare_dtc row")
    case (Inl al)
    then show ?thesis by (simp add: dtc_body_def dtc_accepted_def)
  next
    case (Inr r)
    obtain a b c where k: "k = (a, b, c)" by (cases k)
    show ?thesis
      using prepare_dtc_names [OF Inr] Inr
      by (simp add: k dtc_body_def dtc_accepted_def dtc_value_def dtc_key_def store_dtc_def norm_key_def
          eq_commute [of a] eq_commute [of b] eq_commute [of c])
  qed
qed

interpretation dtc_load: reloadable LoadAllDtc good_query dm_dtcs
  "\<lambda>q. fold (\<lambda>r s. snd (dtc_body r s)) (query_rows q) Map.empty"
  unfolding LoadAllDtc_def by (rule load_table_reloadable [where h = "\<lambda>m. m"]) simp

lemma GetDtc_loaded:
  "GetDtc (snd (LoadAllDtc (Rows rs None) mgr)) token src dst =
     map_option dtc_value
       (last_row (\<lambda>r. dtc_accepted r \<and> dtc_key r = (norm_key token, norm_key src, norm_key dst)) (scanned rs))"
  using dtc_index.get_fold [of "scanned rs" Map.empty "(norm_key token, norm_key src, norm_key dst)"]
    dtc_load.load_good [of "Rows rs None" mgr]
  by (simp add: GetDtc_def ToLower_TrimSpace split: option.split)

section \<open>Consistency of the two choices\<close>

definition level :: "'d decimal_lib \<Rightarrow> int \<Rightarrow> string \<Rightarrow> int" where
  "level dec decimals s = ui_or_zero dec s decimals"

definition levels_sorted :: "'d decimal_lib \<Rightarrow> int \<Rightarrow> Dtc \<Rightarrow> bool" where
  \<comment> \<open>a larger amount is charged at least as much\<close>
  "levels_sorted dec n d \<longleftrightarrow>
     level dec n (dt_AmountLv1Str d) \<le> level dec n (dt_AmountLv2Str d) \<and>
     level dec n (dt_AmountLv2Str d) \<le> level dec n (dt_AmountLv3Str d) \<and>
     level dec n (dt_DtcLv1Str d) \<le> level dec n (dt_DtcLv2Str d) \<and>
     level dec n (dt_DtcLv2Str d) \<le> level dec n (dt_DtcLv3Str d) \<and>
     level dec n (dt_DtcLv3Str d) \<le> level dec n (dt_DtcLv4Str d)"

lemma dtc_FromUiString_level:
  "dtc_FromUiString dec a d n = level dec n a + level dec n d" "level dec n [] = 0"
  by (simp_all add: dtc_FromUiString_def level_def ui_or_zero_def)

text \<open>
  C11. Adding the charge to a value and then asking which charge the sum includes gives the same
  charge back, as long as amounts and charges do not decrease from level to level. Sender and
  receiver therefore agree on the charge of a transfer.
\<close>

theorem dtc_add_then_recover:
  assumes "GetDtc mgr token src dst = Some d" and "levels_sorted dec decimals d"
    and "GetDtcToIncludeBigInt dec mgr token src dst value decimals = Some c"
  shows "GetIncludedDtcBigInt dec mgr token src dst (value + c) decimals = Some c"
  using assms
  by (auto simp: GetDtcToIncludeBigInt_def GetIncludedDtcBigInt_def levels_sorted_def dtc_FromUiString_level
      split: if_split_asm)

text \<open>
  A minimum that \<open>GetMinValueIncludeGasFee\<close> returns is one of the four charges of the table entry
  and covers the charge it includes; it fails only if none of the four does. For an entry whose
  first amount is not negative it is simply the first charge: the other levels are never tried.
\<close>

theorem dtc_min_value:
  assumes "GetDtc mgr token src dst = Some d"
  shows "GetMinValueIncludeGasFee dec mgr token src dst decimals =
      find (\<lambda>val. \<exists>c. GetIncludedDtcBigInt dec mgr token src dst (level dec decimals val) decimals = Some c \<and>
                   c \<le> level dec decimals val)
        [dt_DtcLv1Str d, dt_DtcLv2Str d, dt_DtcLv3Str d, dt_DtcLv4Str d] \<and>
    (0 \<le> level dec decimals (dt_AmountLv1Str d) \<longrightarrow>
     GetMinValueIncludeGasFee dec mgr token src dst decimals = Some (dt_DtcLv1Str d))"
proof -
  have covering: "first_covering dec mgr token src dst decimals vals =
      find (\<lambda>val. \<exists>c. GetIncludedDtcBigInt dec mgr token src dst (level dec decimals val) decimals = Some c \<and>
                   c \<le> level dec decimals val) vals" for vals
    by (induction vals) (auto simp: Let_def dtc_FromUiString_level split: option.split)
  have get: "GetMinValueIncludeGasFee dec mgr token src dst decimals =
      first_covering dec mgr token src dst decimals
        [dt_DtcLv1Str d, dt_DtcLv2Str d, dt_DtcLv3Str d, dt_DtcLv4Str d]"
    by (simp only: GetMinValueIncludeGasFee_def assms option.case)
  moreover have "0 \<le> level dec decimals (dt_AmountLv1Str d) \<Longrightarrow>
      first_covering dec mgr token src dst decimals (dt_DtcLv1Str d # vals) = Some (dt_DtcLv1Str d)" for vals
    using assms by (simp add: Let_def GetIncludedDtcBigInt_def dtc_FromUiString_level)
  ultimately show ?thesis using covering by metis
qed

section \<open>An entry\<close>

definition sample_dtc :: Dtc where
  "sample_dtc =
     \<lparr>dt_TokenName = ''ETH'', dt_FromChainName = ''Base'', dt_ToChainName = ''Linea'',
      dt_DtcLv1 = FFin 1, dt_DtcLv2 = FFin 2, dt_DtcLv3 = FFin 3, dt_DtcLv4 = FFin 4,
      dt_AmountLv1 = FFin 10, dt_AmountLv2 = FFin 20, dt_AmountLv3 = FFin 30, dt_AmountLv4 = FFin 0,
      dt_DtcLv1Str = ''1'', dt_DtcLv2Str = ''2'', dt_DtcLv3Str = ''3'', dt_DtcLv4Str = ''4'',
      dt_AmountLv1Str = ''10'', dt_AmountLv2Str = ''20'', dt_AmountLv3Str = ''30'', dt_AmountLv4Str = ''0''\<rparr>"

definition sample_dtcs :: DtcManager where
  "sample_dtcs = \<lparr>dm_dtcs = store_dtc sample_dtc Map.empty\<rparr>"

lemma sample_dtc_found: "GetDtc sample_dtcs ''ETH'' ''Base'' ''Linea'' = Some sample_dtc"
proof -
  have "TrimSpace ''ETH'' = ''ETH''" "TrimSpace ''Base'' = ''Base''" "TrimSpace ''Linea'' = ''Linea''"
    by code_simp+
  then show ?thesis by (simp add: GetDtc_def sample_dtcs_def store_dtc_def sample_dtc_def)
qed

lemma sample_numbers:
  "Rat_SetString ''1'' = Some 1" "Rat_SetString ''2'' = Some 2" "Rat_SetString ''3'' = Some 3"
  "Rat_SetString ''4'' = Some 4" "Rat_SetString ''10'' = Some 10" "Rat_SetString ''20'' = Some 20"
  "Rat_SetString ''30'' = Some 30"
  by code_simp+

lemma sample_levels:
  "level rat_decimal 0 ''1'' = 1" "level rat_decimal 0 ''2'' = 2" "level rat_decimal 0 ''3'' = 3"
  "level rat_decimal 0 ''4'' = 4" "level rat_decimal 0 ''10'' = 10" "level rat_decimal 0 ''20'' = 20"
  "level rat_decimal 0 ''30'' = 30"
  using rat_trunc_of_int
  by (simp_all add: level_def ui_or_zero_def FromUiString_def rat_decimal_def sample_numbers rat_pow_def
      rat_trunc_def)

theorem dtc_add_then_recover_witness:
  "GetIncludedDtcBigInt rat_decimal sample_dtcs ''ETH'' ''Base'' ''Linea'' 18 0 = Some 2"
proof -
  have "levels_sorted rat_decimal 0 sample_dtc"
    by (simp add: levels_sorted_def sample_dtc_def sample_levels)
  moreover have "GetDtcToIncludeBigInt rat_decimal sample_dtcs ''ETH'' ''Base'' ''Linea'' 16 0 = Some 2"
    by (simp only: GetDtcToIncludeBigInt_def sample_dtc_found option.case dtc_FromUiString_level)
      (simp add: sample_dtc_def sample_levels)
  ultimately show ?thesis using dtc_add_then_recover [OF sample_dtc_found, of rat_decimal 0 16 2] by simp
qed

theorem dtc_min_value_witness:
  "GetMinValueIncludeGasFee rat_decimal sample_dtcs ''ETH'' ''Base'' ''Linea'' 0 = Some ''1''"
proof -
  have "dt_AmountLv1Str sample_dtc = ''10''" "dt_DtcLv1Str sample_dtc = ''1''"
    by (simp_all add: sample_dtc_def)
  then show ?thesis
    using conjunct2 [OF dtc_min_value [OF sample_dtc_found, of rat_decimal 0]] sample_levels(5) by simp
qed

end
