(* ===== verification/LpInfo.thy ===== *)
theory LpInfo
  imports GoFloat Rows
begin

text \<open>
  \<open>src/loader/lp_info.go\<close>: the liquidity providers by version, token, source chain, target chain and
  maker. The five nested maps are built and read level by level as in the code; the three nested
  loops of \<open>GetTokensByLp\<close> take their iteration orders as arguments.
\<close>

section \<open>Data\<close>

definition LpInfoVersion :: int where "LpInfoVersion = 1"

record LpInfo =
  lp_Version :: int
  lp_TokenName :: string
  lp_FromChainName :: string
  lp_ToChainName :: string
  lp_MinValue :: f64
  lp_MaxValue :: f64
  lp_BridgeFeeRatio :: f64
  lp_MinValueStr :: string
  lp_MaxValueStr :: string
  lp_BridgeFeeRatioStr :: string
  lp_MakerAddress :: string
  lp_IsDisabled :: int

type_synonym maker_map = "string \<rightharpoonup> LpInfo"
type_synonym lp_index =
  "int \<Rightarrow> (string \<Rightarrow> (string \<Rightarrow> (string \<Rightarrow> maker_map option) option) option) option"

record LpInfoManager =
  lm_lpInfos :: lp_index
  lm_allLpInfos :: "LpInfo list"

definition NewLpInfoManager :: LpInfoManager where
  "NewLpInfoManager = \<lparr>lm_lpInfos = Map.empty, lm_allLpInfos = []\<rparr>"

section \<open>Lookups\<close>

definition GetAllLpInfos :: "LpInfoManager \<Rightarrow> LpInfo list" where
  "GetAllLpInfos mgr = lm_allLpInfos mgr"

definition GetLpInfos :: "LpInfoManager \<Rightarrow> int \<Rightarrow> string \<Rightarrow> string \<Rightarrow> string \<Rightarrow> maker_map option" where
  "GetLpInfos mgr version token src dst =
     (case get3 (lm_lpInfos mgr) version (norm_key token) (norm_key src) of
        None \<Rightarrow> None | Some infos \<Rightarrow> infos (norm_key dst))"

definition GetLpInfo ::
  "LpInfoManager \<Rightarrow> int \<Rightarrow> string \<Rightarrow> string \<Rightarrow> string \<Rightarrow> string \<Rightarrow> LpInfo option" where
  "GetLpInfo mgr version token src dst maker =
     get5 (lm_lpInfos mgr) version (norm_key token) (norm_key src) (norm_key dst) (norm_key maker)"

definition GetTokensByLp ::
  "LpInfoManager \<Rightarrow> string list \<Rightarrow> (string \<Rightarrow> string list) \<Rightarrow> (string \<Rightarrow> string list) \<Rightarrow>
   int \<Rightarrow> string \<Rightarrow> string \<Rightarrow> string list option" where
  \<comment> \<open>\<open>tokens\<close>, \<open>froms t\<close> and \<open>tos t\<close> order the keys of the outer map, of a token's map, and of the
      map of the token's requested source chain; the third loop breaks at its match\<close>
  "GetTokensByLp mgr tokens froms tos version src dst =
     (case lm_lpInfos mgr version of
        None \<Rightarrow> None
      | Some versionInfos \<Rightarrow>
          Some (concat (map (\<lambda>tokenName.
            case versionInfos tokenName of
              None \<Rightarrow> []
            | Some ftInfos \<Rightarrow>
                concat (map (\<lambda>fromName.
                  case ftInfos fromName of
                    None \<Rightarrow> []
                  | Some ftInfo \<Rightarrow>
                      if fromName \<noteq> norm_key src then []
                      else if list_ex (\<lambda>toName. ftInfo toName \<noteq> None \<and> toName = norm_key dst) (tos tokenName)
                      then [ToUpper tokenName] else [])
                  (froms tokenName)))
            tokens)))"

section \<open>Loading\<close>

definition trim_lp :: "LpInfo \<Rightarrow> LpInfo" where
  "trim_lp r = r
     \<lparr>lp_FromChainName := TrimSpace (lp_FromChainName r), lp_ToChainName := TrimSpace (lp_ToChainName r),
      lp_TokenName := TrimSpace (lp_TokenName r), lp_MakerAddress := TrimSpace (lp_MakerAddress r)\<rparr>"

definition float_alert :: "string \<Rightarrow> string \<Rightarrow> alert list" where
  "float_alert msg s = [(msg, Some (''strconv.ParseFloat: '' @ s))]"

definition prepare_lp :: "LpInfo \<Rightarrow> alert list + LpInfo" where
  "prepare_lp row =
     (let r = trim_lp row in
      case ParseFloat (lp_MinValueStr r) of
        None \<Rightarrow> Inl (float_alert ''t_lp_info min not float'' (lp_MinValueStr r))
      | Some mn \<Rightarrow>
          (case ParseFloat (lp_MaxValueStr r) of
             None \<Rightarrow> Inl (float_alert ''t_lp_info max not float'' (lp_MaxValueStr r))
           | Some mx \<Rightarrow>
               (case ParseFloat (lp_BridgeFeeRatioStr r) of
                  None \<Rightarrow> Inl (float_alert ''t_lp_info bridge fee not float'' (lp_BridgeFeeRatioStr r))
                | Some bdgfee \<Rightarrow>
                    Inr (r\<lparr>lp_MinValue := mn, lp_MaxValue := mx, lp_BridgeFeeRatio := bdgfee\<rparr>))))"

definition store_lp :: "LpInfo \<Rightarrow> lp_index \<times> LpInfo list \<Rightarrow> lp_index \<times> LpInfo list" where
  "store_lp r = (\<lambda>(index, infos).
     (put5 (lp_Version r) (ToLower (lp_TokenName r)) (ToLower (lp_FromChainName r))
        (ToLower (lp_ToChainName r)) (ToLower (lp_MakerAddress r)) r index,
      infos @ [r]))"

definition lp_body where
  "lp_body row s = (case prepare_lp row of Inl al \<Rightarrow> (al, s) | Inr r \<Rightarrow> ([], store_lp r s))"

definition LoadAllLpInfo :: "LpInfo query \<Rightarrow> LpInfoManager \<Rightarrow> alert list \<times> LpInfoManager" where
  "LoadAllLpInfo =
     load_table ''select t_lp_info error'' ''scan t_lp_info row error''
       ''get next t_lp_info row error'' lp_body (Map.empty, [])
       (\<lambda>(index, infos) mgr. mgr\<lparr>lm_lpInfos := index, lm_allLpInfos := infos\<rparr>)"

section \<open>The index after a load\<close>

definition lp_accepted where
  "lp_accepted row \<longleftrightarrow> (case prepare_lp row of Inl _ \<Rightarrow> False | Inr _ \<Rightarrow> True)"

definition lp_value where
  "lp_value row = (case prepare_lp row of Inr r \<Rightarrow> r | Inl _ \<Rightarrow> row)"

definition lp_key where
  "lp_key row =
     (lp_Version row, norm_key (lp_TokenName row), norm_key (lp_FromChainName row),
      norm_key (lp_ToChainName row), norm_key (lp_MakerAddress row))"

lemma prepare_lp_names:
  "prepare_lp row = Inr r \<Longrightarrow>
   lp_Version r = lp_Version row \<and> lp_TokenName r = TrimSpace (lp_TokenName row) \<and>
   lp_FromChainName r = TrimSpace (lp_FromChainName row) \<and>
   lp_ToChainName r = TrimSpace (lp_ToChainName row) \<and>
   lp_MakerAddress r = TrimSpace (lp_MakerAddress row)"
  by (auto simp: prepare_lp_def trim_lp_def Let_def split: option.split_asm)

interpretation lp_entry: row_index "\<lambda>(index, infos) (v, t, f, d, k). get5 index v t f d k"
  "\<lambda>row s. snd (lp_body row s)" lp_key lp_value lp_accepted
proof
  fix row and s :: "lp_index \<times> LpInfo list" and key
  show "(case snd (lp_body row s) of (index, infos) \<Rightarrow> \<lambda>(v, t, f, d, k). get5 index v t f d k) key =
      (if lp_accepted row \<and> lp_key row = key then Some (lp_value row)
       else (case s of (index, infos) \<Rightarrow> \<lambda>(v, t, f, d, k). get5 index v t f d k) key)"
  proof (cases "prepare_lp row")
    case (Inl al)
    then show ?thesis by (simp add: lp_body_def lp_accepted_def)
  next
    case (Inr r)
    obtain v t f d k where key: "key = (v, t, f, d, k)" by (cases key)
    obtain index infos where s: "s = (index, infos)" by (cases s)
    show ?thesis
      using prepare_lp_names [OF Inr] Inr
      by (simp add: key s lp_body_def lp_accepted_def lp_value_def lp_key_def store_lp_def norm_key_def
          eq_commute [of v] eq_commute [of t] eq_commute [of f] eq_commute [of d] eq_commute [of k])
  qed
qed

interpretation lp_all: row_group "\<lambda>(index, infos) (u::unit). infos" "\<lambda>row s. snd (lp_body row s)"
  "\<lambda>_. ()" lp_value lp_accepted
  by unfold_locales
    (auto simp: lp_body_def lp_accepted_def lp_value_def store_lp_def split: sum.split)

interpretation lp_load: reloadable LoadAllLpInfo good_query "\<lambda>m. (lm_lpInfos m, lm_allLpInfos m)"
  "\<lambda>q. fold (\<lambda>r s. snd (lp_body r s)) (query_rows q) (Map.empty, [])"
  unfolding LoadAllLpInfo_def by (rule load_table_reloadable [where h = "\<lambda>m. m"]) auto

lemma lp_loaded:
  "lm_lpInfos (snd (LoadAllLpInfo (Rows rs None) mgr)) =
     fst (fold (\<lambda>r s. snd (lp_body r s)) (scanned rs) (Map.empty, []))"
  "lm_allLpInfos (snd (LoadAllLpInfo (Rows rs None) mgr)) =
     snd (fold (\<lambda>r s. snd (lp_body r s)) (scanned rs) (Map.empty, []))"
  using lp_load.load_good [of "Rows rs None" mgr] by (simp_all add: prod_eq_iff)

text \<open>
  \<open>GetLpInfo\<close> after a load returns the last row with these five keys whose three numbers parse,
  and \<open>GetAllLpInfos\<close> lists exactly the rows whose numbers parse, in the order of the table.
\<close>

theorem lp_lookup_loaded:
  "GetLpInfo (snd (LoadAllLpInfo (Rows rs None) mgr)) version token src dst maker =
     map_option lp_value
       (last_row (\<lambda>r. lp_accepted r \<and>
          lp_key r = (version, norm_key token, norm_key src, norm_key dst, norm_key maker)) (scanned rs)) \<and>
   GetAllLpInfos (snd (LoadAllLpInfo (Rows rs None) mgr)) = map lp_value (filter lp_accepted (scanned rs))"
proof -
  let ?s = "fold (\<lambda>r s. snd (lp_body r s)) (scanned rs) (Map.empty, [])"
  obtain index infos where s: "?s = (index, infos)" by (cases ?s)
  then show ?thesis
    using lp_entry.get_fold [of "scanned rs" "(Map.empty, [])"
        "(version, norm_key token, norm_key src, norm_key dst, norm_key maker)"]
      lp_all.get_fold [of "scanned rs" "(Map.empty, [])" "()"] lp_loaded [of rs mgr]
    by (simp add: GetLpInfo_def GetAllLpInfos_def split: option.splits)
qed

section \<open>The tokens between two chains\<close>

lemma concat_single:
  "distinct xs \<Longrightarrow>
   concat (map (\<lambda>x. if x \<noteq> a then [] else if P x then [y] else []) xs) =
     (if a \<in> set xs \<and> P a then [y] else [])"
  by (induction xs) auto

definition lp_between :: "lp_index \<Rightarrow> int \<Rightarrow> string \<Rightarrow> string \<Rightarrow> string \<Rightarrow> bool" where
  "lp_between index version src dst token \<longleftrightarrow>
     get2 (inner (inner index version) token) (norm_key src) (norm_key dst) \<noteq> None"

lemma tokens_of_one:
  assumes fs: "iter_order ft fs" and ts: "\<forall>m. ft a = Some m \<longrightarrow> set ts = dom m"
  shows "concat (map (\<lambda>fromName. case ft fromName of None \<Rightarrow> []
           | Some ftInfo \<Rightarrow> if fromName \<noteq> a then []
               else if list_ex (\<lambda>toName. ftInfo toName \<noteq> None \<and> toName = b) ts then [y] else []) fs) =
         (if get2 ft a b \<noteq> None then [y] else [])"
proof -
  have "concat (map (\<lambda>fromName. case ft fromName of None \<Rightarrow> []
           | Some ftInfo \<Rightarrow> if fromName \<noteq> a then []
               else if list_ex (\<lambda>toName. ftInfo toName \<noteq> None \<and> toName = b) ts then [y] else []) fs) =
        concat (map (\<lambda>fromName. if fromName \<noteq> a then []
               else if get2 ft a b \<noteq> None then [y] else []) fs)"
    using ts by (intro arg_cong [of _ _ concat] map_cong)
      (auto simp: get2_def list_ex_iff split: option.splits)
  also have "\<dots> = (if get2 ft a b \<noteq> None then [y] else [])"
    using fs by (subst concat_single) (auto simp: iter_order_def get2_def split: option.splits)
  finally show ?thesis .
qed

text \<open>
  C35. In whatever order Go walks the three maps, \<open>GetTokensByLp\<close> returns each token that has an entry
  between the two chains exactly once, in upper case, and no other token.
\<close>

theorem lp_tokens_between:
  assumes "lm_lpInfos mgr version = Some versionInfos" and "iter_order versionInfos tokens"
    and "\<And>t ft. versionInfos t = Some ft \<Longrightarrow> iter_order ft (froms t)"
    and "\<And>t m. get2 versionInfos t (norm_key src) = Some m \<Longrightarrow> set (tos t) = dom m"
  shows "GetTokensByLp mgr tokens froms tos version src dst =
     Some (map ToUpper (filter (lp_between (lm_lpInfos mgr) version src dst) tokens))"
proof -
  let ?one = "\<lambda>t. if lp_between (lm_lpInfos mgr) version src dst t then [ToUpper t] else []"
  have one: "(case versionInfos t of None \<Rightarrow> []
      | Some ft \<Rightarrow> concat (map (\<lambda>fromName. case ft fromName of None \<Rightarrow> []
           | Some ftInfo \<Rightarrow> if fromName \<noteq> norm_key src then []
               else if list_ex (\<lambda>toName. ftInfo toName \<noteq> None \<and> toName = norm_key dst) (tos t)
               then [ToUpper t] else []) (froms t))) = ?one t" for t
  proof (cases "versionInfos t")
    case None
    then show ?thesis by (simp add: lp_between_def assms(1) inner_def get2_def)
  next
    case (Some ft)
    have "\<forall>m. ft (norm_key src) = Some m \<longrightarrow> set (tos t) = dom m"
      using assms(4) [of t] Some by (simp add: get2_def)
    from tokens_of_one [OF assms(3) [OF Some] this, of "norm_key dst" "ToUpper t"] show ?thesis
      by (simp only: Some option.case lp_between_def assms(1) inner_def)
  qed
  have "concat (map ?one tokens) = map ToUpper (filter (lp_between (lm_lpInfos mgr) version src dst) tokens)"
    by (induction tokens) simp_all
  then show ?thesis
    by (simp only: GetTokensByLp_def assms(1) option.case one)
qed

definition sample_lps :: LpInfoManager where
  "sample_lps = NewLpInfoManager
     \<lparr>lm_lpInfos := put5 1 ''usdc'' ''base'' ''scroll'' ''0xab'' undefined Map.empty\<rparr>"

theorem lp_tokens_between_witness:
  "GetTokensByLp sample_lps [''usdc''] (\<lambda>t. [''base'']) (\<lambda>t. [''scroll'']) 1 ''Base'' ''Scroll'' =
     Some [''USDC'']"
proof -
  have k: "norm_key ''Base'' = ''base''" "norm_key ''Scroll'' = ''scroll''" "ToUpper ''usdc'' = ''USDC''"
    by code_simp+
  have m: "lm_lpInfos sample_lps 1 =
      Some [''usdc'' \<mapsto> [''base'' \<mapsto> [''scroll'' \<mapsto> [''0xab'' \<mapsto> undefined]]]]"
    by (simp add: sample_lps_def NewLpInfoManager_def put5_def put2_def inner_def)
  have "GetTokensByLp sample_lps [''usdc''] (\<lambda>t. [''base'']) (\<lambda>t. [''scroll'']) 1 ''Base'' ''Scroll'' =
     Some (map ToUpper (filter (lp_between (lm_lpInfos sample_lps) 1 ''Base'' ''Scroll'') [''usdc'']))"
    by (rule lp_tokens_between [OF m]) (auto simp: iter_order_def get2_def k split: if_splits option.splits)
  then show ?thesis by (simp add: lp_between_def k m inner_def get2_def)
qed

end
