(* ===== verification/NodeInfo.thy ===== *)
theory NodeInfo
  imports Rows "HOL-Library.Product_Lexorder"
begin

text \<open>
  \<open>src/loader/node_info.go\<close>: the RPC nodes of the chains, kept sorted by falling usability and, for
  equal usability, rising id. \<open>sort.Slice\<close> is an argument with the contract \<open>sort_slice_spec\<close>.
\<close>

section \<open>Data\<close>

record NodeInfo =
  ni_Id :: int
  ni_UpdateTimestamp :: int
  ni_InsertTimestamp :: int
  ni_ChainId :: int
  ni_RealChainId :: int
  ni_RpcURL :: string
  ni_Type :: int
  ni_Usability :: int

record NodeInfoManager =
  nm_idNodes :: "int \<rightharpoonup> NodeInfo"
  nm_realChainIdNodes :: "int \<rightharpoonup> NodeInfo list"
  nm_realChainIdTypeNodes :: "int \<Rightarrow> (int \<rightharpoonup> NodeInfo list) option"
  nm_allNodes :: "NodeInfo list"

definition NewNodeInfoManager :: NodeInfoManager where
  "NewNodeInfoManager =
     \<lparr>nm_idNodes = Map.empty, nm_realChainIdNodes = Map.empty, nm_realChainIdTypeNodes = Map.empty,
      nm_allNodes = []\<rparr>"

section \<open>Lookups\<close>

definition GetNodeInfoById :: "NodeInfoManager \<Rightarrow> int \<Rightarrow> NodeInfo option" where
  "GetNodeInfoById mgr i = nm_idNodes mgr i"

definition GetNodeInfosByRealChainId :: "NodeInfoManager \<Rightarrow> int \<Rightarrow> NodeInfo list" where
  "GetNodeInfosByRealChainId mgr realChainId = slice_at (nm_realChainIdNodes mgr) realChainId"

definition GetNodeInfosByRealChainIdAndType :: "NodeInfoManager \<Rightarrow> int \<Rightarrow> int \<Rightarrow> NodeInfo list" where
  "GetNodeInfosByRealChainIdAndType mgr realChainId nodeType =
     (case nm_realChainIdTypeNodes mgr realChainId of
        None \<Rightarrow> [] | Some typeNodes \<Rightarrow> slice_at typeNodes nodeType)"

definition GetAllNodes :: "NodeInfoManager \<Rightarrow> NodeInfo list" where
  "GetAllNodes mgr = nm_allNodes mgr"

definition GetEnabledNodes :: "NodeInfoManager \<Rightarrow> NodeInfo list" where
  "GetEnabledNodes mgr = filter (\<lambda>n. 0 < ni_Usability n) (nm_allNodes mgr)"


definition GetAvailableNodeByRealChainId :: "NodeInfoManager \<Rightarrow> int \<Rightarrow> NodeInfo option" where
  "GetAvailableNodeByRealChainId mgr realChainId =
     find (\<lambda>n. 0 < ni_Usability n) (slice_at (nm_realChainIdNodes mgr) realChainId)"

section \<open>Loading\<close>

definition node_less :: "NodeInfo \<Rightarrow> NodeInfo \<Rightarrow> bool" where
  \<comment> \<open>the comparison of \<open>sortNodesByUsability\<close>\<close>
  "node_less a b =
     (if ni_Usability a = ni_Usability b then ni_Id a < ni_Id b else ni_Usability b < ni_Usability a)"

definition put_node where
  "put_node n = (\<lambda>(ids, byChain, byType, nodes).
     (ids(ni_Id n \<mapsto> n), app1 (ni_RealChainId n) n byChain,
      app2 (ni_RealChainId n) (ni_Type n) n byType, nodes @ [n]))"

definition install_nodes where
  "install_nodes srt = (\<lambda>(ids, byChain, byType, nodes) (mgr :: NodeInfoManager).
     mgr\<lparr>nm_idNodes := ids,
         nm_realChainIdNodes := (\<lambda>c. map_option srt (byChain c)),
         nm_realChainIdTypeNodes := (\<lambda>c. map_option (\<lambda>m t. map_option srt (m t)) (byType c)),
         nm_allNodes := srt nodes\<rparr>)"

definition LoadAllNodes ::
  "(NodeInfo list \<Rightarrow> NodeInfo list) \<Rightarrow> NodeInfo query \<Rightarrow> NodeInfoManager \<Rightarrow>
   alert list \<times> NodeInfoManager" where
  "LoadAllNodes srt =
     load_table ''select t_node_info error'' ''scan t_node_info row error''
       ''iterate t_node_info rows error'' (\<lambda>n s. ([], put_node n s))
       (Map.empty, Map.empty, Map.empty, []) (install_nodes srt)"

section \<open>The slices after a load\<close>

interpretation node_ids: row_index "\<lambda>(ids, byChain, byType, nodes). ids" put_node ni_Id "\<lambda>n. n" "\<lambda>_. True"
  by unfold_locales (auto simp: put_node_def)

interpretation node_chain: row_group "\<lambda>(ids, byChain, byType, nodes). slice_at byChain" put_node
  ni_RealChainId "\<lambda>n. n" "\<lambda>_. True"
  by unfold_locales (auto simp: put_node_def)

interpretation node_type: row_group "\<lambda>(ids, byChain, byType, nodes) (c, t). slice_at2 byType c t" put_node
  "\<lambda>n. (ni_RealChainId n, ni_Type n)" "\<lambda>n. n" "\<lambda>_. True"
  by unfold_locales (auto simp: put_node_def split: if_splits)

interpretation node_all: row_group "\<lambda>(ids, byChain, byType, nodes) (u::unit). nodes" put_node
  "\<lambda>_. ()" "\<lambda>n. n" "\<lambda>_. True"
  by unfold_locales (auto simp: put_node_def)

interpretation node_load: reloadable "LoadAllNodes srt" good_query "\<lambda>m. m"
  "\<lambda>q. install_nodes srt (fold put_node (query_rows q) (Map.empty, Map.empty, Map.empty, []))
         NewNodeInfoManager" for srt
  unfolding LoadAllNodes_def
  by (rule load_table_reloadable [where h = "\<lambda>s. install_nodes srt s NewNodeInfoManager" and
        body = "\<lambda>n s. ([], put_node n s)", simplified])
    (auto simp: install_nodes_def NewNodeInfoManager_def)

lemma slice_at_sorted:
  "srt [] = [] \<Longrightarrow> slice_at (\<lambda>c. map_option srt (m c)) c = srt (slice_at m c)"
  by (simp add: slice_at_def split: option.splits)

lemma sort_slice_Nil: "sort_slice_spec lt srt \<Longrightarrow> srt [] = []"
  using sort_slice_mset [of lt srt "[]"] by simp

lemma nodes_loaded:
  assumes "sort_slice_spec node_less srt"
    and "mgr' = snd (LoadAllNodes srt (Rows rs None) mgr)"
  shows "GetNodeInfosByRealChainId mgr' c = srt (filter (\<lambda>n. ni_RealChainId n = c) (scanned rs))"
    and "GetNodeInfosByRealChainIdAndType mgr' c t =
      srt (filter (\<lambda>n. ni_RealChainId n = c \<and> ni_Type n = t) (scanned rs))"
    and "GetAllNodes mgr' = srt (scanned rs)"
proof -
  obtain ids byChain byType nodes where
    s: "fold put_node (scanned rs) (Map.empty, Map.empty, Map.empty, []) = (ids, byChain, byType, nodes)"
    by (metis prod_cases4)
  have mgr': "mgr' = install_nodes srt (ids, byChain, byType, nodes) NewNodeInfoManager"
    using assms(2) node_load.load_good [of "Rows rs None" srt mgr] by (simp add: s)
  note nil = sort_slice_Nil [OF assms(1)]
  show "GetNodeInfosByRealChainId mgr' c = srt (filter (\<lambda>n. ni_RealChainId n = c) (scanned rs))"
    using node_chain.get_fold [of "scanned rs" "(Map.empty, Map.empty, Map.empty, [])" c]
    by (simp add: s mgr' install_nodes_def GetNodeInfosByRealChainId_def slice_at_sorted nil)
  show "GetAllNodes mgr' = srt (scanned rs)"
    using node_all.get_fold [of "scanned rs" "(Map.empty, Map.empty, Map.empty, [])" "()"]
    by (simp add: s mgr' install_nodes_def GetAllNodes_def)
  show "GetNodeInfosByRealChainIdAndType mgr' c t =
      srt (filter (\<lambda>n. ni_RealChainId n = c \<and> ni_Type n = t) (scanned rs))"
    using node_type.get_fold [of "scanned rs" "(Map.empty, Map.empty, Map.empty, [])" "(c, t)"]
    by (simp add: s mgr' install_nodes_def GetNodeInfosByRealChainIdAndType_def slice_at2_def inner_def
        slice_at_sorted nil split: option.splits)
qed

section \<open>The best and the available node\<close>

lemma node_less_key:
  "node_less a b \<longleftrightarrow> (- ni_Usability a, ni_Id a) < (- ni_Usability b, ni_Id b)"
  by (auto simp: node_less_def)

lemma node_sort_spec: "sort_slice_spec node_less (sort_key (\<lambda>n. (- ni_Usability n, ni_Id n)))"
  using sort_slice_sort_key [of "\<lambda>n. (- ni_Usability n, ni_Id n)"]
  by (simp add: node_less_key [abs_def])

definition first_node :: "(NodeInfo \<Rightarrow> bool) \<Rightarrow> NodeInfo list \<Rightarrow> NodeInfo option \<Rightarrow> bool" where
  \<comment> \<open>the answer is a node of the list with \<open>P\<close> that no other one with \<open>P\<close> precedes, if there is any\<close>
  "first_node P ns a \<longleftrightarrow>
     (case a of
        None \<Rightarrow> filter P ns = []
      | Some n \<Rightarrow> n \<in> set (filter P ns) \<and> filter (\<lambda>b. P b \<and> node_less b n) ns = [])"

lemma find_sorted:
  assumes "sorted_wrt (\<lambda>x y. \<not> node_less y x) xs"
  shows "first_node P xs (find P xs)"
  using assms by (induction xs) (auto simp: first_node_def node_less_def filter_empty_conv split: option.splits)

lemma first_node_mset: "mset xs = mset ys \<Longrightarrow> first_node P xs a = first_node P ys a"
proof -
  assume "mset xs = mset ys"
  then have "set xs = set ys" by (rule mset_eq_setD)
  then show ?thesis by (auto simp: first_node_def filter_empty_conv split: option.splits)
qed

lemma first_node_filter: "first_node Q (filter P xs) a = first_node (\<lambda>n. P n \<and> Q n) xs a"
  by (simp add: first_node_def conj_commute conj_left_commute conj_assoc split: option.splits)



text \<open>
  \<open>GetAvailableNodeByRealChainId\<close> after a load finds a node exactly when the chain has one of
  positive usability, and then it is the most usable of them, the one with the lowest id among
  equals.
\<close>

theorem node_available:
  assumes "sort_slice_spec node_less srt"
  shows "first_node (\<lambda>n. ni_RealChainId n = c \<and> 0 < ni_Usability n) (scanned rs)
    (GetAvailableNodeByRealChainId (snd (LoadAllNodes srt (Rows rs None) mgr)) c)"
proof -
  let ?P = "\<lambda>n. ni_RealChainId n = c" and ?Q = "\<lambda>n. 0 < ni_Usability n"
  let ?xs = "srt (filter ?P (scanned rs))"
  have "first_node ?Q ?xs (find ?Q ?xs)"
    by (rule find_sorted [OF sort_slice_sorted [OF assms]])
  then have "first_node ?Q (filter ?P (scanned rs)) (find ?Q ?xs)"
    by (simp only: first_node_mset [OF sort_slice_mset [OF assms]])
  moreover have "GetAvailableNodeByRealChainId (snd (LoadAllNodes srt (Rows rs None) mgr)) c = find ?Q ?xs"
    using nodes_loaded(1) [OF assms refl, of rs mgr c]
    by (simp add: GetAvailableNodeByRealChainId_def GetNodeInfosByRealChainId_def)
  ultimately show ?thesis by (simp add: first_node_filter)
qed

definition sample_node :: "int \<Rightarrow> int \<Rightarrow> NodeInfo" where
  "sample_node i u =
     \<lparr>ni_Id = i, ni_UpdateTimestamp = 0, ni_InsertTimestamp = 0, ni_ChainId = 1, ni_RealChainId = 10,
      ni_RpcURL = ''http://node'', ni_Type = 0, ni_Usability = u\<rparr>"


theorem node_available_witness:
  "first_node (\<lambda>n. ni_RealChainId n = 10 \<and> 0 < ni_Usability n) [sample_node 1 0, sample_node 2 5]
     (GetAvailableNodeByRealChainId
       (snd (LoadAllNodes (sort_key (\<lambda>n. (- ni_Usability n, ni_Id n)))
          (Rows [Scanned (sample_node 1 0), Scanned (sample_node 2 5)] None) NewNodeInfoManager)) 10)"
  using node_available [OF node_sort_spec, of 10 "[Scanned (sample_node 1 0), Scanned (sample_node 2 5)]"
      NewNodeInfoManager] by simp

end
