(* ===== verification/Commission.thy ===== *)
theory Commission
  imports Rows
begin

text \<open>
  \<open>src/loader/channel_commission_ratio.go\<close>: the commission tiers of a channel. A panic is the result
  \<open>None\<close>; the sort is an argument with the contract \<open>sort_slice_spec\<close>.
\<close>

section \<open>Data\<close>

record ChannelCommissionRatio =
  cr_txCount :: int
  cr_ratio :: int

record ChannelCommissionRatioManager =
  cc_countToRatio :: "int \<Rightarrow> (int \<rightharpoonup> int) option"
  cc_ratioArr :: "int \<rightharpoonup> ChannelCommissionRatio list"

definition NewChannelCommissionRatioManager :: ChannelCommissionRatioManager where
  "NewChannelCommissionRatioManager = \<lparr>cc_countToRatio = Map.empty, cc_ratioArr = Map.empty\<rparr>"

definition GetRatioByChannelidAndCount ::
  "ChannelCommissionRatioManager \<Rightarrow> int \<Rightarrow> int \<Rightarrow> (int \<times> bool) option" where
  "GetRatioByChannelidAndCount mgr channelid txcount =
     (case cc_ratioArr mgr channelid of
        None \<Rightarrow> Some (0, False)
      | Some sortList \<Rightarrow>
          (case find (\<lambda>kv. txcount < cr_txCount kv) sortList of
             Some kv \<Rightarrow> Some (cr_ratio kv, True)
           | None \<Rightarrow> if sortList = [] then None else Some (cr_ratio (last sortList), True)))"

section \<open>Loading\<close>

definition put_ratio ::
  "int \<times> int \<times> int \<Rightarrow> (int \<Rightarrow> (int \<rightharpoonup> int) option) \<times> (int \<rightharpoonup> ChannelCommissionRatio list) \<Rightarrow>
   (int \<Rightarrow> (int \<rightharpoonup> int) option) \<times> (int \<rightharpoonup> ChannelCommissionRatio list)" where
  \<comment> \<open>the inner map of the channel is made anew for every row\<close>
  "put_ratio = (\<lambda>(channelID, txCount, ratio) (counts, arrs).
     (counts(channelID \<mapsto> [txCount \<mapsto> ratio]),
      app1 channelID \<lparr>cr_txCount = txCount, cr_ratio = ratio\<rparr> arrs))"

definition LoadAllCommissionRatio ::
  "(ChannelCommissionRatio list \<Rightarrow> ChannelCommissionRatio list) \<Rightarrow> (int \<times> int \<times> int) query \<Rightarrow>
   ChannelCommissionRatioManager \<Rightarrow> alert list \<times> ChannelCommissionRatioManager" where
  "LoadAllCommissionRatio srt =
     load_table ''select t_channel_commission_ratio error'' ''scan t_channel_commission_ratio row error''
       ''get next t_channel_commission_ratio row error'' (\<lambda>r s. ([], put_ratio r s)) (Map.empty, Map.empty)
       (\<lambda>(counts, arrs) mgr. mgr\<lparr>cc_countToRatio := counts, cc_ratioArr := (\<lambda>k. map_option srt (arrs k))\<rparr>)"

section \<open>The tiers after a load\<close>

definition tier_of :: "int \<times> int \<times> int \<Rightarrow> ChannelCommissionRatio" where
  "tier_of = (\<lambda>(channelID, txCount, ratio). \<lparr>cr_txCount = txCount, cr_ratio = ratio\<rparr>)"

definition tiers :: "(int \<times> int \<times> int) list \<Rightarrow> int \<Rightarrow> ChannelCommissionRatio list" where
  "tiers rows channelid = map tier_of (filter (\<lambda>r. fst r = channelid) rows)"

interpretation tier_slices: row_group "\<lambda>(counts, arrs). slice_at arrs" put_ratio fst tier_of "\<lambda>_. True"
  by unfold_locales (auto simp: put_ratio_def tier_of_def)

interpretation tier_counts: row_index "\<lambda>(counts, arrs). counts" put_ratio fst
  "\<lambda>(channelID, txCount, ratio). [txCount \<mapsto> ratio]" "\<lambda>_. True"
  by unfold_locales (auto simp: put_ratio_def)

definition no_empty_slice where
  "no_empty_slice m \<longleftrightarrow> (\<forall>k. m k \<noteq> Some [])"

lemma no_empty_slice_app1: "no_empty_slice m \<Longrightarrow> no_empty_slice (app1 k v m)"
  by (simp add: no_empty_slice_def app1_def)

definition commission_of where
  "commission_of srt = (\<lambda>(counts, arrs).
     \<lparr>cc_countToRatio = counts, cc_ratioArr = (\<lambda>k. map_option srt (arrs k))\<rparr>)"

interpretation commission_load: reloadable "LoadAllCommissionRatio srt" good_query "\<lambda>m. m"
  "\<lambda>q. commission_of srt (fold put_ratio (query_rows q) (Map.empty, Map.empty))" for srt
  unfolding LoadAllCommissionRatio_def
  by (rule load_table_reloadable [where h = "commission_of srt" and body = "\<lambda>r s. ([], put_ratio r s)",
        simplified])
    (auto simp: commission_of_def)

text \<open>The slice of a channel that has one is not empty, so the last tier exists.\<close>

lemma tiers_not_empty:
  assumes "fold put_ratio rows (Map.empty, Map.empty) = (counts, arrs)"
  shows "arrs k = (if tiers rows k = [] then None else Some (tiers rows k))"
proof -
  have "no_empty_slice (snd (fold put_ratio rs s))" if "no_empty_slice (snd s)" for rs s
    using that by (induction rs arbitrary: s) (auto simp: put_ratio_def no_empty_slice_app1 split: prod.splits)
  from this [of "(Map.empty, Map.empty)" rows] have "arrs k \<noteq> Some []"
    by (simp add: assms no_empty_slice_def)
  moreover have "slice_at arrs k = tiers rows k"
    using tier_slices.get_fold [of rows "(Map.empty, Map.empty)" k] by (simp add: assms tiers_def)
  ultimately show ?thesis by (auto simp: slice_at_def split: option.splits)
qed

lemma commission_slices:
  "cc_ratioArr (snd (LoadAllCommissionRatio srt (Rows rs None) mgr)) k =
     (if tiers (scanned rs) k = [] then None else Some (srt (tiers (scanned rs) k)))"
proof -
  obtain counts arrs where s: "fold put_ratio (scanned rs) (Map.empty, Map.empty) = (counts, arrs)"
    by (meson surj_pair)
  show ?thesis
    using commission_load.load_good [of "Rows rs None" srt mgr] tiers_not_empty [OF s, of k]
    by (simp add: s commission_of_def)
qed

definition tier_for :: "int \<Rightarrow> ChannelCommissionRatio list \<Rightarrow> ChannelCommissionRatio \<Rightarrow> bool" where
  \<comment> \<open>the tier that covers a number of transactions: the next bound above it, else the highest tier\<close>
  "tier_for n ts t \<longleftrightarrow>
     t \<in> set ts \<and>
     (if n < cr_txCount t then list_all (\<lambda>u. cr_txCount u \<le> n \<or> cr_txCount t \<le> cr_txCount u) ts
      else list_all (\<lambda>u. cr_txCount u \<le> n \<and> cr_txCount u \<le> cr_txCount t) ts)"

lemma tier_for_find:
  assumes "sorted_wrt (\<lambda>x y. \<not> cr_txCount y < cr_txCount x) ts" "ts \<noteq> []"
  shows "tier_for n ts (case find (\<lambda>kv. n < cr_txCount kv) ts of Some kv \<Rightarrow> kv | None \<Rightarrow> last ts)"
proof (cases "find (\<lambda>kv. n < cr_txCount kv) ts")
  case None
  then have all: "list_all (\<lambda>u. cr_txCount u \<le> n) ts" by (auto simp: find_None_iff list_all_iff not_less)
  have "list_all (\<lambda>u. cr_txCount u \<le> cr_txCount (last ts)) ts"
    using assms by (induction ts) (auto simp: list_all_iff not_less)
  with all None show ?thesis using last_in_set [OF assms(2)] by (auto simp: tier_for_def list_all_iff)
next
  case (Some kv)
  then obtain pre post where ts: "ts = pre @ kv # post" "n < cr_txCount kv"
    "list_all (\<lambda>u. \<not> n < cr_txCount u) pre"
    using find_first [of "\<lambda>kv. n < cr_txCount kv" ts kv] by blast
  then show ?thesis using assms(1) Some by (auto simp: tier_for_def list_all_iff sorted_wrt_append not_less)
qed

text \<open>
  After a load \<open>GetRatioByChannelidAndCount\<close> never panics. A channel without scanned tiers has no
  ratio; otherwise the ratio is that of the tier covering the number of transactions: the lowest
  bound above it, and the highest tier for a number beyond all bounds.
\<close>

theorem commission_ratio:
  assumes "sort_slice_spec (\<lambda>a b. cr_txCount a < cr_txCount b) srt"
  shows "case GetRatioByChannelidAndCount
        (snd (LoadAllCommissionRatio srt (Rows rs None) mgr)) channelid n of
      None \<Rightarrow> False
    | Some (ratio, ok) \<Rightarrow>
        (if tiers (scanned rs) channelid = [] then \<not> ok \<and> ratio = 0
         else ok \<and> (\<exists>t. tier_for n (tiers (scanned rs) channelid) t \<and> cr_ratio t = ratio))"
proof (cases "tiers (scanned rs) channelid = []")
  case True
  then show ?thesis by (simp add: GetRatioByChannelidAndCount_def commission_slices)
next
  case False
  let ?ts = "srt (tiers (scanned rs) channelid)"
  have set: "set ?ts = set (tiers (scanned rs) channelid)" by (rule sort_slice_set [OF assms])
  with False have ts: "?ts \<noteq> []" by (metis set_empty)
  have "tier_for n ?ts t = tier_for n (tiers (scanned rs) channelid) t" for t
    by (simp add: tier_for_def list_all_iff set)
  with tier_for_find [OF sort_slice_sorted [OF assms] ts, of n] False ts show ?thesis
    by (auto simp: GetRatioByChannelidAndCount_def commission_slices split: option.splits)
qed

theorem commission_ratio_witness:
  "case GetRatioByChannelidAndCount (snd (LoadAllCommissionRatio (sort_key cr_txCount)
      (Rows [Scanned (7, 10, 5), Scanned (7, 100, 8)] None) NewChannelCommissionRatioManager)) 7 50 of
     None \<Rightarrow> False | Some (ratio, ok) \<Rightarrow> ok"
  using commission_ratio [OF sort_slice_sort_key, where rs = "[Scanned (7, 10, 5), Scanned (7, 100, 8)]"
      and mgr = NewChannelCommissionRatioManager and channelid = 7 and n = 50] by (auto simp: tiers_def split: option.splits)

text \<open>The map from counts to ratios keeps only the last row of a channel.\<close>

lemma commission_counts:
  "cc_countToRatio (snd (LoadAllCommissionRatio srt (Rows rs None) mgr)) k =
     map_option (\<lambda>(channelID, txCount, ratio). [txCount \<mapsto> ratio])
       (last_row (\<lambda>r. fst r = k) (scanned rs))"
proof -
  obtain counts arrs where s: "fold put_ratio (scanned rs) (Map.empty, Map.empty) = (counts, arrs)"
    by (meson surj_pair)
  show ?thesis
    using commission_load.load_good [of "Rows rs None" srt mgr]
      tier_counts.get_fold [of "scanned rs" "(Map.empty, Map.empty)" k]
    by (simp add: s commission_of_def split: option.splits)
qed

end
