(* ===== verification/MakerAddresses.thy ===== *)
theory MakerAddresses
  imports ChainInfo
begin

text \<open>
  \<open>src/loader/maker_address.go\<close>: groups of maker addresses, loaded from three tables. The groups are
  reached through pointers that only the load itself writes through, before it installs them, so
  they are modelled by value. Log lines are recorded like alerts.
\<close>

section \<open>Data\<close>

record MakerAddressGroupPO =
  mg_Id :: int
  mg_GroupName :: string
  mg_Env :: string

record MakerAddressPO =
  mp_Id :: int
  mp_GroupId :: int
  mp_Backend :: Backend
  mp_Address :: string

record MakerAddress =
  ma_GroupId :: int
  ma_GroupName :: string
  ma_Env :: string
  ma_Addresses :: "MakerAddressPO list"
  ma_SecurityAddresses :: "MakerAddressPO list"

record MakerAddressManager =
  mm_groupIdAddress :: "int \<rightharpoonup> MakerAddress"
  mm_envGroup :: "string \<rightharpoonup> MakerAddress list"
  mm_backendAddressToGroup :: "Backend \<Rightarrow> (string \<rightharpoonup> int) option"

definition NewMakerAddressManager :: MakerAddressManager where
  "NewMakerAddressManager =
     \<lparr>mm_groupIdAddress = Map.empty, mm_envGroup = Map.empty, mm_backendAddressToGroup = Map.empty\<rparr>"

section \<open>Lookups\<close>

definition GetMakerAddressesByEnv :: "MakerAddressManager \<Rightarrow> string \<Rightarrow> MakerAddress list" where
  "GetMakerAddressesByEnv mgr env = slice_at (mm_envGroup mgr) env"

definition GetMakerAddressByGroupId :: "MakerAddressManager \<Rightarrow> int \<Rightarrow> MakerAddress option" where
  "GetMakerAddressByGroupId mgr groupId = mm_groupIdAddress mgr groupId"

definition GetGroupIDByBackendAndAddress :: "MakerAddressManager \<Rightarrow> Backend \<Rightarrow> string \<Rightarrow> int" where
  "GetGroupIDByBackendAndAddress mgr backend addr =
     (case mm_backendAddressToGroup mgr backend of
        None \<Rightarrow> 0
      | Some addressMap \<Rightarrow> (case addressMap addr of Some groupId \<Rightarrow> groupId | None \<Rightarrow> 0))"

section \<open>Loading\<close>

type_synonym maker_groups = "int \<rightharpoonup> MakerAddress"
type_synonym address_index = "Backend \<Rightarrow> (string \<rightharpoonup> int) option"

definition put_group :: "MakerAddressGroupPO \<Rightarrow> maker_groups \<Rightarrow> maker_groups" where
  "put_group g groups = groups(mg_Id g \<mapsto>
     \<lparr>ma_GroupId = mg_Id g, ma_GroupName = mg_GroupName g, ma_Env = mg_Env g,
      ma_Addresses = [], ma_SecurityAddresses = []\<rparr>)"

definition put_address ::
  "MakerAddressPO \<Rightarrow> maker_groups \<times> address_index \<Rightarrow> maker_groups \<times> address_index" where
  "put_address a = (\<lambda>(groups, index).
     (case groups (mp_GroupId a) of
        None \<Rightarrow> groups
      | Some g \<Rightarrow> groups(mp_GroupId a \<mapsto> g\<lparr>ma_Addresses := ma_Addresses g @ [a]\<rparr>),
      put2 (mp_Backend a) (mp_Address a) (mp_GroupId a) index))"

definition put_security :: "MakerAddressPO \<Rightarrow> maker_groups \<Rightarrow> maker_groups" where
  "put_security a groups =
     (case groups (mp_GroupId a) of
        None \<Rightarrow> groups
      | Some g \<Rightarrow> groups(mp_GroupId a \<mapsto> g\<lparr>ma_SecurityAddresses := ma_SecurityAddresses g @ [a]\<rparr>))"

definition by_env :: "maker_groups \<Rightarrow> int list \<Rightarrow> string \<rightharpoonup> MakerAddress list" where
  "by_env groups ks = fold (\<lambda>g m. app1 (ma_Env g) g m) (range_vals groups ks) Map.empty"

fun LoadAllMakerAddresses ::
  "(maker_groups \<Rightarrow> int list) \<Rightarrow>
   MakerAddressGroupPO query \<times> MakerAddressPO query \<times> MakerAddressPO query \<Rightarrow>
   MakerAddressManager \<Rightarrow> alert list \<times> MakerAddressManager" where
  \<comment> \<open>\<open>order\<close> gives the order in which the final loop walks the groups\<close>
  "LoadAllMakerAddresses order (QueryErr e, aq, sq) mgr =
     ([(''select maker_address_groups error'', Some e)], mgr)"
| "LoadAllMakerAddresses order (Rows gs gerr, aq, sq) mgr =
     (let (al1, groups) = scan_loop ''scan maker_address_groups row error'' (\<lambda>g s. ([], put_group g s))
                            gs Map.empty
      in case gerr of
        Some e \<Rightarrow> (al1 @ [(''get next maker_address_groups row error'', Some e)], mgr)
      | None \<Rightarrow>
     (case aq of
        QueryErr e \<Rightarrow> (al1 @ [(''select maker_addresses error'', Some e)], mgr)
      | Rows as aerr \<Rightarrow>
     (let (al2, (groups, index)) = scan_loop ''scan maker_addresses row error''
                                     (\<lambda>a s. ([], put_address a s)) as (groups, Map.empty)
      in case aerr of
        Some e \<Rightarrow> (al1 @ al2 @ [(''get next maker_addresses row error'', Some e)], mgr)
      | None \<Rightarrow>
     (case sq of
        QueryErr e \<Rightarrow> (al1 @ al2 @ [(''select security_addresses error'', Some e)], mgr)
      | Rows ss serr \<Rightarrow>
     (let (al3, groups) = scan_loop ''scan security_addresses row error''
                            (\<lambda>a s. ([], put_security a s)) ss groups
      in case serr of
        Some e \<Rightarrow> (al1 @ al2 @ al3 @ [(''get next security_addresses row error'', Some e)], mgr)
      | None \<Rightarrow>
          (al1 @ al2 @ al3,
           mgr\<lparr>mm_groupIdAddress := groups, mm_envGroup := by_env groups (order groups),
               mm_backendAddressToGroup := index\<rparr>))))))"

section \<open>The groups after a load\<close>

definition group_of :: "MakerAddressGroupPO list \<Rightarrow> MakerAddressPO list \<Rightarrow> MakerAddressPO list \<Rightarrow> maker_groups" where
  "group_of gs as ss i =
     map_option (\<lambda>g. \<lparr>ma_GroupId = i, ma_GroupName = mg_GroupName g, ma_Env = mg_Env g,
         ma_Addresses = filter (\<lambda>a. mp_GroupId a = i) as,
         ma_SecurityAddresses = filter (\<lambda>a. mp_GroupId a = i) ss\<rparr>)
       (last_row (\<lambda>g. mg_Id g = i) gs)"

interpretation maker_group: row_index "\<lambda>m. m" put_group mg_Id
  "\<lambda>g. \<lparr>ma_GroupId = mg_Id g, ma_GroupName = mg_GroupName g, ma_Env = mg_Env g,
        ma_Addresses = [], ma_SecurityAddresses = []\<rparr>" "\<lambda>_. True"
  by unfold_locales (auto simp: put_group_def)

interpretation maker_address: row_index "\<lambda>(groups, index) (b, a). get2 index b a" put_address
  "\<lambda>a. (mp_Backend a, mp_Address a)" mp_GroupId "\<lambda>_. True"
  by unfold_locales (auto simp: put_address_def split: if_splits)

lemma groups_step: "fold put_group gs Map.empty = group_of gs [] []"
proof
  fix i
  show "fold put_group gs Map.empty i = group_of gs [] [] i"
    using maker_group.get_fold [of gs Map.empty i]
    by (auto simp: group_of_def split: option.splits dest: last_row_Some)
qed

lemma addresses_step:
  "fst (fold put_address as (group_of gs as0 [], index)) = group_of gs (as0 @ as) []"
proof (induction as arbitrary: as0 index)
  case (Cons a as)
  have "fst (put_address a (group_of gs as0 [], index)) = group_of gs (as0 @ [a]) []"
    by (rule ext) (auto simp: put_address_def group_of_def split: option.splits)
  then show ?case using Cons [of "as0 @ [a]"] by (cases "put_address a (group_of gs as0 [], index)") simp
qed simp

lemma security_step: "fold put_security ss (group_of gs as ss0) = group_of gs as (ss0 @ ss)"
proof (induction ss arbitrary: ss0)
  case (Cons a ss)
  have "put_security a (group_of gs as ss0) = group_of gs as (ss0 @ [a])"
    by (rule ext) (auto simp: put_security_def group_of_def split: option.splits)
  then show ?case using Cons [of "ss0 @ [a]"] by simp
qed simp

fun good_makers ::
  "MakerAddressGroupPO query \<times> MakerAddressPO query \<times> MakerAddressPO query \<Rightarrow> bool" where
  "good_makers (gq, aq, sq) \<longleftrightarrow> good_query gq \<and> good_query aq \<and> good_query sq"

fun makers_of ::
  "(maker_groups \<Rightarrow> int list) \<Rightarrow>
   MakerAddressGroupPO query \<times> MakerAddressPO query \<times> MakerAddressPO query \<Rightarrow> MakerAddressManager" where
  "makers_of order (gq, aq, sq) =
     (let groups = group_of (query_rows gq) (query_rows aq) (query_rows sq) in
      \<lparr>mm_groupIdAddress = groups, mm_envGroup = by_env groups (order groups),
       mm_backendAddressToGroup =
         snd (fold put_address (query_rows aq) (group_of (query_rows gq) [] [], Map.empty))\<rparr>)"

interpretation maker_load: reloadable "LoadAllMakerAddresses order" good_makers "\<lambda>m. m" "makers_of order"
  for order
proof
  fix q mgr
  assume "\<not> good_makers q"
  then show "snd (LoadAllMakerAddresses order q mgr) = mgr"
    by (induction order q mgr rule: LoadAllMakerAddresses.induct)
      (auto simp: Let_def good_query_cases split: prod.split option.split query.split)
next
  fix q mgr
  assume good: "good_makers q"
  obtain gq aq sq where q: "q = (gq, aq, sq)" by (cases q)
  with good obtain gs as ss where qs: "gq = Rows gs None" "aq = Rows as None" "sq = Rows ss None"
    by (auto simp: good_query_cases)
  have g: "snd (scan_loop m (\<lambda>g s. ([], put_group g s)) gs Map.empty) = group_of (scanned gs) [] []" for m
    by (simp add: scan_loop_state groups_step)
  have a: "snd (scan_loop m (\<lambda>a s. ([], put_address a s)) as (group_of (scanned gs) [] [], Map.empty)) =
      (group_of (scanned gs) (scanned as) [],
       snd (fold put_address (scanned as) (group_of (scanned gs) [] [], Map.empty)))" for m
    using addresses_step [of "scanned as" "scanned gs" "[]" Map.empty]
    by (simp add: scan_loop_state prod_eq_iff)
  have s: "snd (scan_loop m (\<lambda>a s. ([], put_security a s)) ss (group_of (scanned gs) (scanned as) [])) =
      group_of (scanned gs) (scanned as) (scanned ss)" for m
    using security_step [of "scanned ss" _ _ "[]"] by (simp add: scan_loop_state)
  show "snd (LoadAllMakerAddresses order q mgr) = makers_of order q"
    by (simp add: q qs case_prod_unfold Let_def g a s)
qed

text \<open>
  After a load a group has the name and environment of its last row and exactly its scanned
  addresses and security addresses, in the order of their tables. The group id of an address is
  that of its last row, matched literally, and 0 if it has none; it is returned also when no group
  with that id exists.
\<close>

theorem maker_lookups:
  "let mgr' = snd (LoadAllMakerAddresses order (Rows gs None, Rows as None, Rows ss None) mgr) in
   GetMakerAddressByGroupId mgr' i = group_of (scanned gs) (scanned as) (scanned ss) i \<and>
   GetGroupIDByBackendAndAddress mgr' backend addr =
     (case last_row (\<lambda>a. mp_Backend a = backend \<and> mp_Address a = addr) (scanned as) of
        None \<Rightarrow> 0 | Some a \<Rightarrow> mp_GroupId a)"
proof -
  have l: "snd (LoadAllMakerAddresses order (Rows gs None, Rows as None, Rows ss None) mgr) =
      makers_of order (Rows gs None, Rows as None, Rows ss None)"
    by (rule maker_load.load_good) simp
  have "get2 (snd (fold put_address (scanned as) (group_of (scanned gs) [] [], Map.empty))) backend addr =
      map_option mp_GroupId (last_row (\<lambda>a. mp_Backend a = backend \<and> mp_Address a = addr) (scanned as))"
    using maker_address.get_fold [of "scanned as" "(group_of (scanned gs) [] [], Map.empty)" "(backend, addr)"]
    by (simp add: case_prod_unfold split: option.splits)
  then show ?thesis
    by (auto simp del: LoadAllMakerAddresses.simps simp: l GetMakerAddressByGroupId_def GetGroupIDByBackendAndAddress_def Let_def get2_def
        split: option.splits)
qed

text \<open>
  In whatever order the groups are walked, the environment index after a load lists each group of
  the environment once and nothing else, with the contents that the lookup by id returns.
\<close>

theorem maker_by_env:
  assumes "iter_order (mm_groupIdAddress mgr') (order (mm_groupIdAddress mgr'))"
    and "mgr' = snd (LoadAllMakerAddresses order (Rows gs None, Rows as None, Rows ss None) mgr)"
  shows "distinct (GetMakerAddressesByEnv mgr' env) \<and>
    set (GetMakerAddressesByEnv mgr' env) =
      {g. \<exists>i. GetMakerAddressByGroupId mgr' i = Some g \<and> ma_Env g = env}"
proof -
  let ?groups = "group_of (scanned gs) (scanned as) (scanned ss)"
  have l: "mgr' = makers_of order (Rows gs None, Rows as None, Rows ss None)"
    unfolding assms(2) by (rule maker_load.load_good) simp
  have ks: "iter_order ?groups (order ?groups)" using assms(1) by (simp add: l Let_def)
  have app: "slice_at (fold (\<lambda>g m. app1 (ma_Env g) g m) xs m) env =
      slice_at m env @ filter (\<lambda>g. ma_Env g = env) xs" for xs m
    by (induction xs arbitrary: m) auto
  have env: "GetMakerAddressesByEnv mgr' env =
      filter (\<lambda>g. ma_Env g = env) (range_vals ?groups (order ?groups))"
    by (simp add: l Let_def GetMakerAddressesByEnv_def by_env_def app)
  have "map ma_GroupId (range_vals ?groups ks) = range_keys ?groups ks" for ks
    by (rule map_range_vals) (auto simp: group_of_def)
  with ks have "distinct (map ma_GroupId (range_vals ?groups (order ?groups)))"
    by (simp add: range_keys_order iter_order_def)
  then have "distinct (range_vals ?groups (order ?groups))" by (simp add: distinct_map)
  with set_range_vals [OF ks] show ?thesis
    unfolding env by (auto simp: GetMakerAddressByGroupId_def l Let_def ran_def)
qed

definition sample_maker :: "(MakerAddressGroupPO scan list \<times> MakerAddressPO scan list)" where
  "sample_maker =
     ([Scanned \<lparr>mg_Id = 3, mg_GroupName = ''main'', mg_Env = ''prod''\<rparr>],
      [Scanned \<lparr>mp_Id = 1, mp_GroupId = 3, mp_Backend = 1, mp_Address = ''0xab''\<rparr>])"

theorem maker_by_env_witness:
  "map ma_GroupName (GetMakerAddressesByEnv (snd (LoadAllMakerAddresses (\<lambda>_. [3])
     (Rows (fst sample_maker) None, Rows (snd sample_maker) None, Rows [] None)
     NewMakerAddressManager)) ''prod'') = [''main''] \<and>
   distinct (GetMakerAddressesByEnv (snd (LoadAllMakerAddresses (\<lambda>_. [3])
     (Rows (fst sample_maker) None, Rows (snd sample_maker) None, Rows [] None)
     NewMakerAddressManager)) ''prod'')"
proof
  let ?mgr = "snd (LoadAllMakerAddresses (\<lambda>_. [3])
     (Rows (fst sample_maker) None, Rows (snd sample_maker) None, Rows [] None) NewMakerAddressManager)"
  have ks: "iter_order (mm_groupIdAddress ?mgr) [3]"
    by (auto simp: iter_order_def sample_maker_def put_group_def put_address_def)
  show "distinct (GetMakerAddressesByEnv ?mgr ''prod'')"
    using maker_by_env [OF ks refl] by blast
  show "map ma_GroupName (GetMakerAddressesByEnv ?mgr ''prod'') = [''main'']"
    by (simp add: sample_maker_def put_group_def put_address_def GetMakerAddressesByEnv_def by_env_def
        range_vals_def)
qed

end
