(* ===== verification/CmsUsers.thy ===== *)
theory CmsUsers
  imports Rows
begin

text \<open>
  \<open>src/loader/cms_user.go\<close>: the users of the admin site with their roles, joined from three tables.
  Unlike the other managers, this load gives up at the first row that does not scan. Log lines are
  recorded like alerts.
\<close>

section \<open>Data\<close>

record DevRole =
  dr_UserId :: int
  dr_RoleId :: int

record CmsRole =
  crl_Id :: int
  crl_Name :: string

record CmsUser =
  cu_Id :: int
  cu_Name :: string
  cu_Address :: string
  cu_Roles :: "CmsRole list"

record CmsUserManager =
  cu_allUsers :: "CmsUser list"

definition NewCmsUserManager :: CmsUserManager where
  "NewCmsUserManager = \<lparr>cu_allUsers = []\<rparr>"

section \<open>Lookups\<close>

definition HasRole :: "CmsUserManager \<Rightarrow> string \<Rightarrow> string \<Rightarrow> bool" where
  "HasRole mgr userAddress roleName =
     list_ex (\<lambda>user. ToLower (cu_Address user) = ToLower userAddress \<and>
       list_ex (\<lambda>role. crl_Name role = roleName) (cu_Roles user)) (cu_allUsers mgr)"

definition EqualFold :: "string \<Rightarrow> string \<Rightarrow> bool" where
  "EqualFold s t \<longleftrightarrow> ToLower s = ToLower t"

definition GetAddressName :: "CmsUserManager \<Rightarrow> string \<Rightarrow> string" where
  "GetAddressName mgr addr =
     (case find (\<lambda>user. EqualFold (cu_Address user) addr) (cu_allUsers mgr) of
        None \<Rightarrow> [] | Some user \<Rightarrow> cu_Name user)"

definition GetAllCmsUsers :: "CmsUserManager \<Rightarrow> CmsUser list" where
  "GetAllCmsUsers mgr = cu_allUsers mgr"

section \<open>Loading\<close>

fun scan_strict :: "string \<Rightarrow> 'r scan list \<Rightarrow> alert + 'r list" where
  "scan_strict msg [] = Inr []"
| "scan_strict msg (ScanErr e # rs) = Inl (msg, Some e)"
| "scan_strict msg (Scanned r # rs) =
     (case scan_strict msg rs of Inl al \<Rightarrow> Inl al | Inr xs \<Rightarrow> Inr (r # xs))"

definition strict_rows :: "string \<Rightarrow> string \<Rightarrow> string \<Rightarrow> 'r query \<Rightarrow> alert + 'r list" where
  \<comment> \<open>query, scan and check \<open>rows.Err()\<close>, leaving at the first error\<close>
  "strict_rows selmsg scanmsg nextmsg q =
     (case q of
        QueryErr e \<Rightarrow> Inl (selmsg, Some e)
      | Rows rs err \<Rightarrow>
          (case scan_strict scanmsg rs of
             Inl al \<Rightarrow> Inl al
           | Inr xs \<Rightarrow> (case err of Some e \<Rightarrow> Inl (nextmsg, Some e) | None \<Rightarrow> Inr xs)))"

definition new_user :: "int \<times> string \<times> string \<Rightarrow> CmsUser" where
  "new_user = (\<lambda>(i, n, a). \<lparr>cu_Id = i, cu_Name = n, cu_Address = a, cu_Roles = []\<rparr>)"

definition grant :: "CmsRole list \<Rightarrow> DevRole \<Rightarrow> CmsUser list \<Rightarrow> CmsUser list" where
  "grant roles d users =
     map (\<lambda>user. user\<lparr>cu_Roles := cu_Roles user @
       filter (\<lambda>role. cu_Id user = dr_UserId d \<and> crl_Id role = dr_RoleId d) roles\<rparr>) users"

type_synonym cms_query = "CmsRole query \<times> (int \<times> string \<times> string) query \<times> DevRole query"

definition cms_rows :: "cms_query \<Rightarrow> alert + CmsRole list \<times> (int \<times> string \<times> string) list \<times> DevRole list" where
  \<comment> \<open>the rows of the three tables, read one after the other\<close>
  "cms_rows = (\<lambda>(rq, uq, dq).
     case strict_rows ''query dev role failed'' ''scan dev_role row error'' ''get next dev_role row error'' rq of
       Inl al \<Rightarrow> Inl al
     | Inr roles \<Rightarrow>
         (case strict_rows ''query dev_white_admin failed'' ''scan dev_white_admin failed''
                 ''get next dev_white_admin failed'' uq of
            Inl al \<Rightarrow> Inl al
          | Inr users \<Rightarrow>
              (case strict_rows ''query dev_roles failed'' ''scan dev_role row error''
                      ''get next dev_roles failed'' dq of
                 Inl al \<Rightarrow> Inl al
               | Inr grants \<Rightarrow> Inr (roles, users, grants))))"

definition LoadAllCmsUsers :: "cms_query \<Rightarrow> CmsUserManager \<Rightarrow> alert list \<times> CmsUserManager" where
  "LoadAllCmsUsers q mgr =
     (case cms_rows q of
        Inl al \<Rightarrow> ([al], mgr)
      | Inr (roles, users, grants) \<Rightarrow>
          ([], mgr\<lparr>cu_allUsers := fold (grant roles) grants (map new_user users)\<rparr>))"

section \<open>Roles after a load\<close>

definition cms_good :: "cms_query \<Rightarrow> bool" where
  "cms_good q \<longleftrightarrow> (case cms_rows q of Inl _ \<Rightarrow> False | Inr _ \<Rightarrow> True)"

definition cms_users :: "cms_query \<Rightarrow> CmsUserManager" where
  "cms_users q =
     (case cms_rows q of
        Inl al \<Rightarrow> NewCmsUserManager
      | Inr (roles, users, grants) \<Rightarrow> \<lparr>cu_allUsers = fold (grant roles) grants (map new_user users)\<rparr>)"

interpretation cms_load: reloadable LoadAllCmsUsers cms_good "\<lambda>m. m" cms_users
  by unfold_locales (auto simp: LoadAllCmsUsers_def cms_good_def cms_users_def split: sum.splits)

lemma map_Scanned_eq [simp]: "map Scanned xs = map Scanned ys \<longleftrightarrow> xs = ys"
  by (rule inj_map_eq_map) (simp add: inj_def)

lemma scan_strict_map [simp]: "scan_strict msg (map Scanned xs) = Inr xs"
  by (induction xs) simp_all

lemma scan_strict_Inr: "scan_strict msg rs = Inr xs \<longleftrightarrow> rs = map Scanned xs"
proof
  show "scan_strict msg rs = Inr xs \<Longrightarrow> rs = map Scanned xs"
  proof (induction rs arbitrary: xs)
    case (Cons r rs)
    then show ?case by (cases r) (auto split: sum.splits)
  qed simp
qed (simp add: scan_strict_map)

lemma strict_rows_Inr: "strict_rows a b c q = Inr xs \<longleftrightarrow> q = Rows (map Scanned xs) None"
proof (cases q)
  case (Rows rs err)
  then show ?thesis
    by (cases "scan_strict b rs"; cases err)
      (auto simp: strict_rows_def scan_strict_Inr scan_strict_map)
qed (simp add: strict_rows_def)

lemma strict_rows_map [simp]: "strict_rows a b c (Rows (map Scanned xs) None) = Inr xs"
  by (simp add: strict_rows_Inr)

lemma cms_rows_Inr:
  "cms_rows q = Inr (roles, users, grants) \<longleftrightarrow>
     q = (Rows (map Scanned roles) None, Rows (map Scanned users) None, Rows (map Scanned grants) None)"
  by (cases q) (auto simp: cms_rows_def strict_rows_Inr split: sum.splits)

definition granted :: "CmsRole list \<Rightarrow> DevRole list \<Rightarrow> int \<Rightarrow> CmsRole list" where
  "granted roles grants i =
     concat (map (\<lambda>d. filter (\<lambda>role. i = dr_UserId d \<and> crl_Id role = dr_RoleId d) roles) grants)"

lemma fold_grant:
  "fold (grant roles) grants users =
     map (\<lambda>user. user\<lparr>cu_Roles := cu_Roles user @ granted roles grants (cu_Id user)\<rparr>) users"
  by (induction grants arbitrary: users) (auto simp: grant_def granted_def)

text \<open>
  C39. A load takes effect only when all three queries, every row and every iteration succeed: any
  single error keeps the users and roles of the last load that succeeded, so no user is ever seen
  with part of the roles.
\<close>

theorem cms_load_atomic:
  "GetAllCmsUsers (fold (\<lambda>q m. snd (LoadAllCmsUsers q m)) qs mgr) =
     (case last_row (\<lambda>q. \<exists>roles users grants.
          q = (Rows (map Scanned roles) None, Rows (map Scanned users) None, Rows (map Scanned grants) None)) qs of
        None \<Rightarrow> GetAllCmsUsers mgr
      | Some q \<Rightarrow> GetAllCmsUsers (snd (LoadAllCmsUsers q NewCmsUserManager)))"
proof -
  have good: "cms_good = (\<lambda>q. \<exists>roles users grants.
      q = (Rows (map Scanned roles) None, Rows (map Scanned users) None, Rows (map Scanned grants) None))"
    by (rule ext) (auto simp: cms_good_def cms_rows_Inr [symmetric] split: sum.splits)
  show ?thesis
  proof (cases "last_row cms_good qs")
    case None
    then show ?thesis by (simp only: cms_load.view_reloads good [symmetric] option.case)
  next
    case (Some q)
    then have "cms_good q" by (rule last_row_Some [THEN conjunct2])
    with Some show ?thesis
      by (simp only: cms_load.view_reloads good [symmetric] option.case cms_load.load_good)
  qed
qed

text \<open>
  After a successful load a user has a role exactly when some user row with the address, up to
  case, is granted a role row of that name by the third table.
\<close>

theorem cms_HasRole:
  "HasRole (snd (LoadAllCmsUsers
      (Rows (map Scanned roles) None, Rows (map Scanned users) None, Rows (map Scanned grants) None) mgr))
      addr roleName \<longleftrightarrow>
   (\<exists>i n a d r. (i, n, a) \<in> set users \<and> d \<in> set grants \<and> r \<in> set roles \<and>
      ToLower a = ToLower addr \<and> dr_UserId d = i \<and> dr_RoleId d = crl_Id r \<and> crl_Name r = roleName)"
proof -
  have rows: "cms_rows (Rows (map Scanned roles) None, Rows (map Scanned users) None, Rows (map Scanned grants) None) =
      Inr (roles, users, grants)" by (simp add: cms_rows_Inr)
  have "HasRole (snd (LoadAllCmsUsers
      (Rows (map Scanned roles) None, Rows (map Scanned users) None, Rows (map Scanned grants) None) mgr))
      addr roleName \<longleftrightarrow>
    (\<exists>(i, n, a)\<in>set users. ToLower a = ToLower addr \<and>
      (\<exists>r\<in>set (granted roles grants i). crl_Name r = roleName))"
    by (simp add: HasRole_def LoadAllCmsUsers_def rows fold_grant list_ex_iff new_user_def case_prod_unfold)
  moreover have "set (granted roles grants i) =
      {r \<in> set roles. \<exists>d\<in>set grants. dr_UserId d = i \<and> dr_RoleId d = crl_Id r}" for i
    by (auto simp: granted_def)
  ultimately show ?thesis by (simp only:) blast
qed

text \<open>
  \<open>GetAddressName\<close> names the first user with the address up to case: a user that has any role has
  an entry there, whose name may be that of an earlier row with the same address.
\<close>

lemma cms_address_name:
  "HasRole mgr addr roleName \<Longrightarrow> GetAddressName mgr addr \<in> cu_Name ` set (cu_allUsers mgr)"
  by (auto simp: HasRole_def GetAddressName_def EqualFold_def list_ex_iff find_None_iff find_Some_iff
      split: option.splits)

end
