(* ===== verification/Accounts.thy ===== *)
theory Accounts
  imports Rows
begin

text \<open>
  \<open>src/loader/account.go\<close> and \<open>src/loader/blacklist_address.go\<close>: the accounts by id, by address and
  chain, and the blacklisted addresses. The order in which a map is walked is an argument.
\<close>

section \<open>Accounts\<close>

record Account =
  a_Id :: int
  a_ChainInfoId :: int
  a_Address :: string

record AccountManager =
  am_idAccounts :: "int \<rightharpoonup> Account"
  am_addressCidAccounts :: "string \<Rightarrow> (int \<rightharpoonup> Account) option"
  am_cidAddressAccounts :: "int \<Rightarrow> (string \<rightharpoonup> Account) option"

definition NewAccountManager :: AccountManager where
  "NewAccountManager =
     \<lparr>am_idAccounts = Map.empty, am_addressCidAccounts = Map.empty, am_cidAddressAccounts = Map.empty\<rparr>"

definition GetAccountById :: "AccountManager \<Rightarrow> int \<Rightarrow> Account option" where
  "GetAccountById mgr i = am_idAccounts mgr i"

definition HasAddress :: "AccountManager \<Rightarrow> string \<Rightarrow> bool" where
  "HasAddress mgr addr \<longleftrightarrow> am_addressCidAccounts mgr (norm_key addr) \<noteq> None"

definition GetAddresses :: "AccountManager \<Rightarrow> int \<Rightarrow> string list \<Rightarrow> string list" where
  "GetAddresses mgr cid ks =
     (case am_cidAddressAccounts mgr cid of
        None \<Rightarrow> [] | Some accs \<Rightarrow> map a_Address (range_vals accs ks))"

definition GetAccountByAddressCid :: "AccountManager \<Rightarrow> string \<Rightarrow> int \<Rightarrow> Account option" where
  "GetAccountByAddressCid mgr addr cid = get2 (am_addressCidAccounts mgr) (norm_key addr) cid"

definition trim_account :: "Account \<Rightarrow> Account" where
  "trim_account acc = acc\<lparr>a_Address := TrimSpace (a_Address acc)\<rparr>"

definition put_account :: "Account \<Rightarrow> AccountManager \<Rightarrow> AccountManager" where
  "put_account row m =
     (let acc = trim_account row; lowerAddr = ToLower (a_Address acc)
      in \<lparr>am_idAccounts = (am_idAccounts m)(a_Id acc \<mapsto> acc),
          am_addressCidAccounts = put2 lowerAddr (a_ChainInfoId acc) acc (am_addressCidAccounts m),
          am_cidAddressAccounts = put2 (a_ChainInfoId acc) lowerAddr acc (am_cidAddressAccounts m)\<rparr>)"

definition LoadAllAccounts :: "Account query \<Rightarrow> AccountManager \<Rightarrow> alert list \<times> AccountManager" where
  "LoadAllAccounts =
     load_table ''select t_account error'' ''scan t_account row error'' ''get next t_account row error''
       (\<lambda>r s. ([], put_account r s)) NewAccountManager (\<lambda>s mgr. s)"

interpretation account_id: row_index am_idAccounts put_account a_Id trim_account "\<lambda>_. True"
  by unfold_locales (auto simp: put_account_def trim_account_def Let_def)

interpretation account_addr: row_index "\<lambda>m (a, c). get2 (am_addressCidAccounts m) a c" put_account
  "\<lambda>r. (norm_key (a_Address r), a_ChainInfoId r)" trim_account "\<lambda>_. True"
  by unfold_locales (auto simp: put_account_def trim_account_def ToLower_TrimSpace Let_def split: if_splits)

interpretation account_cid: row_index "\<lambda>m (c, a). get2 (am_cidAddressAccounts m) c a" put_account
  "\<lambda>r. (a_ChainInfoId r, norm_key (a_Address r))" trim_account "\<lambda>_. True"
  by unfold_locales (auto simp: put_account_def trim_account_def ToLower_TrimSpace Let_def split: if_splits)

interpretation account_load: reloadable LoadAllAccounts good_query "\<lambda>m. m"
  "\<lambda>q. fold put_account (query_rows q) NewAccountManager"
  unfolding LoadAllAccounts_def
  by (rule load_table_reloadable [where h = "\<lambda>m. m" and body = "\<lambda>r s. ([], put_account r s)", simplified]) simp

definition account_consistent :: "AccountManager \<Rightarrow> bool" where
  \<comment> \<open>the two indexes by chain and address are transposes, and no inner map is empty\<close>
  "account_consistent m \<longleftrightarrow>
     (\<forall>a c. get2 (am_addressCidAccounts m) a c = get2 (am_cidAddressAccounts m) c a) \<and>
     (\<forall>a. am_addressCidAccounts m a \<noteq> Some Map.empty)"

lemma account_consistent_put: "account_consistent m \<Longrightarrow> account_consistent (put_account r m)"
  by (auto simp: account_consistent_def put_account_def Let_def put2_def split: if_splits)
    (auto simp: get2_inner)

lemma account_consistent_load:
  "account_consistent mgr \<Longrightarrow> account_consistent (snd (LoadAllAccounts q mgr))"
proof -
  assume mgr: "account_consistent mgr"
  have "account_consistent (fold put_account rs m)" if "account_consistent m" for rs m
    using that by (induction rs arbitrary: m) (simp_all add: account_consistent_put)
  then have "account_consistent (fold put_account rs NewAccountManager)" for rs
    by (simp add: account_consistent_def NewAccountManager_def)
  with mgr show ?thesis by (simp add: account_load.view_step)
qed

definition account_history :: "Account query list \<Rightarrow> AccountManager" where
  "account_history qs = fold (\<lambda>q m. snd (LoadAllAccounts q m)) qs NewAccountManager"

lemma account_consistent_history: "account_consistent (account_history qs)"
proof -
  have "account_consistent (fold (\<lambda>q m. snd (LoadAllAccounts q m)) qs m)" if "account_consistent m" for m
    using that by (induction qs arbitrary: m) (simp_all add: account_consistent_load)
  then show ?thesis
    by (simp add: account_history_def account_consistent_def NewAccountManager_def)
qed

text \<open>
  C34. After any sequence of loads the account lookups agree: an address is known exactly when some
  chain has an account with it, and the addresses listed for a chain, whatever the order of the
  map, are exactly those of the accounts that the lookup by address and chain finds there.
\<close>

theorem account_indexes_agree:
  assumes "iter_order (inner (am_cidAddressAccounts (account_history qs)) cid) ks"
  shows "HasAddress (account_history qs) addr =
      (\<exists>c. GetAccountByAddressCid (account_history qs) addr c \<noteq> None) \<and>
    set (GetAddresses (account_history qs) cid ks) =
      {a_Address acc |acc k. get2 (am_addressCidAccounts (account_history qs)) k cid = Some acc}"
proof
  let ?m = "account_history qs"
  have cons: "get2 (am_addressCidAccounts ?m) a c = get2 (am_cidAddressAccounts ?m) c a"
    "am_addressCidAccounts ?m a \<noteq> Some Map.empty" for a c
    using account_consistent_history [of qs] unfolding account_consistent_def by blast+
  show "HasAddress ?m addr = (\<exists>c. GetAccountByAddressCid ?m addr c \<noteq> None)"
  proof (cases "am_addressCidAccounts ?m (norm_key addr)")
    case None
    then show ?thesis by (simp add: HasAddress_def GetAccountByAddressCid_def get2_def)
  next
    case (Some accs)
    with cons(2) [of "norm_key addr"] have "accs \<noteq> Map.empty" by simp
    then obtain c where "accs c \<noteq> None" by (meson ext)
    with Some show ?thesis by (auto simp: HasAddress_def GetAccountByAddressCid_def get2_def)
  qed
  have "GetAddresses ?m cid ks = map a_Address (range_vals (inner (am_cidAddressAccounts ?m) cid) ks)"
    by (simp add: GetAddresses_def inner_def range_vals_def split: option.splits)
  then show "set (GetAddresses ?m cid ks) =
      {a_Address acc |acc k. get2 (am_addressCidAccounts ?m) k cid = Some acc}"
    using set_range_vals [OF assms] 
    by (auto simp: get2_inner cons(1) [unfolded get2_inner] ran_def)
qed

theorem account_indexes_agree_witness:
  "HasAddress (account_history [Rows [Scanned \<lparr>a_Id = 1, a_ChainInfoId = 5, a_Address = '' 0xAB ''\<rparr>] None])
     ''0xab'' =
   (\<exists>c. GetAccountByAddressCid
     (account_history [Rows [Scanned \<lparr>a_Id = 1, a_ChainInfoId = 5, a_Address = '' 0xAB ''\<rparr>] None])
     ''0xab'' c \<noteq> None)"
proof -
  have k: "norm_key '' 0xAB '' = ''0xab''" by code_simp
  have "iter_order (inner (am_cidAddressAccounts
      (account_history [Rows [Scanned \<lparr>a_Id = 1, a_ChainInfoId = 5, a_Address = '' 0xAB ''\<rparr>] None])) 5) [''0xab'']"
    by (simp add: account_history_def account_load.view_step NewAccountManager_def put_account_def Let_def
        trim_account_def ToLower_TrimSpace k iter_order_def)
  from account_indexes_agree [OF this] show ?thesis by blast
qed

section \<open>Blacklist\<close>

record BlacklistAddress =
  bl_Id :: int
  bl_Address :: string
  bl_RiskDesc :: string
  bl_Status :: int
  bl_CreatedAt :: int
  bl_UpdatedAt :: int

record BlacklistAddressManager =
  blm_idBlacklists :: "int \<rightharpoonup> BlacklistAddress"
  blm_addressBlacklists :: "string \<rightharpoonup> BlacklistAddress"

definition NewBlacklistAddressManager :: BlacklistAddressManager where
  "NewBlacklistAddressManager = \<lparr>blm_idBlacklists = Map.empty, blm_addressBlacklists = Map.empty\<rparr>"

definition GetBlacklistById :: "BlacklistAddressManager \<Rightarrow> int \<Rightarrow> BlacklistAddress option" where
  "GetBlacklistById mgr i = blm_idBlacklists mgr i"

definition IsBlacklisted :: "BlacklistAddressManager \<Rightarrow> string \<Rightarrow> bool" where
  "IsBlacklisted mgr addr \<longleftrightarrow>
     (case blm_addressBlacklists mgr (norm_key addr) of None \<Rightarrow> False | Some b \<Rightarrow> bl_Status b = 1)"

definition GetBlacklistByAddress :: "BlacklistAddressManager \<Rightarrow> string \<Rightarrow> BlacklistAddress option" where
  "GetBlacklistByAddress mgr addr =
     (case blm_addressBlacklists mgr (norm_key addr) of
        None \<Rightarrow> None | Some b \<Rightarrow> if bl_Status b = 1 then Some b else None)"

definition GetAllBlacklists :: "BlacklistAddressManager \<Rightarrow> string list \<Rightarrow> BlacklistAddress list" where
  "GetAllBlacklists mgr ks = filter (\<lambda>b. bl_Status b = 1) (range_vals (blm_addressBlacklists mgr) ks)"

definition trim_blacklist :: "BlacklistAddress \<Rightarrow> BlacklistAddress" where
  "trim_blacklist b = b\<lparr>bl_Address := TrimSpace (bl_Address b), bl_RiskDesc := TrimSpace (bl_RiskDesc b)\<rparr>"

definition put_blacklist :: "BlacklistAddress \<Rightarrow> BlacklistAddressManager \<Rightarrow> BlacklistAddressManager" where
  "put_blacklist row m =
     (let b = trim_blacklist row
      in \<lparr>blm_idBlacklists = (blm_idBlacklists m)(bl_Id b \<mapsto> b),
          blm_addressBlacklists = (blm_addressBlacklists m)(ToLower (bl_Address b) \<mapsto> b)\<rparr>)"

definition LoadAllBlacklists ::
  "BlacklistAddress query \<Rightarrow> BlacklistAddressManager \<Rightarrow> alert list \<times> BlacklistAddressManager" where
  "LoadAllBlacklists =
     load_table ''select t_blacklist_address error'' ''scan t_blacklist_address row error''
       ''get next t_blacklist_address row error'' (\<lambda>r s. ([], put_blacklist r s))
       NewBlacklistAddressManager (\<lambda>s mgr. s)"

interpretation blacklist_id: row_index blm_idBlacklists put_blacklist bl_Id trim_blacklist "\<lambda>_. True"
  by unfold_locales (auto simp: put_blacklist_def trim_blacklist_def Let_def)

interpretation blacklist_addr: row_index blm_addressBlacklists put_blacklist
  "\<lambda>r. norm_key (bl_Address r)" trim_blacklist "\<lambda>_. True"
  by unfold_locales (auto simp: put_blacklist_def trim_blacklist_def ToLower_TrimSpace Let_def)

interpretation blacklist_load: reloadable LoadAllBlacklists good_query "\<lambda>m. m"
  "\<lambda>q. fold put_blacklist (query_rows q) NewBlacklistAddressManager"
  unfolding LoadAllBlacklists_def
  by (rule load_table_reloadable [where h = "\<lambda>m. m" and body = "\<lambda>r s. ([], put_blacklist r s)", simplified]) simp

text \<open>
  After any sequence of loads an address is blacklisted exactly when the last of its rows in the
  last load that succeeded has status 1; a load that fails, or a row that does not scan, never
  lifts the ban of another row.
\<close>

theorem blacklist_history:
  "IsBlacklisted (fold (\<lambda>q m. snd (LoadAllBlacklists q m)) qs NewBlacklistAddressManager) addr \<longleftrightarrow>
     (case last_row good_query qs of
        None \<Rightarrow> False
      | Some q \<Rightarrow>
          (case last_row (\<lambda>r. norm_key (bl_Address r) = norm_key addr) (query_rows q) of
             None \<Rightarrow> False | Some r \<Rightarrow> bl_Status r = 1))"
  by (simp only: blacklist_load.view_reloads)
    (auto simp: IsBlacklisted_def blacklist_addr.get_fold NewBlacklistAddressManager_def trim_blacklist_def
      split: option.splits)

lemma blacklist_by_address:
  "GetBlacklistByAddress mgr addr = None \<longleftrightarrow> \<not> IsBlacklisted mgr addr"
  by (simp add: GetBlacklistByAddress_def IsBlacklisted_def split: option.splits)

end
