(* ===== verification/Listings.thy ===== *)
theory Listings
  imports Rows
begin

text \<open>
  The small lookup tables \<open>src/loader/exchange_info.go\<close>, \<open>src/loader/popular_list.go\<close> and
  \<open>src/loader/update_price.go\<close>.
\<close>

section \<open>Exchanges\<close>

record ExchangeInfo =
  xi_Id :: int
  xi_Name :: string
  xi_Icon :: string
  xi_Disabled :: int
  xi_OfficialUrl :: string
  xi_OrderWeight :: int

record ExchangeInfoManager =
  xm_idExchanges :: "int \<rightharpoonup> ExchangeInfo"
  xm_nameExchanges :: "string \<rightharpoonup> ExchangeInfo"
  xm_allExchanges :: "ExchangeInfo list"

definition NewExchangeInfoManager :: ExchangeInfoManager where
  "NewExchangeInfoManager =
     \<lparr>xm_idExchanges = Map.empty, xm_nameExchanges = Map.empty, xm_allExchanges = []\<rparr>"

definition GetAllExchanges :: "ExchangeInfoManager \<Rightarrow> ExchangeInfo list" where
  "GetAllExchanges mgr = xm_allExchanges mgr"

definition GetExchangeInfoById :: "ExchangeInfoManager \<Rightarrow> int \<Rightarrow> ExchangeInfo option" where
  "GetExchangeInfoById mgr i = xm_idExchanges mgr i"

definition GetExchangeInfoByName :: "ExchangeInfoManager \<Rightarrow> string \<Rightarrow> ExchangeInfo option" where
  "GetExchangeInfoByName mgr n = xm_nameExchanges mgr (norm_key n)"

definition trim_exchange :: "ExchangeInfo \<Rightarrow> ExchangeInfo" where
  "trim_exchange x = x\<lparr>xi_Name := TrimSpace (xi_Name x)\<rparr>"

definition put_exchange :: "ExchangeInfo \<Rightarrow> ExchangeInfoManager \<Rightarrow> ExchangeInfoManager" where
  "put_exchange row m =
     (let x = trim_exchange row
      in \<lparr>xm_idExchanges = (xm_idExchanges m)(xi_Id x \<mapsto> x),
          xm_nameExchanges = (xm_nameExchanges m)(ToLower (xi_Name x) \<mapsto> x),
          xm_allExchanges = xm_allExchanges m @ [x]\<rparr>)"

definition LoadAllExchanges ::
  "ExchangeInfo query \<Rightarrow> ExchangeInfoManager \<Rightarrow> alert list \<times> ExchangeInfoManager" where
  "LoadAllExchanges =
     load_table ''select t_exchange_info error'' ''scan t_exchange_info row error''
       ''get next t_exchange_info row error'' (\<lambda>r s. ([], put_exchange r s)) NewExchangeInfoManager
       (\<lambda>s mgr. s)"

interpretation exchange_id: row_index xm_idExchanges put_exchange xi_Id trim_exchange "\<lambda>_. True"
  by unfold_locales (auto simp: put_exchange_def trim_exchange_def Let_def)

interpretation exchange_name: row_index xm_nameExchanges put_exchange "\<lambda>r. norm_key (xi_Name r)"
  trim_exchange "\<lambda>_. True"
  by unfold_locales (auto simp: put_exchange_def trim_exchange_def ToLower_TrimSpace Let_def)

interpretation exchange_all: row_group "\<lambda>m (u::unit). xm_allExchanges m" put_exchange "\<lambda>_. ()"
  trim_exchange "\<lambda>_. True"
  by unfold_locales (auto simp: put_exchange_def Let_def)

interpretation exchange_load: reloadable LoadAllExchanges good_query "\<lambda>m. m"
  "\<lambda>q. fold put_exchange (query_rows q) NewExchangeInfoManager"
  unfolding LoadAllExchanges_def
  by (rule load_table_reloadable [where h = "\<lambda>m. m" and body = "\<lambda>r s. ([], put_exchange r s)", simplified]) simp

lemma exchange_loaded:
  "GetExchangeInfoById (snd (LoadAllExchanges (Rows rs None) mgr)) i =
     map_option trim_exchange (last_row (\<lambda>r. xi_Id r = i) (scanned rs))"
  "GetExchangeInfoByName (snd (LoadAllExchanges (Rows rs None) mgr)) n =
     map_option trim_exchange (last_row (\<lambda>r. norm_key (xi_Name r) = norm_key n) (scanned rs))"
  "GetAllExchanges (snd (LoadAllExchanges (Rows rs None) mgr)) = map trim_exchange (scanned rs)"
  using exchange_all.get_fold [of "scanned rs" NewExchangeInfoManager "()"]
  by (simp_all add: exchange_load.load_good GetExchangeInfoById_def GetExchangeInfoByName_def
      GetAllExchanges_def exchange_id.get_fold exchange_name.get_fold NewExchangeInfoManager_def
      split: option.splits)

section \<open>Popular tokens\<close>

record PopularList =
  pl_ChainName :: string
  pl_PopularWeight :: "string \<rightharpoonup> int"

record PopularListManager =
  pm_chainToPopularList :: "string \<rightharpoonup> PopularList"

definition NewPopularListManager :: PopularListManager where
  "NewPopularListManager = \<lparr>pm_chainToPopularList = Map.empty\<rparr>"

definition GetPopularWeight ::
  "PopularListManager \<Rightarrow> (string \<rightharpoonup> int) \<Rightarrow> string \<Rightarrow> bool \<times> (string \<rightharpoonup> int)" where
  \<comment> \<open>the second component is the caller's map after the call\<close>
  "GetPopularWeight mgr weights chain =
     (case pm_chainToPopularList mgr (norm_key chain) of
        None \<Rightarrow> (False, weights)
      | Some plInfo \<Rightarrow> (True, weights ++ pl_PopularWeight plInfo))"

definition put_popular ::
  "string \<times> int \<times> string \<Rightarrow> (string \<rightharpoonup> PopularList) \<Rightarrow> string \<rightharpoonup> PopularList" where
  "put_popular = (\<lambda>(chain, weight, tag) m.
     let chainName = ToLower (TrimSpace chain);
         weights = (case m chainName of None \<Rightarrow> Map.empty | Some pl \<Rightarrow> pl_PopularWeight pl)
     in m(chainName \<mapsto> \<lparr>pl_ChainName = chainName,
                        pl_PopularWeight = weights(TrimSpace tag \<mapsto> weight)\<rparr>))"

definition LoadAllPopularList ::
  "(string \<times> int \<times> string) query \<Rightarrow> PopularListManager \<Rightarrow> alert list \<times> PopularListManager" where
  "LoadAllPopularList =
     load_table ''select t_popular_list error'' ''scan t_popular_list row error''
       ''get next t_popular_list row error'' (\<lambda>r s. ([], put_popular r s)) Map.empty
       (\<lambda>m mgr. mgr\<lparr>pm_chainToPopularList := m\<rparr>)"

definition popular_weight :: "(string \<rightharpoonup> PopularList) \<Rightarrow> string \<Rightarrow> string \<Rightarrow> int option" where
  "popular_weight m chain tag = (case m chain of None \<Rightarrow> None | Some pl \<Rightarrow> pl_PopularWeight pl tag)"

interpretation popular_row: row_index "\<lambda>m (c, t). popular_weight m c t" put_popular
  "\<lambda>(chain, weight, tag). (norm_key chain, TrimSpace tag)" "\<lambda>(chain, weight, tag). weight" "\<lambda>_. True"
  by unfold_locales
    (auto simp: put_popular_def popular_weight_def Let_def ToLower_TrimSpace split: if_splits option.splits)

interpretation popular_load: reloadable LoadAllPopularList good_query pm_chainToPopularList
  "\<lambda>q. fold put_popular (query_rows q) Map.empty"
  unfolding LoadAllPopularList_def
  by (rule load_table_reloadable [where h = "\<lambda>m. m" and body = "\<lambda>r s. ([], put_popular r s)", simplified]) simp

text \<open>
  \<open>GetPopularWeight\<close> overlays the caller's map: a tag of the chain gets the weight of its last row,
  every other tag keeps what the caller had. Tags are trimmed but keep their case.
\<close>

lemma popular_weights_loaded:
  "snd (GetPopularWeight (snd (LoadAllPopularList (Rows rs None) mgr)) weights chain) tag =
     (case last_row (\<lambda>(c, w, t). norm_key c = norm_key chain \<and> TrimSpace t = tag) (scanned rs) of
        None \<Rightarrow> weights tag | Some (c, w, t) \<Rightarrow> Some w)"
proof -
  have eq: "(\<lambda>r. (case r of (chain, weight, tag) \<Rightarrow> (norm_key chain, TrimSpace tag)) = (norm_key chain, tag)) =
      (\<lambda>(c, w, t). norm_key c = norm_key chain \<and> TrimSpace t = tag)" by auto
  have "popular_weight (fold put_popular (scanned rs) Map.empty) (norm_key chain) tag =
      map_option (\<lambda>(c, w, t). w)
        (last_row (\<lambda>(c, w, t). norm_key c = norm_key chain \<and> TrimSpace t = tag) (scanned rs))"
    using popular_row.get_fold [of "scanned rs" Map.empty "(norm_key chain, tag)"]
    by (simp add: popular_weight_def eq split: option.splits)
  moreover have "snd (GetPopularWeight m weights chain) tag =
      (case popular_weight (pm_chainToPopularList m) (norm_key chain) tag of
         None \<Rightarrow> weights tag | Some w \<Rightarrow> Some w)" for m
    by (simp add: GetPopularWeight_def popular_weight_def map_add_def split: option.splits)
  ultimately show ?thesis by (simp add: popular_load.load_good split: option.splits)
qed

section \<open>Prices\<close>

record UpdatePrice =
  up_TokenName :: string
  up_Price :: string
  up_UpdateTimestamp :: string

record UpdatePriceManager =
  um_tokens :: "string \<rightharpoonup> UpdatePrice"

definition NewUpdatePriceManager :: UpdatePriceManager where
  "NewUpdatePriceManager = \<lparr>um_tokens = Map.empty\<rparr>"

definition GetUpdatePrice :: "UpdatePriceManager \<Rightarrow> string \<Rightarrow> UpdatePrice option" where
  "GetUpdatePrice mgr tokenName = um_tokens mgr (norm_key tokenName)"

definition trim_price :: "UpdatePrice \<Rightarrow> UpdatePrice" where
  "trim_price p =
     \<lparr>up_TokenName = TrimSpace (up_TokenName p), up_Price = TrimSpace (up_Price p),
      up_UpdateTimestamp = TrimSpace (up_UpdateTimestamp p)\<rparr>"

definition put_price :: "UpdatePrice \<Rightarrow> (string \<rightharpoonup> UpdatePrice) \<Rightarrow> string \<rightharpoonup> UpdatePrice" where
  "put_price row m = (let p = trim_price row in m(ToLower (up_TokenName p) \<mapsto> p))"

definition LoadAllPrice :: "UpdatePrice query \<Rightarrow> UpdatePriceManager \<Rightarrow> alert list \<times> UpdatePriceManager" where
  "LoadAllPrice =
     load_table ''select t_update error'' ''scan t_update_price row error''
       ''get next t_update_price row error'' (\<lambda>r s. ([], put_price r s)) Map.empty
       (\<lambda>m mgr. mgr\<lparr>um_tokens := m\<rparr>)"

interpretation price_row: row_index "\<lambda>m. m" put_price "\<lambda>r. norm_key (up_TokenName r)" trim_price "\<lambda>_. True"
  by unfold_locales (auto simp: put_price_def trim_price_def ToLower_TrimSpace Let_def)

interpretation price_load: reloadable LoadAllPrice good_query um_tokens
  "\<lambda>q. fold put_price (query_rows q) Map.empty"
  unfolding LoadAllPrice_def
  by (rule load_table_reloadable [where h = "\<lambda>m. m" and body = "\<lambda>r s. ([], put_price r s)", simplified]) simp

lemma price_loaded:
  "GetUpdatePrice (snd (LoadAllPrice (Rows rs None) mgr)) tokenName =
     map_option trim_price (last_row (\<lambda>r. norm_key (up_TokenName r) = norm_key tokenName) (scanned rs))"
  by (simp add: GetUpdatePrice_def price_load.load_good price_row.get_fold split: option.splits)

end
