(* ===== verification/CircleCctp.thy ===== *)
theory CircleCctp
  imports GoNum Rows
begin

text \<open>
  \<open>src/loader/circle_cctp_chain.go\<close>: the chains that Circle's transfer protocol supports. A panic is
  the result \<open>None\<close>.
\<close>

section \<open>Data\<close>

record CircleCctpChain =
  cct_ChainId :: int
  cct_MinValue :: string
  cct_Domain :: int
  cct_TokenMessenger :: string
  cct_MessageTransmitter :: string
  cct_TokenMessengerV2 :: string
  cct_MessageTransmitterV2 :: string

definition GetCctpVersion :: "CircleCctpChain \<Rightarrow> CircleCctpChain \<Rightarrow> int" where
  "GetCctpVersion src dst =
     (if cct_TokenMessenger dst \<noteq> [] \<and> cct_TokenMessenger src \<noteq> [] then 1
      else if cct_TokenMessengerV2 dst \<noteq> [] \<and> cct_TokenMessengerV2 src \<noteq> [] then 2
      else 0)"

definition GetMinValueUnit :: "CircleCctpChain \<Rightarrow> int option" where
  \<comment> \<open>multiplying the nil of a failed \<open>SetString\<close> panics\<close>
  "GetMinValueUnit c = map_option (\<lambda>mn. mn * 1000000) (Int_SetString 0 (cct_MinValue c))"

record CircleCctpChainManager =
  ctm_chainIdChains :: "int \<rightharpoonup> CircleCctpChain"

definition NewCircleCctpChainManager :: CircleCctpChainManager where
  "NewCircleCctpChainManager = \<lparr>ctm_chainIdChains = Map.empty\<rparr>"

definition GetDtcUnit :: "int \<Rightarrow> int \<Rightarrow> int" where
  "GetDtcUnit srcChainId dstChainId = (if srcChainId = 1 \<or> dstChainId = 1 then 10000000 else 5000000)"

definition GetCctpChainByChainId :: "CircleCctpChainManager \<Rightarrow> int \<Rightarrow> CircleCctpChain option" where
  "GetCctpChainByChainId mgr i = ctm_chainIdChains mgr i"

definition GetChainIds :: "CircleCctpChainManager \<Rightarrow> int list \<Rightarrow> int list" where
  "GetChainIds mgr ks = range_keys (ctm_chainIdChains mgr) ks"

section \<open>Loading\<close>

definition trim_cctp :: "CircleCctpChain \<Rightarrow> CircleCctpChain" where
  \<comment> \<open>the two addresses of version 2 are not trimmed\<close>
  "trim_cctp c = c
     \<lparr>cct_MessageTransmitter := TrimSpace (cct_MessageTransmitter c),
      cct_TokenMessenger := TrimSpace (cct_TokenMessenger c),
      cct_MinValue := TrimSpace (cct_MinValue c)\<rparr>"

definition cctp_ok :: "CircleCctpChain \<Rightarrow> bool" where
  "cctp_ok row \<longleftrightarrow> Int_SetString 0 (TrimSpace (cct_MinValue row)) \<noteq> None"

definition cctp_body ::
  "CircleCctpChain \<Rightarrow> (int \<rightharpoonup> CircleCctpChain) \<Rightarrow> alert list \<times> (int \<rightharpoonup> CircleCctpChain)" where
  "cctp_body row m =
     (let c = trim_cctp row in
      case Int_SetString 0 (cct_MinValue c) of
        None \<Rightarrow>
          ([(''scan t_cctp_support_chain min value error '',
             Some (''id: '' @ FormatInt (cct_ChainId c) @ '', min value: '' @ cct_MinValue c))], m)
      | Some _ \<Rightarrow> ([], m(cct_ChainId c \<mapsto> c)))"

definition LoadAllCctpChains ::
  "CircleCctpChain query \<Rightarrow> CircleCctpChainManager \<Rightarrow> alert list \<times> CircleCctpChainManager" where
  "LoadAllCctpChains =
     load_table ''select t_cctp_support_chain error'' ''scan t_cctp_support_chain row error''
       ''get next t_cctp_support_chain row error'' cctp_body Map.empty
       (\<lambda>m mgr. mgr\<lparr>ctm_chainIdChains := m\<rparr>)"

interpretation cctp_row: row_index "\<lambda>m. m" "\<lambda>r m. snd (cctp_body r m)" cct_ChainId trim_cctp cctp_ok
  by unfold_locales (auto simp: cctp_body_def trim_cctp_def cctp_ok_def Let_def split: option.splits)

interpretation cctp_load: reloadable LoadAllCctpChains good_query ctm_chainIdChains
  "\<lambda>q. fold (\<lambda>r m. snd (cctp_body r m)) (query_rows q) Map.empty"
  unfolding LoadAllCctpChains_def by (rule load_table_reloadable [where h = "\<lambda>m. m"]) simp

section \<open>Properties\<close>

lemma cctp_history:
  "GetCctpChainByChainId (fold (\<lambda>q m. snd (LoadAllCctpChains q m)) qs NewCircleCctpChainManager) i =
     (case last_row good_query qs of
        None \<Rightarrow> None
      | Some q \<Rightarrow> map_option trim_cctp (last_row (\<lambda>r. cctp_ok r \<and> cct_ChainId r = i) (query_rows q)))"
  by (simp only: GetCctpChainByChainId_def cctp_load.view_reloads)
    (simp add: NewCircleCctpChainManager_def cctp_row.get_fold split: option.splits)

text \<open>
  The minimum of a chain that a manager serves never panics, after any sequence of loads: a row
  whose minimum does not parse is reported and never stored, so the minimum in units is a million
  times the number in the row.
\<close>

theorem cctp_min_value:
  "case GetCctpChainByChainId (fold (\<lambda>q m. snd (LoadAllCctpChains q m)) qs NewCircleCctpChainManager) i of
     None \<Rightarrow> True
   | Some c \<Rightarrow> (\<exists>mn. Int_SetString 0 (cct_MinValue c) = Some mn \<and> GetMinValueUnit c = Some (mn * 1000000) \<and>
       cct_ChainId c = i)"
  by (auto simp: cctp_history GetMinValueUnit_def trim_cctp_def cctp_ok_def
      split: option.splits dest!: last_row_Some)

text \<open>
  The version is symmetric, and version 1 is preferred. The addresses of version 2 are stored
  untrimmed, so a blank one makes version 2 look supported.
\<close>

lemma cctp_version_symmetric: "GetCctpVersion a b = GetCctpVersion b a"
  by (auto simp: GetCctpVersion_def)

lemma cctp_version_blank:
  "cct_TokenMessengerV2 (trim_cctp c\<lparr>cct_TokenMessengerV2 := '' ''\<rparr>) \<noteq> []"
  by simp

end
