(* ===== verification/MultiTransfer.thy ===== *)
theory MultiTransfer
  imports Rows
begin

text \<open>
  \<open>src/loader/multi_transfer_chain.go\<close> and \<open>src/loader/multi_transfer_token.go\<close>: the chains and tokens
  of transfers to many receivers.
\<close>

section \<open>Chains\<close>

record MultiTransferChain =
  mtc_Id :: int
  mtc_ChainId :: int
  mtc_ChainName :: string
  mtc_Backend :: int
  mtc_Disabled :: int
  mtc_CreatedAt :: int
  mtc_UpdatedAt :: int

record MultiTransferChainManager =
  mcm_idChains :: "int \<rightharpoonup> MultiTransferChain"
  mcm_chainIdChains :: "int \<rightharpoonup> MultiTransferChain"
  mcm_allChains :: "MultiTransferChain list"

definition NewMultiTransferChainManager :: MultiTransferChainManager where
  "NewMultiTransferChainManager =
     \<lparr>mcm_idChains = Map.empty, mcm_chainIdChains = Map.empty, mcm_allChains = []\<rparr>"

definition MtGetChainById :: "MultiTransferChainManager \<Rightarrow> int \<Rightarrow> MultiTransferChain option" where
  "MtGetChainById mgr i = mcm_idChains mgr i"

definition MtGetChainByChainId :: "MultiTransferChainManager \<Rightarrow> int \<Rightarrow> MultiTransferChain option" where
  "MtGetChainByChainId mgr chainId = mcm_chainIdChains mgr chainId"

definition MtGetAllChains :: "MultiTransferChainManager \<Rightarrow> MultiTransferChain list" where
  "MtGetAllChains mgr = mcm_allChains mgr"

definition trim_mt_chain :: "MultiTransferChain \<Rightarrow> MultiTransferChain" where
  "trim_mt_chain c = c\<lparr>mtc_ChainName := TrimSpace (mtc_ChainName c)\<rparr>"

definition put_mt_chain :: "MultiTransferChain \<Rightarrow> MultiTransferChainManager \<Rightarrow> MultiTransferChainManager" where
  "put_mt_chain row m =
     (let c = trim_mt_chain row
      in \<lparr>mcm_idChains = (mcm_idChains m)(mtc_Id c \<mapsto> c),
          mcm_chainIdChains = (mcm_chainIdChains m)(mtc_ChainId c \<mapsto> c),
          mcm_allChains = mcm_allChains m @ [c]\<rparr>)"

definition MtLoadAllChains ::
  "MultiTransferChain query \<Rightarrow> MultiTransferChainManager \<Rightarrow> alert list \<times> MultiTransferChainManager" where
  "MtLoadAllChains =
     load_table ''select t_multi_transfer_chain error'' ''scan t_multi_transfer_chain row error''
       ''iterate t_multi_transfer_chain rows error'' (\<lambda>r s. ([], put_mt_chain r s))
       NewMultiTransferChainManager (\<lambda>s mgr. s)"

interpretation mt_chain_id: row_index mcm_idChains put_mt_chain mtc_Id trim_mt_chain "\<lambda>_. True"
  by unfold_locales (auto simp: put_mt_chain_def trim_mt_chain_def Let_def)

interpretation mt_chain_cid: row_index mcm_chainIdChains put_mt_chain mtc_ChainId trim_mt_chain "\<lambda>_. True"
  by unfold_locales (auto simp: put_mt_chain_def trim_mt_chain_def Let_def)

interpretation mt_chain_all: row_group "\<lambda>m (u::unit). mcm_allChains m" put_mt_chain "\<lambda>_. ()"
  trim_mt_chain "\<lambda>_. True"
  by unfold_locales (auto simp: put_mt_chain_def Let_def)

interpretation mt_chain_load: reloadable MtLoadAllChains good_query "\<lambda>m. m"
  "\<lambda>q. fold put_mt_chain (query_rows q) NewMultiTransferChainManager"
  unfolding MtLoadAllChains_def
  by (rule load_table_reloadable [where h = "\<lambda>m. m" and body = "\<lambda>r s. ([], put_mt_chain r s)", simplified]) simp

lemma mt_chains_loaded:
  "MtGetChainById (snd (MtLoadAllChains (Rows rs None) mgr)) i =
     map_option trim_mt_chain (last_row (\<lambda>r. mtc_Id r = i) (scanned rs))"
  "MtGetChainByChainId (snd (MtLoadAllChains (Rows rs None) mgr)) c =
     map_option trim_mt_chain (last_row (\<lambda>r. mtc_ChainId r = c) (scanned rs))"
  "MtGetAllChains (snd (MtLoadAllChains (Rows rs None) mgr)) = map trim_mt_chain (scanned rs)"
  using mt_chain_all.get_fold [of "scanned rs" NewMultiTransferChainManager "()"]
  by (simp_all add: mt_chain_load.load_good MtGetChainById_def MtGetChainByChainId_def MtGetAllChains_def
      mt_chain_id.get_fold mt_chain_cid.get_fold NewMultiTransferChainManager_def split: option.splits)

section \<open>Tokens\<close>

record MultiTransferToken =
  mtt_Id :: int
  mtt_ChainName :: string
  mtt_TokenName :: string
  mtt_TokenAddress :: string
  mtt_Decimal :: int
  mtt_MaxValue :: string
  mtt_Dtc :: string
  mtt_Disabled :: int
  mtt_CreatedAt :: int
  mtt_UpdatedAt :: int

type_synonym mt_index = "string \<Rightarrow> (string \<rightharpoonup> MultiTransferToken) option"

record MultiTransferTokenManager =
  mtm_addrs :: mt_index
  mtm_names :: mt_index
  mtm_allTokens :: "MultiTransferToken list"

definition NewMultiTransferTokenManager :: MultiTransferTokenManager where
  "NewMultiTransferTokenManager = \<lparr>mtm_addrs = Map.empty, mtm_names = Map.empty, mtm_allTokens = []\<rparr>"

definition MtGetByChainNameTokenAddr ::
  "MultiTransferTokenManager \<Rightarrow> string \<Rightarrow> string \<Rightarrow> MultiTransferToken option" where
  "MtGetByChainNameTokenAddr mgr chainName tokenAddr =
     get2 (mtm_addrs mgr) (norm_key chainName) (norm_key tokenAddr)"

definition MtGetByChainNameTokenName ::
  "MultiTransferTokenManager \<Rightarrow> string \<Rightarrow> string \<Rightarrow> MultiTransferToken option" where
  "MtGetByChainNameTokenName mgr chainName tokenName =
     get2 (mtm_names mgr) (norm_key chainName) (norm_key tokenName)"

definition MtGetAllTokens :: "MultiTransferTokenManager \<Rightarrow> MultiTransferToken list" where
  "MtGetAllTokens mgr = mtm_allTokens mgr"

definition trim_mt_token :: "MultiTransferToken \<Rightarrow> MultiTransferToken" where
  "trim_mt_token t = t
     \<lparr>mtt_ChainName := TrimSpace (mtt_ChainName t), mtt_TokenName := TrimSpace (mtt_TokenName t),
      mtt_TokenAddress := TrimSpace (mtt_TokenAddress t), mtt_MaxValue := TrimSpace (mtt_MaxValue t),
      mtt_Dtc := TrimSpace (mtt_Dtc t)\<rparr>"

definition put_mt_token :: "MultiTransferToken \<Rightarrow> MultiTransferTokenManager \<Rightarrow> MultiTransferTokenManager" where
  "put_mt_token row m =
     (let t = trim_mt_token row
      in \<lparr>mtm_addrs = put2 (ToLower (mtt_ChainName t)) (ToLower (mtt_TokenAddress t)) t (mtm_addrs m),
          mtm_names = put2 (ToLower (mtt_ChainName t)) (ToLower (mtt_TokenName t)) t (mtm_names m),
          mtm_allTokens = mtm_allTokens m @ [t]\<rparr>)"

definition MtLoadAllTokens ::
  "MultiTransferToken query \<Rightarrow> MultiTransferTokenManager \<Rightarrow> alert list \<times> MultiTransferTokenManager" where
  "MtLoadAllTokens =
     load_table ''select t_multi_transfer_token error'' ''scan t_multi_transfer_token row error''
       ''iterate t_multi_transfer_token rows error'' (\<lambda>r s. ([], put_mt_token r s))
       NewMultiTransferTokenManager (\<lambda>s mgr. s)"

interpretation mt_token_addr: row_index "\<lambda>m (c, a). get2 (mtm_addrs m) c a" put_mt_token
  "\<lambda>r. (norm_key (mtt_ChainName r), norm_key (mtt_TokenAddress r))" trim_mt_token "\<lambda>_. True"
  by unfold_locales (auto simp: put_mt_token_def trim_mt_token_def ToLower_TrimSpace Let_def split: if_splits)

interpretation mt_token_name: row_index "\<lambda>m (c, n). get2 (mtm_names m) c n" put_mt_token
  "\<lambda>r. (norm_key (mtt_ChainName r), norm_key (mtt_TokenName r))" trim_mt_token "\<lambda>_. True"
  by unfold_locales (auto simp: put_mt_token_def trim_mt_token_def ToLower_TrimSpace Let_def split: if_splits)

interpretation mt_token_all: row_group "\<lambda>m (u::unit). mtm_allTokens m" put_mt_token "\<lambda>_. ()"
  trim_mt_token "\<lambda>_. True"
  by unfold_locales (auto simp: put_mt_token_def Let_def)

interpretation mt_token_load: reloadable MtLoadAllTokens good_query "\<lambda>m. m"
  "\<lambda>q. fold put_mt_token (query_rows q) NewMultiTransferTokenManager"
  unfolding MtLoadAllTokens_def
  by (rule load_table_reloadable [where h = "\<lambda>m. m" and body = "\<lambda>r s. ([], put_mt_token r s)", simplified]) simp

text \<open>
  After a load the two token lookups return the last row of the chain with the address, or with
  the name, compared up to case and surrounding space, and all tokens are listed in row order.
\<close>

theorem mt_tokens_loaded:
  "let mgr' = snd (MtLoadAllTokens (Rows rs None) mgr) in
   MtGetByChainNameTokenAddr mgr' c a = map_option trim_mt_token
     (last_row (\<lambda>r. norm_key (mtt_ChainName r) = norm_key c \<and> norm_key (mtt_TokenAddress r) = norm_key a)
        (scanned rs)) \<and>
   MtGetByChainNameTokenName mgr' c n = map_option trim_mt_token
     (last_row (\<lambda>r. norm_key (mtt_ChainName r) = norm_key c \<and> norm_key (mtt_TokenName r) = norm_key n)
        (scanned rs)) \<and>
   MtGetAllTokens mgr' = map trim_mt_token (scanned rs)"
  using mt_token_all.get_fold [of "scanned rs" NewMultiTransferTokenManager "()"]
    mt_token_addr.get_fold [of "scanned rs" NewMultiTransferTokenManager "(norm_key c, norm_key a)"]
    mt_token_name.get_fold [of "scanned rs" NewMultiTransferTokenManager "(norm_key c, norm_key n)"]
  by (simp add: Let_def mt_token_load.load_good MtGetByChainNameTokenAddr_def MtGetByChainNameTokenName_def
      MtGetAllTokens_def NewMultiTransferTokenManager_def split: option.splits)

end
