(* ===== verification/Transactions.thy ===== *)
theory Transactions
  imports Rows AsyncCache TokenInfo
begin

text \<open>
  \<open>src/loader/src_tx.go\<close>, \<open>src/loader/dst_tx.go\<close> and \<open>src/loader/swap_token_info.go\<close>: the managers
  that talk to the database for every call. The outcome of a statement is an argument: \<open>exec\<close> gives
  the error of an update or insert by its arguments, \<open>row\<close> the scanned row of a query, \<open>None\<close> when
  the query or the scan fails. Swap tokens are cached: there a value is a pointer, an integer.
\<close>

section \<open>Source transactions\<close>

record null_str =
  ns_String :: string
  ns_Valid :: bool

definition trim_null :: "null_str \<Rightarrow> null_str" where
  "trim_null n = n\<lparr>ns_String := TrimSpace (ns_String n)\<rparr>"

record SrcTx =
  st_ChainId :: int
  st_TxHash :: string
  st_Sender :: string
  st_Receiver :: string
  st_TargetAddress :: null_str
  st_Token :: string
  st_Value :: string
  st_DstChainid :: "int option"
  st_IsTestnet :: "int option"
  st_TxTimestamp :: int
  st_SrcTokenName :: null_str
  st_SrcTokenDecimal :: int
  st_IsCctp :: int
  st_SrcNonce :: int
  st_ThirdpartyChannel :: int
  st_ToExchange :: int

definition IsSrcTxExist :: "(int \<Rightarrow> string \<Rightarrow> int option) \<Rightarrow> int \<Rightarrow> string \<Rightarrow> bool" where
  "IsSrcTxExist row chainId txHash \<longleftrightarrow> row chainId (TrimSpace txHash) \<noteq> None"

definition report :: "string \<Rightarrow> string option \<Rightarrow> alert list \<times> string option" where
  "report msg err = (case err of Some e \<Rightarrow> ([(msg, Some e)], Some e) | None \<Rightarrow> ([], None))"

definition SetResult ::
  "(string \<Rightarrow> int \<Rightarrow> int \<Rightarrow> string option) \<Rightarrow> string \<Rightarrow> int \<Rightarrow> int \<Rightarrow> alert list \<times> string option" where
  "SetResult exec txHash isInvalid isVerified =
     report ''update t_transfer is_invalid error :'' (exec txHash isInvalid isVerified)"

definition SetResultWithDstHash ::
  "(string \<Rightarrow> int \<Rightarrow> int \<Rightarrow> string \<Rightarrow> string option) \<Rightarrow> string \<Rightarrow> int \<Rightarrow> int \<Rightarrow> string \<Rightarrow>
   alert list \<times> string option" where
  "SetResultWithDstHash exec txHash isInvalid isVerified dstHash =
     report ''update t_transfer is_invalid error :'' (exec txHash isInvalid isVerified dstHash)"

definition trim_src :: "SrcTx \<Rightarrow> SrcTx" where
  "trim_src tx = tx
     \<lparr>st_TxHash := TrimSpace (st_TxHash tx), st_Sender := TrimSpace (st_Sender tx),
      st_Receiver := TrimSpace (st_Receiver tx), st_Token := TrimSpace (st_Token tx),
      st_Value := TrimSpace (st_Value tx), st_TargetAddress := trim_null (st_TargetAddress tx),
      st_SrcTokenName := trim_null (st_SrcTokenName tx)\<rparr>"

definition SaveSrcTx :: "(SrcTx \<Rightarrow> string option) \<Rightarrow> SrcTx \<Rightarrow> (alert list \<times> string option) \<times> SrcTx" where
  \<comment> \<open>\<open>exec\<close> inserts the columns of its argument; the second component is the caller's struct\<close>
  "SaveSrcTx exec tx =
     (let tx = trim_src tx in (report ''failed to insert src transaction'' (exec tx), tx))"

section \<open>Destination transactions\<close>

record DstTx =
  dx_SrcAction :: string
  dx_SrcId :: int
  dx_SrcVersion :: int
  dx_Sender :: int
  dx_Body :: string
  dx_FeeCap :: null_str
  dx_TransferToken :: null_str
  dx_TransferRecipient :: null_str
  dx_TransferAmount :: null_str

record TxGen =
  tg_Id :: int
  tg_Hash :: string
  tg_ConfirmedSuccess :: int

definition GetDoneTxGen :: "(int \<Rightarrow> TxGen option) \<Rightarrow> int \<Rightarrow> TxGen option" where
  "GetDoneTxGen row genId = map_option (\<lambda>g. g\<lparr>tg_Hash := TrimSpace (tg_Hash g)\<rparr>) (row genId)"

definition GetDstTxConfirmGen ::
  "(string \<Rightarrow> int \<Rightarrow> int \<Rightarrow> int option) \<Rightarrow> int \<Rightarrow> string \<Rightarrow> int \<Rightarrow> int" where
  "GetDstTxConfirmGen row srcId act version =
     (case row (TrimSpace act) srcId version of None \<Rightarrow> 0 | Some genId \<Rightarrow> genId)"

definition GetDoneTxGenBySrc ::
  "(string \<Rightarrow> int \<Rightarrow> int \<Rightarrow> int option) \<Rightarrow> (int \<Rightarrow> TxGen option) \<Rightarrow> int \<Rightarrow> string \<Rightarrow> int \<Rightarrow> TxGen option" where
  "GetDoneTxGenBySrc row genrow srcId act version =
     (let genId = GetDstTxConfirmGen row srcId act version
      in if genId = 0 then None else GetDoneTxGen genrow genId)"

definition IsDstTxExist :: "(string \<Rightarrow> int \<Rightarrow> int \<Rightarrow> int option) \<Rightarrow> int \<Rightarrow> string \<Rightarrow> int \<Rightarrow> bool" where
  "IsDstTxExist row srcId act version \<longleftrightarrow> row (TrimSpace act) srcId version \<noteq> None"

definition trim_dst :: "DstTx \<Rightarrow> DstTx" where
  "trim_dst tx = tx
     \<lparr>dx_SrcAction := TrimSpace (dx_SrcAction tx), dx_Body := TrimSpace (dx_Body tx),
      dx_FeeCap := trim_null (dx_FeeCap tx), dx_TransferToken := trim_null (dx_TransferToken tx),
      dx_TransferRecipient := trim_null (dx_TransferRecipient tx),
      dx_TransferAmount := trim_null (dx_TransferAmount tx)\<rparr>"

definition SaveDstTx :: "(DstTx \<Rightarrow> string option) \<Rightarrow> DstTx \<Rightarrow> (alert list \<times> string option) \<times> DstTx" where
  "SaveDstTx exec tx =
     (let tx = trim_dst tx in (report ''failed to insert dst transaction'' (exec tx), tx))"

section \<open>Saving is idempotent\<close>

lemma trim_null_idem [simp]: "trim_null (trim_null n) = trim_null n"
  by (simp add: trim_null_def)

lemma trim_src_idem: "trim_src (trim_src tx) = trim_src tx"
  by (simp add: trim_src_def)

lemma trim_dst_idem: "trim_dst (trim_dst tx) = trim_dst tx"
  by (simp add: trim_dst_def)

text \<open>
  Saving again what a save has normalised issues the same insert and leaves the caller's struct as
  it is: the stored row does not depend on how often, or from which spelling with surrounding
  space, a transaction is saved. An alert is raised exactly when the insert fails.
\<close>

theorem tx_save_idempotent:
  "SaveSrcTx exec (snd (SaveSrcTx exec' tx)) = SaveSrcTx exec tx \<and>
   SaveDstTx execd (snd (SaveDstTx execd' dtx)) = SaveDstTx execd dtx \<and>
   (fst (fst (SaveSrcTx exec tx)) = [] \<longleftrightarrow> exec (snd (SaveSrcTx exec tx)) = None)"
  by (simp add: SaveSrcTx_def SaveDstTx_def trim_src_idem trim_dst_idem Let_def report_def split: option.split)

lemma done_gen_needs_confirmation:
  "GetDoneTxGenBySrc row genrow srcId act version = Some g \<Longrightarrow>
   \<exists>i. i \<noteq> 0 \<and> row (TrimSpace act) srcId version = Some i \<and> genrow i \<noteq> None"
  by (auto simp: GetDoneTxGenBySrc_def GetDstTxConfirmGen_def GetDoneTxGen_def Let_def split: if_splits option.splits)

section \<open>Swap tokens\<close>

definition token_type :: string where
  "token_type = ''*loader.TokenInfo''"

definition GetByChainNameTokenAddrFromDb ::
  "(string \<Rightarrow> string \<Rightarrow> string + int) \<Rightarrow> string \<Rightarrow> string \<Rightarrow> string + int" where
  \<comment> \<open>\<open>db\<close> gives the error of the query or the scan, or the pointer to the scanned token\<close>
  "GetByChainNameTokenAddrFromDb db chainName tokenAddr =
     (case db chainName tokenAddr of
        Inl err \<Rightarrow> Inl (''get token info by chainName '' @ chainName @ '' token Addr err: '' @ err)
      | Inr token \<Rightarrow> Inr token)"

definition swap_fetcher :: "(string \<Rightarrow> string \<Rightarrow> string + int) \<Rightarrow> fetcher" where
  "swap_fetcher db key =
     (case split_on CHR ''#'' key of
        [chainName, tokenAddr] \<Rightarrow>
          (case GetByChainNameTokenAddrFromDb db chainName tokenAddr of
             Inl err \<Rightarrow> (None, Some err)
           | Inr token \<Rightarrow> (Some (token_type, token), None))
      | _ \<Rightarrow> (None, Some (''invalid key: '' @ key)))"

definition NewSwapTokenInfoManager :: Options where
  \<comment> \<open>the cache options, in seconds\<close>
  "NewSwapTokenInfoManager =
     \<lparr>op_RefreshDuration = 3600, op_EnableExpire = True, op_ExpireDuration = 1800,
      op_ErrorHandler = False, op_ChangeHandler = False, op_DeleteHandler = False, op_IsSame = None\<rparr>"

definition SwapGetByChainNameTokenAddr ::
  "(string \<Rightarrow> string \<Rightarrow> string + int) \<Rightarrow> string \<Rightarrow> string \<Rightarrow> cache \<Rightarrow> int option \<times> cache" where
  "SwapGetByChainNameTokenAddr db chainName tokenAddr c =
     (let ((val, err), c') = ac_Get (swap_fetcher db) (chainName @ ''#'' @ tokenAddr) c in
      case err of
        Some _ \<Rightarrow> (None, c')
      | None \<Rightarrow>
          (case val of
             Some (ty, p) \<Rightarrow> (if ty = token_type then Some p else None, c')
           | None \<Rightarrow> (None, c')))"

lemma swap_fetcher_key:
  "swap_fetcher db (chainName @ ''#'' @ tokenAddr) =
     (if CHR ''#'' \<in> set chainName \<or> CHR ''#'' \<in> set tokenAddr
      then (None, Some (''invalid key: '' @ chainName @ ''#'' @ tokenAddr))
      else case db chainName tokenAddr of
             Inl err \<Rightarrow> (None, Some (''get token info by chainName '' @ chainName @ '' token Addr err: '' @ err))
           | Inr token \<Rightarrow> (Some (token_type, token), None))"
proof (cases "CHR ''#'' \<in> set chainName \<or> CHR ''#'' \<in> set tokenAddr")
  case True
  then have "length (filter (\<lambda>c. c = CHR ''#'') (chainName @ ''#'' @ tokenAddr)) \<noteq> 1"
    by (auto simp: filter_empty_conv)
  then have "length (split_on CHR ''#'' (chainName @ ''#'' @ tokenAddr)) \<noteq> 2"
    by (simp add: split_on_length)
  then have "split_on CHR ''#'' (chainName @ ''#'' @ tokenAddr) \<noteq> [x, y]" for x y
    by (metis length_Cons list.size(3) numeral_2_eq_2)
  with True show ?thesis by (simp add: swap_fetcher_def split: list.split)
next
  case False
  then show ?thesis
    by (simp add: swap_fetcher_def split_on_key split_on_free GetByChainNameTokenAddrFromDb_def split: sum.split)
qed

text \<open>
  A lookup that is not cached queries the database with exactly the chain name and the token
  address of the call, although both travel through one key string: names with the separator are
  refused before the database is asked, so no pair is ever answered with the token of another.
\<close>

theorem swap_lookup_first:
  assumes "c (chainName @ ''#'' @ tokenAddr) = None"
  shows "fst (SwapGetByChainNameTokenAddr db chainName tokenAddr c) =
     (if CHR ''#'' \<in> set chainName \<or> CHR ''#'' \<in> set tokenAddr then None
      else case db chainName tokenAddr of Inl _ \<Rightarrow> None | Inr token \<Rightarrow> Some token)"
  using assms swap_fetcher_key [of db chainName tokenAddr]
  by (simp add: SwapGetByChainNameTokenAddr_def get_defs split: sum.splits)

theorem swap_lookup_first_witness:
  "fst (SwapGetByChainNameTokenAddr (\<lambda>c a. Inr 7) ''base'' ''0xab'' Map.empty) = Some 7"
  using swap_lookup_first [of Map.empty "''base''" "''0xab''" "\<lambda>c a. Inr 7"] by simp

text \<open>
  A lookup that failed stays failed until the cache is refreshed or the entry expires, even when the
  database has the token by then.
\<close>

lemma swap_lookup_sticky:
  "fst (SwapGetByChainNameTokenAddr db' chainName tokenAddr (snd (SwapGetByChainNameTokenAddr db chainName tokenAddr c))) =
     fst (SwapGetByChainNameTokenAddr db chainName tokenAddr c)"
  by (cases "c (chainName @ ''#'' @ tokenAddr)";
      cases "swap_fetcher db (chainName @ ''#'' @ tokenAddr)";
      cases "snd (swap_fetcher db (chainName @ ''#'' @ tokenAddr))")
    (auto simp: SwapGetByChainNameTokenAddr_def get_defs entry_Store_fresh fresh_def Error_Load_def Touch_def
      split: option.splits prod.splits)

end
