(* ===== verification/JsonExtract.thy ===== *)
theory JsonExtract
  imports GoNum GoFloat
begin

text \<open>
  \<open>src/json_extract/json_extract.go\<close>: reading a value at a path such as \<open>a.b[0].c\<close> out of decoded JSON.
  \<open>json.Unmarshal\<close>, \<open>json.Marshal\<close> and the \<open>%v\<close> format of a value are arguments, the error of a
  failed unmarshal a value; the path is split and matched as in the code.
\<close>

section \<open>Decoded JSON\<close>

datatype json =
    JNull
  | JBool bool
  | JNum f64
  | JStr string
  | JArr "json list"
  | JObj "(string \<times> json) list"  \<comment> \<open>a map with string keys\<close>

section \<open>Path segments\<close>

definition is_word :: "char \<Rightarrow> bool" where
  "is_word c \<longleftrightarrow> is_upper c \<or> is_lower c \<or> is_digit c \<or> c = CHR ''_''"

definition match_here :: "string \<Rightarrow> (string \<times> string) option" where
  \<comment> \<open>\<open>(\w+)\[(\d+)\]\<close> at the beginning of the text\<close>
  "match_here s =
     (let key = takeWhile is_word s in
      case dropWhile is_word s of
        [] \<Rightarrow> None
      | c # r \<Rightarrow>
          (let idx = takeWhile is_digit r in
           case dropWhile is_digit r of
             [] \<Rightarrow> None
           | e # _ \<Rightarrow>
               if key \<noteq> [] \<and> c = CHR ''['' \<and> idx \<noteq> [] \<and> e = CHR '']'' then Some (key, idx) else None))"

fun FindStringSubmatch :: "string \<Rightarrow> (string \<times> string) option" where
  \<comment> \<open>the leftmost match of the unanchored expression\<close>
  "FindStringSubmatch [] = None"
| "FindStringSubmatch (c # s) =
     (case match_here (c # s) of Some m \<Rightarrow> Some m | None \<Rightarrow> FindStringSubmatch s)"

definition Atoi_index :: "string \<Rightarrow> int" where
  \<comment> \<open>\<open>strconv.Atoi\<close> of digits with the error dropped: the value saturates\<close>
  "Atoi_index s = fst (ParseInt10 64 s)"

section \<open>Extraction\<close>

definition step_part :: "json \<Rightarrow> string \<Rightarrow> string + json" where
  "step_part current part =
     (if CHR ''['' \<in> set part
      then (case FindStringSubmatch part of
              None \<Rightarrow> Inl (''invalid path segment: '' @ part)
            | Some (key, digits) \<Rightarrow>
                (let index = Atoi_index digits in
                 case current of
                   JObj mapped \<Rightarrow>
                     (case map_of mapped key of
                        None \<Rightarrow> Inl (''key not found: '' @ key)
                      | Some (JArr sliced) \<Rightarrow>
                          if index < int (length sliced) then Inr (sliced ! nat index)
                          else Inl (''index out of range: '' @ FormatInt index)
                      | Some _ \<Rightarrow> Inl (''not an array: '' @ key))
                 | _ \<Rightarrow> Inl (''not a map before key: '' @ key)))
      else (case current of
              JObj mapped \<Rightarrow>
                (case map_of mapped part of
                   None \<Rightarrow> Inl (''key not found: '' @ part)
                 | Some v \<Rightarrow> Inr v)
            | _ \<Rightarrow> Inl (''not a map at key: '' @ part)))"

fun walk :: "json \<Rightarrow> string list \<Rightarrow> string + json" where
  "walk current [] = Inr current"
| "walk current (part # parts) =
     (case step_part current part of Inl e \<Rightarrow> Inl e | Inr v \<Rightarrow> walk v parts)"

definition ExtractValueFromJSON :: "(string \<Rightarrow> string + json) \<Rightarrow> string \<Rightarrow> string \<Rightarrow> string + json" where
  "ExtractValueFromJSON unmarshal jsonData path =
     (case unmarshal jsonData of
        Inl err \<Rightarrow> Inl err
      | Inr data \<Rightarrow> walk data (split_on CHR ''.'' path))"

definition ExtractStringValueFromJSON ::
  "(json \<Rightarrow> string) \<Rightarrow> (string \<Rightarrow> string + json) \<Rightarrow> string \<Rightarrow> string \<Rightarrow> string + string" where
  \<comment> \<open>\<open>sprint\<close> is the \<open>%v\<close> format\<close>
  "ExtractStringValueFromJSON sprint unmarshal jsonData path =
     (case ExtractValueFromJSON unmarshal jsonData path of Inl e \<Rightarrow> Inl e | Inr v \<Rightarrow> Inr (sprint v))"

definition ExtractStringValueFromObj where
  "ExtractStringValueFromObj sprint unmarshal marshal obj path =
     ExtractStringValueFromJSON sprint unmarshal (marshal obj) path"

definition extract_int ::
  "nat \<Rightarrow> (f64 \<Rightarrow> int) \<Rightarrow> (string \<Rightarrow> string + json) \<Rightarrow> string \<Rightarrow> string \<Rightarrow> string + int" where
  \<comment> \<open>\<open>impl\<close> is the result of converting a float that is out of range\<close>
  "extract_int w impl unmarshal jsonData path =
     (case ExtractValueFromJSON unmarshal jsonData path of
        Inl e \<Rightarrow> Inl e
      | Inr (JNum f) \<Rightarrow> Inr (f64_to_int w impl f)
      | Inr _ \<Rightarrow> Inl (''not an integer: '' @ path))"

definition ExtractInt64ValueFromJSON where
  "ExtractInt64ValueFromJSON impl unmarshal jsonData path = extract_int 64 impl unmarshal jsonData path"

definition ExtractInt64ValueFromObj where
  "ExtractInt64ValueFromObj impl unmarshal marshal obj path =
     extract_int 64 impl unmarshal (marshal obj) path"

definition ExtractInt32ValueFromJSON where
  "ExtractInt32ValueFromJSON impl unmarshal jsonData path = extract_int 32 impl unmarshal jsonData path"

definition ExtractInt32ValueFromObj where
  "ExtractInt32ValueFromObj impl unmarshal marshal obj path =
     extract_int 32 impl unmarshal (marshal obj) path"

definition ExtractSliceValueFromJSON ::
  "(string \<Rightarrow> string + json) \<Rightarrow> string \<Rightarrow> string \<Rightarrow> string + json list" where
  "ExtractSliceValueFromJSON unmarshal jsonData path =
     (case ExtractValueFromJSON unmarshal jsonData path of
        Inl e \<Rightarrow> Inl e
      | Inr (JArr s) \<Rightarrow> Inr s
      | Inr _ \<Rightarrow> Inl (''not an array: '' @ path))"

definition ExtractSliceValueFromObj where
  "ExtractSliceValueFromObj unmarshal marshal obj path =
     ExtractSliceValueFromJSON unmarshal (marshal obj) path"

section \<open>What a path means\<close>

text \<open>The steps that a path is meant to spell, and the value they lead to.\<close>

datatype path_step = Field string | Element string nat

fun step_string :: "path_step \<Rightarrow> string" where
  "step_string (Field k) = k"
| "step_string (Element k i) = k @ ''['' @ utoa i @ '']''"

fun path_string :: "path_step list \<Rightarrow> string" where
  "path_string [] = []"
| "path_string [s] = step_string s"
| "path_string (s # t # ss) = step_string s @ CHR ''.'' # path_string (t # ss)"

fun good_step :: "path_step \<Rightarrow> bool" where
  "good_step (Field k) = (CHR ''.'' \<notin> set k \<and> CHR ''['' \<notin> set k)"
| "good_step (Element k i) = (k \<noteq> [] \<and> list_all is_word k \<and> i < 2 ^ 63)"

fun follow :: "json \<Rightarrow> path_step \<Rightarrow> json option" where
  "follow (JObj m) (Field k) = map_of m k"
| "follow (JObj m) (Element k i) =
     (case map_of m k of Some (JArr vs) \<Rightarrow> if i < length vs then Some (vs ! i) else None | _ \<Rightarrow> None)"
| "follow v s = None"

fun follow_all :: "json \<Rightarrow> path_step list \<Rightarrow> json option" where
  "follow_all v [] = Some v"
| "follow_all v (s # ss) = (case follow v s of None \<Rightarrow> None | Some w \<Rightarrow> follow_all w ss)"

definition result_option :: "string + json \<Rightarrow> json option" where
  "result_option r = (case r of Inl _ \<Rightarrow> None | Inr v \<Rightarrow> Some v)"

lemma digit_is_word: "is_digit c \<Longrightarrow> is_word c"
  by (simp add: is_word_def)

lemma word_chars: "is_word c \<Longrightarrow> c \<noteq> CHR ''['' \<and> c \<noteq> CHR '']'' \<and> c \<noteq> CHR ''.''"
  by (auto simp: is_word_def is_upper_def is_lower_def is_digit_def)

lemma bracket_chars [simp]: "\<not> is_word CHR ''[''" "\<not> is_digit CHR '']''"
  by (auto simp: is_word_def is_upper_def is_lower_def is_digit_def)

lemma FindStringSubmatch_element:
  assumes "k \<noteq> []" "list_all is_word k" "ds \<noteq> []" "list_all is_digit ds"
  shows "FindStringSubmatch (k @ CHR ''['' # ds @ CHR '']'' # junk) = Some (k, ds)"
proof -
  have "takeWhile is_word (k @ CHR ''['' # r) = k" "dropWhile is_word (k @ CHR ''['' # r) = CHR ''['' # r" for r
    using assms(2) by (simp_all add: takeWhile_append2 dropWhile_append2 list_all_iff)
  moreover have "takeWhile is_digit (ds @ CHR '']'' # junk) = ds"
    "dropWhile is_digit (ds @ CHR '']'' # junk) = CHR '']'' # junk"
    using assms(4) by (simp_all add: takeWhile_append2 dropWhile_append2 list_all_iff)
  ultimately have "match_here (k @ CHR ''['' # ds @ CHR '']'' # junk) = Some (k, ds)"
    using assms(1,3) by (simp add: match_here_def Let_def)
  then show ?thesis using assms(1) by (cases k) simp_all
qed

lemma Atoi_index_utoa: "i < 2 ^ 63 \<Longrightarrow> Atoi_index (utoa i) = int i"
  using ParseInt10_FormatInt [of 64 "int i"] by (simp add: Atoi_index_def FormatInt_def)

lemma step_part_good:
  assumes "good_step s"
  shows "result_option (step_part v (step_string s)) = follow v s"
proof (cases s)
  case (Field k)
  with assms show ?thesis
    by (cases v) (auto simp: step_part_def result_option_def split: option.split)
next
  case (Element k i)
  have "FindStringSubmatch (step_string s) = Some (k, utoa i)"
    using FindStringSubmatch_element [of k "utoa i" "[]"] assms utoa_digits [of i]
    by (simp add: Element list_all_iff)
  then show ?thesis
    using assms
    by (cases v) (auto simp: step_part_def result_option_def Element Atoi_index_utoa Let_def
        split: option.split json.split)
qed

lemma no_dot: "good_step s \<Longrightarrow> CHR ''.'' \<notin> set (step_string s)"
proof (cases s)
  case (Element k i)
  moreover assume "good_step s"
  ultimately show ?thesis
    using utoa_digits [of i] word_chars digit_neq by (auto simp: list_all_iff)
qed simp

lemma split_path:
  "ss \<noteq> [] \<Longrightarrow> list_all good_step ss \<Longrightarrow> split_on CHR ''.'' (path_string ss) = map step_string ss"
  by (induction ss rule: path_string.induct) (simp_all add: split_on_free no_dot split_on_key)

lemma walk_steps:
  "list_all good_step ss \<Longrightarrow> result_option (walk v (map step_string ss)) = follow_all v ss"
proof (induction ss arbitrary: v)
  case (Cons s ss)
  then have "result_option (step_part v (step_string s)) = follow v s" by (simp add: step_part_good)
  with Cons show ?case
    by (cases "step_part v (step_string s)") (auto simp: result_option_def split: option.splits)
qed (simp add: result_option_def)

text \<open>
  C32. For a path that spells fields (names without dot or opening bracket) and elements of arrays whose
  names consist of letters, digits and underscores, with indexes below \<open>2 ^ 63\<close>,
  \<open>ExtractValueFromJSON\<close> returns exactly the value those steps lead to in the decoded document, and
  an error exactly when a field is missing, a value is not of the kind a step needs, or an index is
  out of range. An array with another character in its name is not reached that way:
  \<open>json_name_cut\<close> shows which field the code reads instead.
\<close>

theorem json_path_value:
  assumes "unmarshal jsonData = Inr data" and "ss \<noteq> []" and "list_all good_step ss"
  shows "result_option (ExtractValueFromJSON unmarshal jsonData (path_string ss)) = follow_all data ss"
  using assms by (simp add: ExtractValueFromJSON_def split_path walk_steps)

definition sample_json :: json where
  "sample_json = JObj [(''a'', JArr [JNull, JObj [(''chain'', JStr ''base'')]])]"

theorem json_path_value_witness:
  "result_option (ExtractValueFromJSON (\<lambda>_. Inr sample_json) ''doc'' ''a[1].chain'') = Some (JStr ''base'')"
proof -
  have "path_string [Element ''a'' 1, Field ''chain''] = ''a[1].chain''" by code_simp
  moreover have "list_all good_step [Element ''a'' 1, Field ''chain'']"
    by (simp add: is_word_def is_lower_def)
  ultimately show ?thesis
    using json_path_value [of "\<lambda>_. Inr sample_json" "''doc''" sample_json "[Element ''a'' 1, Field ''chain'']"]
    by (simp add: sample_json_def)
qed

text \<open>
  The expression for array segments is not anchored: whatever follows the first index in a segment
  is ignored, so a second index has no effect and \<open>a[0][1]\<close> silently reads \<open>a[0]\<close>.
\<close>

theorem json_trailing_ignored:
  assumes "k \<noteq> []" and "list_all is_word k" and "CHR ''.'' \<notin> set junk"
  shows "ExtractValueFromJSON unmarshal jsonData (k @ ''['' @ utoa i @ '']'' @ junk) =
     ExtractValueFromJSON unmarshal jsonData (k @ ''['' @ utoa i @ '']'')"
proof -
  let ?p = "k @ ''['' @ utoa i @ '']''"
  have ds: "utoa i \<noteq> []" "list_all is_digit (utoa i)" using utoa_digits by (simp_all add: list_all_iff)
  have dot: "CHR ''.'' \<notin> set (?p @ junk)" "CHR ''.'' \<notin> set ?p"
    using assms utoa_digits [of i] word_chars digit_neq by (auto simp: list_all_iff)
  have "step_part v (?p @ junk) = step_part v ?p" for v
    using FindStringSubmatch_element [OF assms(1,2) ds, of junk]
      FindStringSubmatch_element [OF assms(1,2) ds, of "[]"]
    by (simp add: step_part_def)
  then show ?thesis
    using split_on_free [OF dot(1)] split_on_free [OF dot(2)] by (simp add: ExtractValueFromJSON_def split: sum.split)
qed

theorem json_trailing_ignored_witness:
  "ExtractValueFromJSON (\<lambda>_. Inr sample_json) ''doc'' (''a'' @ ''['' @ utoa 0 @ '']'' @ ''[1]'') =
     ExtractValueFromJSON (\<lambda>_. Inr sample_json) ''doc'' (''a'' @ ''['' @ utoa 0 @ '']'')"
  by (rule json_trailing_ignored) (simp_all add: is_word_def is_lower_def)

text \<open>
  Nor is the expression anchored in front: of the name of an array only the word characters at its end
  count, so \<open>a-b[0]\<close> silently reads the field \<open>b\<close>, and the field \<open>a-b\<close> cannot be reached.
\<close>

lemma match_here_skips:
  assumes "CHR ''['' \<notin> set p" and "\<not> is_word c" and "c \<noteq> CHR ''[''"
  shows "match_here (p @ c # s) = None"
proof -
  have "\<exists>d r. dropWhile is_word (p @ c # s) = d # r \<and> d \<noteq> CHR ''[''"
    using assms by (induction p) auto
  then show ?thesis by (auto simp: match_here_def Let_def split: list.split)
qed

lemma FindStringSubmatch_skips:
  assumes "CHR ''['' \<notin> set p" and "\<not> is_word c" and "c \<noteq> CHR ''[''"
  shows "FindStringSubmatch (p @ c # s) = FindStringSubmatch s"
  using assms
proof (induction p)
  case Nil
  then show ?case using match_here_skips [of "[]" c s] by simp
next
  case (Cons d p)
  then show ?case using match_here_skips [of "d # p" c s] by simp
qed

lemma json_name_cut:
  assumes "CHR ''['' \<notin> set p" and "CHR ''.'' \<notin> set p" and "\<not> is_word c" "c \<noteq> CHR ''[''" "c \<noteq> CHR ''.''"
    and "k \<noteq> []" and "list_all is_word k"
  shows "ExtractValueFromJSON unmarshal jsonData ((p @ [c] @ k) @ ''['' @ utoa i @ '']'') =
     ExtractValueFromJSON unmarshal jsonData (k @ ''['' @ utoa i @ '']'')"
proof -
  let ?e = "k @ ''['' @ utoa i @ '']''"
  have dot: "CHR ''.'' \<notin> set (p @ c # ?e)" "CHR ''.'' \<notin> set ?e"
    using assms utoa_digits [of i] word_chars digit_neq by (auto simp: list_all_iff)
  have "step_part v (p @ c # ?e) = step_part v ?e" for v
    using FindStringSubmatch_skips [OF assms(1,3,4), of ?e]
      FindStringSubmatch_element [OF assms(6,7), of "utoa i" "[]"] utoa_digits [of i]
    by (simp add: step_part_def list_all_iff)
  then show ?thesis
    using split_on_free [OF dot(1)] split_on_free [OF dot(2)] by (simp add: ExtractValueFromJSON_def split: sum.split)
qed

end
