(* ===== verification/Auth.thy ===== *)
theory Auth
  imports GoNum
begin

text \<open>
  \<open>src/errors/error.go\<close>, \<open>src/response/response.go\<close>, \<open>src/util/jwt.go\<close> and \<open>src/middleware/auth.go\<close>:
  business errors behind pointers, the JSON responses, the login tokens and the middleware that
  checks them. The JWT library and the clock readings are arguments; times are nanoseconds. A value
  of type \<open>interface{}\<close> is a string or some other value, given by its \<open>%v\<close> text.
\<close>

section \<open>Business errors\<close>

datatype any = AnyString string | AnyOther string

fun sprint_any :: "any \<Rightarrow> string" where
  "sprint_any (AnyString s) = s"
| "sprint_any (AnyOther s) = s"

record BizError =
  be_Code :: int
  be_Msg :: string
  be_Info :: "string \<rightharpoonup> any"

type_synonym errors_heap = "nat \<rightharpoonup> BizError"  \<comment> \<open>the allocated errors by their address\<close>

definition UnauthorizedErr :: nat where
  "UnauthorizedErr = 0"

definition NewBizError :: "int \<Rightarrow> string \<Rightarrow> BizError" where
  "NewBizError code msg = \<lparr>be_Code = code, be_Msg = msg, be_Info = Map.empty\<rparr>"

definition initial_errors :: errors_heap where
  "initial_errors = [UnauthorizedErr \<mapsto> NewBizError 1004 ''unauthorized'']"

definition GetCode :: "BizError \<Rightarrow> int" where
  "GetCode e = be_Code e"

definition GetMsg :: "BizError \<Rightarrow> string" where
  "GetMsg e = be_Msg e"

fun join_comma :: "string list \<Rightarrow> string" where
  "join_comma [] = []"
| "join_comma [p] = p"
| "join_comma (p # q # ps) = p @ '', '' @ join_comma (q # ps)"

definition Error_string :: "string list \<Rightarrow> BizError \<Rightarrow> string" where
  \<comment> \<open>\<open>ks\<close> is the order in which the info map is walked\<close>
  "Error_string ks e =
     (let infoParts = concat (map (\<lambda>k. case be_Info e k of
                         None \<Rightarrow> [] | Some v \<Rightarrow> [k @ '' = '' @ sprint_any v]) ks)
      in ''code: '' @ FormatInt (be_Code e) @ '', msg: '' @ be_Msg e @
         (if infoParts \<noteq> [] then '' | info: {'' @ join_comma infoParts @ ''}'' else []))"

definition WithMsg :: "string \<Rightarrow> BizError \<Rightarrow> BizError" where
  "WithMsg msg e = e\<lparr>be_Msg := msg\<rparr>"

fun info_pairs :: "any list \<Rightarrow> (string \<rightharpoonup> any) \<Rightarrow> (string \<rightharpoonup> any)" where
  \<comment> \<open>an unmatched last argument is dropped, a pair whose key is not a string is skipped\<close>
  "info_pairs (AnyString key # v # kv) info = info_pairs kv (info(key \<mapsto> v))"
| "info_pairs (AnyOther _ # v # kv) info = info_pairs kv info"
| "info_pairs [_] info = info"
| "info_pairs [] info = info"

definition WithInfo :: "any list \<Rightarrow> BizError \<Rightarrow> BizError" where
  "WithInfo kv e = e\<lparr>be_Info := info_pairs kv (be_Info e)\<rparr>"

definition update_error :: "(BizError \<Rightarrow> BizError) \<Rightarrow> nat \<Rightarrow> errors_heap \<Rightarrow> nat \<times> errors_heap" where
  \<comment> \<open>a method call through a pointer: the struct changes, the pointer is returned\<close>
  "update_error f p h = (p, (case h p of None \<Rightarrow> h | Some e \<Rightarrow> h(p \<mapsto> f e)))"

section \<open>Responses\<close>

datatype go_err = NilErr | BizErr nat | PlainErr string  \<comment> \<open>an error interface value\<close>

record Response =
  rs_Status :: int
  rs_Code :: int
  rs_Message :: string
  rs_Data :: "any option"

definition RespondJSON :: "int \<Rightarrow> string \<Rightarrow> any option \<Rightarrow> Response" where
  "RespondJSON code message data =
     \<lparr>rs_Status = 200, rs_Code = code, rs_Message = message, rs_Data = data\<rparr>"

definition RespondOK :: "any option \<Rightarrow> Response" where
  "RespondOK data = \<lparr>rs_Status = 200, rs_Code = 0, rs_Message = ''success'', rs_Data = data\<rparr>"

definition RespondError :: "errors_heap \<Rightarrow> go_err \<Rightarrow> Response option" where
  \<comment> \<open>\<open>None\<close> is the panic on a nil pointer to a business error\<close>
  "RespondError h err =
     (case err of
        NilErr \<Rightarrow> Some (RespondOK None)
      | BizErr p \<Rightarrow>
          (case h p of None \<Rightarrow> None | Some e \<Rightarrow> Some (RespondJSON (be_Code e) (be_Msg e) None))
      | PlainErr s \<Rightarrow> Some (RespondJSON 1001 s None))"

section \<open>Tokens\<close>

record Claims =
  cl_Address :: string
  cl_ExpiresAt :: "int option"
  cl_IssuedAt :: "int option"
  cl_NotBefore :: "int option"
  cl_Issuer :: string
  cl_Subject :: string

datatype signing_method = HMAC | OtherMethod string

record jwt_lib =
  jl_SignedString :: "string \<Rightarrow> Claims \<Rightarrow> string + string"  \<comment> \<open>by secret, for HS256\<close>
  jl_Parse :: "(signing_method \<Rightarrow> string + string) \<Rightarrow> int \<Rightarrow> string \<Rightarrow> string + (Claims \<times> bool)"
     \<comment> \<open>by key function, time and token: the claims and \<open>token.Valid\<close>\<close>

record jwt_config =
  jc_secret :: string
  jc_expire :: int

definition initial_jwt :: jwt_config where
  "initial_jwt = \<lparr>jc_secret = [], jc_expire = 0\<rparr>"

definition SetJWTSecret :: "string \<Rightarrow> jwt_config \<Rightarrow> jwt_config" where
  "SetJWTSecret s g = g\<lparr>jc_secret := s\<rparr>"

definition SetTokenExpireDuration :: "int \<Rightarrow> jwt_config \<Rightarrow> jwt_config" where
  "SetTokenExpireDuration d g = g\<lparr>jc_expire := d\<rparr>"

definition NewNumericDate :: "int \<Rightarrow> int" where
  \<comment> \<open>truncated to the second\<close>
  "NewNumericDate t = t - t mod 1000000000"

definition new_claims :: "jwt_config \<Rightarrow> int \<times> int \<times> int \<Rightarrow> string \<Rightarrow> Claims" where
  \<comment> \<open>the clock is read three times\<close>
  "new_claims g = (\<lambda>(t1, t2, t3) addr.
     \<lparr>cl_Address = addr, cl_ExpiresAt = Some (NewNumericDate (t1 + jc_expire g)),
      cl_IssuedAt = Some (NewNumericDate t2), cl_NotBefore = Some (NewNumericDate t3),
      cl_Issuer = ''owlto.finance'', cl_Subject = addr\<rparr>)"

definition GenerateAuthToken ::
  "jwt_lib \<Rightarrow> jwt_config \<Rightarrow> int \<times> int \<times> int \<Rightarrow> string \<Rightarrow> string + string" where
  "GenerateAuthToken lib g ts addr = jl_SignedString lib (jc_secret g) (new_claims g ts addr)"

definition auth_key :: "jwt_config \<Rightarrow> signing_method \<Rightarrow> string + string" where
  "auth_key g md =
     (case md of HMAC \<Rightarrow> Inr (jc_secret g) | OtherMethod alg \<Rightarrow> Inl (''unexpected signing method: '' @ alg))"

definition ParseAuthToken :: "jwt_lib \<Rightarrow> jwt_config \<Rightarrow> int \<Rightarrow> string \<Rightarrow> string + Claims" where
  "ParseAuthToken lib g now token =
     (case jl_Parse lib (auth_key g) now token of
        Inl err \<Rightarrow> Inl err
      | Inr (claims, valid) \<Rightarrow> if valid then Inr claims else Inl ''invalid token'')"

definition ValidateToken :: "jwt_lib \<Rightarrow> jwt_config \<Rightarrow> int \<Rightarrow> int \<Rightarrow> string \<Rightarrow> string + unit" where
  \<comment> \<open>the clock is read by the parse and again for the test; \<open>true\<close> is the only value without error\<close>
  "ValidateToken lib g t1 t2 token =
     (case ParseAuthToken lib g t1 token of
        Inl err \<Rightarrow> Inl err
      | Inr claims \<Rightarrow>
          (case cl_ExpiresAt claims of
             Some e \<Rightarrow> if e < t2 then Inl ''token expired'' else Inr ()
           | None \<Rightarrow> Inr ()))"

definition GetAddressFromToken :: "jwt_lib \<Rightarrow> jwt_config \<Rightarrow> int \<Rightarrow> string \<Rightarrow> string + string" where
  "GetAddressFromToken lib g now token =
     (case ParseAuthToken lib g now token of Inl err \<Rightarrow> Inl err | Inr claims \<Rightarrow> Inr (cl_Address claims))"

definition RefreshToken ::
  "jwt_lib \<Rightarrow> jwt_config \<Rightarrow> int \<Rightarrow> int \<Rightarrow> int \<times> int \<times> int \<Rightarrow> string \<Rightarrow> string + string" where
  "RefreshToken lib g t1 t2 ts token =
     (case ParseAuthToken lib g t1 token of
        Inl err \<Rightarrow> Inl err
      | Inr claims \<Rightarrow>
          (case cl_ExpiresAt claims of
             Some e \<Rightarrow>
               if e - t2 < 24 * 3600 * 1000000000 then GenerateAuthToken lib g ts (cl_Address claims)
               else Inr token
           | None \<Rightarrow> Inr token))"

section \<open>The middleware\<close>

definition BearerPrefix :: string where
  "BearerPrefix = ''Bearer ''"

definition UserAddressKey :: string where
  "UserAddressKey = ''user_address''"

datatype auth_result =
    Abort "Response option"           \<comment> \<open>the response that was written, if any\<close>
  | Continue "string \<rightharpoonup> any"      \<comment> \<open>the keys of the context when the next handler runs\<close>
  | Panic

definition unauthorized :: "errors_heap \<Rightarrow> auth_result" where
  "unauthorized h =
     (case RespondError h (BizErr UnauthorizedErr) of None \<Rightarrow> Panic | Some r \<Rightarrow> Abort (Some r))"

definition Auth ::
  "jwt_lib \<Rightarrow> jwt_config \<Rightarrow> errors_heap \<Rightarrow> int \<times> int \<times> int \<Rightarrow> (string \<rightharpoonup> any) \<Rightarrow> string \<Rightarrow> auth_result" where
  \<comment> \<open>the last two arguments are the keys of the context and the authorization header\<close>
  "Auth lib g h = (\<lambda>(t1, t2, t3) ctx authHeader.
     if authHeader = [] then Abort None
     else if \<not> HasPrefix authHeader BearerPrefix then unauthorized h
     else
       (let token = TrimPrefix authHeader BearerPrefix in
        if token = [] then unauthorized h
        else case ValidateToken lib g t1 t2 token of
               Inl _ \<Rightarrow> unauthorized h
             | Inr _ \<Rightarrow>
                 (case GetAddressFromToken lib g t3 token of
                    Inl _ \<Rightarrow> unauthorized h
                  | Inr addr \<Rightarrow> Continue (ctx(UserAddressKey \<mapsto> AnyString addr)))))"

definition GetUserAddress :: "(string \<rightharpoonup> any) \<Rightarrow> string \<times> bool" where
  "GetUserAddress ctx =
     (case ctx UserAddressKey of Some (AnyString a) \<Rightarrow> (a, True) | _ \<Rightarrow> ([], False))"

section \<open>Properties of the middleware\<close>

text \<open>
  C18. \<open>Auth\<close> lets a request through exactly when its header is \<open>Bearer\<close> and a token that the library
  parses with the configured secret, as valid, twice, and that is not expired in between; the next
  handler then reads the address of the claims. Every other request is stopped, and one without
  the header is stopped without any response.
\<close>

theorem auth_outcome:
  "(case Auth lib g initial_errors (t1, t2, t3) ctx authHeader of
      Continue ctx' \<Rightarrow>
        (\<exists>token claims claims'. authHeader = ''Bearer '' @ token \<and> token \<noteq> [] \<and>
           jl_Parse lib (auth_key g) t1 token = Inr (claims, True) \<and>
           \<not> (\<exists>e. cl_ExpiresAt claims = Some e \<and> e < t2) \<and>
           jl_Parse lib (auth_key g) t3 token = Inr (claims', True) \<and>
           GetUserAddress ctx' = (cl_Address claims', True))
    | Abort r \<Rightarrow>
        r = (if authHeader = [] then None else Some (RespondJSON 1004 ''unauthorized'' None)) \<and>
        \<not> (\<exists>token claims claims'. authHeader = ''Bearer '' @ token \<and> token \<noteq> [] \<and>
           jl_Parse lib (auth_key g) t1 token = Inr (claims, True) \<and>
           \<not> (\<exists>e. cl_ExpiresAt claims = Some e \<and> e < t2) \<and>
           jl_Parse lib (auth_key g) t3 token = Inr (claims', True))
    | Panic \<Rightarrow> False)"
proof -
  have un: "unauthorized initial_errors = Abort (Some (RespondJSON 1004 ''unauthorized'' None))"
    by (simp add: unauthorized_def RespondError_def initial_errors_def NewBizError_def)
  show ?thesis
  proof (cases "prefix ''Bearer '' authHeader")
    case False
    then have "authHeader \<noteq> ''Bearer '' @ token" for token by (metis prefixI)
    with False show ?thesis by (simp add: Auth_def un HasPrefix_def BearerPrefix_def)
  next
    case True
    then obtain token where h: "authHeader = ''Bearer '' @ token" by (rule prefixE)
    show ?thesis
      by (auto simp: h Auth_def un HasPrefix_def TrimPrefix_def BearerPrefix_def ValidateToken_def
          GetAddressFromToken_def ParseAuthToken_def GetUserAddress_def
          split: sum.split option.split if_splits)
  qed
qed

text \<open>
  The documented behaviour of the library for its own tokens: parsed with the secret they were signed
  with, they give their claims back from the not-before time up to the expiry, and an error at any
  other time.
\<close>

definition in_time :: "Claims \<Rightarrow> int \<Rightarrow> bool" where
  "in_time c now \<longleftrightarrow>
     (case cl_NotBefore c of None \<Rightarrow> True | Some t \<Rightarrow> t \<le> now) \<and>
     (case cl_ExpiresAt c of None \<Rightarrow> True | Some t \<Rightarrow> now < t)"

definition jwt_verifies :: "jwt_lib \<Rightarrow> bool" where
  "jwt_verifies lib \<longleftrightarrow>
     (\<forall>g c tok now. jl_SignedString lib (jc_secret g) c = Inr tok \<longrightarrow>
        (if in_time c now then jl_Parse lib (auth_key g) now tok = Inr (c, True)
         else \<exists>err. jl_Parse lib (auth_key g) now tok = Inl err))"

lemma parse_generated:
  assumes "jwt_verifies lib" and "GenerateAuthToken lib g ts addr = Inr tok"
  shows "if in_time (new_claims g ts addr) now
         then ParseAuthToken lib g now tok = Inr (new_claims g ts addr)
         else \<exists>err. ParseAuthToken lib g now tok = Inl err"
proof -
  have "if in_time (new_claims g ts addr) now
      then jl_Parse lib (auth_key g) now tok = Inr (new_claims g ts addr, True)
      else \<exists>err. jl_Parse lib (auth_key g) now tok = Inl err"
    using assms unfolding jwt_verifies_def GenerateAuthToken_def by blast
  then show ?thesis by (auto simp: ParseAuthToken_def split: if_splits)
qed

text \<open>
  The life of a login token: presented with the secret unchanged, it is accepted with the address
  it was issued for exactly from the second it was issued up to the second of its expiry, both
  truncated; at any other time the answer is unauthorized. Before \<open>SetTokenExpireDuration\<close> is
  called the duration is 0 and no token is ever accepted.
\<close>

theorem auth_token_window:
  assumes "jwt_verifies lib" and "GenerateAuthToken lib g (n1, n2, n3) addr = Inr tok" and "tok \<noteq> []"
    and "t1 \<le> t2" and "t2 \<le> t3"
  shows "Auth lib g initial_errors (t1, t2, t3) ctx (''Bearer '' @ tok) =
    (if NewNumericDate n3 \<le> t1 \<and> t3 < NewNumericDate (n1 + jc_expire g)
     then Continue (ctx(UserAddressKey \<mapsto> AnyString addr))
     else Abort (Some (RespondJSON 1004 ''unauthorized'' None)))"
proof -
  let ?c = "new_claims g (n1, n2, n3) addr"
  note p = parse_generated [OF assms(1,2)]
  have un: "unauthorized initial_errors = Abort (Some (RespondJSON 1004 ''unauthorized'' None))"
    by (simp add: unauthorized_def RespondError_def initial_errors_def NewBizError_def)
  have time: "in_time ?c now \<longleftrightarrow> NewNumericDate n3 \<le> now \<and> now < NewNumericDate (n1 + jc_expire g)" for now
    by (simp add: in_time_def new_claims_def)
  have exp: "cl_ExpiresAt ?c = Some (NewNumericDate (n1 + jc_expire g))" "cl_Address ?c = addr"
    by (simp_all add: new_claims_def)
  show ?thesis
  proof (cases "in_time ?c t1 \<and> in_time ?c t3")
    case True
    with assms(3-) p [of t1] p [of t3] show ?thesis
      by (simp add: Auth_def un HasPrefix_def TrimPrefix_def BearerPrefix_def ValidateToken_def
          GetAddressFromToken_def exp time)
  next
    case False
    then have "\<not> (NewNumericDate n3 \<le> t1 \<and> t3 < NewNumericDate (n1 + jc_expire g))"
      using assms(4,5) by (auto simp: time)
    moreover have "(\<exists>err. ParseAuthToken lib g t1 tok = Inl err) \<or> (\<exists>err. ParseAuthToken lib g t3 tok = Inl err)"
      using False p [of t1] p [of t3] by metis
    ultimately show ?thesis
      by (auto simp: Auth_def un HasPrefix_def TrimPrefix_def BearerPrefix_def ValidateToken_def
          GetAddressFromToken_def split: sum.split option.split)
  qed
qed

definition sample_jwt :: "jwt_config \<times> Claims \<times> jwt_lib" where
  "sample_jwt =
     (let g = initial_jwt\<lparr>jc_secret := ''key'', jc_expire := 60000000000\<rparr>;
          c = new_claims g (0, 0, 0) ''0xab''
      in (g, c, \<lparr>jl_SignedString = (\<lambda>s c'. if s = ''key'' \<and> c' = c then Inr ''tok'' else Inl ''no''),
          jl_Parse = (\<lambda>key now tok. if key HMAC = Inr ''key'' \<and> tok = ''tok'' \<and> in_time c now
                                   then Inr (c, True) else Inl ''bad'')\<rparr>))"

theorem auth_token_window_witness:
  "Auth (snd (snd sample_jwt)) (fst sample_jwt) initial_errors (5, 6, 7) Map.empty (''Bearer '' @ ''tok'') =
     Continue [UserAddressKey \<mapsto> AnyString ''0xab'']"
proof -
  have v: "jwt_verifies (snd (snd sample_jwt))"
    by (auto simp: jwt_verifies_def sample_jwt_def Let_def auth_key_def)
  have g: "GenerateAuthToken (snd (snd sample_jwt)) (fst sample_jwt) (0, 0, 0) ''0xab'' = Inr ''tok''"
    by (simp add: GenerateAuthToken_def sample_jwt_def Let_def)
  show ?thesis
    using auth_token_window [OF v g, of 5 6 7 Map.empty]
    by (simp add: NewNumericDate_def sample_jwt_def Let_def)
qed

text \<open>
  \<open>UnauthorizedErr\<close> is one shared struct: after any code customises its message through \<open>WithMsg\<close>,
  every later unauthorized response of the middleware carries that message.
\<close>

theorem unauthorized_shared:
  "unauthorized (snd (update_error (WithMsg msg) UnauthorizedErr initial_errors)) =
     Abort (Some (RespondJSON 1004 msg None)) \<and>
   fst (update_error (WithMsg msg) UnauthorizedErr initial_errors) = UnauthorizedErr"
  by (simp add: unauthorized_def update_error_def RespondError_def initial_errors_def NewBizError_def WithMsg_def)

lemma WithInfo_keeps:
  "be_Code (WithInfo kv e) = be_Code e \<and> be_Msg (WithInfo kv e) = be_Msg e"
  by (simp add: WithInfo_def)

lemma info_pairs_append:
  "even (length kv) \<Longrightarrow> info_pairs (kv @ kv') info = info_pairs kv' (info_pairs kv info)"
  by (induction kv info rule: info_pairs.induct) simp_all

end
