(* ===== verification/ChainNames.thy ===== *)
theory ChainNames
  imports Prelude
begin

text \<open>
  \<open>src/owlconsts/chain_name.go\<close>: the names of the chains, with the constants they are bound to. The
  tables of the program are keyed by these names in lower case.
\<close>

definition chain_names :: "(string \<times> string) list" where
  "chain_names =
     [(''ArbitrumNova'', ''ArbitrumNovaMainnet''), (''ZKSyncEra'', ''ZksyncMainnet''),
      (''Linea'', ''LineaMainnet''), (''Scroll'', ''ScrollMainnet''),
      (''PolygonzkEVM'', ''PolygonZkMainnet''), (''Starknet'', ''StarknetMainnet''),
      (''Kroma'', ''KromaMainnet''), (''Manta'', ''MantaMainnet''), (''Mode'', ''ModeMainnet''),
      (''Zkfair'', ''ZkfairMainnet''), (''BNBChain'', ''BnbMainnet''),
      (''OpBnb'', ''OpbnbMainnet''), (''Metis'', ''MetisMainnet''), (''PGN'', ''PgnMainnet''),
      (''Mantle'', ''MantleMainnet''), (''Zeta'', ''ZetaMainnet''), (''MAPO'', ''MAPMainnet''),
      (''Zora'', ''ZoraMainnet''), (''Bevm'', ''BevmMainnet''),
      (''Ancient8'', ''Ancient8Mainnet''), (''Blast'', ''BlastMainnet''),
      (''Ethereum'', ''EthereumMainnet''), (''Base'', ''BaseMainnet''),
      (''Arbitrum'', ''ArbitrumOneMainnet''), (''Polygon'', ''PolygonPoSMainnet''),
      (''Optimism'', ''OptimismMainnet''), (''Fraxtal'', ''FraxtalMainnet''),
      (''AstarzkEVM'', ''AstarMainnet''), (''ZklinkNova'', ''ZklinkMainnet''),
      (''InEVM'', ''InEVMMainnet''), (''Merlin'', ''MerlinMainnet''),
      (''Bevm2'', ''Bevm2Mainnet''), (''Solana'', ''SolanaMainnet''),
      (''ZkSyncLite'', ''ZksLiteMainnet''), (''CORE'', ''CoreMainnet''),
      (''XLayer'', ''XLayerMainnet''), (''Taproot'', ''TaprootMainnet''),
      (''Bitcoin'', ''BitcoinMainnet''), (''BOB'', ''BobMainnet''),
      (''AILayer'', ''AILayerMainnet''), (''BounceBit'', ''BounceBitMainnet''),
      (''Mint'', ''MintMainnet''), (''Cyber'', ''CyberMainnet''), (''Orange'', ''OrangeMainnet''),
      (''Bsquared'', ''BsquaredMainnet''), (''Fuse'', ''FuseMainnet''),
      (''Gravity'', ''GravityMainnet''), (''RARI'', ''RARIMainnet''),
      (''Taiko'', ''TaikoMainnet''), (''AlienX'', ''AlienXMainnet''),
      (''Bitlayer'', ''BitlayerMainnet''), (''Redstone'', ''RedstoneMainnet''),
      (''Swan'', ''SwanMainnet''), (''BitcoinTest'', ''BitcoinTestnet''),
      (''FractalBitcoin'', ''FractalBitcoinMainnet''),
      (''FractalBitcoinTest'', ''FractalBitcoinTestnet''), (''BenFen'', ''BenFenMainnet''),
      (''Eclipse'', ''EclipseMainnet''), (''Zircuit'', ''ZircuitMainnet''),
      (''Unichain'', ''UnichainMainnet''), (''UnichainSepolia'', ''UnichainSepolia''),
      (''Kaia'', ''KaiaMainnet''), (''WorldChain'', ''WorldChainMainnet''),
      (''Fuel'', ''FuelMainnet''), (''SoneiumMinatoTest'', ''SoneiumMinatoTestnet''),
      (''InkSepolia'', ''InkSepolia''), (''Ink'', ''InkMainnet''), (''Ton'', ''TonMainnet''),
      (''Duck'', ''DuckChainMainnet''), (''Morph'', ''MorphMainnet''), (''Lisk'', ''LiskMainnet''),
      (''Zero'', ''ZeroMainnet''), (''Avalanche'', ''AvalancheMainnet''),
      (''U2USolaris'', ''U2USolarisMainnet''), (''Soneium'', ''SoneiumMainnet''),
      (''Sonic'', ''SonicMainnet''), (''MonadTest'', ''MonadTestnet'')]"

definition chain_const :: "string \<Rightarrow> string" where
  "chain_const n = (case map_of chain_names n of None \<Rightarrow> [] | Some v \<Rightarrow> v)"

end
