(* ===== verification/TokenCache.thy ===== *)
theory TokenCache
  imports ChainInfo TokenInfo Util
begin

text \<open>
  The token cache of the chain clients of \<open>src/rpc\<close>: \<open>GetTokenInfo\<close> of the EVM, Solana and Sui clients
  answers from a \<open>TokenInfoManager\<close> of its own and asks the node only for what is not there. What the
  three have in common is stated here as interfaces; each client's theory interprets them on its own
  \<open>GetTokenInfo\<close>.
\<close>

section \<open>Well-formed tokens\<close>

definition token_wf :: "TokenInfo \<Rightarrow> bool" where
  "token_wf t \<longleftrightarrow> in_range_s 32 (ti_Decimals t) \<and> (\<forall>v. ti_TotalSupply t = Some v \<longrightarrow> 0 \<le> v)"

definition tokens_wf :: "TokenInfoManager \<Rightarrow> bool" where
  "tokens_wf m \<longleftrightarrow> (\<forall>c a t. get2 (tm_chainNameTokenAddrs m) c a = Some t \<longrightarrow> token_wf t)"

lemma tokens_wf_new [simp]: "tokens_wf NewTokenInfoManager"
  by (simp add: tokens_wf_def NewTokenInfoManager_def)

lemma tokens_wf_add: "tokens_wf m \<Longrightarrow> token_wf t \<Longrightarrow> tokens_wf (AddTokenInfo t m)"
  by (auto simp: tokens_wf_def AddTokenInfo_def split: if_splits)

lemma tokens_wf_get: "tokens_wf m \<Longrightarrow> GetByChainNameTokenAddr m c a = Some t \<Longrightarrow> token_wf t"
  by (auto simp: tokens_wf_def GetByChainNameTokenAddr_def)

lemma get_new_token [simp]: "GetByChainNameTokenAddr NewTokenInfoManager c a = None"
  by (simp add: GetByChainNameTokenAddr_def NewTokenInfoManager_def)

lemma get_added_token:
  "TrimSpace c = c \<Longrightarrow> TrimSpace a = a \<Longrightarrow> ti_ChainName t = c \<Longrightarrow> ti_TokenAddress t = a \<Longrightarrow>
   norm_key a' = norm_key a \<Longrightarrow> GetByChainNameTokenAddr (AddTokenInfo t m) c a' = Some t"
proof -
  assume a: "TrimSpace c = c" "TrimSpace a = a" "ti_ChainName t = c" "ti_TokenAddress t = a" "norm_key a' = norm_key a"
  then have "norm_key a = ToLower a" "norm_key c = ToLower c" by (simp_all add: norm_key_def)
  with a show ?thesis by (simp add: AddTokenInfo_def GetByChainNameTokenAddr_def ToLower_TrimSpace)
qed

lemma get_token_cong:
  "norm_key a' = norm_key a \<Longrightarrow> GetByChainNameTokenAddr m c a' = GetByChainNameTokenAddr m c a"
  by (simp add: GetByChainNameTokenAddr_def ToLower_TrimSpace)

section \<open>The contract of \<open>GetTokenInfo\<close>\<close>

locale token_source =
  fixes request :: "'e \<Rightarrow> string \<Rightarrow> TokenInfoManager \<Rightarrow> (string + TokenInfo) \<times> TokenInfoManager"
    and native :: "string \<Rightarrow> bool" and cname :: string
  assumes hit: "\<not> native a \<Longrightarrow> GetByChainNameTokenAddr m cname a = Some t \<Longrightarrow> request e a m = (Inr t, m)"
    and miss: "\<not> native a \<Longrightarrow> GetByChainNameTokenAddr m cname a = None \<Longrightarrow> request e a m = (Inr t, m') \<Longrightarrow>
      m' = AddTokenInfo t m \<and> ti_ChainName t = cname \<and> ti_TokenAddress t = a"
    and fails: "\<not> native a \<Longrightarrow> request e a m = (Inl err, m') \<Longrightarrow> m' = m"
    and native_keeps: "native a \<Longrightarrow> snd (request e a m) = m"
begin

lemma keeps:
  assumes "GetByChainNameTokenAddr m cname a = Some t"
  shows "GetByChainNameTokenAddr (snd (request e b m)) cname a = Some t"
proof (cases "native b")
  case True
  then show ?thesis using assms by (simp add: native_keeps)
next
  case False
  obtain r m' where r: "request e b m = (r, m')" by fastforce
  show ?thesis
  proof (cases "GetByChainNameTokenAddr m cname b")
    case (Some t')
    with hit [OF False] r assms show ?thesis by simp
  next
    case None
    show ?thesis
    proof (cases r)
      case (Inl err)
      then have "m' = m" using fails [OF False] r by blast
      then show ?thesis using r assms by simp
    next
      case (Inr t')
      then have m': "m' = AddTokenInfo t' m" and t': "ti_TokenAddress t' = b" using miss [OF False None] r by blast+
      have "ToLower b \<noteq> norm_key a"
      proof
        assume "ToLower b = norm_key a"
        then have "norm_key b = norm_key a" using norm_key_ToLower [of b] norm_key_idem [of a] by simp
        from get_token_cong [OF this, of m cname] None assms show False by simp
      qed
      then have "ToLower (TrimSpace a) \<noteq> ToLower b" by (simp add: norm_key_def)
      then show ?thesis using assms r
        unfolding m' AddTokenInfo_def GetByChainNameTokenAddr_def by (simp add: t')
    qed
  qed
qed

lemma answered:
  assumes "request e a m = (Inr t, m')" and "\<not> native a" and "TrimSpace a = a" and "TrimSpace cname = cname"
  shows "GetByChainNameTokenAddr m' cname a = Some t"
proof (cases "GetByChainNameTokenAddr m cname a")
  case (Some t')
  with assms(1) show ?thesis by (simp add: hit [OF assms(2)])
next
  case None
  from miss [OF assms(2) None assms(1)] show ?thesis using assms(3,4) by (simp add: get_added_token)
qed

lemma cached:
  assumes "request e a m = (Inr t, m')" and "\<not> native a" and "\<not> native a'" and "norm_key a' = norm_key a"
    and "TrimSpace a = a" and "TrimSpace cname = cname"
  shows "request e' a' m' = (Inr t, m')"
  using answered [OF assms(1,2,5,6)] hit [OF assms(3)] by (simp add: get_token_cong [OF assms(4)])

end

locale typed_token_source = token_source +
  assumes native_wf: "native a \<Longrightarrow> request e a m = (r, m') \<Longrightarrow> (case r of Inl _ \<Rightarrow> True | Inr t \<Rightarrow> token_wf t)"
    and fresh_wf: "\<not> native a \<Longrightarrow> GetByChainNameTokenAddr m cname a = None \<Longrightarrow> request e a m = (Inr t, m') \<Longrightarrow> token_wf t"
begin

lemma typed:
  assumes "tokens_wf m" and "request e a m = (r, m')"
  shows "tokens_wf m' \<and> (case r of Inl _ \<Rightarrow> m' = m | Inr t \<Rightarrow> token_wf t)"
proof (cases "native a")
  case True
  from native_wf [OF True assms(2)] native_keeps [OF True, of e m] assms show ?thesis by (auto split: sum.splits)
next
  case False
  show ?thesis
  proof (cases r)
    case (Inl e)
    with fails [OF False] assms show ?thesis by auto
  next
    case (Inr t)
    with assms(2) have r: "request e a m = (Inr t, m')" by simp
    show ?thesis
    proof (cases "GetByChainNameTokenAddr m cname a")
      case (Some t')
      with hit [OF False Some] r assms(1) Inr show ?thesis by (auto dest: tokens_wf_get)
    next
      case None
      from miss [OF False None r] fresh_wf [OF False None r] assms(1) show ?thesis by (simp add: Inr tokens_wf_add)
    qed
  qed
qed

end

end
