(* ===== verification/EvmRpc.thy ===== *)
theory EvmRpc
  imports ChainNames TokenCache
begin

text \<open>
  \<open>src/rpc/evm.go\<close>: token information, balances and gas of an EVM chain. The node and the helpers of
  go-ethereum are arguments: the answer of each request, \<open>common.HexToAddress\<close> and the Keccak hash. A
  byte is a number below 256, a Go string made of bytes the list of its characters.
\<close>

section \<open>Big-endian bytes\<close>

definition SetBytes :: "nat list \<Rightarrow> int" where
  "SetBytes bs = int (fold (\<lambda>b n. n * 256 + b) bs 0)"

fun nat_bytes :: "nat \<Rightarrow> nat list" where
  "nat_bytes n = (if n = 0 then [] else nat_bytes (n div 256) @ [n mod 256])"

declare nat_bytes.simps [simp del]

definition Bytes :: "int \<Rightarrow> nat list" where
  \<comment> \<open>\<open>big.Int.Bytes\<close>: the absolute value\<close>
  "Bytes v = nat_bytes (nat \<bar>v\<bar>)"

definition LeftPadBytes :: "nat list \<Rightarrow> nat \<Rightarrow> nat list" where
  "LeftPadBytes bs l = (if l \<le> length bs then bs else replicate (l - length bs) 0 @ bs)"

definition Uint64 :: "int \<Rightarrow> int" where
  \<comment> \<open>the low 64 bits of the absolute value\<close>
  "Uint64 v = wrap_u 64 \<bar>v\<bar>"

definition bytes_string :: "nat list \<Rightarrow> string" where
  "bytes_string bs = map char_of bs"

lemma fold_bytes_shift: "fold (\<lambda>b n. n * 256 + b) bs v = v * 256 ^ length bs + fold (\<lambda>b n. n * 256 + b) bs (0::nat)"
proof (induction bs arbitrary: v)
  case (Cons b bs)
  show ?case using Cons [of "v * 256 + b"] Cons [of b] by (simp add: algebra_simps)
qed simp

lemma fold_nat_bytes: "fold (\<lambda>b n. n * 256 + b) (nat_bytes n) 0 = n"
  by (induction n rule: nat_bytes.induct) (subst nat_bytes.simps, simp)

lemma SetBytes_Bytes: "SetBytes (Bytes v) = \<bar>v\<bar>"
  by (simp add: SetBytes_def Bytes_def fold_nat_bytes)

lemma funpow_zero [simp]: "((\<lambda>n. n * 256) ^^ k) (0::nat) = 0"
  by (induction k) simp_all

lemma SetBytes_pad: "SetBytes (LeftPadBytes bs l) = SetBytes bs"
  by (simp add: SetBytes_def LeftPadBytes_def)

lemma length_nat_bytes: "n < 256 ^ k \<Longrightarrow> length (nat_bytes n) \<le> k"
proof (induction n arbitrary: k rule: nat_bytes.induct)
  case (1 n)
  show ?case
  proof (cases "n = 0")
    case True
    then show ?thesis by (simp add: nat_bytes.simps)
  next
    case False
    with 1(2) obtain j where k: "k = Suc j" by (cases k) auto
    have "n div 256 < 256 ^ j" using 1(2) by (simp add: k less_mult_imp_div_less mult.commute)
    with 1(1) [OF False] have "length (nat_bytes (n div 256)) \<le> j" by blast
    with False show ?thesis by (subst nat_bytes.simps) (simp add: k)
  qed
qed

lemma length_nat_bytes_ge: "256 ^ k \<le> n \<Longrightarrow> k < length (nat_bytes n)"
proof (induction k arbitrary: n)
  case 0
  then show ?case by (subst nat_bytes.simps) simp
next
  case (Suc k)
  then have n: "n \<noteq> 0" by (metis le_zero_eq power_not_zero zero_neq_numeral)
  have "256 ^ k \<le> n div 256" using Suc.prems by (simp add: less_eq_div_iff_mult_less_eq mult.commute)
  with Suc have "k < length (nat_bytes (n div 256))" by blast
  with n show ?case by (subst nat_bytes.simps) simp
qed

section \<open>Token information\<close>

record erc20_answers =
  ea_symbol :: "string + nat list"
  ea_decimals :: "string + nat list"
  ea_name :: "string + nat list"
  ea_totalSupply :: "string + nat list"

definition gas_token_info :: "ChainInfo \<Rightarrow> string \<Rightarrow> TokenInfo" where
  "gas_token_info c tokenAddr = zero_token
     \<lparr>ti_TokenName := ci_GasTokenName c, ti_ChainName := ci_Name c, ti_TokenAddress := tokenAddr,
      ti_Decimals := ci_GasTokenDecimal c, ti_FullName := ci_AliasName c, ti_TotalSupply := Some 0,
      ti_Url := ci_ExplorerUrl c\<rparr>"

definition first_error :: "(string + nat list) list \<Rightarrow> string option" where
  "first_error rs = (case find (\<lambda>r. isl r) rs of Some (Inl e) \<Rightarrow> Some e | _ \<Rightarrow> None)"

definition data_of :: "string + nat list \<Rightarrow> nat list" where
  "data_of r = (case r of Inl _ \<Rightarrow> [] | Inr bs \<Rightarrow> bs)"

definition EvmGetTokenInfo ::
  "(string \<Rightarrow> string + erc20_answers) \<Rightarrow> ChainInfo \<Rightarrow> string \<Rightarrow> TokenInfoManager \<Rightarrow>
   (string + TokenInfo) \<times> TokenInfoManager" where
  \<comment> \<open>\<open>batch\<close> sends the four calls for a token; decoding the hex text of the answer gives its bytes back\<close>
  "EvmGetTokenInfo batch c tokenAddr mgr =
     (if IsHexStringZero tokenAddr then (Inr (gas_token_info c tokenAddr), mgr)
      else case GetByChainNameTokenAddr mgr (ci_Name c) tokenAddr of
        Some t \<Rightarrow> (Inr t, mgr)
      | None \<Rightarrow>
          (case batch tokenAddr of
             Inl err \<Rightarrow> (Inl err, mgr)
           | Inr a \<Rightarrow>
               (case first_error [ea_symbol a, ea_decimals a, ea_name a, ea_totalSupply a] of
                  Some e \<Rightarrow> (Inl (''get token error eth_call '' @ e), mgr)
                | None \<Rightarrow>
                    (let symbol = data_of (ea_symbol a);
                         decimals = SetBytes (data_of (ea_decimals a))
                     in if decimals \<le> 0 \<or> symbol = [] then (Inl ''not found'', mgr)
                        else
                          (let t = zero_token
                                 \<lparr>ti_TokenName := bytes_string symbol, ti_ChainName := ci_Name c,
                                  ti_TokenAddress := tokenAddr, ti_Decimals := wrap_s 32 (Uint64 decimals),
                                  ti_FullName := bytes_string (data_of (ea_name a)),
                                  ti_TotalSupply := Some (SetBytes (data_of (ea_totalSupply a)))\<rparr>
                           in (Inr t, AddTokenInfo t mgr))))))"

lemma evm_token_fresh:
  assumes "EvmGetTokenInfo batch c tokenAddr mgr = (Inr t, mgr')" and "\<not> IsHexStringZero tokenAddr"
    and "GetByChainNameTokenAddr mgr (ci_Name c) tokenAddr = None"
  shows "mgr' = AddTokenInfo t mgr \<and> ti_ChainName t = ci_Name c \<and> ti_TokenAddress t = tokenAddr"
proof (cases "batch tokenAddr")
  case (Inl e)
  with assms show ?thesis by (simp add: EvmGetTokenInfo_def)
next
  case (Inr a)
  show ?thesis
  proof (cases "first_error [ea_symbol a, ea_decimals a, ea_name a, ea_totalSupply a]")
    case (Some e)
    with assms Inr show ?thesis by (simp add: EvmGetTokenInfo_def)
  next
    case None
    show ?thesis
    proof (cases "SetBytes (data_of (ea_decimals a)) \<le> 0 \<or> data_of (ea_symbol a) = []")
      case True
      with assms Inr None show ?thesis by (simp add: EvmGetTokenInfo_def Let_def split: if_splits)
    next
      case False
      with assms Inr None show ?thesis by (simp add: EvmGetTokenInfo_def Let_def) fastforce
    qed
  qed
qed

interpretation evm_source: token_source "\<lambda>batch. EvmGetTokenInfo batch c" IsHexStringZero "ci_Name c" for c
proof
  show "EvmGetTokenInfo e c a m = (Inr t, m)"
    if "\<not> IsHexStringZero a" "GetByChainNameTokenAddr m (ci_Name c) a = Some t" for a m t e
    using that by (simp add: EvmGetTokenInfo_def)
  show "m' = m" if "\<not> IsHexStringZero a" "EvmGetTokenInfo e c a m = (Inl err, m')" for a e m err m'
    using that by (auto simp: EvmGetTokenInfo_def Let_def split: sum.splits option.splits if_splits)
  show "snd (EvmGetTokenInfo e c a m) = m" if "IsHexStringZero a" for a e m
    using that by (simp add: EvmGetTokenInfo_def)
qed (rule evm_token_fresh)

lemma evm_fresh_wf:
  "EvmGetTokenInfo batch c a m = (Inr t, m') \<Longrightarrow> \<not> IsHexStringZero a \<Longrightarrow>
   GetByChainNameTokenAddr m (ci_Name c) a = None \<Longrightarrow> token_wf t"
  using wrap_s_range [of 32]
  by (auto simp: EvmGetTokenInfo_def Let_def token_wf_def SetBytes_def split: sum.splits option.splits if_splits)

lemma evm_native_wf:
  "in_range_s 32 (ci_GasTokenDecimal c) \<Longrightarrow> IsHexStringZero a \<Longrightarrow> EvmGetTokenInfo batch c a m = (r, m') \<Longrightarrow>
   m' = m \<and> (case r of Inl _ \<Rightarrow> True | Inr t \<Rightarrow> token_wf t)"
  by (auto simp: EvmGetTokenInfo_def gas_token_info_def token_wf_def)

lemma evm_typed_source:
  "in_range_s 32 (ci_GasTokenDecimal c) \<Longrightarrow>
   typed_token_source (\<lambda>batch. EvmGetTokenInfo batch c) IsHexStringZero (ci_Name c)"
  by unfold_locales (use evm_native_wf evm_fresh_wf in blast)+

text \<open>
  Once a token was found, every later request for it, in any case and with surrounding space,
  returns the same information without asking the node. This needs the names stored for it to be
  free of surrounding space: the cache trims the keys it looks up but not those it stores.
\<close>

theorem evm_token_cached:
  assumes "EvmGetTokenInfo batch c tokenAddr mgr = (Inr t, mgr')"
    and "\<not> IsHexStringZero tokenAddr" and "\<not> IsHexStringZero tokenAddr'"
    and "norm_key tokenAddr' = norm_key tokenAddr"
    and "TrimSpace tokenAddr = tokenAddr" and "TrimSpace (ci_Name c) = ci_Name c"
  shows "EvmGetTokenInfo batch' c tokenAddr' mgr' = (Inr t, mgr')"
  using assms by (rule evm_source.cached)

definition sample_answers :: erc20_answers where
  "sample_answers = \<lparr>ea_symbol = Inr [85, 83], ea_decimals = Inr [6], ea_name = Inr [], ea_totalSupply = Inr [2, 0]\<rparr>"

theorem evm_token_cached_witness:
  "let c = sample_chain\<lparr>ci_Name := ''Base''\<rparr>;
       r = EvmGetTokenInfo (\<lambda>_. Inr sample_answers) c ''0xAb'' NewTokenInfoManager
   in EvmGetTokenInfo (\<lambda>_. Inl ''down'') c '' 0xaB '' (snd r) = r \<and>
      map_sum id ti_TotalSupply (fst r) = Inr (Some 512)"
proof -
  let ?c = "sample_chain\<lparr>ci_Name := ''Base''\<rparr>"
  have z: "\<not> IsHexStringZero ''0xAb''" "\<not> IsHexStringZero '' 0xaB ''" "norm_key '' 0xaB '' = norm_key ''0xAb''"
    "TrimSpace ''0xAb'' = ''0xAb''" "TrimSpace ''Base'' = ''Base''" by code_simp+
  have v: "SetBytes [6] = 6" "SetBytes [2, 0] = 512" by code_simp+
  obtain t m where r: "EvmGetTokenInfo (\<lambda>_. Inr sample_answers) ?c ''0xAb'' NewTokenInfoManager = (Inr t, m)"
    and s: "ti_TotalSupply t = Some 512"
    using z(1) by (simp add: EvmGetTokenInfo_def GetByChainNameTokenAddr_def NewTokenInfoManager_def
        sample_answers_def first_error_def data_of_def Let_def v)
  show ?thesis
    using evm_token_cached [OF r, where tokenAddr' = "'' 0xaB ''" and batch' = "\<lambda>_. Inl ''down''"] s z
    by (simp add: Let_def r)
qed

section \<open>Transfer data\<close>

definition GetERC20TransferData ::
  "(string \<Rightarrow> nat list) \<Rightarrow> (string \<Rightarrow> nat list) \<Rightarrow> string \<Rightarrow> int \<Rightarrow> nat list" where
  \<comment> \<open>\<open>keccak\<close> hashes a string, \<open>hexToAddress\<close> gives the bytes of an address\<close>
  "GetERC20TransferData keccak hexToAddress recipient value =
     take 4 (keccak ''transfer(address,uint256)'') @ LeftPadBytes (hexToAddress recipient) 32 @
     LeftPadBytes (Bytes value) 32"

lemma length_LeftPadBytes: "length (LeftPadBytes bs l) = max l (length bs)"
  by (simp add: LeftPadBytes_def)

lemma length_Bytes: "\<bar>v\<bar> < 256 ^ k \<Longrightarrow> length (Bytes v) \<le> k"
  unfolding Bytes_def by (rule length_nat_bytes) (simp add: nat_less_iff)

lemma length_Bytes_ge: "256 ^ k \<le> \<bar>v\<bar> \<Longrightarrow> k < length (Bytes v)"
  unfolding Bytes_def by (rule length_nat_bytes_ge) (simp add: le_nat_iff)

lemma length_32_Bytes: "\<bar>v\<bar> < 2 ^ 256 \<longleftrightarrow> length (Bytes v) \<le> 32"
  using length_Bytes [of v 32] length_Bytes_ge [of 32 v] by (simp add: not_less) linarith

text \<open>
  C19. The layout of the data of a token transfer: four bytes of selector, a word with the 20 bytes of the
  recipient after twelve zeros, and the absolute value of the amount, big-endian. The last part is one
  word, so the data has 68 bytes, exactly when the amount has at most 256 bits; a larger amount makes
  the data longer. The sign is lost: an amount and its negation give the same data.
\<close>

theorem evm_transfer_data_layout:
  assumes "length (hexToAddress recipient) = 20" and "4 \<le> length (keccak ''transfer(address,uint256)'')"
  shows "let d = GetERC20TransferData keccak hexToAddress recipient value
    in take 4 d = take 4 (keccak ''transfer(address,uint256)'') \<and>
       take 32 (drop 4 d) = replicate 12 0 @ hexToAddress recipient \<and>
       SetBytes (drop 36 d) = \<bar>value\<bar> \<and>
       68 \<le> length d \<and> (length d = 68) = (\<bar>value\<bar> < 2 ^ 256) \<and>
       GetERC20TransferData keccak hexToAddress recipient (- value) = d"
proof -
  let ?d = "GetERC20TransferData keccak hexToAddress recipient value"
  have sel: "length (take 4 (keccak ''transfer(address,uint256)'')) = 4" using assms(2) by simp
  have pad: "LeftPadBytes (hexToAddress recipient) 32 = replicate 12 0 @ hexToAddress recipient"
    using assms(1) by (simp add: LeftPadBytes_def)
  have len: "length ?d = 36 + max 32 (length (Bytes value))"
    using sel assms(1) by (simp add: GetERC20TransferData_def length_LeftPadBytes)
  have parts: "take 4 ?d = take 4 (keccak ''transfer(address,uint256)'')"
    "take 32 (drop 4 ?d) = replicate 12 0 @ hexToAddress recipient" "drop 36 ?d = LeftPadBytes (Bytes value) 32"
    using sel assms(1) by (simp_all only: GetERC20TransferData_def pad) (simp_all del: length_take)
  have "Bytes (- value) = Bytes value" by (simp add: Bytes_def)
  then have neg: "GetERC20TransferData keccak hexToAddress recipient (- value) = ?d"
    by (simp add: GetERC20TransferData_def)
  show ?thesis
    unfolding length_32_Bytes Let_def using len parts neg by (simp add: SetBytes_pad SetBytes_Bytes max_def)
qed

theorem evm_transfer_data_layout_witness:
  "let d = GetERC20TransferData (\<lambda>_. [169, 5, 156, 187, 0]) (\<lambda>_. replicate 20 7) ''0x07'' (- 300)
   in take 4 d = [169, 5, 156, 187] \<and> take 32 (drop 4 d) = replicate 12 0 @ replicate 20 7 \<and>
      SetBytes (drop 36 d) = 300 \<and> length d = 68"
  using evm_transfer_data_layout [of "\<lambda>_. replicate 20 7" "''0x07''" "\<lambda>_. [169, 5, 156, 187, 0]" "- 300"]
  unfolding Let_def by (simp add: numeral_eq_Suc)

section \<open>Requests to the node\<close>

text \<open>
  The node: its answers to the requests of the client library and of the bound ERC-20 contract. The
  block number of a request is absent for the latest block; an address is given by its bytes.
\<close>

record call_msg =
  cm_From :: "nat list"
  cm_To :: "nat list"
  cm_Value :: "int option"
  cm_Data :: "nat list"

record receipt =
  rc_Status :: int
  rc_BlockNumber :: "int option"  \<comment> \<open>a pointer, nil if the node leaves it out\<close>

record evm_node =
  en_hexToAddress :: "string \<Rightarrow> nat list"
  en_hexToHash :: "string \<Rightarrow> nat list"
  en_keccak :: "string \<Rightarrow> nat list"
  en_BalanceAt :: "nat list \<Rightarrow> int option \<Rightarrow> string + int"
  en_BalanceOf :: "nat list \<Rightarrow> int option \<Rightarrow> nat list \<Rightarrow> string + int"
  en_Allowance :: "nat list \<Rightarrow> nat list \<Rightarrow> nat list \<Rightarrow> string + int"
  en_CodeAt :: "nat list \<Rightarrow> string + nat list"
  en_EstimateGas :: "call_msg \<Rightarrow> string + int"
  en_TransactionReceipt :: "nat list \<Rightarrow> string + receipt option"
  en_BlockNumber :: "string + int"

definition EvmGetAllowance :: "evm_node \<Rightarrow> string \<Rightarrow> string \<Rightarrow> string \<Rightarrow> string + int" where
  "EvmGetAllowance nd ownerAddr tokenAddr spenderAddr =
     en_Allowance nd (en_hexToAddress nd tokenAddr) (en_hexToAddress nd ownerAddr) (en_hexToAddress nd spenderAddr)"

definition EvmGetBalanceAtBlockNumber :: "evm_node \<Rightarrow> string \<Rightarrow> string \<Rightarrow> int \<Rightarrow> string + int" where
  "EvmGetBalanceAtBlockNumber nd ownerAddr tokenAddr blockNumber =
     (let ownerAddr = TrimSpace ownerAddr; tokenAddr = TrimSpace tokenAddr
      in if IsHexStringZero tokenAddr
         then en_BalanceAt nd (en_hexToAddress nd ownerAddr) (Some blockNumber)
         else en_BalanceOf nd (en_hexToAddress nd tokenAddr) (Some blockNumber) (en_hexToAddress nd ownerAddr))"

definition EvmGetBalance :: "evm_node \<Rightarrow> string \<Rightarrow> string \<Rightarrow> string + int" where
  "EvmGetBalance nd ownerAddr tokenAddr =
     (let ownerAddr = TrimSpace ownerAddr; tokenAddr = TrimSpace tokenAddr
      in if IsHexStringZero tokenAddr
         then en_BalanceAt nd (en_hexToAddress nd ownerAddr) None
         else en_BalanceOf nd (en_hexToAddress nd tokenAddr) None (en_hexToAddress nd ownerAddr))"

definition EvmIsTxSuccess :: "evm_node \<Rightarrow> string \<Rightarrow> (bool \<times> int \<times> string option) option" where
  \<comment> \<open>a panic is \<open>None\<close>: the block number of the receipt is read without a check\<close>
  "EvmIsTxSuccess nd hash =
     (case en_TransactionReceipt nd (en_hexToHash nd hash) of
        Inl err \<Rightarrow> Some (False, 0, Some err)
      | Inr None \<Rightarrow> Some (False, 0, Some ''get receipt failed'')
      | Inr (Some r) \<Rightarrow> map_option (\<lambda>n. (rc_Status r = 1, wrap_s 64 n, None)) (rc_BlockNumber r))"

definition EvmGetLatestBlockNumber :: "evm_node \<Rightarrow> string + int" where
  "EvmGetLatestBlockNumber nd = map_sum id (wrap_s 64) (en_BlockNumber nd)"

definition IsContractAddress :: "evm_node \<Rightarrow> string \<Rightarrow> string + bool" where
  "IsContractAddress nd address = map_sum id (\<lambda>code. 200 < length code) (en_CodeAt nd (en_hexToAddress nd address))"

definition plain_transfer_chains :: "string list" where
  \<comment> \<open>the names of the \<open>case\<close> in \<open>EstimateGas\<close>, from \<open>owlconsts\<close>\<close>
  "plain_transfer_chains =
     [''ScrollMainnet'', ''EthereumMainnet'', ''OptimismMainnet'', ''BaseMainnet'', ''MantaMainnet'', ''LineaMainnet'',
      ''BevmMainnet'', ''Bevm2Mainnet'', ''TaikoMainnet'', ''AILayerMainnet'']"

definition EvmEstimateGas :: "evm_node \<Rightarrow> ChainInfo \<Rightarrow> string \<Rightarrow> string \<Rightarrow> string \<Rightarrow> int \<Rightarrow> string + int" where
  "EvmEstimateGas nd c fromAddress recipient tokenAddress value =
     (let from = en_hexToAddress nd fromAddress;
          native = en_EstimateGas nd \<lparr>cm_From = from, cm_To = en_hexToAddress nd recipient, cm_Value = Some value, cm_Data = []\<rparr>
      in if IsNativeAddress tokenAddress then
           (if ci_Name c \<in> set plain_transfer_chains then
              (case IsContractAddress nd recipient of
                 Inl err \<Rightarrow> Inl err
               | Inr False \<Rightarrow> Inr 21000
               | Inr True \<Rightarrow> native)
            else native)
         else en_EstimateGas nd
                \<lparr>cm_From = from, cm_To = en_hexToAddress nd tokenAddress, cm_Value = None,
                 cm_Data = GetERC20TransferData (en_keccak nd) (en_hexToAddress nd) recipient value\<rparr>)"

lemma plain_transfer_names:
  "plain_transfer_chains =
     map chain_const [''Scroll'', ''Ethereum'', ''Optimism'', ''Base'', ''Manta'', ''Linea'', ''Bevm'', ''Bevm2'',
                      ''Taiko'', ''AILayer'']"
  by (simp add: plain_transfer_chains_def chain_const_def chain_names_def)

lemmas evm_requests = EvmGetBalance_def EvmGetBalanceAtBlockNumber_def IsContractAddress_def EvmEstimateGas_def Let_def

text \<open>
  On a chain of the list, sending the native coin to an address with at most 200 bytes of code is
  estimated at 21000 gas, whatever the node would estimate: a short contract, such as a minimal proxy
  of 45 bytes, counts as a plain account.
\<close>

theorem evm_plain_gas:
  assumes "ci_Name c \<in> set plain_transfer_chains" and "IsNativeAddress tokenAddress"
    and "en_CodeAt nd (en_hexToAddress nd recipient) = Inr code"
  shows "EvmEstimateGas nd c sender recipient tokenAddress amount =
    (if length code \<le> 200 then Inr 21000
     else en_EstimateGas nd \<lparr>cm_From = en_hexToAddress nd sender, cm_To = en_hexToAddress nd recipient,
       cm_Value = Some amount, cm_Data = []\<rparr>)"
  using assms by (simp add: evm_requests)

definition sample_node :: evm_node where
  "sample_node =
     \<lparr>en_hexToAddress = (\<lambda>_. replicate 20 7), en_hexToHash = (\<lambda>_. replicate 32 0),
      en_keccak = (\<lambda>_. replicate 32 1), en_BalanceAt = (\<lambda>_ _. Inr 5), en_BalanceOf = (\<lambda>_ _ _. Inr 6),
      en_Allowance = (\<lambda>_ _ _. Inr 7), en_CodeAt = (\<lambda>_. Inr (replicate 45 54)), en_EstimateGas = (\<lambda>_. Inr 90000),
      en_TransactionReceipt = (\<lambda>_. Inr None), en_BlockNumber = Inr 1\<rparr>"

theorem evm_plain_gas_witness:
  "EvmEstimateGas sample_node (sample_chain\<lparr>ci_Name := ''BaseMainnet''\<rparr>) ''0x1'' ''0x2'' ''0x0'' 3 = Inr 21000"
proof -
  have "IsNativeAddress ''0x0''" by code_simp
  from evm_plain_gas [where c = "sample_chain\<lparr>ci_Name := ''BaseMainnet''\<rparr>" and nd = sample_node
      and recipient = "''0x2''" and code = "replicate 45 54" and sender = "''0x1''" and amount = 3, OF _ this]
  show ?thesis by (simp add: sample_node_def plain_transfer_chains_def)
qed

section \<open>Names of tokens\<close>

text \<open>The answer of a contract that returns the string \<open>s\<close>: offset, length and the padded bytes.\<close>

definition abi_string :: "string \<Rightarrow> nat list" where
  "abi_string s =
     LeftPadBytes (nat_bytes 32) 32 @ LeftPadBytes (nat_bytes (length s)) 32 @ map of_char s @
     replicate (31 - (length s + 31) mod 32) 0"

text \<open>
  The name stored for a token is the encoded answer of the contract itself: when the contract
  answers \<open>symbol\<close> with the encoding of a string, the token is not named by that string but by one at
  least 64 bytes longer.
\<close>

theorem evm_token_name_raw:
  assumes "EvmGetTokenInfo batch c tokenAddr mgr = (Inr t, mgr')" and "\<not> IsHexStringZero tokenAddr"
    and "GetByChainNameTokenAddr mgr (ci_Name c) tokenAddr = None"
    and "batch tokenAddr = Inr a" and "ea_symbol a = Inr (abi_string symbol)"
  shows "length symbol + 64 \<le> length (ti_TokenName t)"
proof -
  have "ti_TokenName t = bytes_string (data_of (ea_symbol a))"
    using assms(1-4) by (auto simp: EvmGetTokenInfo_def Let_def split: option.splits if_splits)
  moreover have "length symbol + 64 \<le> length (abi_string symbol)"
    by (simp add: abi_string_def length_LeftPadBytes)
  ultimately show ?thesis using assms(5) by (simp add: data_of_def bytes_string_def)
qed

theorem evm_token_name_raw_witness:
  "let a = sample_answers\<lparr>ea_symbol := Inr (abi_string ''USDC'')\<rparr>;
       r = EvmGetTokenInfo (\<lambda>_. Inr a) sample_chain ''0x5'' NewTokenInfoManager
   in map_sum id (\<lambda>t. 68 \<le> length (ti_TokenName t)) (fst r) = Inr True"
proof -
  let ?a = "sample_answers\<lparr>ea_symbol := Inr (abi_string ''USDC'')\<rparr>"
  have z: "\<not> IsHexStringZero ''0x5''" "abi_string ''USDC'' \<noteq> []" "SetBytes [6] = 6" by code_simp+
  obtain t m where r: "EvmGetTokenInfo (\<lambda>_. Inr ?a) sample_chain ''0x5'' NewTokenInfoManager = (Inr t, m)"
    using z by (simp add: EvmGetTokenInfo_def sample_answers_def first_error_def data_of_def Let_def)
  have "68 \<le> length (ti_TokenName t)"
    using evm_token_name_raw [OF r z(1) get_new_token, where a = ?a and symbol = "''USDC''"] by simp
  then show ?thesis by (simp only: Let_def r fst_conv map_sum.simps simp_thms)
qed

end
