(* ===== verification/SolanaRpc.thy ===== *)
theory SolanaRpc
  imports TokenCache "HOL-Library.While_Combinator"
begin

text \<open>
  \<open>src/rpc/solana.go\<close>: token information, balances and allowances of a Solana chain. The node, the key
  and account decoders of the Solana libraries and the derivation of token accounts are arguments. A
  public key and the data of an account are lists of bytes, a byte is a number below 256.
\<close>

section \<open>Extensions of a mint\<close>

definition Uint16 :: "nat list \<Rightarrow> nat" where
  \<comment> \<open>\<open>binary.LittleEndian.Uint16\<close>\<close>
  "Uint16 bs = bs ! 0 + 256 * bs ! 1"

definition slice :: "'a list \<Rightarrow> nat \<Rightarrow> nat \<Rightarrow> 'a list" where
  "slice xs i j = take (j - i) (drop i xs)"

text \<open>
  The loop of \<open>getExtensionData\<close>: its state is the index and, once the loop has returned, the data. The
  value is absent if the loop does not end; the inner option is the slice or \<open>nil\<close>.
\<close>

definition extension_body :: "nat \<Rightarrow> nat list \<Rightarrow> nat \<times> nat list option \<Rightarrow> nat \<times> nat list option" where
  "extension_body extensionType tlvData s =
     (let extensionTypeIndex = fst s;
          entryType = Uint16 (slice tlvData extensionTypeIndex (extensionTypeIndex + 2));
          entryLength = Uint16 (slice tlvData (extensionTypeIndex + 2) (extensionTypeIndex + 4));
          typeIndex = extensionTypeIndex + 4
      in if entryType = extensionType \<and> typeIndex + entryLength \<le> length tlvData
         then (extensionTypeIndex, Some (slice tlvData typeIndex (typeIndex + entryLength)))
         else (typeIndex + entryLength, None))"

definition getExtensionData :: "nat \<Rightarrow> nat list \<Rightarrow> nat list option option" where
  "getExtensionData extensionType tlvData =
     map_option snd
       (while_option (\<lambda>(i, r). r = None \<and> i + 4 \<le> length tlvData) (extension_body extensionType tlvData) (0, None))"

text \<open>The entries of a list of extensions: type, length and data.\<close>

function tlv_find :: "nat \<Rightarrow> nat list \<Rightarrow> nat list option" where
  "tlv_find ty bs =
     (if length bs < 4 then None
      else if Uint16 (take 2 bs) = ty \<and> 4 + Uint16 (take 2 (drop 2 bs)) \<le> length bs
      then Some (take (Uint16 (take 2 (drop 2 bs))) (drop 4 bs))
      else tlv_find ty (drop (4 + Uint16 (take 2 (drop 2 bs))) bs))"
  by pat_completeness auto
termination by (relation "measure (\<lambda>(ty, bs). length bs)") auto

declare tlv_find.simps [simp del]

lemma slice_take2: "slice xs i (i + 2) = take 2 (drop i xs)" "slice xs (i + 2) (i + 4) = take 2 (drop 2 (drop i xs))"
  by (simp_all add: slice_def add.commute)

lemma tlv_find_short [simp]: "length rest < 4 \<Longrightarrow> tlv_find ty rest = None"
  by (subst tlv_find.simps) simp

lemma tlv_find_Cons:
  "tlv_find ty (a # b # c # d # bs) =
     (if a + 256 * b = ty \<and> c + 256 * d \<le> length bs then Some (take (c + 256 * d) bs)
      else tlv_find ty (drop (c + 256 * d) bs))"
proof -
  have "take 2 (a # b # c # d # bs) = [a, b]" "take 2 (drop 2 (a # b # c # d # bs)) = [c, d]"
    "drop 4 (a # b # c # d # bs) = bs" "drop (4 + n) (a # b # c # d # bs) = drop n bs" for n
    by (simp_all add: numeral_eq_Suc)
  moreover have "Uint16 [x, y] = x + 256 * y" for x y by (simp add: Uint16_def)
  ultimately show ?thesis by (subst tlv_find.simps) simp
qed

lemma extension_loop:
  "map_option snd (while_option (\<lambda>(i, r). r = None \<and> i + 4 \<le> length bs) (extension_body ty bs) (i, None)) =
    Some (tlv_find ty (drop i bs))"
proof (induction "length bs - i" arbitrary: i rule: less_induct)
  case less
  let ?l = "Uint16 (take 2 (drop 2 (drop i bs)))" and ?t = "Uint16 (take 2 (drop i bs))"
  show ?case
  proof (cases "i + 4 \<le> length bs")
    case False
    then show ?thesis by (subst while_option_unfold) (simp add: tlv_find.simps [of ty "drop i bs"])
  next
    case i: True
    show ?thesis
    proof (cases "?t = ty \<and> i + 4 + ?l \<le> length bs")
      case True
      with i have "extension_body ty bs (i, None) = (i, Some (take ?l (drop 4 (drop i bs))))"
        by (simp only: extension_body_def Let_def slice_take2 fst_conv) (simp add: slice_def add.commute)
      with i True show ?thesis
        by (subst while_option_unfold, subst while_option_unfold) (simp add: tlv_find.simps [of ty "drop i bs"])
    next
      case False
      define k where "k = i + 4 + ?l"
      have body: "extension_body ty bs (i, None) = (k, None)"
        using i False by (simp only: extension_body_def Let_def slice_take2 fst_conv k_def) simp
      have "tlv_find ty (drop i bs) = tlv_find ty (drop (4 + ?l) (drop i bs))"
        using i False by (subst tlv_find.simps) auto
      also have "drop (4 + ?l) (drop i bs) = drop k bs" by (simp only: k_def drop_drop ac_simps)
      finally have find: "tlv_find ty (drop i bs) = tlv_find ty (drop k bs)" .
      have "length bs - k < length bs - i" using i by (simp add: k_def)
      from less [OF this] show ?thesis
        by (subst while_option_unfold) (simp add: i body find)
    qed
  qed
qed

text \<open>
  C25. The scan of a mint's extensions ends on every byte string, also on lengths that point past its
  end, with the data of the first entry of the type that lies within it.
\<close>

theorem sol_extension_terminates: "getExtensionData ty bs = Some (tlv_find ty bs)"
  unfolding getExtensionData_def extension_loop by simp

definition tlv_entry :: "nat \<times> nat list \<Rightarrow> nat list" where
  "tlv_entry e = [fst e mod 256, fst e div 256, length (snd e) mod 256, length (snd e) div 256] @ snd e"

lemma tlv_find_entry:
  "tlv_find ty (tlv_entry e @ rest) = (if fst e = ty then Some (snd e) else tlv_find ty rest)"
  by (simp add: tlv_entry_def tlv_find_Cons)

lemma tlv_find_entries: "length rest < 4 \<Longrightarrow> tlv_find ty (concat (map tlv_entry es) @ rest) = map_of es ty"
  by (induction es) (auto simp: tlv_find_entry)

text \<open>
  C26. On a well-formed list of extensions, with fewer than four bytes of padding after it, the scan is
  the lookup of the type in the list.
\<close>

theorem sol_extension_lookup:
  "length rest < 4 \<Longrightarrow> getExtensionData ty (concat (map tlv_entry es) @ rest) = Some (map_of es ty)"
  unfolding getExtensionData_def extension_loop by (simp add: tlv_find_entries)

theorem sol_extension_lookup_witness:
  "getExtensionData 19 (concat (map tlv_entry [(1, [7]), (19, [5, 6])]) @ [0, 0]) = Some (Some [5, 6])"
  using sol_extension_lookup [of "[0, 0]" 19 "[(1, [7]), (19, [5, 6])]"] by simp

section \<open>Requests to the node\<close>

type_synonym pubkey = "nat list"

datatype sol_err = ErrNotFound | SolErr string

record token_names =
  tn_Symbol :: string
  tn_Name :: string
  tn_Uri :: string

record mint =
  mi_Decimals :: int  \<comment> \<open>a byte\<close>
  mi_Supply :: int    \<comment> \<open>64 bits, unsigned\<close>

record spl_account =
  sa_Amount :: int
  sa_DelegatedAmount :: int

record sol_account =
  so_Lamports :: int
  so_Binary :: "nat list"

text \<open>
  The node and the libraries: decoding of keys, derivation of addresses, answers of the node, decoding
  of account data. A missing account of \<open>GetMultipleAccounts\<close> decodes like empty data.
\<close>

record sol_node =
  sn_FromBase58 :: "string \<Rightarrow> sol_err + pubkey"
  sn_MetadataAddress :: "pubkey \<Rightarrow> sol_err + pubkey"
  sn_AssociatedAddress :: "pubkey \<Rightarrow> pubkey \<Rightarrow> sol_err + pubkey"
  sn_Associated2022Address :: "pubkey \<Rightarrow> pubkey \<Rightarrow> sol_err + pubkey"
  sn_GetAccountInfo :: "pubkey \<Rightarrow> sol_err + sol_account"
  sn_GetMultipleAccounts :: "pubkey list \<Rightarrow> sol_err + nat list list"
  sn_MetadataDeserialize :: "nat list \<Rightarrow> sol_err + token_names"
  sn_BorshMetaData :: "nat list option \<Rightarrow> sol_err + token_names"
  sn_UnmarshalMint :: "nat list \<Rightarrow> sol_err + mint"
  sn_UnmarshalAccount :: "nat list \<Rightarrow> sol_err + spl_account"

definition GetStrAccountInfo :: "sol_node \<Rightarrow> string \<Rightarrow> sol_err + sol_account" where
  "GetStrAccountInfo nd ownerAddr =
     (case sn_FromBase58 nd (TrimSpace ownerAddr) of
        Inl err \<Rightarrow> Inl err
      | Inr ownerpk \<Rightarrow> sn_GetAccountInfo nd ownerpk)"

definition SolIsAddressValid :: "sol_node \<Rightarrow> string \<Rightarrow> bool" where
  "SolIsAddressValid nd addr = (case sn_FromBase58 nd addr of Inl _ \<Rightarrow> False | Inr _ \<Rightarrow> True)"

definition IsSolNative :: "string \<Rightarrow> bool" where
  "IsSolNative tokenAddr = (IsHexStringZero tokenAddr \<or> tokenAddr = SolanaZeroAddress)"

definition sol_native_token :: "ChainInfo \<Rightarrow> string \<Rightarrow> TokenInfo" where
  "sol_native_token c tokenAddr = zero_token
     \<lparr>ti_TokenName := ''SOL'', ti_ChainName := ci_Name c, ti_TokenAddress := tokenAddr, ti_Decimals := 9,
      ti_FullName := ''Solana'', ti_TotalSupply := Some 0, ti_Url := ''https://solana.com''\<rparr>"

definition unknown_names :: token_names where
  "unknown_names = \<lparr>tn_Symbol = ''UNKNOWN'', tn_Name = ''UNKNOWN'', tn_Uri = []\<rparr>"

definition metadata_names :: "sol_node \<Rightarrow> pubkey \<Rightarrow> sol_err + token_names" where
  \<comment> \<open>the names from the metadata account; without such an account they are unknown\<close>
  "metadata_names nd metapk =
     (case sn_GetAccountInfo nd metapk of
        Inr rsp \<Rightarrow> sn_MetadataDeserialize nd (so_Binary rsp)
      | Inl ErrNotFound \<Rightarrow> Inr unknown_names
      | Inl err \<Rightarrow> Inl err)"

definition extension_names :: "sol_node \<Rightarrow> nat list \<Rightarrow> token_names \<Rightarrow> token_names" where
  "extension_names nd data names =
     (if 166 < length data then
        (case getExtensionData 19 (drop 166 data) of
           None \<Rightarrow> names  \<comment> \<open>not reached: the scan ends\<close>
         | Some ext \<Rightarrow> (case sn_BorshMetaData nd ext of Inl _ \<Rightarrow> names | Inr n \<Rightarrow> n))
      else names)"

definition fetch_token :: "sol_node \<Rightarrow> ChainInfo \<Rightarrow> string \<Rightarrow> sol_err + TokenInfo" where
  "fetch_token nd c tokenAddr =
     (case sn_FromBase58 nd tokenAddr of Inl err \<Rightarrow> Inl err | Inr mintpk \<Rightarrow>
     (case sn_MetadataAddress nd mintpk of Inl err \<Rightarrow> Inl err | Inr metapk \<Rightarrow>
     (case metadata_names nd metapk of Inl err \<Rightarrow> Inl err | Inr names \<Rightarrow>
     (case sn_GetAccountInfo nd mintpk of Inl err \<Rightarrow> Inl err | Inr rsp \<Rightarrow>
     (case sn_UnmarshalMint nd (so_Binary rsp) of Inl err \<Rightarrow> Inl err | Inr mintAccount \<Rightarrow>
        (let n = extension_names nd (so_Binary rsp) names
         in Inr (zero_token
              \<lparr>ti_TokenName := tn_Symbol n, ti_ChainName := ci_Name c, ti_TokenAddress := tokenAddr,
               ti_Decimals := wrap_s 32 (mi_Decimals mintAccount), ti_FullName := tn_Name n,
               ti_TotalSupply := Some (wrap_u 64 (mi_Supply mintAccount)), ti_Url := tn_Uri n\<rparr>)))))))"

definition sol_err_string :: "sol_err \<Rightarrow> string" where
  "sol_err_string e = (case e of ErrNotFound \<Rightarrow> ''not found'' | SolErr s \<Rightarrow> s)"

definition SolGetTokenInfo ::
  "sol_node \<Rightarrow> ChainInfo \<Rightarrow> string \<Rightarrow> TokenInfoManager \<Rightarrow> (string + TokenInfo) \<times> TokenInfoManager" where
  "SolGetTokenInfo nd c tokenAddr mgr =
     (if IsSolNative tokenAddr then (Inr (sol_native_token c tokenAddr), mgr)
      else case GetByChainNameTokenAddr mgr (ci_Name c) tokenAddr of
        Some t \<Rightarrow> (Inr t, mgr)
      | None \<Rightarrow>
          (case fetch_token nd c tokenAddr of
             Inl err \<Rightarrow> (Inl (sol_err_string err), mgr)
           | Inr token \<Rightarrow> (Inr token, AddTokenInfo token mgr)))"

text \<open>The accounts are tried in order; one that does not decode is skipped.\<close>

fun first_account :: "sol_node \<Rightarrow> nat list list \<Rightarrow> sol_err + spl_account" where
  "first_account nd [] = Inl ErrNotFound"
| "first_account nd (acc # accs) =
     (case sn_UnmarshalAccount nd acc of Inl err \<Rightarrow> first_account nd accs | Inr a \<Rightarrow> Inr a)"

definition GetSplAccount :: "sol_node \<Rightarrow> string \<Rightarrow> string \<Rightarrow> sol_err + spl_account" where
  "GetSplAccount nd ownerAddr tokenAddr =
     (case sn_FromBase58 nd (TrimSpace ownerAddr) of Inl err \<Rightarrow> Inl err | Inr ownerpk \<Rightarrow>
     (case sn_FromBase58 nd (TrimSpace tokenAddr) of Inl err \<Rightarrow> Inl err | Inr mintpk \<Rightarrow>
     (case sn_AssociatedAddress nd ownerpk mintpk of Inl err \<Rightarrow> Inl err | Inr ownerAta \<Rightarrow>
     (case sn_Associated2022Address nd ownerpk mintpk of Inl err \<Rightarrow> Inl err | Inr ownerAta2022 \<Rightarrow>
     (case sn_GetMultipleAccounts nd [ownerAta, ownerAta2022] of Inl err \<Rightarrow> Inl err | Inr rsp \<Rightarrow>
        first_account nd rsp)))))"

definition zero_if_missing :: "sol_err + int \<Rightarrow> sol_err + int" where
  "zero_if_missing r = (case r of Inl ErrNotFound \<Rightarrow> Inr 0 | Inl err \<Rightarrow> Inl err | Inr v \<Rightarrow> Inr v)"

definition SolGetBalance :: "sol_node \<Rightarrow> string \<Rightarrow> string \<Rightarrow> sol_err + int" where
  "SolGetBalance nd ownerAddr tokenAddr =
     (let ownerAddr = TrimSpace ownerAddr; tokenAddr = TrimSpace tokenAddr
      in if IsSolNative tokenAddr
         then zero_if_missing (map_sum id (\<lambda>a. wrap_s 64 (so_Lamports a)) (GetStrAccountInfo nd ownerAddr))
         else zero_if_missing (map_sum id (\<lambda>a. wrap_s 64 (sa_Amount a)) (GetSplAccount nd ownerAddr tokenAddr)))"

definition SolGetAllowance :: "sol_node \<Rightarrow> string \<Rightarrow> string \<Rightarrow> string \<Rightarrow> sol_err + int" where
  "SolGetAllowance nd ownerAddr tokenAddr spenderAddr =
     zero_if_missing (map_sum id (\<lambda>a. wrap_s 64 (sa_DelegatedAmount a)) (GetSplAccount nd ownerAddr tokenAddr))"

section \<open>Properties of the requests\<close>

lemma wrap_u_range: "0 \<le> wrap_u w x" "wrap_u w x < 2 ^ w"
  by (simp_all add: wrap_u_def)

lemma fetch_token_wf:
  "fetch_token nd c a = Inr t \<Longrightarrow> token_wf t \<and> ti_ChainName t = ci_Name c \<and> ti_TokenAddress t = a"
  using wrap_s_range [of 32] wrap_u_range
  by (auto simp: fetch_token_def token_wf_def Let_def split: sum.splits)

lemma sol_native_wf [simp]: "token_wf (sol_native_token c a)"
  by (simp add: sol_native_token_def token_wf_def)

interpretation sol_source: typed_token_source "\<lambda>nd. SolGetTokenInfo nd c" IsSolNative "ci_Name c" for c
  by unfold_locales (auto simp: SolGetTokenInfo_def dest: fetch_token_wf split: sum.splits option.splits)

text \<open>
  The names of a token come from the extension of its mint when that decodes, else from its
  metadata account, else, when that account is missing, they are unknown; any other failure is
  reported. The cached token carries the supply of the mint without sign.
\<close>

theorem sol_token_names:
  assumes "\<not> IsSolNative a" and "GetByChainNameTokenAddr m (ci_Name c) a = None"
    and "sn_FromBase58 nd a = Inr pk" and "sn_MetadataAddress nd pk = Inr mpk"
    and "sn_GetAccountInfo nd pk = Inr acc" and "sn_UnmarshalMint nd (so_Binary acc) = Inr mt"
    and "SolGetTokenInfo nd c a m = (Inr t, m')"
  shows "let base = (case sn_GetAccountInfo nd mpk of
        Inr rsp \<Rightarrow> projr (sn_MetadataDeserialize nd (so_Binary rsp)) | Inl _ \<Rightarrow> unknown_names)
    in \<lparr>tn_Symbol = ti_TokenName t, tn_Name = ti_FullName t, tn_Uri = ti_Url t\<rparr> =
         (if 166 < length (so_Binary acc) then
            (case sn_BorshMetaData nd (tlv_find 19 (drop 166 (so_Binary acc))) of Inr n \<Rightarrow> n | Inl _ \<Rightarrow> base)
          else base) \<and>
       ti_TotalSupply t = Some (wrap_u 64 (mi_Supply mt))"
proof -
  have ext: "getExtensionData ty bs = Some (tlv_find ty bs)" for ty bs
    unfolding getExtensionData_def extension_loop by simp
  have f: "fetch_token nd c a = Inr t"
    using assms(1,2,7) by (auto simp: SolGetTokenInfo_def split: sum.splits)
  then obtain n where n: "metadata_names nd mpk = Inr n"
    using assms(3-6) by (cases "metadata_names nd mpk") (auto simp: fetch_token_def)
  then have "n = (case sn_GetAccountInfo nd mpk of
      Inr rsp \<Rightarrow> projr (sn_MetadataDeserialize nd (so_Binary rsp)) | Inl _ \<Rightarrow> unknown_names)"
    by (auto simp: metadata_names_def split: sum.splits sol_err.splits)
  moreover from f assms(3-6) n have "\<lparr>tn_Symbol = ti_TokenName t, tn_Name = ti_FullName t, tn_Uri = ti_Url t\<rparr> =
      extension_names nd (so_Binary acc) n \<and> ti_TotalSupply t = Some (wrap_u 64 (mi_Supply mt))"
    by (auto simp: fetch_token_def Let_def)
  ultimately show ?thesis by (simp only: Let_def extension_names_def ext option.case)
qed

definition sample_sol_node :: sol_node where
  \<comment> \<open>a mint whose data carries an extension with names, and an account of a large amount\<close>
  "sample_sol_node =
     \<lparr>sn_FromBase58 = (\<lambda>s. Inr (map of_char s)), sn_MetadataAddress = (\<lambda>_. Inr []),
      sn_AssociatedAddress = (\<lambda>a b. Inr (a @ b)), sn_Associated2022Address = (\<lambda>a b. Inr (b @ a)),
      sn_GetAccountInfo = (\<lambda>k. if k = [] then Inl ErrNotFound
                             else Inr \<lparr>so_Lamports = 1, so_Binary = replicate 166 0 @ [19, 0, 2, 0, 88, 89]\<rparr>),
      sn_GetMultipleAccounts = (\<lambda>ks. Inr [[], [1]]),
      sn_MetadataDeserialize = (\<lambda>_. Inl (SolErr ''bad'')),
      sn_BorshMetaData = (\<lambda>d. case d of None \<Rightarrow> Inl (SolErr ''nil'')
                                | Some bs \<Rightarrow> Inr \<lparr>tn_Symbol = map char_of bs, tn_Name = [], tn_Uri = []\<rparr>),
      sn_UnmarshalMint = (\<lambda>_. Inr \<lparr>mi_Decimals = 6, mi_Supply = 2 ^ 63\<rparr>),
      sn_UnmarshalAccount = (\<lambda>d. if d = [] then Inl (SolErr ''short'')
                                  else Inr \<lparr>sa_Amount = 2 ^ 63, sa_DelegatedAmount = 0\<rparr>)\<rparr>"

theorem sol_token_names_witness:
  "let r = fst (SolGetTokenInfo sample_sol_node sample_chain ''Mint'' NewTokenInfoManager)
   in map_sum id (\<lambda>t. (ti_TokenName t, ti_TotalSupply t)) r = Inr (''XY'', Some 9223372036854775808)"
proof -
  let ?acc = "\<lparr>so_Lamports = 1, so_Binary = replicate 166 0 @ [19, 0, 2, 0, 88, 89]\<rparr>"
  have z: "\<not> IsSolNative ''Mint''" by code_simp
  have x: "char_of (88 :: nat) = CHR ''X''" "char_of (89 :: nat) = CHR ''Y''" by code_simp+
  have f: "tlv_find 19 [19, 0, 2, 0, 88, 89] = Some [88, 89]" by (simp add: tlv_find_Cons)
  obtain t m where r: "SolGetTokenInfo sample_sol_node sample_chain ''Mint'' NewTokenInfoManager = (Inr t, m)"
    by (simp add: SolGetTokenInfo_def z fetch_token_def metadata_names_def sample_sol_node_def Let_def)
  from sol_token_names [OF z get_new_token, where nd = sample_sol_node and t = t and acc = ?acc and mpk = "[]" and pk = "[77, 105, 110, 116]" and
      mt = "\<lparr>mi_Decimals = 6, mi_Supply = 2 ^ 63\<rparr>", OF _ _ _ _ r]
  have "ti_TokenName t = ''XY'' \<and> ti_TotalSupply t = Some (2 ^ 63)"
    by (simp add: sample_sol_node_def Let_def f wrap_u_def x)
  then show ?thesis by (simp only: Let_def r fst_conv map_sum.simps) simp
qed

lemma zero_if_missing_eq:
  "zero_if_missing (map_sum id f r) = (case r of Inl ErrNotFound \<Rightarrow> Inr 0 | Inl e \<Rightarrow> Inl e | Inr a \<Rightarrow> Inr (f a))"
  by (auto simp: zero_if_missing_def split: sum.split sol_err.split)

lemma wrap_s_64: "0 \<le> x \<Longrightarrow> x < 2 ^ 64 \<Longrightarrow> wrap_s 64 x = (if x < 2 ^ 63 then x else x - 2 ^ 64)"
  using mod_pos_pos_trivial [of "x - 2 ^ 63" "2 ^ 64"] minus_mod_self2 [of "x + 2 ^ 63" "2 ^ 64"]
  by (auto simp: wrap_s_def mod_pos_pos_trivial)

lemma GetSplAccount_TrimSpace [simp]: "GetSplAccount nd (TrimSpace a) (TrimSpace b) = GetSplAccount nd a b"
  by (simp only: GetSplAccount_def TrimSpace_idem)

text \<open>
  The balance of a token is the amount of its account read as a signed number: exact below 2^63,
  and negative from there on. The same conversion applies to the allowance.
\<close>

theorem sol_balance_sign:
  assumes "\<not> IsSolNative (TrimSpace tok)" and "GetSplAccount nd owner tok = Inr a"
    and "0 \<le> sa_Amount a" and "sa_Amount a < 2 ^ 64"
  shows "SolGetBalance nd owner tok = Inr (if sa_Amount a < 2 ^ 63 then sa_Amount a else sa_Amount a - 2 ^ 64)"
  using assms by (simp add: SolGetBalance_def Let_def zero_if_missing_eq wrap_s_64)

theorem sol_balance_sign_witness:
  "SolGetBalance sample_sol_node ''Owner'' '' Mint '' = Inr (- 9223372036854775808)"
proof -
  have z: "\<not> IsSolNative (TrimSpace '' Mint '')" by code_simp
  have "GetSplAccount sample_sol_node ''Owner'' '' Mint '' = Inr \<lparr>sa_Amount = 2 ^ 63, sa_DelegatedAmount = 0\<rparr>"
    by (simp add: GetSplAccount_def sample_sol_node_def)
  from sol_balance_sign [OF z this] show ?thesis by simp
qed

section \<open>Transactions\<close>

text \<open>
  The answer of a node for a transaction: its meta data, which may be absent, with the error of the
  transaction, and its slot. A panic is \<open>None\<close>.
\<close>

record sol_receipt =
  re_MetaErr :: "string option option"
  re_Slot :: int

definition SolIsTxSuccess ::
  "(string \<Rightarrow> string + 's) \<Rightarrow> ('s \<Rightarrow> string + sol_receipt option) \<Rightarrow> string \<Rightarrow> (bool \<times> int \<times> string option) option" where
  "SolIsTxSuccess signature getTransaction hash =
     (case signature hash of
        Inl err \<Rightarrow> Some (False, 0, Some err)
      | Inr sig \<Rightarrow>
          (case getTransaction sig of
             Inl err \<Rightarrow> Some (False, 0, Some err)
           | Inr None \<Rightarrow> Some (False, 0, Some ''get receipt failed'')
           | Inr (Some r) \<Rightarrow>
               (case re_MetaErr r of
                  None \<Rightarrow> None
                | Some e \<Rightarrow> Some (e = None, wrap_s 64 (re_Slot r), None))))"

definition SolGetLatestBlockNumber :: "(string + int) \<Rightarrow> int \<times> string option" where
  "SolGetLatestBlockNumber getSlot =
     (case getSlot of Inl err \<Rightarrow> (0, Some err) | Inr n \<Rightarrow> (wrap_s 64 n, None))"

text \<open>
  The status of a transaction is reported without an error exactly when the node has it with its
  meta data, and as a success exactly when these carry no error; asking for a transaction whose meta
  data the node no longer has panics.
\<close>

theorem sol_tx_status:
  "(SolIsTxSuccess signature getTransaction hash = None \<longleftrightarrow>
      (\<exists>sig r. signature hash = Inr sig \<and> getTransaction sig = Inr (Some r) \<and> re_MetaErr r = None)) \<and>
   (SolIsTxSuccess signature getTransaction hash = Some (ok, n, None) \<longleftrightarrow>
      (\<exists>sig r e. signature hash = Inr sig \<and> getTransaction sig = Inr (Some r) \<and> re_MetaErr r = Some e \<and>
         ok = (e = None) \<and> n = wrap_s 64 (re_Slot r)))"
  by (auto simp: SolIsTxSuccess_def split: sum.split option.split)

end
