(* ===== verification/ChainRpcs.thy ===== *)
theory ChainRpcs
  imports JsonExtract TokenCache
begin

text \<open>
  \<open>src/rpc\<close>: the dispatcher \<open>rpc.go\<close> and the clients of the Starknet, Bitcoin, zkSync Lite, TON, Benfen,
  Sui and Fuel chains. The nodes and the libraries of the chains are arguments of the operations that
  use them. A call that panics is a value of its own.
\<close>

section \<open>Dispatch\<close>

datatype 'a outcome = Panics | Returns 'a

datatype rpc_client =
    EvmRpc ChainInfo | StarknetRpc ChainInfo | SolanaRpc ChainInfo | BitcoinRpc ChainInfo
  | ZksliteRpc ChainInfo | TonRpc ChainInfo | BenfenRpc ChainInfo | SuiRpc ChainInfo | FuelRpc ChainInfo

fun rpc_chainInfo :: "rpc_client \<Rightarrow> ChainInfo" where
  "rpc_chainInfo (EvmRpc c) = c"
| "rpc_chainInfo (StarknetRpc c) = c"
| "rpc_chainInfo (SolanaRpc c) = c"
| "rpc_chainInfo (BitcoinRpc c) = c"
| "rpc_chainInfo (ZksliteRpc c) = c"
| "rpc_chainInfo (TonRpc c) = c"
| "rpc_chainInfo (BenfenRpc c) = c"
| "rpc_chainInfo (SuiRpc c) = c"
| "rpc_chainInfo (FuelRpc c) = c"

fun Backend_of :: "rpc_client \<Rightarrow> int" where
  "Backend_of (EvmRpc c) = 1"
| "Backend_of (StarknetRpc c) = 2"
| "Backend_of (SolanaRpc c) = 3"
| "Backend_of (BitcoinRpc c) = 4"
| "Backend_of (ZksliteRpc c) = 1"
| "Backend_of (TonRpc c) = TonBackend"
| "Backend_of (BenfenRpc c) = 8"
| "Backend_of (SuiRpc c) = 9"
| "Backend_of (FuelRpc c) = FuelBackend"

definition NewSuiRpc :: "ChainInfo \<Rightarrow> rpc_client outcome" where
  \<comment> \<open>the client of the chain is asserted to be a Sui client\<close>
  "NewSuiRpc c = (case ci_Client c of Some (SuiClient _) \<Rightarrow> Returns (SuiRpc c) | _ \<Rightarrow> Panics)"

definition GetRpc :: "ChainInfo \<Rightarrow> (string + rpc_client) outcome" where
  "GetRpc c =
     (if ci_Backend c = 1 then Returns (Inr (EvmRpc c))
      else if ci_Backend c = 2 then Returns (Inr (StarknetRpc c))
      else if ci_Backend c = 3 then Returns (Inr (SolanaRpc c))
      else if ci_Backend c = 4 then Returns (Inr (BitcoinRpc c))
      else if ci_Backend c = 5 then Returns (Inr (ZksliteRpc c))
      else if ci_Backend c = 6 then Returns (Inr (TonRpc c))
      else if ci_Backend c = 8 then Returns (Inr (BenfenRpc c))
      else if ci_Backend c = 9 then
        (case NewSuiRpc c of Panics \<Rightarrow> Panics | Returns r \<Rightarrow> Returns (Inr r))
      else if ci_Backend c = 10 then Returns (Inr (FuelRpc c))
      else Returns (Inl (''unsupport backend '' @ FormatInt (ci_Backend c))))"

text \<open>
  A client is made for every backend from 1 to 10 but 7, Cosmos, for its own chain; it reports that
  chain's backend, except that a zkSync Lite client reports the EVM backend. Making one panics
  exactly for a Sui chain whose client is not a Sui client.
\<close>

theorem rpc_dispatch:
  "(GetRpc c = Panics \<longleftrightarrow> ci_Backend c = SuiBackend \<and> (\<forall>u. ci_Client c \<noteq> Some (SuiClient u))) \<and>
   (case GetRpc c of
      Returns (Inr r) \<Rightarrow> rpc_chainInfo r = c \<and> ci_Backend c \<in> {1, 2, 3, 4, 5, 6, 8, 9, 10} \<and>
        Backend_of r = (if ci_Backend c = ZksliteBackend then EthereumBackend else ci_Backend c)
    | Returns (Inl _) \<Rightarrow> ci_Backend c \<notin> {1, 2, 3, 4, 5, 6, 8, 9, 10}
    | Panics \<Rightarrow> True)"
  by (auto simp: GetRpc_def NewSuiRpc_def backend_defs split: option.splits client.splits)

text \<open>The clients of the nodes are asserted to be of the library of the chain.\<close>

definition EvmGetClient :: "ChainInfo \<Rightarrow> client outcome" where
  "EvmGetClient c = (case ci_Client c of Some (EvmClient u) \<Rightarrow> Returns (EvmClient u) | _ \<Rightarrow> Panics)"

definition StarknetGetClient :: "ChainInfo \<Rightarrow> client outcome" where
  "StarknetGetClient c = (case ci_Client c of Some (StarknetClient u) \<Rightarrow> Returns (StarknetClient u) | _ \<Rightarrow> Panics)"

definition SolanaGetClient :: "ChainInfo \<Rightarrow> client outcome" where
  "SolanaGetClient c = (case ci_Client c of Some (SolanaClient u) \<Rightarrow> Returns (SolanaClient u) | _ \<Rightarrow> Panics)"

definition FuelGetClient :: "ChainInfo \<Rightarrow> client outcome" where
  "FuelGetClient c = (case ci_Client c of Some (FuelClient u) \<Rightarrow> Returns (FuelClient u) | _ \<Rightarrow> Panics)"

lemmas get_client_defs = EvmGetClient_def StarknetGetClient_def SolanaGetClient_def FuelGetClient_def

section \<open>Addresses\<close>

definition IsAddressValid66 :: "string \<Rightarrow> bool" where
  \<comment> \<open>of the Starknet, Sui and Fuel clients\<close>
  "IsAddressValid66 addr = (HasPrefix addr ''0x'' \<and> length addr = 66 \<and> IsHex (drop 2 addr))"

definition BenfenIsAddressValid :: "string \<Rightarrow> bool" where
  "BenfenIsAddressValid addr = (HasPrefix addr ''BFC'' \<and> length addr = 71 \<and> IsHex (drop 3 addr))"

lemma HasPrefix_self [simp]: "HasPrefix (p @ s) p"
  by (simp add: HasPrefix_def)

definition StarknetGetChecksumAddress :: "(nat list \<Rightarrow> string) \<Rightarrow> string \<Rightarrow> string" where
  "StarknetGetChecksumAddress keccak addr =
     (case GetChecksumAddress64 keccak addr of Inl _ \<Rightarrow> [] | Inr caddr \<Rightarrow> caddr)"

definition FuelGetChecksumAddress :: "(string \<Rightarrow> nat list) \<Rightarrow> string \<Rightarrow> string" where
  "FuelGetChecksumAddress sha256 addr =
     (case GetFuelChecksumAddress sha256 addr of Inl _ \<Rightarrow> [] | Inr caddr \<Rightarrow> caddr)"

text \<open>
  Every address that \<open>GetChecksumAddress64\<close> returns is valid for the Starknet, Sui and Fuel
  clients, so \<open>GetChecksumAddress\<close> of the Starknet client gives a valid address or, when the argument
  is not an address, the empty string, which is not.
\<close>

theorem starknet_checksum_valid:
  "IsAddressValid66 (StarknetGetChecksumAddress keccak addr) \<longleftrightarrow> (\<exists>r. GetChecksumAddress64 keccak addr = Inr r)"
proof (cases "GetChecksumAddress64 keccak addr")
  case (Inl e)
  then show ?thesis by (simp add: StarknetGetChecksumAddress_def IsAddressValid66_def)
next
  case (Inr r)
  let ?c = "canonical64 addr"
  have zeros: "list_all IsHexCharacter (replicate n CHR ''0'')" for n
    by (induction n) (auto simp: IsHexCharacter_def is_digit_def)
  from Inr obtain hashed where "r = ''0x'' @ apply_case hashed (replicate (64 - length ?c) CHR ''0'' @ ?c)"
    "length ?c \<le> 64" "list_all IsHexCharacter ?c"
    using checksum64_Inr [of keccak ?c r] unfolding GetChecksumAddress64_canonical by blast
  with Inr zeros show ?thesis
    by (simp add: StarknetGetChecksumAddress_def IsAddressValid66_def IsHex_def HasPrefix_def)
qed

section \<open>Balances from JSON answers\<close>

fun json_field :: "json \<Rightarrow> string \<Rightarrow> json option" where
  \<comment> \<open>an index of a value asserted to be an object\<close>
  "json_field (JObj fs) k = map_of fs k"
| "json_field _ k = None"

definition json_int :: "json option \<Rightarrow> int option" where
  \<comment> \<open>a string field read as a decimal number\<close>
  "json_int j = (case j of Some (JStr s) \<Rightarrow> Int_SetString 10 s | _ \<Rightarrow> None)"

definition IsLastCharSlash :: "string \<Rightarrow> bool" where
  "IsLastCharSlash s = (s \<noteq> [] \<and> last s = CHR ''/'')"

definition zks_usdc :: string where
  "zks_usdc = ''0xA0b86991c6218b36c1d19D4a2e9Eb0cE3606eB48''"

definition zks_usdt :: string where
  "zks_usdt = ''0xdAC17F958D2ee523a2206206994597C13D831ec7''"

text \<open>\<open>post\<close> is \<open>network.Request\<close>: the answer to a method with its parameters.\<close>

type_synonym json_post = "string \<Rightarrow> string \<Rightarrow> string list \<Rightarrow> string + json"

definition ZksliteGetBalance :: "json_post \<Rightarrow> ChainInfo \<Rightarrow> string \<Rightarrow> string \<Rightarrow> int \<times> string option" where
  "ZksliteGetBalance post c ownerAddr tokenAddr =
     (let ownerAddr = TrimSpace ownerAddr; tokenAddr = TrimSpace tokenAddr;
          url = ci_RpcEndPoint c @ (if IsLastCharSlash (ci_RpcEndPoint c) then ''jsrpc'' else ''/jsrpc'')
      in if IsHexStringZero tokenAddr \<or> tokenAddr = zks_usdc \<or> tokenAddr = zks_usdt then
           (case post url ''account_info'' [ownerAddr] of
              Inl err \<Rightarrow> (0, Some err)
            | Inr data \<Rightarrow>
                (let balances = Option.bind (Option.bind (json_field data ''result'') (\<lambda>r. json_field r ''committed''))
                       (\<lambda>r. json_field r ''balances'');
                     name = (if IsHexStringZero tokenAddr then ''ETH''
                             else if tokenAddr = zks_usdc then ''USDC'' else ''USDT'')
                 in case json_int (Option.bind balances (\<lambda>b. json_field b name)) of
                      Some v \<Rightarrow> (v, None)
                    | None \<Rightarrow> (0, None)))
         else (0, Some ''not impl''))"

definition BenfenGetBalance :: "json_post \<Rightarrow> ChainInfo \<Rightarrow> string \<Rightarrow> string \<Rightarrow> int \<times> string option" where
  "BenfenGetBalance post c ownerAddr tokenAddr =
     (case post (ci_RpcEndPoint c) ''bfcx_getBalance'' [TrimSpace ownerAddr, TrimSpace tokenAddr] of
        Inl err \<Rightarrow> (0, Some err)
      | Inr data \<Rightarrow>
          (case json_int (Option.bind (json_field data ''result'') (\<lambda>r. json_field r ''totalBalance'')) of
             Some tb \<Rightarrow> (tb, None)
           | None \<Rightarrow> (0, Some ''result invalid'')))"

definition FuelGetBalance :: "(string \<Rightarrow> string \<Rightarrow> string + string) \<Rightarrow> string \<Rightarrow> string \<Rightarrow> string + int" where
  \<comment> \<open>\<open>run\<close> is the query of the amount for an owner and an asset\<close>
  "FuelGetBalance run ownerAddr tokenAddr =
     (case run ownerAddr tokenAddr of
        Inl err \<Rightarrow> Inl (''get balance err: '' @ err)
      | Inr amountStr \<Rightarrow>
          (case Int_SetString 10 amountStr of
             None \<Rightarrow> Inl (''invalid amount format: '' @ amountStr)
           | Some v \<Rightarrow> Inr v))"

lemma Int_SetString_10 [simp]: "Int_SetString 10 (FormatInt i) = Some i"
proof -
  have "nat_scan 10 False (utoa n) = Some (n, 10, int (length (utoa n)), [])" for n
    using scan_mant_digits [OF utoa_scannable(2), where rest = "[]" and n1 = n] utoa_scannable(1) [of n]
    by (simp add: nat_scan_def scan_prefix_def)
  then show ?thesis using scan_sign_utoa [of "nat i" "[]"] by (simp add: Int_SetString_def FormatInt_def)
qed

text \<open>
  A zkSync Lite balance is reported without an error exactly when the token is one of the three
  known and the node answers, an unreadable answer as zero; a Benfen balance exactly when the answer
  holds a readable number.
\<close>

theorem rpc_balance_errors:
  "(snd (ZksliteGetBalance post c owner tok) = None \<longleftrightarrow>
      (IsHexStringZero (TrimSpace tok) \<or> TrimSpace tok \<in> {zks_usdc, zks_usdt}) \<and>
      \<not> isl (post (ci_RpcEndPoint c @ (if IsLastCharSlash (ci_RpcEndPoint c) then ''jsrpc'' else ''/jsrpc''))
        ''account_info'' [TrimSpace owner])) \<and>
   (snd (BenfenGetBalance post c owner tok) = None \<longleftrightarrow>
      (\<exists>data. post (ci_RpcEndPoint c) ''bfcx_getBalance'' [TrimSpace owner, TrimSpace tok] = Inr data \<and>
        json_int (Option.bind (json_field data ''result'') (\<lambda>r. json_field r ''totalBalance'')) \<noteq> None))"
proof
  let ?u = "ci_RpcEndPoint c @ (if IsLastCharSlash (ci_RpcEndPoint c) then ''jsrpc'' else ''/jsrpc'')"
  show "snd (ZksliteGetBalance post c owner tok) = None \<longleftrightarrow>
      (IsHexStringZero (TrimSpace tok) \<or> TrimSpace tok \<in> {zks_usdc, zks_usdt}) \<and>
      \<not> isl (post ?u ''account_info'' [TrimSpace owner])"
    unfolding ZksliteGetBalance_def Let_def
    by (cases "post ?u ''account_info'' [TrimSpace owner]") (auto split: option.split)
  show "snd (BenfenGetBalance post c owner tok) = None \<longleftrightarrow>
      (\<exists>data. post (ci_RpcEndPoint c) ''bfcx_getBalance'' [TrimSpace owner, TrimSpace tok] = Inr data \<and>
        json_int (Option.bind (json_field data ''result'') (\<lambda>r. json_field r ''totalBalance'')) \<noteq> None)"
    by (auto simp: BenfenGetBalance_def split: sum.split option.split)
qed

section \<open>Sui\<close>

record sui_node =
  su_legs :: "string \<Rightarrow> json option"  \<comment> \<open>the tokens of \<open>legTokenStr\<close>\<close>
  su_CoinMetadata :: "string \<Rightarrow> string + (string \<times> int \<times> string \<times> string)"  \<comment> \<open>symbol, decimals, name, icon\<close>
  su_TotalSupply :: "string \<Rightarrow> string + string"
  su_Balance :: "string \<Rightarrow> string \<Rightarrow> string + string"

definition sui_coin :: "string \<Rightarrow> string" where
  "sui_coin tokenAddr = (if IsHexStringZero tokenAddr then ''0x2::sui::SUI'' else tokenAddr)"

definition SuiGetBalance :: "sui_node \<Rightarrow> string \<Rightarrow> string \<Rightarrow> string + int" where
  "SuiGetBalance nd ownerAddr tokenAddr =
     (case su_Balance nd (TrimSpace ownerAddr) (sui_coin (TrimSpace tokenAddr)) of
        Inl err \<Rightarrow> Inl err
      | Inr bal \<Rightarrow>
          (case Int_SetString 0 bal of
             None \<Rightarrow> Inl (''sui balance invalid '' @ bal)
           | Some num \<Rightarrow> Inr num))"

definition leg_token :: "(f64 \<Rightarrow> int) \<Rightarrow> ChainInfo \<Rightarrow> string \<Rightarrow> json \<Rightarrow> TokenInfo outcome" where
  \<comment> \<open>a field that is missing or of another type fails its type assertion\<close>
  "leg_token impl c tokenAddr legToken =
     (case (json_field legToken ''symbol'', json_field legToken ''decimals'', json_field legToken ''name'',
            json_field legToken ''iconUrl'') of
        (Some (JStr symbol), Some (JNum decimals), Some (JStr name), Some (JStr icon)) \<Rightarrow>
          Returns (zero_token
            \<lparr>ti_TokenName := symbol, ti_ChainName := ci_Name c, ti_TokenAddress := tokenAddr,
             ti_Decimals := f64_to_int 32 impl decimals, ti_FullName := name, ti_Icon := icon,
             ti_TotalSupply := Some 1000000000\<rparr>)
      | _ \<Rightarrow> Panics)"

text \<open>
  A coin that is not in the list: the supply is set on the token after it was stored, through the
  pointer the cache shares, so the stored token carries it too.
\<close>

definition sui_coin_info ::
  "sui_node \<Rightarrow> ChainInfo \<Rightarrow> string \<Rightarrow> TokenInfoManager \<Rightarrow> (string + TokenInfo) \<times> TokenInfoManager" where
  "sui_coin_info nd c tokenAddr mgr =
     (case GetByChainNameTokenAddr mgr (ci_Name c) tokenAddr of
        Some t \<Rightarrow> (Inr t, mgr)
      | None \<Rightarrow>
          (case su_CoinMetadata nd tokenAddr of
             Inl err \<Rightarrow> (Inl err, mgr)
           | Inr (symbol, decimals, name, icon) \<Rightarrow>
               (let t = zero_token
                      \<lparr>ti_TokenName := symbol, ti_ChainName := ci_Name c, ti_TokenAddress := tokenAddr,
                       ti_Decimals := wrap_s 32 decimals, ti_FullName := name, ti_Icon := icon,
                       ti_TotalSupply := (case su_TotalSupply nd tokenAddr of
                          Inl err \<Rightarrow> None | Inr v \<Rightarrow> Int_SetString 0 v)\<rparr>
                in (Inr t, AddTokenInfo t mgr))))"

definition SuiGetTokenInfo ::
  "(f64 \<Rightarrow> int) \<Rightarrow> sui_node \<Rightarrow> ChainInfo \<Rightarrow> string \<Rightarrow> TokenInfoManager \<Rightarrow>
   (string + TokenInfo) outcome \<times> TokenInfoManager" where
  "SuiGetTokenInfo impl nd c tokenAddr mgr =
     (let tokenAddr = TrimSpace tokenAddr
      in case su_legs nd tokenAddr of
           Some legToken \<Rightarrow>
             (case leg_token impl c tokenAddr legToken of Panics \<Rightarrow> Panics | Returns t \<Rightarrow> Returns (Inr t), mgr)
         | None \<Rightarrow> (case sui_coin_info nd c (sui_coin tokenAddr) mgr of (r, m) \<Rightarrow> (Returns r, m)))"

interpretation sui_source: token_source "\<lambda>nd. sui_coin_info nd c" "\<lambda>_. False" "ci_Name c" for c
  by unfold_locales (auto simp: sui_coin_info_def Let_def split: option.splits sum.splits prod.splits)

text \<open>
  Once the information of a coin was fetched from the Sui node, later requests for it return the
  same token, its supply included, without asking the node: also when the supply request failed, so
  that a coin fetched while it failed stays without a supply.
\<close>

theorem sui_token_cached:
  assumes "SuiGetTokenInfo impl nd c a m = (Returns (Inr t), m')" and "su_legs nd (TrimSpace a) = None"
    and "su_legs nd' (TrimSpace a) = None" and "TrimSpace (ci_Name c) = ci_Name c"
  shows "SuiGetTokenInfo impl' nd' c a m' = (Returns (Inr t), m')"
proof -
  have "TrimSpace (sui_coin (TrimSpace a)) = sui_coin (TrimSpace a)" by (simp add: sui_coin_def) code_simp
  moreover from assms(1,2) have "sui_coin_info nd c (sui_coin (TrimSpace a)) m = (Inr t, m')"
    by (auto simp: SuiGetTokenInfo_def Let_def split: prod.splits)
  ultimately have "sui_coin_info nd' c (sui_coin (TrimSpace a)) m' = (Inr t, m')"
    using sui_source.cached assms(4) by blast
  with assms(3) show ?thesis by (simp add: SuiGetTokenInfo_def Let_def)
qed

definition sample_sui_node :: sui_node where
  "sample_sui_node =
     \<lparr>su_legs = (\<lambda>_. None), su_CoinMetadata = (\<lambda>_. Inr (''SUI'', 9, ''Sui'', [])),
      su_TotalSupply = (\<lambda>_. Inl ''down''), su_Balance = (\<lambda>_ _. Inr ''010'')\<rparr>"

theorem sui_token_cached_witness:
  "let c = sample_chain\<lparr>ci_Name := ''Sui''\<rparr>;
       r = SuiGetTokenInfo (\<lambda>_. 0) sample_sui_node c ''0x0'' NewTokenInfoManager
   in SuiGetTokenInfo (\<lambda>_. 0) (sample_sui_node\<lparr>su_CoinMetadata := (\<lambda>_. Inl ''down'')\<rparr>) c ''0x0'' (snd r) =
        (fst r, snd r) \<and>
      (\<exists>t. fst r = Returns (Inr t) \<and> ti_TotalSupply t = None)"
proof -
  let ?c = "sample_chain\<lparr>ci_Name := ''Sui''\<rparr>" and ?d = "sample_sui_node\<lparr>su_CoinMetadata := (\<lambda>_. Inl ''down'')\<rparr>"
  obtain t m where r: "SuiGetTokenInfo (\<lambda>_. 0) sample_sui_node ?c ''0x0'' NewTokenInfoManager = (Returns (Inr t), m)"
    and s: "ti_TotalSupply t = None"
    by (simp add: SuiGetTokenInfo_def sui_coin_info_def sample_sui_node_def Let_def)
  have n: "TrimSpace ''Sui'' = ''Sui''" by code_simp
  have "SuiGetTokenInfo (\<lambda>_. 0) ?d ?c ''0x0'' m = (Returns (Inr t), m)"
    by (rule sui_token_cached [OF r]) (simp_all add: sample_sui_node_def n)
  then show ?thesis by (simp add: Let_def r s)
qed

section \<open>Balances that are read back\<close>

text \<open>
  A balance that the node of a Benfen, Fuel or Sui chain prints in decimal is reported exactly,
  whatever its size and sign.
\<close>

theorem rpc_balance_roundtrip:
  "BenfenGetBalance (\<lambda>_ _ _. Inr (JObj [(''result'', JObj [(''totalBalance'', JStr (FormatInt v))])])) c owner tok = (v, None) \<and>
   FuelGetBalance (\<lambda>_ _. Inr (FormatInt v)) owner tok = Inr v \<and>
   SuiGetBalance (nd\<lparr>su_Balance := \<lambda>_ _. Inr (FormatInt v)\<rparr>) owner tok = Inr v"
  by (simp add: BenfenGetBalance_def FuelGetBalance_def SuiGetBalance_def json_int_def Int_SetString_FormatInt)

lemma sui_balance_octal:
  \<comment> \<open>the Sui client detects the base: a leading zero makes the balance octal\<close>
  "SuiGetBalance sample_sui_node owner tok = Inr 8"
proof -
  have "Int_SetString 0 ''010'' = Some 8" by code_simp
  then show ?thesis by (simp add: SuiGetBalance_def sample_sui_node_def)
qed

section \<open>Bitcoin\<close>

record chainServerBearer =
  cs_Server :: string
  cs_MemPoolServer :: string
  cs_Bearer :: string
  cs_Timeout :: int
  cs_QueryInterval :: int

record unisat_balance =
  ub_Code :: int
  ub_Message :: string
  ub_Satoshi :: int

record unisat_tick =
  ut_Code :: int
  ut_Message :: string
  ut_OverallBalance :: string

record btc_services =
  bs_Config :: "string + (string \<rightharpoonup> chainServerBearer)"  \<comment> \<open>of Apollo, parsed\<close>
  bs_AddressBalance :: "string \<Rightarrow> string \<Rightarrow> string \<Rightarrow> string + unisat_balance"
  bs_TickInfo :: "string \<Rightarrow> string \<Rightarrow> string \<Rightarrow> string \<Rightarrow> string + unisat_tick"
  bs_DecodeAddress :: "string \<Rightarrow> bool \<Rightarrow> string option"  \<comment> \<open>for the test network; the address printed\<close>

definition BtcIsAddressValid :: "btc_services \<Rightarrow> ChainInfo \<Rightarrow> string \<Rightarrow> bool" where
  "BtcIsAddressValid bs c addr = (bs_DecodeAddress bs addr (ci_IsTestnet c = 1) \<noteq> None)"

definition BtcGetChecksumAddress :: "btc_services \<Rightarrow> ChainInfo \<Rightarrow> string \<Rightarrow> string outcome" where
  \<comment> \<open>the error is dropped and the method called on a nil interface\<close>
  "BtcGetChecksumAddress bs c addr =
     (case bs_DecodeAddress bs addr (ci_IsTestnet c = 1) of None \<Rightarrow> Panics | Some a \<Rightarrow> Returns a)"

definition BtcGetBalance :: "btc_services \<Rightarrow> ChainInfo \<Rightarrow> string \<Rightarrow> string \<Rightarrow> (int option \<times> string option) outcome" where
  "BtcGetBalance bs c ownerAddr tokenAddr =
     (let ownerAddr = TrimSpace ownerAddr; tokenAddr = TrimSpace tokenAddr
      in case bs_Config bs of
           Inl err \<Rightarrow> Returns (None, Some err)
         | Inr unisatAPIConfig \<Rightarrow>
             if IsHexStringZero tokenAddr then
               (case unisatAPIConfig (ci_Name c) of
                  None \<Rightarrow> Panics
                | Some s \<Rightarrow>
                    (case bs_AddressBalance bs (cs_Server s) (cs_Bearer s) ownerAddr of
                       Inl err \<Rightarrow> Returns (None, Some err)
                     | Inr resp \<Rightarrow>
                         if ub_Code resp \<noteq> 0
                         then Returns (None, Some (''unisat GetAddressBalance error: '' @ ub_Message resp))
                         else Returns (Some (ub_Satoshi resp), None)))
             else if HasPrefix tokenAddr ''brc20_'' \<and> 6 < length tokenAddr then
               (case unisatAPIConfig (ci_Name c) of
                  None \<Rightarrow> Panics
                | Some s \<Rightarrow>
                    (case bs_TickInfo bs (cs_Server s) (cs_Bearer s) ownerAddr (drop 6 tokenAddr) of
                       Inl err \<Rightarrow> Returns (None, Some err)
                     | Inr resp \<Rightarrow>
                         if ut_Code resp \<noteq> 0
                         then Returns (None, Some (''unisat GetAddressBrc20TickInfo error: '' @ ut_Message resp))
                         else (case Int_SetString 10 (ut_OverallBalance resp) of
                                 Some balance \<Rightarrow> Returns (Some balance, None)
                               | None \<Rightarrow> Returns (Some 0, None))))
             else Returns (Some 0, Some ''not impl''))"

text \<open>
  A Bitcoin client panics instead of returning an error exactly when its address does not decode,
  or when the configuration was read but has no entry for the chain and the token is native or BRC-20.
\<close>

theorem btc_panics:
  "(BtcGetChecksumAddress bs c addr = Panics \<longleftrightarrow> \<not> BtcIsAddressValid bs c addr) \<and>
   (BtcGetBalance bs c owner tok = Panics \<longleftrightarrow>
      (\<exists>cfg. bs_Config bs = Inr cfg \<and> cfg (ci_Name c) = None) \<and>
      (IsHexStringZero (TrimSpace tok) \<or> HasPrefix (TrimSpace tok) ''brc20_'' \<and> 6 < length (TrimSpace tok)))"
proof
  show "BtcGetChecksumAddress bs c addr = Panics \<longleftrightarrow> \<not> BtcIsAddressValid bs c addr"
    by (simp add: BtcGetChecksumAddress_def BtcIsAddressValid_def split: option.split)
  show "BtcGetBalance bs c owner tok = Panics \<longleftrightarrow>
      (\<exists>cfg. bs_Config bs = Inr cfg \<and> cfg (ci_Name c) = None) \<and>
      (IsHexStringZero (TrimSpace tok) \<or> HasPrefix (TrimSpace tok) ''brc20_'' \<and> 6 < length (TrimSpace tok))"
    unfolding BtcGetBalance_def Let_def by (auto split: sum.splits option.splits)
qed

section \<open>Starknet\<close>

datatype finality = AcceptedOnL2 | AcceptedOnL1 | OtherFinality string

record starknet_receipt =
  sr_FinalityStatus :: finality
  sr_Succeeded :: bool
  sr_BlockNumber :: int  \<comment> \<open>64 bits, unsigned\<close>

record starknet_node =
  st_HexToFelt :: "string \<Rightarrow> string + int"
  st_BalanceOf :: "int \<Rightarrow> int \<Rightarrow> string + int list"  \<comment> \<open>the call \<open>balanceOf\<close> of a token for an owner\<close>
  st_DecodeHex :: "string \<Rightarrow> string + nat list"
  st_Receipt :: "nat list \<Rightarrow> string + starknet_receipt option"

definition StarknetGetBalance :: "starknet_node \<Rightarrow> string \<Rightarrow> string \<Rightarrow> string + int" where
  "StarknetGetBalance nd ownerAddr tokenAddr =
     (case st_HexToFelt nd (TrimSpace tokenAddr) of Inl err \<Rightarrow> Inl err | Inr token \<Rightarrow>
     (case st_HexToFelt nd (TrimSpace ownerAddr) of Inl err \<Rightarrow> Inl err | Inr owner \<Rightarrow>
     (case st_BalanceOf nd token owner of Inl err \<Rightarrow> Inl err | Inr rsp \<Rightarrow>
        (if rsp \<noteq> [] then Inr (hd rsp) else Inr 0))))"

definition StarknetIsTxSuccess :: "starknet_node \<Rightarrow> string \<Rightarrow> bool \<times> int \<times> string option" where
  "StarknetIsTxSuccess nd hash =
     (case st_DecodeHex nd hash of
        Inl err \<Rightarrow> (False, 0, Some err)
      | Inr bhash \<Rightarrow>
          (case st_Receipt nd bhash of
             Inl err \<Rightarrow> (False, 0, Some err)
           | Inr None \<Rightarrow> (False, 0, Some ''get status failed'')
           | Inr (Some r) \<Rightarrow>
               (case sr_FinalityStatus r of
                  OtherFinality st \<Rightarrow> (False, 0, Some (''unknown tx status: '' @ st))
                | _ \<Rightarrow> if sr_Succeeded r then (True, wrap_s 64 (sr_BlockNumber r), None)
                       else (False, wrap_s 64 (sr_BlockNumber r), None))))"

section \<open>Fuel\<close>

record fuel_status =
  fs_Success :: "int option"  \<comment> \<open>the block height of a successful transaction\<close>
  fs_Failure :: "int option"

definition FuelIsTxSuccess ::
  "(string \<Rightarrow> string + fuel_status option option) \<Rightarrow> string \<Rightarrow> (bool \<times> int \<times> string option) outcome" where
  \<comment> \<open>the transaction and its status are pointers; the status is read without a check\<close>
  "FuelIsTxSuccess getTransaction hash =
     (case getTransaction hash of
        Inl err \<Rightarrow> Returns (False, 0, Some err)
      | Inr None \<Rightarrow> Returns (False, 0, Some (''not found fuel tx: '' @ hash))
      | Inr (Some None) \<Rightarrow> Panics
      | Inr (Some (Some st)) \<Rightarrow>
          Returns (case fs_Success st of
             Some h \<Rightarrow> (True, wrap_s 64 h, None)
           | None \<Rightarrow>
               (case fs_Failure st of
                  Some h \<Rightarrow> (False, wrap_s 64 h, None)
                | None \<Rightarrow> (False, 0, Some (''fuel tx: '' @ hash @ '' is pending'')))))"

text \<open>
  A transaction counts as successful only when the node reports it executed, on Starknet also
  accepted; a transaction not yet final is an error, never a failure; and a Fuel transaction that comes
  without a status makes the call panic.
\<close>

theorem rpc_tx_status:
  "(fst (StarknetIsTxSuccess nd hash) \<longleftrightarrow>
      (\<exists>b r. st_DecodeHex nd hash = Inr b \<and> st_Receipt nd b = Inr (Some r) \<and>
        sr_FinalityStatus r \<in> {AcceptedOnL2, AcceptedOnL1} \<and> sr_Succeeded r)) \<and>
   (snd (snd (StarknetIsTxSuccess nd hash)) = None \<longleftrightarrow>
      (\<exists>b r. st_DecodeHex nd hash = Inr b \<and> st_Receipt nd b = Inr (Some r) \<and>
        sr_FinalityStatus r \<in> {AcceptedOnL2, AcceptedOnL1})) \<and>
   ((\<exists>n e. FuelIsTxSuccess getTransaction hash = Returns (True, n, e)) \<longleftrightarrow>
      (\<exists>st h. getTransaction hash = Inr (Some (Some st)) \<and> fs_Success st = Some h)) \<and>
   ((\<exists>ok n. FuelIsTxSuccess getTransaction hash = Returns (ok, n, None)) \<longleftrightarrow>
      (\<exists>st h. getTransaction hash = Inr (Some (Some st)) \<and> (fs_Success st = Some h \<or> fs_Failure st = Some h))) \<and>
   (FuelIsTxSuccess getTransaction hash = Panics \<longleftrightarrow> getTransaction hash = Inr (Some None))"
  by (auto simp: StarknetIsTxSuccess_def FuelIsTxSuccess_def split: sum.split option.split finality.split)

section \<open>TON\<close>

text \<open>The client is created by the first call that needs it and kept in the chain information.\<close>

record 'a ton_services =
  to_Connect :: "string \<Rightarrow> string option"  \<comment> \<open>the error of connecting\<close>
  to_ParseAddr :: "string \<Rightarrow> string + 'a"
  to_MasterchainInfo :: "string + int"
  to_AccountBalance :: "'a \<Rightarrow> string + int option"  \<comment> \<open>of the state of the account, nil when it does not exist\<close>
  to_JettonWallet :: "'a \<Rightarrow> 'a \<Rightarrow> string + 'a"
  to_WalletBalance :: "'a \<Rightarrow> string + int"

definition TonGetClient :: "'a ton_services \<Rightarrow> ChainInfo \<Rightarrow> (string + unit) outcome \<times> ChainInfo" where
  "TonGetClient ts c =
     (case ci_Client c of
        None \<Rightarrow>
          (case to_Connect ts (ci_RpcEndPoint c) of
             Some err \<Rightarrow> (Returns (Inl (''error connecting to ton '' @ err)), c)
           | None \<Rightarrow> (Returns (Inr ()), c\<lparr>ci_Client := Some (TonClient (ci_RpcEndPoint c))\<rparr>))
      | Some (TonClient _) \<Rightarrow> (Returns (Inr ()), c)
      | Some _ \<Rightarrow> (Panics, c))"

definition TonIsAddressValid :: "'a ton_services \<Rightarrow> string \<Rightarrow> bool" where
  "TonIsAddressValid ts addr = (\<not> isl (to_ParseAddr ts addr))"

definition ton_balance :: "'a ton_services \<Rightarrow> 'a \<Rightarrow> string \<Rightarrow> (string + int) outcome" where
  \<comment> \<open>once the client is there; the balance is read through the nil state of an account that does not exist\<close>
  "ton_balance ts addr tokenAddr =
     (if IsNativeAddress tokenAddr then
        (case to_MasterchainInfo ts of Inl err \<Rightarrow> Returns (Inl err) | Inr block \<Rightarrow>
        (case to_AccountBalance ts addr of
           Inl err \<Rightarrow> Returns (Inl err)
         | Inr None \<Rightarrow> Panics
         | Inr (Some balance) \<Rightarrow> Returns (Inr balance)))
      else
        Returns (case to_ParseAddr ts tokenAddr of Inl err \<Rightarrow> Inl err | Inr minterAddr \<Rightarrow>
        (case to_JettonWallet ts minterAddr addr of Inl err \<Rightarrow> Inl err | Inr walletClient \<Rightarrow>
           to_WalletBalance ts walletClient)))"

definition TonGetBalance ::
  "'a ton_services \<Rightarrow> ChainInfo \<Rightarrow> string \<Rightarrow> string \<Rightarrow> (string + int) outcome \<times> ChainInfo" where
  "TonGetBalance ts c ownerAddr tokenAddr =
     (case to_ParseAddr ts ownerAddr of
        Inl err \<Rightarrow> (Returns (Inl err), c)
      | Inr addr \<Rightarrow>
          (case TonGetClient ts c of
             (Panics, c) \<Rightarrow> (Panics, c)
           | (Returns (Inl err), c) \<Rightarrow> (Returns (Inl err), c)
           | (Returns (Inr _), c) \<Rightarrow> (ton_balance ts addr tokenAddr, c)))"

definition stateless :: "'a ton_services \<Rightarrow> 'a \<Rightarrow> string \<Rightarrow> bool" where
  \<comment> \<open>the native balance is asked of an account that the node says does not exist\<close>
  "stateless ts addr tokenAddr \<longleftrightarrow>
     IsNativeAddress tokenAddr \<and> \<not> isl (to_MasterchainInfo ts) \<and> to_AccountBalance ts addr = Inr None"

lemma ton_balance_panics: "ton_balance ts addr tokenAddr = Panics \<longleftrightarrow> stateless ts addr tokenAddr"
  by (auto simp: ton_balance_def stateless_def split: sum.split option.split)

text \<open>
  The TON client is made at most once: after a call that got one, a later call neither connects
  again nor changes the chain information, even when connecting would now fail; a failed connection
  leaves the chain information as it was, so the next call tries again.
\<close>

theorem ton_connects_once:
  "case TonGetClient ts c of
     (Returns (Inr _), c') \<Rightarrow> TonGetClient ts' c' = (Returns (Inr ()), c')
   | (Returns (Inl _), c') \<Rightarrow> c' = c \<and> ci_Client c = None
   | (Panics, c') \<Rightarrow> c' = c \<and> ci_Client c \<noteq> None"
  by (simp add: TonGetClient_def split: option.split client.split)

end
