(* ===== verification/RpcInterface.thy ===== *)
theory RpcInterface
  imports EvmRpc SolanaRpc ChainRpcs
begin

text \<open>
  The interface \<open>Rpc\<close> of \<open>src/rpc/rpc.go\<close>: its operations on a client of any chain, as a caller that has the
  client from \<open>GetRpc\<close> invokes them. The operations of the clients are those of \<open>EvmRpc\<close>, \<open>SolanaRpc\<close> and
  \<open>ChainRpcs\<close>; the ones that only report that they are not implemented are here. A client is its chain
  information with the token manager of its own; an operation returns the client as it leaves it. An
  operation that gets as far as asking the node calls \<open>GetClient\<close>, whose assertion on the type of the
  node's client panics for a nil client and for the client of another library (\<open>at_client\<close>); the
  predicates \<open>starknet_asks\<close> to \<open>sol_token_asks\<close> say how far the operations get before. A nil result is
  \<open>None\<close>. What a node answers has the type of the answer; nil pointers inside an answer are modelled
  where the code reads through them.
\<close>

section \<open>Operations that are not implemented\<close>

definition StarknetGetTokenInfo :: "string + TokenInfo" where
  "StarknetGetTokenInfo = Inl ''no impl''"

definition StarknetGetAllowance :: "int option \<times> string option" where
  "StarknetGetAllowance = (None, Some ''starknet get allowance unsupport'')"

definition BtcGetTokenInfo :: "string + TokenInfo" where
  "BtcGetTokenInfo = Inl ''no impl''"

definition BtcGetAllowance :: "int option \<times> string option" where
  "BtcGetAllowance = (Some 0, Some ''not impl'')"

definition BtcIsTxSuccess :: "bool \<times> int \<times> string option" where
  "BtcIsTxSuccess = (False, 0, Some ''not impl'')"

definition BtcGetLatestBlockNumber :: "int \<times> string option" where
  "BtcGetLatestBlockNumber = (0, Some ''not impl'')"

definition ZksliteGetTokenInfo :: "string + TokenInfo" where
  "ZksliteGetTokenInfo = Inl ''no impl''"

definition ZksliteGetAllowance :: "int option \<times> string option" where
  "ZksliteGetAllowance = (Some 0, Some ''not impl'')"

definition ZksliteIsTxSuccess :: "bool \<times> int \<times> string option" where
  "ZksliteIsTxSuccess = (False, 0, Some ''not impl'')"

definition ZksliteGetLatestBlockNumber :: "int \<times> string option" where
  "ZksliteGetLatestBlockNumber = (0, Some ''not impl'')"

definition BenfenGetTokenInfo :: "string + TokenInfo" where
  "BenfenGetTokenInfo = Inl ''no impl''"

definition BenfenGetAllowance :: "int option \<times> string option" where
  "BenfenGetAllowance = (Some 0, Some ''not impl'')"

definition BenfenIsTxSuccess :: "bool \<times> int \<times> string option" where
  "BenfenIsTxSuccess = (False, 0, Some ''not impl'')"

definition BenfenGetLatestBlockNumber :: "int \<times> string option" where
  "BenfenGetLatestBlockNumber = (0, Some ''not impl'')"


definition SuiGetAllowance :: "int option \<times> string option" where
  "SuiGetAllowance = (Some 0, Some ''not impl'')"

definition SuiIsTxSuccess :: "bool \<times> int \<times> string option" where
  "SuiIsTxSuccess = (False, 0, Some ''not impl'')"

definition SuiGetLatestBlockNumber :: "int \<times> string option" where
  "SuiGetLatestBlockNumber = (0, Some ''not impl'')"


definition FuelGetAllowance :: "int option \<times> string option" where
  "FuelGetAllowance = (None, Some ''not implement'')"

definition FuelGetTokenInfo :: "string + TokenInfo" where
  "FuelGetTokenInfo = Inl ''not implement''"

definition TonIsTxSuccess :: "bool \<times> int \<times> string option" where
  "TonIsTxSuccess = (False, 0, Some ''not implement'')"

definition TonGetAllowance :: "int option \<times> string option" where
  "TonGetAllowance = (None, Some ''not implement'')"

definition TonGetTokenInfo :: "string + TokenInfo" where
  "TonGetTokenInfo = Inl ''not implement''"

lemmas not_implemented_defs =
  StarknetGetTokenInfo_def StarknetGetAllowance_def BtcGetTokenInfo_def BtcGetAllowance_def BtcIsTxSuccess_def
  BtcGetLatestBlockNumber_def ZksliteGetTokenInfo_def ZksliteGetAllowance_def ZksliteIsTxSuccess_def
  ZksliteGetLatestBlockNumber_def BenfenGetTokenInfo_def BenfenGetAllowance_def BenfenIsTxSuccess_def
  BenfenGetLatestBlockNumber_def SuiGetAllowance_def SuiIsTxSuccess_def SuiGetLatestBlockNumber_def
  FuelGetAllowance_def FuelGetTokenInfo_def TonIsTxSuccess_def TonGetAllowance_def TonGetTokenInfo_def

section \<open>Operations of single clients\<close>

definition block_number :: "string + int \<Rightarrow> int \<times> string option" where
  "block_number r = (case r of Inl err \<Rightarrow> (0, Some err) | Inr n \<Rightarrow> (wrap_s 64 n, None))"

definition StarknetGetLatestBlockNumber :: "string + int \<Rightarrow> int \<times> string option" where
  "StarknetGetLatestBlockNumber blockNumber = block_number blockNumber"

definition FuelGetLatestBlockNumber :: "string + int \<Rightarrow> int \<times> string option" where
  "FuelGetLatestBlockNumber blockNumber = block_number blockNumber"

definition TonGetLatestBlockNumber ::
  "'a ton_services \<Rightarrow> ChainInfo \<Rightarrow> (int \<times> string option) outcome \<times> ChainInfo" where
  "TonGetLatestBlockNumber ts c =
     (case TonGetClient ts c of
        (Panics, c) \<Rightarrow> (Panics, c)
      | (Returns (Inl err), c) \<Rightarrow> (Returns (0, Some err), c)
      | (Returns (Inr _), c) \<Rightarrow> (Returns (block_number (to_MasterchainInfo ts)), c))"


section \<open>The interface\<close>

definition at_client :: "client outcome \<Rightarrow> bool \<Rightarrow> 'b outcome \<Rightarrow> 'b outcome" where
  \<comment> \<open>the rest of an operation that calls \<open>GetClient\<close> if it gets that far\<close>
  "at_client getClient asks rest = (if asks \<and> getClient = Panics then Panics else rest)"

definition or_panic :: "'b option \<Rightarrow> 'b outcome" where
  "or_panic r = (case r of None \<Rightarrow> Panics | Some v \<Rightarrow> Returns v)"

definition parses :: "'e + 'b \<Rightarrow> bool" where
  "parses r = (\<not> isl r)"

definition starknet_asks :: "starknet_node \<Rightarrow> string \<Rightarrow> string \<Rightarrow> bool" where
  \<comment> \<open>\<open>GetBalance\<close> of the Starknet client: both addresses are numbers\<close>
  "starknet_asks nd ownerAddr tokenAddr =
     (parses (st_HexToFelt nd (TrimSpace tokenAddr)) \<and> parses (st_HexToFelt nd (TrimSpace ownerAddr)))"

definition spl_asks :: "sol_node \<Rightarrow> string \<Rightarrow> string \<Rightarrow> bool" where
  \<comment> \<open>\<open>GetSplAccount\<close>: both keys decode and the two token accounts can be derived\<close>
  "spl_asks nd ownerAddr tokenAddr =
     (case (sn_FromBase58 nd (TrimSpace ownerAddr), sn_FromBase58 nd (TrimSpace tokenAddr)) of
        (Inr ownerpk, Inr mintpk) \<Rightarrow>
          parses (sn_AssociatedAddress nd ownerpk mintpk) \<and> parses (sn_Associated2022Address nd ownerpk mintpk)
      | _ \<Rightarrow> False)"

definition sol_balance_asks :: "sol_node \<Rightarrow> string \<Rightarrow> string \<Rightarrow> bool" where
  "sol_balance_asks nd ownerAddr tokenAddr =
     (let ownerAddr = TrimSpace ownerAddr; tokenAddr = TrimSpace tokenAddr
      in if IsSolNative tokenAddr then parses (sn_FromBase58 nd (TrimSpace ownerAddr))
         else spl_asks nd ownerAddr tokenAddr)"

definition evm_token_asks :: "ChainInfo \<Rightarrow> string \<Rightarrow> TokenInfoManager \<Rightarrow> bool" where
  "evm_token_asks c tokenAddr mgr =
     (\<not> IsHexStringZero tokenAddr \<and> GetByChainNameTokenAddr mgr (ci_Name c) tokenAddr = None)"

definition sol_token_asks :: "sol_node \<Rightarrow> ChainInfo \<Rightarrow> string \<Rightarrow> TokenInfoManager \<Rightarrow> bool" where
  "sol_token_asks nd c tokenAddr mgr =
     (\<not> IsSolNative tokenAddr \<and> GetByChainNameTokenAddr mgr (ci_Name c) tokenAddr = None \<and>
      (case sn_FromBase58 nd tokenAddr of Inl _ \<Rightarrow> False | Inr mintpk \<Rightarrow> parses (sn_MetadataAddress nd mintpk)))"

lemma at_client_panics [simp]: "at_client g asks r = Panics \<longleftrightarrow> asks \<and> g = Panics \<or> r = Panics"
  by (auto simp: at_client_def)

lemma at_client_returns [simp]: "at_client g asks r = Returns v \<longleftrightarrow> \<not> (asks \<and> g = Panics) \<and> r = Returns v"
  by (simp add: at_client_def)

lemma or_panic_simps [simp]: "or_panic r = Panics \<longleftrightarrow> r = None" "or_panic r = Returns v \<longleftrightarrow> r = Some v"
  by (simp_all add: or_panic_def split: option.split)

record ('a, 's) rpc_world =
  w_IsHexAddress :: "string \<Rightarrow> bool"
  w_HexToAddressHex :: "string \<Rightarrow> string"
  w_evm :: evm_node
  w_evm_batch :: "string \<Rightarrow> string + erc20_answers"
  w_starknet :: starknet_node
  w_starknet_block :: "string + int"
  w_keccak :: "nat list \<Rightarrow> string"
  w_solana :: sol_node
  w_sol_signature :: "string \<Rightarrow> string + 's"
  w_sol_transaction :: "'s \<Rightarrow> string + sol_receipt option"
  w_sol_slot :: "string + int"
  w_bitcoin :: btc_services
  w_post :: json_post
  w_ton :: "'a ton_services"
  w_ton_string :: "'a \<Rightarrow> string"
  w_sui :: sui_node
  w_float_int :: "f64 \<Rightarrow> int"
  w_fuel_run :: "string \<Rightarrow> string \<Rightarrow> string + string"
  w_fuel_transaction :: "string \<Rightarrow> string + fuel_status option option"
  w_fuel_block :: "string + int"
  w_sha256 :: "string \<Rightarrow> nat list"

record rpc_state =
  rs_client :: rpc_client
  rs_tokens :: TokenInfoManager

definition value_or_nil :: "string + 'b \<Rightarrow> 'b option \<times> string option" where
  "value_or_nil r = (case r of Inl err \<Rightarrow> (None, Some err) | Inr v \<Rightarrow> (Some v, None))"

definition with_value :: "int \<times> string option \<Rightarrow> int option \<times> string option" where
  "with_value r = (Some (fst r), snd r)"

definition ton_value :: "(string + int) outcome \<Rightarrow> (int option \<times> string option) outcome" where
  "ton_value r = (case r of Panics \<Rightarrow> Panics | Returns r \<Rightarrow> Returns (value_or_nil r))"

definition Rpc_GetBalance ::
  "('a, 's) rpc_world \<Rightarrow> string \<Rightarrow> string \<Rightarrow> rpc_state \<Rightarrow> (int option \<times> string option) outcome \<times> rpc_state" where
  "Rpc_GetBalance w owner token s =
     (case rs_client s of
        EvmRpc c \<Rightarrow>
          (at_client (EvmGetClient c) True (Returns (value_or_nil (EvmGetBalance (w_evm w) owner token))), s)
      | StarknetRpc c \<Rightarrow>
          (at_client (StarknetGetClient c) (starknet_asks (w_starknet w) owner token)
             (Returns (value_or_nil (StarknetGetBalance (w_starknet w) owner token))), s)
      | SolanaRpc c \<Rightarrow>
          (at_client (SolanaGetClient c) (sol_balance_asks (w_solana w) owner token)
             (Returns (value_or_nil (map_sum sol_err_string id (SolGetBalance (w_solana w) owner token)))), s)
      | BitcoinRpc c \<Rightarrow> (BtcGetBalance (w_bitcoin w) c owner token, s)
      | ZksliteRpc c \<Rightarrow> (Returns (with_value (ZksliteGetBalance (w_post w) c owner token)), s)
      | TonRpc c \<Rightarrow>
          (case TonGetBalance (w_ton w) c owner token of
             (r, c) \<Rightarrow> (ton_value r, s\<lparr>rs_client := TonRpc c\<rparr>))
      | BenfenRpc c \<Rightarrow> (Returns (with_value (BenfenGetBalance (w_post w) c owner token)), s)
      | SuiRpc c \<Rightarrow> (Returns (value_or_nil (SuiGetBalance (w_sui w) owner token)), s)
      | FuelRpc c \<Rightarrow> (Returns (value_or_nil (FuelGetBalance (w_fuel_run w) owner token)), s))"

definition Rpc_GetBalanceAtBlockNumber ::
  "('a, 's) rpc_world \<Rightarrow> string \<Rightarrow> string \<Rightarrow> int \<Rightarrow> rpc_state \<Rightarrow>
   (int option \<times> string option) outcome \<times> rpc_state" where
  "Rpc_GetBalanceAtBlockNumber w owner token blockNumber s =
     (case rs_client s of
        EvmRpc c \<Rightarrow>
          (at_client (EvmGetClient c) True
             (Returns (value_or_nil (EvmGetBalanceAtBlockNumber (w_evm w) owner token blockNumber))), s)
      | _ \<Rightarrow> Rpc_GetBalance w owner token s)"

definition Rpc_GetAllowance ::
  "('a, 's) rpc_world \<Rightarrow> string \<Rightarrow> string \<Rightarrow> string \<Rightarrow> rpc_state \<Rightarrow> (int option \<times> string option) outcome" where
  "Rpc_GetAllowance w owner token spender s =
     (case rs_client s of
        EvmRpc c \<Rightarrow>
          at_client (EvmGetClient c) True (Returns (value_or_nil (EvmGetAllowance (w_evm w) owner token spender)))
      | StarknetRpc c \<Rightarrow> Returns StarknetGetAllowance
      | SolanaRpc c \<Rightarrow>
          at_client (SolanaGetClient c) (spl_asks (w_solana w) owner token)
            (Returns (value_or_nil (map_sum sol_err_string id (SolGetAllowance (w_solana w) owner token spender))))
      | BitcoinRpc c \<Rightarrow> Returns BtcGetAllowance
      | ZksliteRpc c \<Rightarrow> Returns ZksliteGetAllowance
      | TonRpc c \<Rightarrow> Returns TonGetAllowance
      | BenfenRpc c \<Rightarrow> Returns BenfenGetAllowance
      | SuiRpc c \<Rightarrow> Returns SuiGetAllowance
      | FuelRpc c \<Rightarrow> Returns FuelGetAllowance)"

definition Rpc_IsTxSuccess ::
  "('a, 's) rpc_world \<Rightarrow> string \<Rightarrow> rpc_state \<Rightarrow> (bool \<times> int \<times> string option) outcome" where
  "Rpc_IsTxSuccess w hash s =
     (case rs_client s of
        EvmRpc c \<Rightarrow> at_client (EvmGetClient c) True (or_panic (EvmIsTxSuccess (w_evm w) hash))
      | StarknetRpc c \<Rightarrow>
          at_client (StarknetGetClient c) (parses (st_DecodeHex (w_starknet w) hash))
            (Returns (StarknetIsTxSuccess (w_starknet w) hash))
      | SolanaRpc c \<Rightarrow>
          at_client (SolanaGetClient c) (parses (w_sol_signature w hash))
            (or_panic (SolIsTxSuccess (w_sol_signature w) (w_sol_transaction w) hash))
      | BitcoinRpc c \<Rightarrow> Returns BtcIsTxSuccess
      | ZksliteRpc c \<Rightarrow> Returns ZksliteIsTxSuccess
      | TonRpc c \<Rightarrow> Returns TonIsTxSuccess
      | BenfenRpc c \<Rightarrow> Returns BenfenIsTxSuccess
      | SuiRpc c \<Rightarrow> Returns SuiIsTxSuccess
      | FuelRpc c \<Rightarrow> at_client (FuelGetClient c) True (FuelIsTxSuccess (w_fuel_transaction w) hash))"

definition Rpc_GetLatestBlockNumber ::
  "('a, 's) rpc_world \<Rightarrow> rpc_state \<Rightarrow> (int \<times> string option) outcome \<times> rpc_state" where
  "Rpc_GetLatestBlockNumber w s =
     (case rs_client s of
        EvmRpc c \<Rightarrow>
          (at_client (EvmGetClient c) True
             (Returns (case EvmGetLatestBlockNumber (w_evm w) of Inl err \<Rightarrow> (0, Some err) | Inr n \<Rightarrow> (n, None))), s)
      | StarknetRpc c \<Rightarrow>
          (at_client (StarknetGetClient c) True (Returns (StarknetGetLatestBlockNumber (w_starknet_block w))), s)
      | SolanaRpc c \<Rightarrow> (at_client (SolanaGetClient c) True (Returns (SolGetLatestBlockNumber (w_sol_slot w))), s)
      | BitcoinRpc c \<Rightarrow> (Returns BtcGetLatestBlockNumber, s)
      | ZksliteRpc c \<Rightarrow> (Returns ZksliteGetLatestBlockNumber, s)
      | TonRpc c \<Rightarrow>
          (case TonGetLatestBlockNumber (w_ton w) c of (r, c) \<Rightarrow> (r, s\<lparr>rs_client := TonRpc c\<rparr>))
      | BenfenRpc c \<Rightarrow> (Returns BenfenGetLatestBlockNumber, s)
      | SuiRpc c \<Rightarrow> (Returns SuiGetLatestBlockNumber, s)
      | FuelRpc c \<Rightarrow> (at_client (FuelGetClient c) True (Returns (FuelGetLatestBlockNumber (w_fuel_block w))), s))"

definition Rpc_GetTokenInfo ::
  "('a, 's) rpc_world \<Rightarrow> string \<Rightarrow> rpc_state \<Rightarrow> (string + TokenInfo) outcome \<times> rpc_state" where
  "Rpc_GetTokenInfo w token s =
     (case rs_client s of
        EvmRpc c \<Rightarrow>
          if evm_token_asks c token (rs_tokens s) \<and> EvmGetClient c = Panics then (Panics, s)
          else (case EvmGetTokenInfo (w_evm_batch w) c token (rs_tokens s) of
                  (r, m) \<Rightarrow> (Returns r, s\<lparr>rs_tokens := m\<rparr>))
      | SolanaRpc c \<Rightarrow>
          if sol_token_asks (w_solana w) c token (rs_tokens s) \<and> SolanaGetClient c = Panics then (Panics, s)
          else (case SolGetTokenInfo (w_solana w) c token (rs_tokens s) of
                  (r, m) \<Rightarrow> (Returns r, s\<lparr>rs_tokens := m\<rparr>))
      | SuiRpc c \<Rightarrow>
          (case SuiGetTokenInfo (w_float_int w) (w_sui w) c token (rs_tokens s) of (r, m) \<Rightarrow> (r, s\<lparr>rs_tokens := m\<rparr>))
      | StarknetRpc c \<Rightarrow> (Returns StarknetGetTokenInfo, s)
      | BitcoinRpc c \<Rightarrow> (Returns BtcGetTokenInfo, s)
      | ZksliteRpc c \<Rightarrow> (Returns ZksliteGetTokenInfo, s)
      | TonRpc c \<Rightarrow> (Returns TonGetTokenInfo, s)
      | BenfenRpc c \<Rightarrow> (Returns BenfenGetTokenInfo, s)
      | FuelRpc c \<Rightarrow> (Returns FuelGetTokenInfo, s))"



section \<open>What a caller can rely on\<close>

lemma value_or_nil_no_nil: "value_or_nil r \<noteq> (None, None)"
  by (simp add: value_or_nil_def split: sum.split)

lemma BtcGetBalance_no_nil: "BtcGetBalance bs c owner token \<noteq> Returns (None, None)"
  by (simp add: BtcGetBalance_def Let_def split: sum.split option.split)

lemma Rpc_GetBalance_no_nil: "fst (Rpc_GetBalance w owner token s) \<noteq> Returns (None, None)"
  by (auto simp: Rpc_GetBalance_def ton_value_def with_value_def value_or_nil_no_nil BtcGetBalance_no_nil
      split: rpc_client.split prod.split outcome.split)

lemma no_success_with_error:
  "EvmIsTxSuccess nd hash \<noteq> Some (True, m, Some err)" "StarknetIsTxSuccess sn hash \<noteq> (True, m, Some err)"
  "FuelIsTxSuccess ft hash \<noteq> Returns (True, m, Some err)" "SolIsTxSuccess sg st hash \<noteq> Some (True, m, Some err)"
  by (simp_all add: EvmIsTxSuccess_def StarknetIsTxSuccess_def FuelIsTxSuccess_def SolIsTxSuccess_def
      split: sum.split option.split finality.split)

text \<open>
  An answer without an error carries a value, so a caller that has checked the error may use the number, for
  every chain and operation; and no transaction is called successful together with an error.
\<close>

theorem rpc_answers:
  "fst (Rpc_GetBalance w owner token s) \<noteq> Returns (None, None) \<and>
   fst (Rpc_GetBalanceAtBlockNumber w owner token n s) \<noteq> Returns (None, None) \<and>
   Rpc_GetAllowance w owner token spender s \<noteq> Returns (None, None) \<and>
   Rpc_IsTxSuccess w hash s \<noteq> Returns (True, m, Some err)"
proof (intro conjI)
  show "fst (Rpc_GetBalanceAtBlockNumber w owner token n s) \<noteq> Returns (None, None)"
    by (simp add: Rpc_GetBalanceAtBlockNumber_def value_or_nil_no_nil Rpc_GetBalance_no_nil split: rpc_client.split)
  show "Rpc_GetAllowance w owner token spender s \<noteq> Returns (None, None)"
    by (simp add: Rpc_GetAllowance_def value_or_nil_no_nil not_implemented_defs split: rpc_client.split)
  show "Rpc_IsTxSuccess w hash s \<noteq> Returns (True, m, Some err)"
    by (cases "rs_client s")
      (auto simp: Rpc_IsTxSuccess_def no_success_with_error not_implemented_defs split: option.split)
qed (rule Rpc_GetBalance_no_nil)

section \<open>When operations panic\<close>












lemma ton_value_panics [simp]: "ton_value r = Panics \<longleftrightarrow> r = Panics"
  by (simp add: ton_value_def split: outcome.split)






text \<open>
  Only the EVM client looks at the block of a balance: every other client gives its latest balance for
  any block, without an error that would say so.
\<close>

theorem rpc_balance_ignores_block:
  assumes "\<forall>c. rs_client s \<noteq> EvmRpc c"
  shows "Rpc_GetBalanceAtBlockNumber w owner token n s = Rpc_GetBalance w owner token s"
  using assms by (cases "rs_client s") (simp_all add: Rpc_GetBalanceAtBlockNumber_def)

section \<open>Sequences of calls\<close>

datatype rpc_op =
    CallBalance string string
  | CallBalanceAt string string int
  | CallBlockNumber
  | CallTokenInfo string

fun rpc_step :: "('a, 's) rpc_world \<Rightarrow> rpc_op \<Rightarrow> rpc_state \<Rightarrow> rpc_state" where
  \<comment> \<open>the operations that can change the client\<close>
  "rpc_step w (CallBalance owner token) s = snd (Rpc_GetBalance w owner token s)"
| "rpc_step w (CallBalanceAt owner token n) s = snd (Rpc_GetBalanceAtBlockNumber w owner token n s)"
| "rpc_step w CallBlockNumber s = snd (Rpc_GetLatestBlockNumber w s)"
| "rpc_step w (CallTokenInfo token) s = snd (Rpc_GetTokenInfo w token s)"

fun rpc_run :: "(('a, 's) rpc_world \<times> rpc_op) list \<Rightarrow> rpc_state \<Rightarrow> rpc_state" where
  "rpc_run [] s = s"
| "rpc_run ((w, x) # xs) s = rpc_run xs (rpc_step w x s)"

definition same_program :: "('a, 's) rpc_world \<Rightarrow> ('a, 's) rpc_world \<Rightarrow> bool" where
  \<comment> \<open>what does not come from a node: the built-in token list and the conversion of floats\<close>
  "same_program w w' \<longleftrightarrow> su_legs (w_sui w') = su_legs (w_sui w) \<and> w_float_int w' = w_float_int w"

fun token_known :: "rpc_client \<Rightarrow> TokenInfoManager \<Rightarrow> string \<Rightarrow> TokenInfo \<Rightarrow> bool" where
  \<comment> \<open>the manager of the client has the token\<close>
  "token_known (EvmRpc c) m a t = (GetByChainNameTokenAddr m (ci_Name c) a = Some t)"
| "token_known (SolanaRpc c) m a t = (GetByChainNameTokenAddr m (ci_Name c) a = Some t)"
| "token_known (SuiRpc c) m a t = (GetByChainNameTokenAddr m (ci_Name c) (sui_coin (TrimSpace a)) = Some t)"
| "token_known _ m a t = False"

fun token_fixed :: "('a, 's) rpc_world \<Rightarrow> rpc_client \<Rightarrow> string \<Rightarrow> bool" where
  \<comment> \<open>the answer for the address does not come from a node\<close>
  "token_fixed w (EvmRpc c) a = IsHexStringZero a"
| "token_fixed w (SolanaRpc c) a = IsSolNative a"
| "token_fixed w (SuiRpc c) a = (su_legs (w_sui w) (TrimSpace a) \<noteq> None)"
| "token_fixed w _ a = True"

lemma rpc_step_token:
  assumes "\<forall>c. rs_client s \<noteq> TonRpc c"
  shows "rs_client (rpc_step w x s) = rs_client s \<and>
    (token_known (rs_client s) (rs_tokens s) a t \<longrightarrow> token_known (rs_client s) (rs_tokens (rpc_step w x s)) a t)"
proof (cases x)
  case (CallTokenInfo b)
  show ?thesis
  proof (cases "rs_client s")
    case (EvmRpc c)
    then show ?thesis using CallTokenInfo evm_source.keeps [where c = c and m = "rs_tokens s" and a = a and t = t and b = b and e = "w_evm_batch w"]
      by (auto simp: Rpc_GetTokenInfo_def split: prod.split)
  next
    case (SolanaRpc c)
    then show ?thesis using CallTokenInfo sol_source.keeps [where c = c and m = "rs_tokens s" and a = a and t = t and b = b and e = "w_solana w"]
      by (auto simp: Rpc_GetTokenInfo_def split: prod.split)
  next
    case (SuiRpc c)
    then show ?thesis using CallTokenInfo sui_source.keeps [where c = c and m = "rs_tokens s" and a = "sui_coin (TrimSpace a)" and t = t
          and b = "sui_coin (TrimSpace b)" and e = "w_sui w"]
      by (auto simp: Rpc_GetTokenInfo_def SuiGetTokenInfo_def Let_def split: prod.split option.split)
  qed (use CallTokenInfo assms in \<open>auto simp: Rpc_GetTokenInfo_def\<close>)
qed (use assms in \<open>cases "rs_client s"; simp add: Rpc_GetBalance_def Rpc_GetBalanceAtBlockNumber_def Rpc_GetLatestBlockNumber_def\<close>)+

lemma rpc_run_token:
  "\<forall>c. rs_client s \<noteq> TonRpc c \<Longrightarrow>
   rs_client (rpc_run xs s) = rs_client s \<and>
   (token_known (rs_client s) (rs_tokens s) a t \<longrightarrow> token_known (rs_client s) (rs_tokens (rpc_run xs s)) a t)"
proof (induction xs arbitrary: s)
  case (Cons x xs)
  obtain w op where x: "x = (w, op)" by fastforce
  from rpc_step_token [OF Cons.prems, of w op a t] Cons.prems Cons.IH [of "rpc_step w op s"] show ?case
    by (simp add: x)
qed simp

lemma fixed_answer:
  assumes "token_fixed w (rs_client s) a" and "same_program w w'" and "rs_client s'' = rs_client s"
  shows "fst (Rpc_GetTokenInfo w' a s'') = fst (Rpc_GetTokenInfo w a s)"
  using assms by (cases "rs_client s")
    (auto simp: Rpc_GetTokenInfo_def EvmGetTokenInfo_def SolGetTokenInfo_def SuiGetTokenInfo_def same_program_def Let_def
      evm_token_asks_def sol_token_asks_def)

lemma first_answer:
  assumes r: "Rpc_GetTokenInfo w a s = (Returns (Inr t), s')" and new: "\<not> token_fixed w (rs_client s) a"
    and trim: "TrimSpace a = a"
    and name: "TrimSpace (ci_Name (rpc_chainInfo (rs_client s))) = ci_Name (rpc_chainInfo (rs_client s))"
  shows "token_known (rs_client s) (rs_tokens s') a t"
proof (cases "rs_client s")
  case (EvmRpc c)
  then show ?thesis using r new name evm_source.answered [OF _ _ trim, of "w_evm_batch w" c "rs_tokens s" t "rs_tokens s'"]
    by (auto simp: Rpc_GetTokenInfo_def split: prod.splits if_split_asm)
next
  case (SolanaRpc c)
  then show ?thesis using r new name sol_source.answered [OF _ _ trim, of "w_solana w" c "rs_tokens s" t "rs_tokens s'"]
    by (auto simp: Rpc_GetTokenInfo_def split: prod.splits if_split_asm)
next
  case (SuiRpc c)
  have "TrimSpace (sui_coin a) = sui_coin a" using trim by (simp add: sui_coin_def) code_simp
  then show ?thesis
    using r new name trim SuiRpc sui_source.answered [of "w_sui w" c "sui_coin a" "rs_tokens s" t "rs_tokens s'"]
    by (auto simp: Rpc_GetTokenInfo_def SuiGetTokenInfo_def split: prod.splits)
qed (use new in simp_all)

lemma known_answer:
  assumes "token_known (rs_client s) (rs_tokens s) a t" and "\<not> token_fixed w (rs_client s) a"
  shows "fst (Rpc_GetTokenInfo w a s) = Returns (Inr t)"
  using assms evm_source.hit sol_source.hit sui_source.hit
  by (cases "rs_client s")
    (simp_all add: Rpc_GetTokenInfo_def SuiGetTokenInfo_def Let_def evm_token_asks_def sol_token_asks_def)

lemma Rpc_GetTokenInfo_client: "rs_client (snd (Rpc_GetTokenInfo w a s)) = rs_client s"
  by (cases "rs_client s") (simp_all add: Rpc_GetTokenInfo_def split: prod.split)

text \<open>
  C15. What an EVM, Solana or Sui client once answered for a token whose address, as the name of its chain,
  carries no space around it, it answers from then on: after any sequence of calls that can change
  the client, in any state of the nodes, the same request gives the same information, the built-in
  list of tokens and the conversion of floats being the same. With space around the address, an EVM or
  Solana client stores the token under a key that no lookup finds and asks its node every time.
\<close>

theorem rpc_token_stable:
  assumes "Rpc_GetTokenInfo w a s = (Returns (Inr t), s')" and trim: "TrimSpace a = a"
    and name: "TrimSpace (ci_Name (rpc_chainInfo (rs_client s))) = ci_Name (rpc_chainInfo (rs_client s))"
    and same: "same_program w w'"
  shows "fst (Rpc_GetTokenInfo w' a (rpc_run xs s')) = Returns (Inr t)"
proof -
  have client: "rs_client s' = rs_client s" using Rpc_GetTokenInfo_client [of w a s] assms(1) by simp
  have ton: "\<forall>c. rs_client s' \<noteq> TonRpc c"
    using assms(1) client by (auto simp: Rpc_GetTokenInfo_def TonGetTokenInfo_def)
  note run = rpc_run_token [OF ton, of xs a t]
  show ?thesis
  proof (cases "token_fixed w (rs_client s) a")
    case True
    then show ?thesis using fixed_answer [OF True same] run assms(1) client by simp
  next
    case False
    then have "\<not> token_fixed w' (rs_client s) a" using same by (cases "rs_client s") (auto simp: same_program_def)
    then show ?thesis using known_answer [of "rpc_run xs s'" a t w'] first_answer [OF assms(1) False trim name] run client by simp
  qed
qed

theorem rpc_token_stable_witness:
  "\<forall>w :: (unit, unit) rpc_world.
     let s = \<lparr>rs_client = EvmRpc (sample_chain\<lparr>ci_Name := ''Base'', ci_Client := Some (EvmClient [])\<rparr>), rs_tokens = NewTokenInfoManager\<rparr>;
         up = w\<lparr>w_evm_batch := \<lambda>_. Inr sample_answers\<rparr>; down = w\<lparr>w_evm_batch := \<lambda>_. Inl ''down''\<rparr>;
         r = Rpc_GetTokenInfo up ''0xAb'' s
     in \<exists>t. fst r = Returns (Inr t) \<and>
          fst (Rpc_GetTokenInfo down ''0xAb'' (rpc_run [(up, CallTokenInfo ''0xAc''), (down, CallBlockNumber)] (snd r))) =
            Returns (Inr t)"
proof
  fix w :: "(unit, unit) rpc_world"
  let ?s = "\<lparr>rs_client = EvmRpc (sample_chain\<lparr>ci_Name := ''Base'', ci_Client := Some (EvmClient [])\<rparr>), rs_tokens = NewTokenInfoManager\<rparr>"
  let ?up = "w\<lparr>w_evm_batch := \<lambda>_. Inr sample_answers\<rparr>" and ?down = "w\<lparr>w_evm_batch := \<lambda>_. Inl ''down''\<rparr>"
  have z: "\<not> IsHexStringZero ''0xAb''" "TrimSpace ''0xAb'' = ''0xAb''" "TrimSpace ''Base'' = ''Base''" by code_simp+
  have v: "SetBytes [6] = 6" by code_simp
  obtain t s' where r: "Rpc_GetTokenInfo ?up ''0xAb'' ?s = (Returns (Inr t), s')"
    using z(1) by (simp add: Rpc_GetTokenInfo_def EvmGetTokenInfo_def EvmGetClient_def sample_answers_def first_error_def
        data_of_def Let_def v)
  have "same_program ?up ?down" by (simp add: same_program_def)
  from rpc_token_stable [OF r z(2) _ this, of "[(?up, CallTokenInfo ''0xAc''), (?down, CallBlockNumber)]"] z(3) r
  show "let s = ?s; up = ?up; down = ?down; r = Rpc_GetTokenInfo up ''0xAb'' s
     in \<exists>t. fst r = Returns (Inr t) \<and>
          fst (Rpc_GetTokenInfo down ''0xAb'' (rpc_run [(up, CallTokenInfo ''0xAc''), (down, CallBlockNumber)] (snd r))) =
            Returns (Inr t)"
    by (simp add: Let_def del: rpc_run.simps)
qed

lemma rpc_step_ton:
  assumes "rs_client s = TonRpc c" and "ci_Client c = Some (TonClient u)"
  shows "rs_client (rpc_step w x s) = TonRpc c"
  using assms by (cases x)
    (auto simp: Rpc_GetBalance_def Rpc_GetBalanceAtBlockNumber_def Rpc_GetLatestBlockNumber_def Rpc_GetTokenInfo_def
      TonGetBalance_def TonGetLatestBlockNumber_def TonGetClient_def split: sum.split)

lemma rpc_run_ton:
  "rs_client s = TonRpc c \<Longrightarrow> ci_Client c = Some (TonClient u) \<Longrightarrow> rs_client (rpc_run xs s) = TonRpc c"
proof (induction xs arbitrary: s)
  case (Cons x xs)
  then show ?case by (cases x) (simp add: rpc_step_ton)
qed simp

lemma rpc_run_client:
  assumes "\<And>c. rs_client s = TonRpc c \<Longrightarrow> \<exists>u. ci_Client c = Some (TonClient u)"
  shows "rs_client (rpc_run xs s) = rs_client s"
proof (cases "\<exists>c. rs_client s = TonRpc c")
  case True
  then show ?thesis using assms rpc_run_ton by metis
next
  case False
  then show ?thesis using rpc_run_token [of s xs] by blast
qed

end
