(* ===== verification/EvmTxn.thy ===== *)
theory EvmTxn
  imports EvmRpc
begin

text \<open>
  \<open>src/txn/evm\<close> and \<open>src/txn/btc\<close>: the bodies of EVM and Bitcoin transactions, as the JSON text that
  is handed to a wallet. The node's gas estimate, the printed address and the packing of ABI calls are
  arguments. Texts are ASCII or well-formed UTF-8 without the two line separators.
\<close>

section \<open>Printing\<close>

definition hex_digit :: "nat \<Rightarrow> char" where
  "hex_digit d = (if d < 10 then digit_char d else char_of (d - 10 + 97))"

fun hex_of_nat :: "nat \<Rightarrow> string" where
  "hex_of_nat n = (if n < 16 then [hex_digit n] else hex_of_nat (n div 16) @ [hex_digit (n mod 16)])"

declare hex_of_nat.simps [simp del]

definition Sprintf_0x :: "int \<Rightarrow> string" where
  \<comment> \<open>the format \<open>0x%x\<close>\<close>
  "Sprintf_0x v = ''0x'' @ (if v < 0 then CHR ''-'' # hex_of_nat (nat (- v)) else hex_of_nat (nat v))"

definition EncodeToString :: "nat list \<Rightarrow> string" where
  "EncodeToString bs = concat (map (\<lambda>b. [hex_digit (b div 16), hex_digit (b mod 16)]) bs)"

definition json_char :: "char \<Rightarrow> string" where
  \<comment> \<open>how \<open>encoding/json\<close> writes a character of a string\<close>
  "json_char c =
     (let n = (of_char c :: nat)
      in if n = 34 \<or> n = 92 then [CHR 0x5C, c]
         else if n = 8 then [CHR 0x5C, CHR ''b'']
         else if n = 12 then [CHR 0x5C, CHR ''f'']
         else if n = 10 then [CHR 0x5C, CHR ''n'']
         else if n = 13 then [CHR 0x5C, CHR ''r'']
         else if n = 9 then [CHR 0x5C, CHR ''t'']
         else if n < 32 \<or> n = 38 \<or> n = 60 \<or> n = 62
         then CHR 0x5C # ''u00'' @ [hex_digit (n div 16), hex_digit (n mod 16)]
         else [c])"

definition json_string :: "string \<Rightarrow> string" where
  "json_string s = [CHR 0x22] @ concat (map json_char s) @ [CHR 0x22]"

datatype body_value = BText string | BInt int

definition body_text :: "body_value \<Rightarrow> string" where
  "body_text v = (case v of BText s \<Rightarrow> json_string s | BInt i \<Rightarrow> FormatInt i)"

fun join_fields :: "(string \<times> body_value) list \<Rightarrow> string" where
  "join_fields [] = []"
| "join_fields [(k, v)] = json_string k @ '':'' @ body_text v"
| "join_fields ((k, v) # e # es) = json_string k @ '':'' @ body_text v @ '','' @ join_fields (e # es)"

definition json_Marshal :: "(string \<times> body_value) list \<Rightarrow> string" where
  \<comment> \<open>of a map, given by its fields in the order of the keys\<close>
  "json_Marshal fs = ''{'' @ join_fields fs @ ''}''"

section \<open>EVM bodies\<close>

definition TxnEstimateGas ::
  "(string \<Rightarrow> nat list) \<Rightarrow> (call_msg \<Rightarrow> int \<times> string option) \<Rightarrow> string \<Rightarrow> string \<Rightarrow> int option \<Rightarrow> nat list option \<Rightarrow>
   int \<times> string option" where
  "TxnEstimateGas hexToAddress est from to v data =
     (case est \<lparr>cm_From = hexToAddress (TrimSpace from), cm_To = hexToAddress (TrimSpace to),
                cm_Value = Some (case v of None \<Rightarrow> 0 | Some x \<Rightarrow> x),
                cm_Data = (case data of None \<Rightarrow> [] | Some d \<Rightarrow> d)\<rparr> of
        (gas, err) \<Rightarrow> (wrap_u 64 (gas * 3) div 2, err))"

definition body_fields :: "(string \<Rightarrow> string) \<Rightarrow> string \<Rightarrow> int option \<Rightarrow> nat list option \<Rightarrow> int \<Rightarrow> (string \<times> body_value) list" where
  "body_fields addressHex to v input gas =
     [(''gas'', BText (Sprintf_0x gas))] @
     (case input of None \<Rightarrow> [] | Some i \<Rightarrow> [(''input'', BText (''0x'' @ EncodeToString i))]) @
     [(''to'', BText (addressHex (TrimSpace to))),
      (''value'', BText (Sprintf_0x (case v of None \<Rightarrow> 0 | Some x \<Rightarrow> x)))]"

definition ToBody :: "(string \<Rightarrow> string) \<Rightarrow> string \<Rightarrow> int option \<Rightarrow> nat list option \<Rightarrow> int \<Rightarrow> string + string" where
  \<comment> \<open>\<open>addressHex\<close> is \<open>common.HexToAddress(..).Hex()\<close>\<close>
  "ToBody addressHex to v input gas = Inr (json_Marshal (body_fields addressHex to v input gas))"

record evm_client =
  ec_hexToAddress :: "string \<Rightarrow> nat list"
  ec_addressHex :: "string \<Rightarrow> string"
  ec_EstimateGas :: "call_msg \<Rightarrow> int \<times> string option"
  ec_Pack :: "string \<Rightarrow> nat list \<Rightarrow> int option \<Rightarrow> string + nat list"  \<comment> \<open>method, address, amount\<close>

definition EvmTransferBody :: "evm_client \<Rightarrow> string \<Rightarrow> string \<Rightarrow> int option \<Rightarrow> string + string" where
  "EvmTransferBody ec senderAddr receiverAddr amount =
     (let senderAddr = TrimSpace senderAddr; receiverAddr = TrimSpace receiverAddr
      in case TxnEstimateGas (ec_hexToAddress ec) (ec_EstimateGas ec) senderAddr receiverAddr amount None of
           (gas, Some err) \<Rightarrow> Inl err
         | (gas, None) \<Rightarrow> ToBody (ec_addressHex ec) receiverAddr amount None gas)"

definition erc20_body :: "evm_client \<Rightarrow> string \<Rightarrow> string \<Rightarrow> string \<Rightarrow> string \<Rightarrow> int option \<Rightarrow> string + string" where
  "erc20_body ec method senderAddr tokenAddr other amount =
     (case ec_Pack ec method (ec_hexToAddress ec other) amount of
        Inl err \<Rightarrow> Inl err
      | Inr data \<Rightarrow>
          (case TxnEstimateGas (ec_hexToAddress ec) (ec_EstimateGas ec) senderAddr tokenAddr None (Some data) of
             (gas, Some err) \<Rightarrow> Inl err
           | (gas, None) \<Rightarrow> ToBody (ec_addressHex ec) tokenAddr None (Some data) gas))"

definition Erc20ApproveBody :: "evm_client \<Rightarrow> string \<Rightarrow> string \<Rightarrow> string \<Rightarrow> int option \<Rightarrow> string + string" where
  "Erc20ApproveBody ec senderAddr tokenAddr spender amount =
     erc20_body ec ''approve'' (TrimSpace senderAddr) (TrimSpace tokenAddr) (TrimSpace spender) amount"

definition Erc20TransferBody :: "evm_client \<Rightarrow> string \<Rightarrow> string \<Rightarrow> string \<Rightarrow> int option \<Rightarrow> string + string" where
  "Erc20TransferBody ec senderAddr tokenAddr receiverAddr amount =
     erc20_body ec ''transfer'' (TrimSpace senderAddr) (TrimSpace tokenAddr) (TrimSpace receiverAddr) amount"

section \<open>Bitcoin bodies\<close>

definition BtcTransferBody :: "string \<Rightarrow> int \<Rightarrow> string" where
  "BtcTransferBody receiverAddr amount =
     json_Marshal [(''amount'', BInt (wrap_s 64 amount)), (''receiver'', BText (TrimSpace receiverAddr))]"

definition BRC20TransferBody :: "string \<Rightarrow> string \<Rightarrow> int \<Rightarrow> string" where
  "BRC20TransferBody receiverAddr tokenName amount =
     json_Marshal [(''amount'', BInt (wrap_s 64 amount)), (''method'', BText ''transfer''),
                   (''receiver'', BText (TrimSpace receiverAddr)), (''token'', BText tokenName)]"

section \<open>Reading the numbers back\<close>

definition is_hex_lower :: "char \<Rightarrow> bool" where
  "is_hex_lower c \<longleftrightarrow> is_digit c \<or> (97 \<le> (of_char c :: nat) \<and> (of_char c :: nat) \<le> 102)"

definition hex_value :: "nat \<Rightarrow> string \<Rightarrow> nat" where
  "hex_value v s = fold (\<lambda>c v. v * 16 + char_digit c) s v"

lemma hex_digit_ok: "d < 16 \<Longrightarrow> is_hex_lower (hex_digit d) \<and> char_digit (hex_digit d) = d"
proof (cases "d < 10")
  case True
  then show ?thesis by (simp add: is_hex_lower_def hex_digit_def char_digit_digit)
next
  case False
  assume "d < 16"
  with False have "(of_char (hex_digit d) :: nat) = d + 87" by (simp add: hex_digit_def)
  with False \<open>d < 16\<close> show ?thesis by (simp add: is_hex_lower_def char_digit_def is_lower_def is_digit_def Let_def)
qed

lemma hex_of_nat_digits: "\<forall>c\<in>set (hex_of_nat n). is_hex_lower c"
  by (induction n rule: hex_of_nat.induct) (subst hex_of_nat.simps, auto simp: hex_digit_ok)

lemma hex_of_nat_value: "hex_value 0 (hex_of_nat n) = n"
  by (induction n rule: hex_of_nat.induct) (subst hex_of_nat.simps, auto simp: hex_value_def hex_digit_ok)

lemma hex_of_nat_nonempty [simp]: "hex_of_nat n \<noteq> []"
  by (subst hex_of_nat.simps) simp

lemma scan_mant_hex:
  "\<forall>c\<in>set ds. is_hex_lower c \<Longrightarrow>
   scan_mant sep 16 False prev bad cnt dp v ds =
     \<lparr>sc_rest = [], sc_prev = if ds = [] then prev else PDigit, sc_inval = bad, sc_count = cnt + length ds,
      sc_dp = dp, sc_val = hex_value v ds\<rparr>"
proof (induction ds arbitrary: prev cnt v)
  case Nil
  then show ?case by (simp add: hex_value_def)
next
  case (Cons c ds)
  then have c: "is_hex_lower c" by simp
  then have "c \<noteq> CHR ''.''" "c \<noteq> CHR ''_''" by (auto simp: is_hex_lower_def is_digit_def)
  moreover have "char_digit c < 16"
    using c digit_val_less [of c] by (auto simp: is_hex_lower_def char_digit_def is_lower_def Let_def)
  ultimately show ?case using Cons by (simp add: hex_value_def)
qed

lemma Int_SetString_Sprintf: "Int_SetString 0 (Sprintf_0x v) = (if 0 \<le> v then Some v else None)"
proof (cases "0 \<le> v")
  case True
  have "scan_sign (''0x'' @ hex_of_nat n) = Some (False, ''0x'' @ hex_of_nat n)" for n by (simp add: scan_sign_def)
  moreover have "nat_scan 0 False (''0x'' @ hex_of_nat n) = Some (n, 16, int (length (hex_of_nat n)), [])" for n
    using scan_mant_hex [OF hex_of_nat_digits, of True PDigit False 0 None 0 n]
    by (simp add: nat_scan_def scan_prefix_def hex_of_nat_value)
  ultimately show ?thesis using True by (simp add: Sprintf_0x_def Int_SetString_def)
next
  case False
  have "nat_scan 0 False (''0x-'' @ s) = None" for s
    by (simp add: nat_scan_def scan_prefix_def char_digit_def is_digit_def is_lower_def is_upper_def)
  with False show ?thesis by (simp add: Sprintf_0x_def Int_SetString_def scan_sign_def)
qed

section \<open>Properties of the bodies\<close>

definition number_field :: "(string \<times> body_value) list \<Rightarrow> string \<Rightarrow> int option" where
  \<comment> \<open>what a wallet reads in a field with a number\<close>
  "number_field fs k = (case map_of fs k of Some (BText s) \<Rightarrow> Int_SetString 0 s | Some (BInt i) \<Rightarrow> Some i | None \<Rightarrow> None)"

lemma wrap_u_64_3:
  assumes "0 \<le> g" and "g < 2 ^ 64"
  shows "wrap_u 64 (g * 3) = (if g * 3 < 2 ^ 64 then g * 3 else if g * 3 < 2 * 2 ^ 64 then g * 3 - 2 ^ 64 else g * 3 - 2 * 2 ^ 64)"
proof -
  have shift: "(x - 2 ^ 64) mod 2 ^ 64 = x mod 2 ^ 64" "(x - 2 * 2 ^ 64) mod 2 ^ 64 = x mod 2 ^ 64" for x :: int
    using mod_mult_self1 [of x "- 1" "2 ^ 64"] mod_mult_self1 [of x "- 2" "2 ^ 64"] by simp_all
  consider "g * 3 < 2 ^ 64" | "2 ^ 64 \<le> g * 3" "g * 3 < 2 * 2 ^ 64" | "2 * 2 ^ 64 \<le> g * 3" by linarith
  then show ?thesis
  proof cases
    case 1
    with assms(1) show ?thesis by (simp add: wrap_u_def)
  next
    case 2
    with mod_pos_pos_trivial [of "g * 3 - 2 ^ 64" "2 ^ 64"] shift(1) [of "g * 3"]
    show ?thesis by (simp add: wrap_u_def)
  next
    case 3
    with assms(2) mod_pos_pos_trivial [of "g * 3 - 2 * 2 ^ 64" "2 ^ 64"] shift(2) [of "g * 3"]
    show ?thesis by (simp add: wrap_u_def)
  qed
qed

text \<open>
  The body of a transfer carries one and a half times the estimated gas, rounded down, as long as
  three times the estimate fits 64 bits; a larger estimate is cut to less than itself. It carries the
  amount exactly, and a negative amount as a text that is no number.
\<close>

theorem evm_transfer_body:
  assumes "ec_EstimateGas ec \<lparr>cm_From = ec_hexToAddress ec (TrimSpace sender),
      cm_To = ec_hexToAddress ec (TrimSpace receiver), cm_Value = Some v, cm_Data = []\<rparr> = (g, None)"
    and "0 \<le> g" and "g < 2 ^ 64"
  shows "\<exists>fs. EvmTransferBody ec sender receiver (Some v) = Inr (json_Marshal fs) \<and>
    (if g * 3 < 2 ^ 64 then number_field fs ''gas'' = Some (g * 3 div 2)
     else \<exists>gas. number_field fs ''gas'' = Some gas \<and> gas < g) \<and>
    number_field fs ''value'' = (if 0 \<le> v then Some v else None) \<and>
    map_of fs ''to'' = Some (BText (ec_addressHex ec (TrimSpace receiver)))"
proof -
  define gas where "gas = wrap_u 64 (g * 3) div 2"
  let ?fs = "body_fields (ec_addressHex ec) (TrimSpace receiver) (Some v) None gas"
  have "EvmTransferBody ec sender receiver (Some v) = Inr (json_Marshal ?fs)"
    using assms(1) by (simp add: EvmTransferBody_def TxnEstimateGas_def ToBody_def gas_def)
  moreover have "0 \<le> gas" by (simp add: gas_def wrap_u_def)
  then have "number_field ?fs ''gas'' = Some gas"
    by (simp add: number_field_def body_fields_def Int_SetString_Sprintf)
  moreover have "if g * 3 < 2 ^ 64 then gas = g * 3 div 2 else gas < g"
    using assms(2,3) by (simp add: gas_def wrap_u_64_3) linarith
  moreover have "number_field ?fs ''value'' = (if 0 \<le> v then Some v else None)"
    "map_of ?fs ''to'' = Some (BText (ec_addressHex ec (TrimSpace receiver)))"
    by (simp_all add: number_field_def body_fields_def Int_SetString_Sprintf)
  ultimately show ?thesis by (intro exI [of _ ?fs]) (simp split: if_splits)
qed

definition sample_client :: evm_client where
  "sample_client =
     \<lparr>ec_hexToAddress = (\<lambda>_. replicate 20 7), ec_addressHex = (\<lambda>s. s),
      ec_EstimateGas = (\<lambda>_. (21001, None)), ec_Pack = (\<lambda>_ _ _. Inr [])\<rparr>"

theorem evm_transfer_body_witness:
  "\<exists>fs. EvmTransferBody sample_client ''0x1'' ''0x2'' (Some 255) = Inr (json_Marshal fs) \<and>
     number_field fs ''gas'' = Some 31501 \<and> number_field fs ''value'' = Some 255"
  using evm_transfer_body [of sample_client "''0x1''" "''0x2''" 255 21001]
  by (auto simp: sample_client_def)

text \<open>
  A Bitcoin body carries the amount modulo 2^64 as a signed number: exact below 2^63, and
  negative for the amounts from 2^63 to 2^64.
\<close>

theorem btc_body_amount:
  "(\<exists>fs. BtcTransferBody receiver amount = json_Marshal fs \<and> number_field fs ''amount'' = Some (wrap_s 64 amount)) \<and>
   (\<exists>fs. BRC20TransferBody receiver tok amount = json_Marshal fs \<and> number_field fs ''amount'' = Some (wrap_s 64 amount) \<and>
      map_of fs ''token'' = Some (BText tok)) \<and>
   (wrap_s 64 amount = amount \<longleftrightarrow> - (2 ^ 63) \<le> amount \<and> amount < 2 ^ 63)"
proof (intro conjI)
  show "\<exists>fs. BtcTransferBody receiver amount = json_Marshal fs \<and> number_field fs ''amount'' = Some (wrap_s 64 amount)"
    unfolding BtcTransferBody_def by (intro exI conjI, rule refl) (simp add: number_field_def)
  show "\<exists>fs. BRC20TransferBody receiver tok amount = json_Marshal fs \<and>
      number_field fs ''amount'' = Some (wrap_s 64 amount) \<and> map_of fs ''token'' = Some (BText tok)"
    unfolding BRC20TransferBody_def by (intro exI conjI, rule refl) (simp_all add: number_field_def)
  show "wrap_s 64 amount = amount \<longleftrightarrow> - (2 ^ 63) \<le> amount \<and> amount < 2 ^ 63"
    using wrap_s_id [of 64 amount] wrap_s_range [of 64 amount] by auto
qed

end
