(* ===== verification/SolanaTxn.thy ===== *)
theory SolanaTxn
  imports EvmTxn SolanaRpc
begin

text \<open>
  \<open>src/txn/solana\<close> and \<open>src/util/svm_instruction.go\<close>: the bodies of Solana transactions. Decoding a key,
  deriving the account of a token, building the instructions of the system and token programs, and the
  JSON text of a body are those of the Solana libraries and arguments here.
\<close>

section \<open>Instructions and bodies\<close>

record account_meta =
  PublicKey :: pubkey
  IsWritable :: bool
  IsSigner :: bool

record instruction =
  in_ProgramID :: pubkey
  in_Accounts :: "account_meta list"
  in_Data :: "string + nat list"

record WrappedInstruction =
  wi_program :: pubkey
  wi_inner :: instruction

definition NewWrappedInstruction :: "pubkey \<Rightarrow> instruction \<Rightarrow> WrappedInstruction" where
  "NewWrappedInstruction program i = \<lparr>wi_program = program, wi_inner = i\<rparr>"

definition wrapped :: "WrappedInstruction \<Rightarrow> instruction" where
  \<comment> \<open>its methods: the program of the wrapper, accounts and data of the inner instruction\<close>
  "wrapped w = \<lparr>in_ProgramID = wi_program w, in_Accounts = in_Accounts (wi_inner w), in_Data = in_Data (wi_inner w)\<rparr>"

record SolanaAccount =
  sac_PublicKey :: pubkey
  sac_IsWritable :: bool
  sac_IsSigner :: bool

record SolanaInstruction =
  si_ProgramId :: pubkey
  si_Accounts :: "SolanaAccount list"
  si_Data :: "nat list"

record SolanaKeypair =
  sk_PublicKey :: pubkey
  sk_PrivateKey :: "nat list"

record SolanaBody =
  sb_Instructions :: "SolanaInstruction list"
  sb_Keypairs :: "SolanaKeypair list option"  \<comment> \<open>absent: \<open>nil\<close>\<close>
  sb_LookupTables :: "(pubkey \<rightharpoonup> pubkey list) option"
  sb_Mev :: bool

definition solana_account :: "account_meta \<Rightarrow> SolanaAccount" where
  "solana_account a = \<lparr>sac_PublicKey = PublicKey a, sac_IsWritable = IsWritable a, sac_IsSigner = IsSigner a\<rparr>"

text \<open>\<open>AddInstructions\<close> appends as it goes: an error leaves the earlier instructions in the body.\<close>

fun AddInstructions :: "instruction list \<Rightarrow> SolanaBody \<Rightarrow> string option \<times> SolanaBody" where
  "AddInstructions [] body = (None, body)"
| "AddInstructions (inst # insts) body =
     (case in_Data inst of
        Inl err \<Rightarrow> (Some err, body)
      | Inr data \<Rightarrow>
          AddInstructions insts (body\<lparr>sb_Instructions := sb_Instructions body @
            [\<lparr>si_ProgramId = in_ProgramID inst, si_Accounts = map solana_account (in_Accounts inst), si_Data = data\<rparr>]\<rparr>))"

definition ToSolanaBody ::
  "instruction list \<Rightarrow> SolanaKeypair list option \<Rightarrow> (pubkey \<rightharpoonup> pubkey list) option \<Rightarrow> string + SolanaBody" where
  "ToSolanaBody insts keypairs lookupTables =
     (case AddInstructions insts
             \<lparr>sb_Instructions = [], sb_Keypairs = keypairs, sb_LookupTables = lookupTables, sb_Mev = False\<rparr> of
        (Some err, _) \<Rightarrow> Inl err
      | (None, body) \<Rightarrow> Inr body)"

record sol_programs =
  sp_FromBase58 :: "string \<Rightarrow> string + pubkey"
  sp_FindAta :: "pubkey \<Rightarrow> pubkey \<Rightarrow> string + pubkey"
  sp_Find2022Ata :: "pubkey \<Rightarrow> pubkey \<Rightarrow> string + pubkey"
  sp_SystemTransfer :: "int \<Rightarrow> pubkey \<Rightarrow> pubkey \<Rightarrow> instruction"
  sp_ApproveChecked :: "int \<Rightarrow> int \<Rightarrow> pubkey \<Rightarrow> pubkey \<Rightarrow> pubkey \<Rightarrow> pubkey \<Rightarrow> instruction"
  sp_TransferChecked :: "int \<Rightarrow> int \<Rightarrow> pubkey \<Rightarrow> pubkey \<Rightarrow> pubkey \<Rightarrow> pubkey \<Rightarrow> instruction"
  sp_Transfer :: "int \<Rightarrow> pubkey \<Rightarrow> pubkey \<Rightarrow> pubkey \<Rightarrow> instruction"
  sp_CreateAta :: "pubkey \<Rightarrow> pubkey \<Rightarrow> pubkey \<Rightarrow> instruction"
  sp_TokenProgramID :: pubkey
  sp_Token2022ID :: pubkey  \<comment> \<open>the key written \<open>TokenzQ..\<close>\<close>
  sp_Marshal :: "SolanaBody \<Rightarrow> string + string"

definition SolToBody :: "sol_programs \<Rightarrow> instruction list \<Rightarrow> SolanaKeypair list option \<Rightarrow> string + string" where
  "SolToBody sp insts keypairs =
     (case ToSolanaBody insts keypairs None of Inl err \<Rightarrow> Inl err | Inr body \<Rightarrow> sp_Marshal sp body)"

definition GetAta :: "sol_programs \<Rightarrow> string \<Rightarrow> string \<Rightarrow> string + pubkey" where
  "GetAta sp addr mint =
     (case sp_FromBase58 sp addr of Inl err \<Rightarrow> Inl err | Inr pk \<Rightarrow>
     (case sp_FromBase58 sp mint of Inl err \<Rightarrow> Inl err | Inr mintpk \<Rightarrow> sp_FindAta sp pk mintpk))"

definition GetAtaFromPk :: "sol_programs \<Rightarrow> pubkey \<Rightarrow> pubkey \<Rightarrow> string + pubkey" where
  "GetAtaFromPk sp pk mintpk = sp_FindAta sp pk mintpk"

definition Get2022AtaFromPk :: "sol_programs \<Rightarrow> pubkey \<Rightarrow> pubkey \<Rightarrow> string + pubkey" where
  "Get2022AtaFromPk sp pk mintpk = sp_Find2022Ata sp pk mintpk"

definition SolTransferBody :: "sol_programs \<Rightarrow> string \<Rightarrow> string \<Rightarrow> int \<Rightarrow> string + string" where
  "SolTransferBody sp senderAddr receiverAddr amount =
     (case sp_FromBase58 sp (TrimSpace senderAddr) of Inl err \<Rightarrow> Inl err | Inr senderpk \<Rightarrow>
     (case sp_FromBase58 sp (TrimSpace receiverAddr) of Inl err \<Rightarrow> Inl err | Inr receiverpk \<Rightarrow>
        SolToBody sp [sp_SystemTransfer sp (Uint64 amount) senderpk receiverpk] None))"

section \<open>Token transfers and approvals\<close>

fun ReplaceAll :: "string \<Rightarrow> string \<Rightarrow> string \<Rightarrow> string" where
  \<comment> \<open>\<open>bytes.ReplaceAll\<close>, of a text that is not empty\<close>
  "ReplaceAll s old new =
     (case s of
        [] \<Rightarrow> []
      | c # cs \<Rightarrow>
          if prefix old s then new @ ReplaceAll (drop (length old - 1) cs) old new
          else c # ReplaceAll cs old new)"

declare ReplaceAll.simps [simp del]

definition TokenProgram :: string where
  "TokenProgram = ''TokenkegQfeZyiNwAJbNbGKPFXCWuBvf9Ss623VQ5DA''"

definition Token2022Program :: string where
  "Token2022Program = ''TokenzQdBNbLqP5VEhdkAS6EPFLC1PHnBqCXEpPxuEb''"

definition use_2022 :: "string + string \<Rightarrow> string + string" where
  "use_2022 r = map_sum id (\<lambda>data. ReplaceAll data TokenProgram Token2022Program) r"

definition uint8 :: "int \<Rightarrow> int" where
  "uint8 d = wrap_u 8 d"

text \<open>
  The common beginning of the token functions: keys of both parties and of the mint, then the token
  accounts of both parties.
\<close>

definition with_accounts ::
  "sol_programs \<Rightarrow> (pubkey \<Rightarrow> pubkey \<Rightarrow> string + pubkey) \<Rightarrow> string \<Rightarrow> string \<Rightarrow> string \<Rightarrow>
   (pubkey \<Rightarrow> pubkey \<Rightarrow> pubkey \<Rightarrow> pubkey \<Rightarrow> string + string) \<Rightarrow> string + string" where
  "with_accounts sp ata senderAddr tokenAddr otherAddr k =
     (case sp_FromBase58 sp (TrimSpace senderAddr) of Inl err \<Rightarrow> Inl err | Inr senderpk \<Rightarrow>
     (case sp_FromBase58 sp (TrimSpace tokenAddr) of Inl err \<Rightarrow> Inl err | Inr mintpk \<Rightarrow>
     (case sp_FromBase58 sp (TrimSpace otherAddr) of Inl err \<Rightarrow> Inl err | Inr otherpk \<Rightarrow>
     (case ata senderpk mintpk of Inl err \<Rightarrow> Inl err | Inr senderAta \<Rightarrow>
     (case ata otherpk mintpk of Inl err \<Rightarrow> Inl err | Inr otherAta \<Rightarrow>
        k senderpk mintpk senderAta otherAta)))))"

definition SplApproveBody :: "sol_programs \<Rightarrow> string \<Rightarrow> string \<Rightarrow> string \<Rightarrow> int \<Rightarrow> int \<Rightarrow> string + string" where
  "SplApproveBody sp senderAddr tokenAddr spenderAddr amount decimals =
     with_accounts sp (GetAtaFromPk sp) senderAddr tokenAddr spenderAddr
       (\<lambda>senderpk mintpk senderAta spenderAta.
          SolToBody sp [sp_ApproveChecked sp (Uint64 amount) (uint8 decimals) senderAta mintpk spenderAta senderpk] None)"

definition Spl2022ApproveBody :: "sol_programs \<Rightarrow> string \<Rightarrow> string \<Rightarrow> string \<Rightarrow> int \<Rightarrow> int \<Rightarrow> string + string" where
  "Spl2022ApproveBody sp senderAddr tokenAddr spenderAddr amount decimals =
     with_accounts sp (Get2022AtaFromPk sp) senderAddr tokenAddr spenderAddr
       (\<lambda>senderpk mintpk senderAta spenderAta. use_2022
          (SolToBody sp [sp_ApproveChecked sp (Uint64 amount) (uint8 decimals) senderAta mintpk spenderAta senderpk] None))"

definition spl_transfer :: "sol_programs \<Rightarrow> int \<Rightarrow> int \<Rightarrow> pubkey \<Rightarrow> pubkey \<Rightarrow> pubkey \<Rightarrow> pubkey \<Rightarrow> instruction" where
  "spl_transfer sp amount decimals senderpk mintpk senderAta receiverAta =
     (if 0 \<le> decimals
      then sp_TransferChecked sp (Uint64 amount) (uint8 decimals) senderAta mintpk receiverAta senderpk
      else sp_Transfer sp (Uint64 amount) senderAta receiverAta senderpk)"

definition SqlTransferBody :: "sol_programs \<Rightarrow> string \<Rightarrow> string \<Rightarrow> string \<Rightarrow> int \<Rightarrow> int \<Rightarrow> string + string" where
  "SqlTransferBody sp senderAddr tokenAddr receiverAddr amount decimals =
     with_accounts sp (GetAtaFromPk sp) senderAddr tokenAddr receiverAddr
       (\<lambda>senderpk mintpk senderAta receiverAta.
          SolToBody sp [spl_transfer sp amount decimals senderpk mintpk senderAta receiverAta] None)"

definition Sql2022TransferBody :: "sol_programs \<Rightarrow> string \<Rightarrow> string \<Rightarrow> string \<Rightarrow> int \<Rightarrow> int \<Rightarrow> string + string" where
  "Sql2022TransferBody sp senderAddr tokenAddr receiverAddr amount decimals =
     with_accounts sp (Get2022AtaFromPk sp) senderAddr tokenAddr receiverAddr
       (\<lambda>senderpk mintpk senderAta receiverAta. use_2022
          (SolToBody sp [spl_transfer sp amount decimals senderpk mintpk senderAta receiverAta] None))"

section \<open>Instructions of the 2022 token program\<close>

text \<open>
  The instruction that creates a token account is that of the old program with two accounts exchanged
  when the accounts are asked for: they are exchanged in the instruction itself, so the state after the
  call is the list it returns. An error in deriving an address gives the zero key.
\<close>

record Spl2022CreateAtaInstruction =
  sc_token :: pubkey
  sc_recipient :: pubkey
  sc_inner :: instruction

definition key_or_zero :: "string + pubkey \<Rightarrow> pubkey" where
  "key_or_zero r = (case r of Inl _ \<Rightarrow> replicate 32 0 | Inr k \<Rightarrow> k)"

definition NewSpl2022CreateAtaInstruction :: "sol_programs \<Rightarrow> pubkey \<Rightarrow> pubkey \<Rightarrow> pubkey \<Rightarrow> Spl2022CreateAtaInstruction" where
  "NewSpl2022CreateAtaInstruction sp payer wallet tok =
     \<lparr>sc_token = tok, sc_recipient = wallet, sc_inner = sp_CreateAta sp payer wallet tok\<rparr>"

definition exchange_key :: "sol_programs \<Rightarrow> pubkey \<Rightarrow> pubkey \<Rightarrow> pubkey \<Rightarrow> pubkey" where
  "exchange_key sp recipient tok k =
     (if k = sp_TokenProgramID sp then sp_Token2022ID sp
      else if k = key_or_zero (sp_FindAta sp recipient tok)
      then key_or_zero (Get2022AtaFromPk sp recipient tok) else k)"

definition Spl2022Accounts :: "sol_programs \<Rightarrow> Spl2022CreateAtaInstruction \<Rightarrow> account_meta list \<times> Spl2022CreateAtaInstruction" where
  "Spl2022Accounts sp i =
     (let accounts = map (\<lambda>a. a\<lparr>PublicKey := exchange_key sp (sc_recipient i) (sc_token i) (PublicKey a)\<rparr>)
            (in_Accounts (sc_inner i))
      in (accounts, i\<lparr>sc_inner := (sc_inner i)\<lparr>in_Accounts := accounts\<rparr>\<rparr>))"

definition NewSpl2022TransferInstruction :: "sol_programs \<Rightarrow> int \<Rightarrow> pubkey \<Rightarrow> pubkey \<Rightarrow> pubkey \<Rightarrow> instruction" where
  "NewSpl2022TransferInstruction sp amount source destination owner =
     (sp_Transfer sp amount source destination owner)\<lparr>in_ProgramID := sp_Token2022ID sp\<rparr>"

section \<open>Properties of the bodies\<close>

definition solana_instruction :: "instruction \<Rightarrow> SolanaInstruction" where
  "solana_instruction inst =
     \<lparr>si_ProgramId = in_ProgramID inst, si_Accounts = map solana_account (in_Accounts inst), si_Data = projr (in_Data inst)\<rparr>"

lemma AddInstructions_spec:
  "AddInstructions insts body =
     (let ok = takeWhile (\<lambda>i. \<not> isl (in_Data i)) insts;
          rest = dropWhile (\<lambda>i. \<not> isl (in_Data i)) insts
      in (if rest = [] then None else Some (projl (in_Data (hd rest))),
          body\<lparr>sb_Instructions := sb_Instructions body @ map solana_instruction ok\<rparr>))"
proof (induction insts arbitrary: body)
  case (Cons inst insts)
  then show ?case by (cases "in_Data inst") (simp_all add: Let_def solana_instruction_def)
qed (simp add: Let_def)

text \<open>
  A body is made exactly when every instruction has data, and then it holds the instructions in
  order, each with its program, accounts and data, and the given keypairs and tables; otherwise the
  error is that of the first instruction without data.
\<close>

theorem sol_body_instructions:
  "ToSolanaBody insts keypairs tables =
     (case find (\<lambda>i. isl (in_Data i)) insts of
        Some inst \<Rightarrow> Inl (projl (in_Data inst))
      | None \<Rightarrow> Inr \<lparr>sb_Instructions = map solana_instruction insts, sb_Keypairs = keypairs,
                      sb_LookupTables = tables, sb_Mev = False\<rparr>)"
proof -
  have f: "find P xs = (if dropWhile (\<lambda>x. \<not> P x) xs = [] then None else Some (hd (dropWhile (\<lambda>x. \<not> P x) xs)))"
    for P :: "instruction \<Rightarrow> bool" and xs by (induction xs) auto
  have t: "(\<And>x. x \<in> set xs \<Longrightarrow> P x) \<Longrightarrow> takeWhile P xs = xs" for P :: "instruction \<Rightarrow> bool" and xs
    by (simp add: takeWhile_eq_all_conv)
  show ?thesis by (auto simp: ToSolanaBody_def AddInstructions_spec Let_def f t)
qed

text \<open>
  A token transfer, with either token program, depends on the amount only through its absolute
  value modulo 2^64 and, for decimals that are not negative, on the decimals only modulo 256: amounts
  of more than 64 bits and negative amounts are transferred as other amounts, without an error.
\<close>

theorem sol_amount_truncated:
  assumes "\<bar>a\<bar> mod 2 ^ 64 = \<bar>b\<bar> mod 2 ^ 64" and "0 \<le> c" and "0 \<le> d" and "c mod 256 = d mod 256"
  shows "SqlTransferBody sp s t r a c = SqlTransferBody sp s t r b d \<and>
    Sql2022TransferBody sp s t r a c = Sql2022TransferBody sp s t r b d \<and>
    SplApproveBody sp s t r a c = SplApproveBody sp s t r b d \<and>
    Spl2022ApproveBody sp s t r a c = Spl2022ApproveBody sp s t r b d \<and>
    SolTransferBody sp s r a = SolTransferBody sp s r b"
proof -
  have n: "Uint64 a = Uint64 b" "uint8 c = uint8 d" using assms by (simp_all add: Uint64_def uint8_def wrap_u_def)
  with assms(2,3) have "spl_transfer sp a c = spl_transfer sp b d" by (simp add: spl_transfer_def fun_eq_iff)
  then show ?thesis
    unfolding SqlTransferBody_def Sql2022TransferBody_def SplApproveBody_def Spl2022ApproveBody_def SolTransferBody_def n
    by simp
qed

definition sample_programs :: sol_programs where
  "sample_programs =
     (let i = (\<lambda>n. \<lparr>in_ProgramID = [], in_Accounts = [], in_Data = Inr [nat n]\<rparr>)
      in \<lparr>sp_FromBase58 = (\<lambda>s. Inr (map of_char s)), sp_FindAta = (\<lambda>a b. Inr (a @ b)), sp_Find2022Ata = (\<lambda>a b. Inr (b @ a)),
          sp_SystemTransfer = (\<lambda>n _ _. i n), sp_ApproveChecked = (\<lambda>n d _ _ _ _. i n),
          sp_TransferChecked = (\<lambda>n d _ _ _ _. i n), sp_Transfer = (\<lambda>n _ _ _. i n),
          sp_CreateAta = (\<lambda>p w t. \<lparr>in_ProgramID = [7], in_Accounts = map (\<lambda>k. \<lparr>PublicKey = k, IsWritable = True, IsSigner = False\<rparr>)
            [p, w @ t, w, t, [1]], in_Data = Inr []\<rparr>), sp_TokenProgramID = [1], sp_Token2022ID = [2],
          sp_Marshal = (\<lambda>b. Inr (FormatInt (int (sum_list (map (sum_list \<circ> si_Data) (sb_Instructions b))))))\<rparr>)"

theorem sol_amount_truncated_witness:
  "SqlTransferBody sample_programs ''a'' ''b'' ''c'' (- (2 ^ 64) - 5) 262 = SqlTransferBody sample_programs ''a'' ''b'' ''c'' 5 6"
  using sol_amount_truncated [of "- (2 ^ 64) - 5" 5 262 6 sample_programs "''a''" "''b''" "''c''"] by simp

lemma length_ReplaceAll:
  "old \<noteq> [] \<Longrightarrow> length new = length old \<Longrightarrow> length (ReplaceAll s old new) = length s"
proof (induction s old new rule: ReplaceAll.induct)
  case (1 s old new)
  show ?case
  proof (cases s)
    case Nil
    then show ?thesis by (simp add: ReplaceAll.simps)
  next
    case (Cons c cs)
    have "prefix old s \<Longrightarrow> length old \<le> length s" by (rule prefix_length_le)
    with Cons 1 show ?thesis by (subst ReplaceAll.simps) (cases old, auto)
  qed
qed

text \<open>
  Asking the instruction for its accounts again, as \<open>AddInstructions\<close> does, gives the same accounts:
  the exchange is done once, as long as the new keys are not themselves among the keys exchanged.
\<close>

theorem sol_2022_accounts_stable:
  assumes "sp_Token2022ID sp \<noteq> sp_TokenProgramID sp"
    and "sp_Token2022ID sp \<noteq> key_or_zero (sp_FindAta sp (sc_recipient i) (sc_token i))"
    and "key_or_zero (sp_Find2022Ata sp (sc_recipient i) (sc_token i)) \<noteq> sp_TokenProgramID sp"
  shows "Spl2022Accounts sp (snd (Spl2022Accounts sp i)) = Spl2022Accounts sp i"
proof -
  have "exchange_key sp (sc_recipient i) (sc_token i) (exchange_key sp (sc_recipient i) (sc_token i) k) =
      exchange_key sp (sc_recipient i) (sc_token i) k" for k
    using assms by (simp add: exchange_key_def Get2022AtaFromPk_def)
  then show ?thesis by (simp add: Spl2022Accounts_def Let_def)
qed

theorem sol_2022_accounts_stable_witness:
  "let i = NewSpl2022CreateAtaInstruction sample_programs [3] [4] [5]
   in Spl2022Accounts sample_programs (snd (Spl2022Accounts sample_programs i)) = Spl2022Accounts sample_programs i \<and>
      map PublicKey (fst (Spl2022Accounts sample_programs i)) = [[3], [5, 4], [4], [5], [2]]"
  using sol_2022_accounts_stable [of sample_programs "NewSpl2022CreateAtaInstruction sample_programs [3] [4] [5]"]
  by (simp add: sample_programs_def NewSpl2022CreateAtaInstruction_def key_or_zero_def Spl2022Accounts_def
      exchange_key_def Get2022AtaFromPk_def Let_def)

end
