(* ===== verification/SolanaProgram.thy ===== *)
theory SolanaProgram
  imports SolanaTxn
begin

text \<open>
  The bindings of the two Solana programs, \<open>src/abi/owlto_sol_transfer\<close> and \<open>src/abi/svm_depositor\<close>: building,
  encoding and decoding their instructions. The packages are the same text but for the fields of
  \<open>TransferData\<close>, so the instructions are modelled once, over the codec of that type, and instantiated
  for both. Encoding and decoding of single values, the identifiers derived from the names of
  instructions and the methods of \<open>AccountMetaSlice\<close> belong to libraries and are arguments.

  The accounts of an instruction are a slice and its transfer data a pointer. A copy of the instruction
  shares both with the original, so slices and transfer data live in a store, at addresses. A panic is
  \<open>None\<close>.
\<close>

section \<open>Values\<close>

type_synonym bytes = "nat list"
type_synonym 'a decode = "bytes \<Rightarrow> string + 'a \<times> bytes"

record borsh =
  bo_U64 :: "int \<Rightarrow> string + bytes"
  bo_U32 :: "int \<Rightarrow> string + bytes"
  bo_String :: "string \<Rightarrow> string + bytes"
  bo_Array32 :: "bytes \<Rightarrow> string + bytes"
  bo_Nil :: "string + bytes"  \<comment> \<open>the encoding of a nil pointer\<close>
  bo_ReadU64 :: "int decode"
  bo_ReadU32 :: "int decode"
  bo_ReadString :: "string decode"
  bo_ReadArray32 :: "bytes decode"

definition codec_ok :: "('a \<Rightarrow> string + bytes) \<Rightarrow> 'a decode \<Rightarrow> 'a \<Rightarrow> bool" where
  \<comment> \<open>the value is encoded, and read back from in front of any bytes\<close>
  "codec_ok enc dec x \<longleftrightarrow> (case enc x of Inl _ \<Rightarrow> False | Inr bs \<Rightarrow> (\<forall>rest. dec (bs @ rest) = Inr (x, rest)))"

definition borsh_ok :: "borsh \<Rightarrow> bool" where
  "borsh_ok b \<longleftrightarrow>
     (\<forall>n. 0 \<le> n \<and> n < 2 ^ 64 \<longrightarrow> codec_ok (bo_U64 b) (bo_ReadU64 b) n) \<and>
     (\<forall>n. 0 \<le> n \<and> n < 2 ^ 32 \<longrightarrow> codec_ok (bo_U32 b) (bo_ReadU32 b) n) \<and>
     (\<forall>s. length s < 2 ^ 32 \<longrightarrow> codec_ok (bo_String b) (bo_ReadString b) s) \<and>
     (\<forall>a. length a = 32 \<longrightarrow> codec_ok (bo_Array32 b) (bo_ReadArray32 b) a)"

text \<open>Writers and readers run one after the other and stop at the first error.\<close>

fun write_all :: "(string + bytes) list \<Rightarrow> string + bytes" where
  "write_all [] = Inr []"
| "write_all (w # ws) =
     (case w of Inl err \<Rightarrow> Inl err | Inr bs \<Rightarrow> map_sum id (\<lambda>bs'. bs @ bs') (write_all ws))"

definition read_then :: "'a decode \<Rightarrow> ('a \<Rightarrow> 'b decode) \<Rightarrow> 'b decode" where
  "read_then d f bs = (case d bs of Inl err \<Rightarrow> Inl err | Inr (x, rest) \<Rightarrow> f x rest)"

section \<open>The data of a transfer\<close>

record SolTransferData =
  sd_Amount :: int
  sd_TargetAddr :: string

definition SolTransferData_Marshal :: "borsh \<Rightarrow> SolTransferData \<Rightarrow> string + bytes" where
  "SolTransferData_Marshal b obj = write_all [bo_U64 b (sd_Amount obj), bo_String b (sd_TargetAddr obj)]"

definition SolTransferData_Unmarshal :: "borsh \<Rightarrow> SolTransferData decode" where
  "SolTransferData_Unmarshal b =
     read_then (bo_ReadU64 b) (\<lambda>amount.
     read_then (bo_ReadString b) (\<lambda>targetAddr rest.
       Inr (\<lparr>sd_Amount = amount, sd_TargetAddr = targetAddr\<rparr>, rest)))"

record SvmTransferData =
  vd_Amount :: int
  vd_TargetAddr :: string
  vd_Maker :: bytes
  vd_Token :: bytes
  vd_Destination :: int
  vd_Channel :: int
  vd_Extra :: string

definition SvmTransferData_Marshal :: "borsh \<Rightarrow> SvmTransferData \<Rightarrow> string + bytes" where
  "SvmTransferData_Marshal b obj =
     write_all
       [bo_U64 b (vd_Amount obj), bo_String b (vd_TargetAddr obj), bo_Array32 b (vd_Maker obj), bo_Array32 b (vd_Token obj),
        bo_U32 b (vd_Destination obj), bo_U32 b (vd_Channel obj), bo_String b (vd_Extra obj)]"

definition SvmTransferData_Unmarshal :: "borsh \<Rightarrow> SvmTransferData decode" where
  "SvmTransferData_Unmarshal b =
     read_then (bo_ReadU64 b) (\<lambda>amount.
     read_then (bo_ReadString b) (\<lambda>targetAddr.
     read_then (bo_ReadArray32 b) (\<lambda>maker.
     read_then (bo_ReadArray32 b) (\<lambda>token.
     read_then (bo_ReadU32 b) (\<lambda>destination.
     read_then (bo_ReadU32 b) (\<lambda>channel.
     read_then (bo_ReadString b) (\<lambda>extra rest.
       Inr (\<lparr>vd_Amount = amount, vd_TargetAddr = targetAddr, vd_Maker = maker, vd_Token = token,
             vd_Destination = destination, vd_Channel = channel, vd_Extra = extra\<rparr>, rest))))))))"

section \<open>Accounts\<close>

type_synonym account_slice = "account_meta option list"

record 'd store =
  so_slices :: "nat \<Rightarrow> account_slice"
  so_free :: nat
  so_data :: "nat \<Rightarrow> 'd"  \<comment> \<open>the values of \<open>TransferData\<close> that pointers lead to\<close>
  so_dfree :: nat

definition Meta :: "pubkey \<Rightarrow> account_meta" where
  "Meta pk = \<lparr>PublicKey = pk, IsWritable = False, IsSigner = False\<rparr>"

definition WRITE :: "account_meta \<Rightarrow> account_meta" where
  "WRITE m = m\<lparr>IsWritable := True\<rparr>"

definition SIGNER :: "account_meta \<Rightarrow> account_meta" where
  "SIGNER m = m\<lparr>IsSigner := True\<rparr>"

definition make_slice :: "nat \<Rightarrow> 'd store \<Rightarrow> nat \<times> 'd store" where
  "make_slice n st =
     (so_free st, st\<lparr>so_slices := (so_slices st)(so_free st := replicate n None), so_free := Suc (so_free st)\<rparr>)"

definition new_data :: "'d \<Rightarrow> 'd store \<Rightarrow> nat \<times> 'd store" where
  \<comment> \<open>a pointer to a new variable that holds the data\<close>
  "new_data d st = (so_dfree st, st\<lparr>so_data := (so_data st)(so_dfree st := d), so_dfree := Suc (so_dfree st)\<rparr>)"

definition set_account :: "nat \<Rightarrow> nat \<Rightarrow> account_meta \<Rightarrow> 'd store \<Rightarrow> 'd store option" where
  \<comment> \<open>\<open>slice[i] = m\<close>, a panic out of range\<close>
  "set_account a i m st =
     (if i < length (so_slices st a)
      then Some (st\<lparr>so_slices := (so_slices st)(a := (so_slices st a)[i := Some m])\<rparr>) else None)"

section \<open>\<open>TransferLamports\<close>\<close>

record TransferLamports =
  tl_TransferData :: "nat option"  \<comment> \<open>a pointer\<close>
  tl_Accounts :: nat

definition NewTransferLamportsInstructionBuilder :: "'d store \<Rightarrow> TransferLamports \<times> 'd store" where
  "NewTransferLamportsInstructionBuilder st =
     (case make_slice 3 st of (a, st) \<Rightarrow> (\<lparr>tl_TransferData = None, tl_Accounts = a\<rparr>, st))"

definition tl_SetTransferData :: "'d \<Rightarrow> TransferLamports \<Rightarrow> 'd store \<Rightarrow> TransferLamports \<times> 'd store" where
  \<comment> \<open>the address of the parameter, a new variable\<close>
  "tl_SetTransferData d inst st = (case new_data d st of (p, st) \<Rightarrow> (inst\<lparr>tl_TransferData := Some p\<rparr>, st))"

definition tl_SetFromAccount :: "pubkey \<Rightarrow> TransferLamports \<Rightarrow> 'd store \<Rightarrow> 'd store option" where
  "tl_SetFromAccount from' inst = set_account (tl_Accounts inst) 0 (SIGNER (WRITE (Meta from')))"

definition tl_SetToAccount :: "pubkey \<Rightarrow> TransferLamports \<Rightarrow> 'd store \<Rightarrow> 'd store option" where
  "tl_SetToAccount to inst = set_account (tl_Accounts inst) 1 (WRITE (Meta to))"

definition tl_SetSystemProgramAccount :: "pubkey \<Rightarrow> TransferLamports \<Rightarrow> 'd store \<Rightarrow> 'd store option" where
  "tl_SetSystemProgramAccount systemProgram inst = set_account (tl_Accounts inst) 2 (Meta systemProgram)"

definition NewTransferLamportsInstruction ::
  "'d \<Rightarrow> pubkey \<Rightarrow> pubkey \<Rightarrow> pubkey \<Rightarrow> 'd store \<Rightarrow> (TransferLamports \<times> 'd store) option" where
  "NewTransferLamportsInstruction d from' to systemProgram st =
     (case NewTransferLamportsInstructionBuilder st of
        (inst, st) \<Rightarrow>
          (case tl_SetTransferData d inst st of
             (inst, st) \<Rightarrow>
               map_option (Pair inst)
                 (Option.bind (tl_SetFromAccount from' inst st) (\<lambda>st.
                  Option.bind (tl_SetToAccount to inst st)
                    (tl_SetSystemProgramAccount systemProgram inst)))))"

fun check_accounts :: "string list \<Rightarrow> account_slice \<Rightarrow> string option option" where
  \<comment> \<open>the error of the first account that is not set; \<open>None\<close> is the panic of an index out of range\<close>
  "check_accounts [] accounts = Some None"
| "check_accounts (n # ns) [] = None"
| "check_accounts (n # ns) (a # accounts) =
     (if a = None then Some (Some (''accounts.'' @ n @ '' is not set'')) else check_accounts ns accounts)"

definition tl_Validate :: "'d store \<Rightarrow> TransferLamports \<Rightarrow> string option option" where
  "tl_Validate st inst =
     (if tl_TransferData inst = None then Some (Some ''TransferData parameter is not set'')
      else check_accounts [''From'', ''To'', ''SystemProgram''] (so_slices st (tl_Accounts inst)))"

section \<open>\<open>TransferSplTokens\<close>\<close>

record TransferSplTokens =
  ts_TransferData :: "nat option"  \<comment> \<open>a pointer\<close>
  ts_Accounts :: nat

definition NewTransferSplTokensInstructionBuilder :: "'d store \<Rightarrow> TransferSplTokens \<times> 'd store" where
  "NewTransferSplTokensInstructionBuilder st =
     (case make_slice 4 st of (a, st) \<Rightarrow> (\<lparr>ts_TransferData = None, ts_Accounts = a\<rparr>, st))"

definition ts_SetTransferData :: "'d \<Rightarrow> TransferSplTokens \<Rightarrow> 'd store \<Rightarrow> TransferSplTokens \<times> 'd store" where
  \<comment> \<open>the address of the parameter, a new variable\<close>
  "ts_SetTransferData d inst st = (case new_data d st of (p, st) \<Rightarrow> (inst\<lparr>ts_TransferData := Some p\<rparr>, st))"

definition ts_SetFromAccount :: "pubkey \<Rightarrow> TransferSplTokens \<Rightarrow> 'd store \<Rightarrow> 'd store option" where
  "ts_SetFromAccount from' inst = set_account (ts_Accounts inst) 0 (SIGNER (Meta from'))"

definition ts_SetFromAtaAccount :: "pubkey \<Rightarrow> TransferSplTokens \<Rightarrow> 'd store \<Rightarrow> 'd store option" where
  "ts_SetFromAtaAccount fromAta inst = set_account (ts_Accounts inst) 1 (WRITE (Meta fromAta))"

definition ts_SetToAtaAccount :: "pubkey \<Rightarrow> TransferSplTokens \<Rightarrow> 'd store \<Rightarrow> 'd store option" where
  "ts_SetToAtaAccount toAta inst = set_account (ts_Accounts inst) 2 (WRITE (Meta toAta))"

definition ts_SetTokenProgramAccount :: "pubkey \<Rightarrow> TransferSplTokens \<Rightarrow> 'd store \<Rightarrow> 'd store option" where
  "ts_SetTokenProgramAccount tokenProgram inst = set_account (ts_Accounts inst) 3 (Meta tokenProgram)"

definition NewTransferSplTokensInstruction ::
  "'d \<Rightarrow> pubkey \<Rightarrow> pubkey \<Rightarrow> pubkey \<Rightarrow> pubkey \<Rightarrow> 'd store \<Rightarrow> (TransferSplTokens \<times> 'd store) option" where
  "NewTransferSplTokensInstruction d from' fromAta toAta tokenProgram st =
     (case NewTransferSplTokensInstructionBuilder st of
        (inst, st) \<Rightarrow>
          (case ts_SetTransferData d inst st of
             (inst, st) \<Rightarrow>
               map_option (Pair inst)
                 (Option.bind (ts_SetFromAccount from' inst st) (\<lambda>st.
                  Option.bind (ts_SetFromAtaAccount fromAta inst st) (\<lambda>st.
                  Option.bind (ts_SetToAtaAccount toAta inst st)
                    (ts_SetTokenProgramAccount tokenProgram inst))))))"

definition ts_Validate :: "'d store \<Rightarrow> TransferSplTokens \<Rightarrow> string option option" where
  "ts_Validate st inst =
     (if ts_TransferData inst = None then Some (Some ''TransferData parameter is not set'')
      else check_accounts [''From'', ''FromAta'', ''ToAta'', ''TokenProgram''] (so_slices st (ts_Accounts inst)))"

section \<open>Instructions\<close>

definition Instruction_TransferLamports :: bytes where
  "Instruction_TransferLamports = [62, 53, 201, 68, 102, 134, 83, 103]"

definition Instruction_TransferSplTokens :: bytes where
  "Instruction_TransferSplTokens = [20, 18, 113, 207, 62, 6, 205, 80]"

definition InstructionIDToName :: "bytes \<Rightarrow> string" where
  "InstructionIDToName i =
     (if i = Instruction_TransferLamports then ''TransferLamports''
      else if i = Instruction_TransferSplTokens then ''TransferSplTokens'' else [])"

datatype impl = ImplLamports "TransferLamports" | ImplSplTokens "TransferSplTokens"

record Instruction =
  is_TypeID :: bytes
  is_Impl :: "impl"

definition tl_Build :: "TransferLamports \<Rightarrow> Instruction" where
  \<comment> \<open>the copy shares the accounts and the transfer data\<close>
  "tl_Build inst = \<lparr>is_TypeID = Instruction_TransferLamports, is_Impl = ImplLamports inst\<rparr>"

definition ts_Build :: "TransferSplTokens \<Rightarrow> Instruction" where
  "ts_Build inst = \<lparr>is_TypeID = Instruction_TransferSplTokens, is_Impl = ImplSplTokens inst\<rparr>"

definition tl_ValidateAndBuild :: "'d store \<Rightarrow> TransferLamports \<Rightarrow> (string + Instruction) option" where
  "tl_ValidateAndBuild st inst =
     map_option (\<lambda>e. case e of Some err \<Rightarrow> Inl err | None \<Rightarrow> Inr (tl_Build inst)) (tl_Validate st inst)"

definition ts_ValidateAndBuild :: "'d store \<Rightarrow> TransferSplTokens \<Rightarrow> (string + Instruction) option" where
  "ts_ValidateAndBuild st inst =
     map_option (\<lambda>e. case e of Some err \<Rightarrow> Inl err | None \<Rightarrow> Inr (ts_Build inst)) (ts_Validate st inst)"

record sol_library =
  sl_GetAccounts :: "account_slice \<Rightarrow> account_meta list"
  sl_SetAccounts :: "account_meta list \<Rightarrow> string + account_slice"
  sl_ReadVariant :: "string list \<Rightarrow> (bytes \<times> string) decode"
    \<comment> \<open>the identifier in front of the data and which of the named variants it is\<close>

definition variants :: "string list" where
  "variants = [''transfer_lamports'', ''transfer_spl_tokens'']"

definition library_ok :: "sol_library \<Rightarrow> bool" where
  \<comment> \<open>accounts that are all set are got and set as they are, and an identifier is that of its instruction\<close>
  "library_ok lib \<longleftrightarrow>
     (\<forall>ms. sl_GetAccounts lib (map Some ms) = ms \<and> sl_SetAccounts lib ms = Inr (map Some ms)) \<and>
     (\<forall>rest.
        sl_ReadVariant lib variants (Instruction_TransferLamports @ rest) =
          Inr ((Instruction_TransferLamports, ''transfer_lamports''), rest) \<and>
        sl_ReadVariant lib variants (Instruction_TransferSplTokens @ rest) =
          Inr ((Instruction_TransferSplTokens, ''transfer_spl_tokens''), rest))"

fun impl_accounts :: "impl \<Rightarrow> nat" where
  "impl_accounts (ImplLamports i) = tl_Accounts i"
| "impl_accounts (ImplSplTokens i) = ts_Accounts i"

definition Instruction_Accounts :: "sol_library \<Rightarrow> 'd store \<Rightarrow> Instruction \<Rightarrow> account_meta list" where
  "Instruction_Accounts lib st inst = sl_GetAccounts lib (so_slices st (impl_accounts (is_Impl inst)))"

fun impl_Marshal :: "borsh \<Rightarrow> ('d \<Rightarrow> string + bytes) \<Rightarrow> 'd store \<Rightarrow> impl \<Rightarrow> string + bytes" where
  "impl_Marshal b enc st (ImplLamports i) =
     (case tl_TransferData i of None \<Rightarrow> bo_Nil b | Some p \<Rightarrow> enc (so_data st p))"
| "impl_Marshal b enc st (ImplSplTokens i) =
     (case ts_TransferData i of None \<Rightarrow> bo_Nil b | Some p \<Rightarrow> enc (so_data st p))"

definition Instruction_Data :: "borsh \<Rightarrow> ('d \<Rightarrow> string + bytes) \<Rightarrow> 'd store \<Rightarrow> Instruction \<Rightarrow> string + bytes" where
  "Instruction_Data b enc st inst =
     (case write_all [Inr (is_TypeID inst), impl_Marshal b enc st (is_Impl inst)] of
        Inl err \<Rightarrow> Inl (''unable to encode instruction: '' @ err)
      | Inr bs \<Rightarrow> Inr bs)"

definition Instruction_Unmarshal ::
  "sol_library \<Rightarrow> 'd decode \<Rightarrow> nat \<Rightarrow> bytes \<Rightarrow> 'd store \<Rightarrow> string + Instruction \<times> 'd store" where
  \<comment> \<open>the decoded instruction has the accounts at the given address, and new transfer data\<close>
  "Instruction_Unmarshal lib dec a bs st =
     (case read_then (sl_ReadVariant lib variants) (\<lambda>v. read_then dec (\<lambda>d rest. Inr ((v, d), rest))) bs of
        Inl err \<Rightarrow> Inl err
      | Inr (((i, n), d), _) \<Rightarrow>
          (case new_data d st of
             (p, st) \<Rightarrow>
               Inr (\<lparr>is_TypeID = i,
                     is_Impl = (if n = ''transfer_lamports'' then ImplLamports \<lparr>tl_TransferData = Some p, tl_Accounts = a\<rparr>
                                else ImplSplTokens \<lparr>ts_TransferData = Some p, ts_Accounts = a\<rparr>)\<rparr>, st)))"

definition DecodeInstruction ::
  "sol_library \<Rightarrow> 'd decode \<Rightarrow> account_meta list \<Rightarrow> bytes \<Rightarrow> 'd store \<Rightarrow> (string + Instruction) \<times> 'd store" where
  "DecodeInstruction lib dec accounts data st =
     (case make_slice 0 st of
        (a, st) \<Rightarrow>
          (case Instruction_Unmarshal lib dec a data st of
             Inl err \<Rightarrow> (Inl (''unable to decode instruction: '' @ err), st)
           | Inr (inst, st) \<Rightarrow>
               (case sl_SetAccounts lib accounts of
                  Inl err \<Rightarrow> (Inl (''unable to set accounts for instruction: '' @ err), st)
                | Inr metas \<Rightarrow> (Inr inst, st\<lparr>so_slices := (so_slices st)(a := metas)\<rparr>))))"

section \<open>The two programs\<close>

definition SolInstruction_Data :: "borsh \<Rightarrow> SolTransferData store \<Rightarrow> Instruction \<Rightarrow> string + bytes" where
  "SolInstruction_Data b = Instruction_Data b (SolTransferData_Marshal b)"

definition SolDecodeInstruction ::
  "sol_library \<Rightarrow> borsh \<Rightarrow> account_meta list \<Rightarrow> bytes \<Rightarrow> SolTransferData store \<Rightarrow> (string + Instruction) \<times> SolTransferData store" where
  "SolDecodeInstruction lib b = DecodeInstruction lib (SolTransferData_Unmarshal b)"

definition SvmInstruction_Data :: "borsh \<Rightarrow> SvmTransferData store \<Rightarrow> Instruction \<Rightarrow> string + bytes" where
  "SvmInstruction_Data b = Instruction_Data b (SvmTransferData_Marshal b)"

definition SvmDecodeInstruction ::
  "sol_library \<Rightarrow> borsh \<Rightarrow> account_meta list \<Rightarrow> bytes \<Rightarrow> SvmTransferData store \<Rightarrow> (string + Instruction) \<times> SvmTransferData store" where
  "SvmDecodeInstruction lib b = DecodeInstruction lib (SvmTransferData_Unmarshal b)"

section \<open>Round trips\<close>

lemma codec_ok_iff:
  "codec_ok enc dec x \<longleftrightarrow> (\<exists>bs. enc x = Inr bs \<and> (\<forall>rest. dec (bs @ rest) = Inr (x, rest)))"
  by (simp add: codec_ok_def split: sum.splits)

lemma borsh_reads:
  assumes "borsh_ok b"
  shows borsh_U64: "0 \<le> i \<Longrightarrow> i < 2 ^ 64 \<Longrightarrow> \<exists>x. bo_U64 b i = Inr x \<and> (\<forall>r. bo_ReadU64 b (x @ r) = Inr (i, r))"
    and borsh_U32: "0 \<le> j \<Longrightarrow> j < 2 ^ 32 \<Longrightarrow> \<exists>x. bo_U32 b j = Inr x \<and> (\<forall>r. bo_ReadU32 b (x @ r) = Inr (j, r))"
    and borsh_String: "length s < 2 ^ 32 \<Longrightarrow> \<exists>x. bo_String b s = Inr x \<and> (\<forall>r. bo_ReadString b (x @ r) = Inr (s, r))"
    and borsh_Array32: "length a = 32 \<Longrightarrow> \<exists>x. bo_Array32 b a = Inr x \<and> (\<forall>r. bo_ReadArray32 b (x @ r) = Inr (a, r))"
  using assms unfolding borsh_ok_def codec_ok_iff by blast+

definition sol_data_ok :: "SolTransferData \<Rightarrow> bool" where
  "sol_data_ok d \<longleftrightarrow> 0 \<le> sd_Amount d \<and> sd_Amount d < 2 ^ 64 \<and> length (sd_TargetAddr d) < 2 ^ 32"

definition svm_data_ok :: "SvmTransferData \<Rightarrow> bool" where
  \<comment> \<open>the values of the Go type, with strings short enough for the encoding\<close>
  "svm_data_ok d \<longleftrightarrow>
     0 \<le> vd_Amount d \<and> vd_Amount d < 2 ^ 64 \<and> length (vd_TargetAddr d) < 2 ^ 32 \<and>
     length (vd_Maker d) = 32 \<and> length (vd_Token d) = 32 \<and>
     0 \<le> vd_Destination d \<and> vd_Destination d < 2 ^ 32 \<and> 0 \<le> vd_Channel d \<and> vd_Channel d < 2 ^ 32 \<and>
     length (vd_Extra d) < 2 ^ 32"

lemma sol_data_codec:
  assumes b: "borsh_ok b" and d: "sol_data_ok d"
  shows "codec_ok (SolTransferData_Marshal b) (SolTransferData_Unmarshal b) d"
  using borsh_U64 [OF b, of "sd_Amount d"] borsh_String [OF b, of "sd_TargetAddr d"] d
  by (auto simp: codec_ok_def sol_data_ok_def SolTransferData_Marshal_def SolTransferData_Unmarshal_def read_then_def)

lemma svm_data_codec:
  assumes b: "borsh_ok b" and d: "svm_data_ok d"
  shows "codec_ok (SvmTransferData_Marshal b) (SvmTransferData_Unmarshal b) d"
  using borsh_U64 [OF b, of "vd_Amount d"] borsh_String [OF b, of "vd_TargetAddr d"] borsh_Array32 [OF b, of "vd_Maker d"]
    borsh_Array32 [OF b, of "vd_Token d"] borsh_U32 [OF b, of "vd_Destination d"] borsh_U32 [OF b, of "vd_Channel d"]
    borsh_String [OF b, of "vd_Extra d"] d
  by (auto simp: codec_ok_def svm_data_ok_def SvmTransferData_Marshal_def SvmTransferData_Unmarshal_def read_then_def)

fun impl_pointer :: "impl \<Rightarrow> nat option" where
  "impl_pointer (ImplLamports i) = tl_TransferData i"
| "impl_pointer (ImplSplTokens i) = ts_TransferData i"

definition impl_data :: "'d store \<Rightarrow> impl \<Rightarrow> 'd option" where
  \<comment> \<open>the transfer data that the instruction has now\<close>
  "impl_data st impl = map_option (so_data st) (impl_pointer impl)"

lemma impl_Marshal_data: "impl_Marshal b enc st impl = (case impl_data st impl of None \<Rightarrow> bo_Nil b | Some d \<Rightarrow> enc d)"
  by (cases impl) (simp_all add: impl_data_def split: option.split)

lemma decode_data:
  assumes lib: "library_ok lib" and c: "codec_ok enc dec d" and m: "impl_data st impl = Some d"
    and i: "(i, n) \<in> {(Instruction_TransferLamports, ''transfer_lamports''), (Instruction_TransferSplTokens, ''transfer_spl_tokens'')}"
  shows "\<exists>data. Instruction_Data b enc st \<lparr>is_TypeID = i, is_Impl = impl\<rparr> = Inr data \<and>
    DecodeInstruction lib dec ms data st =
      (Inr \<lparr>is_TypeID = i,
            is_Impl = (if n = ''transfer_lamports''
                       then ImplLamports \<lparr>tl_TransferData = Some (so_dfree st), tl_Accounts = so_free st\<rparr>
                       else ImplSplTokens \<lparr>ts_TransferData = Some (so_dfree st), ts_Accounts = so_free st\<rparr>)\<rparr>,
       \<lparr>so_slices = (so_slices st)(so_free st := map Some ms), so_free = Suc (so_free st),
        so_data = (so_data st)(so_dfree st := d), so_dfree = Suc (so_dfree st)\<rparr>)"
proof -
  obtain bs where bs: "enc d = Inr bs" "\<And>rest. dec (bs @ rest) = Inr (d, rest)" using c unfolding codec_ok_iff by blast
  have "sl_ReadVariant lib variants (i @ rest) = Inr ((i, n), rest)" for rest
    using lib i by (auto simp: library_ok_def)
  moreover have "sl_SetAccounts lib ms = Inr (map Some ms)" using lib by (simp add: library_ok_def)
  moreover have "dec bs = Inr (d, [])" using bs(2) [of "[]"] by simp
  moreover have "impl_Marshal b enc st impl = enc d" using m by (simp add: impl_Marshal_data)
  ultimately show ?thesis using bs(1)
    by (auto simp: Instruction_Data_def DecodeInstruction_def Instruction_Unmarshal_def read_then_def make_slice_def
        new_data_def fun_eq_iff)
qed

section \<open>Builders\<close>

lemma New_lamports:
  "NewTransferLamportsInstruction d f t sp st =
     Some (\<lparr>tl_TransferData = Some (so_dfree st), tl_Accounts = so_free st\<rparr>,
           \<lparr>so_slices = (so_slices st)(so_free st :=
               [Some (SIGNER (WRITE (Meta f))), Some (WRITE (Meta t)), Some (Meta sp)]), so_free = Suc (so_free st),
            so_data = (so_data st)(so_dfree st := d), so_dfree = Suc (so_dfree st)\<rparr>)"
  by (simp add: NewTransferLamportsInstruction_def NewTransferLamportsInstructionBuilder_def make_slice_def new_data_def
      tl_SetTransferData_def tl_SetFromAccount_def tl_SetToAccount_def tl_SetSystemProgramAccount_def set_account_def
      numeral_eq_Suc)

lemma New_spl_tokens:
  "NewTransferSplTokensInstruction d f fa ta tp st =
     Some (\<lparr>ts_TransferData = Some (so_dfree st), ts_Accounts = so_free st\<rparr>,
           \<lparr>so_slices = (so_slices st)(so_free st :=
               [Some (SIGNER (Meta f)), Some (WRITE (Meta fa)), Some (WRITE (Meta ta)), Some (Meta tp)]),
            so_free = Suc (so_free st),
            so_data = (so_data st)(so_dfree st := d), so_dfree = Suc (so_dfree st)\<rparr>)"
  by (simp add: NewTransferSplTokensInstruction_def NewTransferSplTokensInstructionBuilder_def make_slice_def new_data_def
      ts_SetTransferData_def ts_SetFromAccount_def ts_SetFromAtaAccount_def ts_SetToAtaAccount_def
      ts_SetTokenProgramAccount_def set_account_def numeral_eq_Suc)

fun is_lamports :: "impl \<Rightarrow> bool" where
  "is_lamports (ImplLamports i) = True"
| "is_lamports (ImplSplTokens i) = False"

definition same_instruction :: "sol_library \<Rightarrow> 'd store \<Rightarrow> Instruction \<Rightarrow> 'd store \<Rightarrow> Instruction \<Rightarrow> bool" where
  "same_instruction lib st inst st' inst' \<longleftrightarrow>
     is_TypeID inst' = is_TypeID inst \<and> impl_data st' (is_Impl inst') = impl_data st (is_Impl inst) \<and>
     is_lamports (is_Impl inst') = is_lamports (is_Impl inst) \<and>
     Instruction_Accounts lib st' inst' = Instruction_Accounts lib st inst"

definition decodes_as ::
  "sol_library \<Rightarrow> ('d store \<Rightarrow> Instruction \<Rightarrow> string + bytes) \<Rightarrow>
   (account_meta list \<Rightarrow> bytes \<Rightarrow> 'd store \<Rightarrow> (string + Instruction) \<times> 'd store) \<Rightarrow>
   'd store \<Rightarrow> Instruction \<Rightarrow> bool" where
  \<comment> \<open>the data of the instruction starts with its identifier, and with its accounts it is decoded as the same instruction\<close>
  "decodes_as lib encode decode st built \<longleftrightarrow>
     (case encode st built of
        Inl _ \<Rightarrow> False
      | Inr data \<Rightarrow>
          take 8 data = is_TypeID built \<and>
          (case decode (Instruction_Accounts lib st built) data st of
             (Inl _, _) \<Rightarrow> False
           | (Inr inst, st') \<Rightarrow> same_instruction lib st built st' inst))"

text \<open>What a program promises of the codec of its data, and what follows for its instructions.\<close>

locale program_data =
  fixes b :: borsh and enc :: "'d \<Rightarrow> string + bytes" and dec :: "'d decode" and ok :: "'d \<Rightarrow> bool"
  assumes codec: "ok d \<Longrightarrow> codec_ok enc dec d"
begin

lemma Build_decodes_as:
  assumes d: "ok d" "impl_data st impl = Some d" and lib: "library_ok lib"
    and ms: "so_slices st (impl_accounts impl) = map Some ms"
    and built: "built = \<lparr>is_TypeID = (if is_lamports impl then Instruction_TransferLamports
      else Instruction_TransferSplTokens), is_Impl = impl\<rparr>"
  shows "decodes_as lib (Instruction_Data b enc) (DecodeInstruction lib dec) st built"
proof -
  let ?n = "if is_lamports impl then ''transfer_lamports'' else ''transfer_spl_tokens''"
  have acc: "sl_GetAccounts lib (map Some ms) = ms" using lib by (simp add: library_ok_def)
  obtain data where d1: "Instruction_Data b enc st built = Inr data"
    and d2: "DecodeInstruction lib dec ms data st =
      (Inr \<lparr>is_TypeID = is_TypeID built,
            is_Impl = (if ?n = ''transfer_lamports''
                       then ImplLamports \<lparr>tl_TransferData = Some (so_dfree st), tl_Accounts = so_free st\<rparr>
                       else ImplSplTokens \<lparr>ts_TransferData = Some (so_dfree st), ts_Accounts = so_free st\<rparr>)\<rparr>,
       \<lparr>so_slices = (so_slices st)(so_free st := map Some ms), so_free = Suc (so_free st),
        so_data = (so_data st)(so_dfree st := d), so_dfree = Suc (so_dfree st)\<rparr>)"
    using decode_data [OF lib codec [OF d(1)] d(2), where i = "is_TypeID built" and n = ?n and ms = ms and b = b]
    unfolding built by (cases "is_lamports impl") auto
  have "take 8 data = is_TypeID built"
    using d1 by (auto simp: Instruction_Data_def built Instruction_TransferLamports_def Instruction_TransferSplTokens_def
        split: sum.splits if_splits)
  then show ?thesis
    using d1 d2 d(2) ms acc
    by (cases impl) (auto simp: decodes_as_def same_instruction_def Instruction_Accounts_def built impl_data_def)
qed

lemma lamports_roundtrip:
  assumes "ok d" "library_ok lib"
  shows "case NewTransferLamportsInstruction d f t sp st of
           None \<Rightarrow> False
         | Some (inst, st') \<Rightarrow>
             tl_ValidateAndBuild st' inst = Some (Inr (tl_Build inst)) \<and>
             decodes_as lib (Instruction_Data b enc) (DecodeInstruction lib dec) st' (tl_Build inst)"
  using assms
  by (auto simp: New_lamports tl_ValidateAndBuild_def tl_Validate_def tl_Build_def impl_data_def
      intro!: Build_decodes_as [of d _ _ _ "[SIGNER (WRITE (Meta f)), WRITE (Meta t), Meta sp]"])

lemma spl_tokens_roundtrip:
  assumes "ok d" "library_ok lib"
  shows "case NewTransferSplTokensInstruction d f fa ta tp st of
           None \<Rightarrow> False
         | Some (inst, st') \<Rightarrow>
             ts_ValidateAndBuild st' inst = Some (Inr (ts_Build inst)) \<and>
             decodes_as lib (Instruction_Data b enc) (DecodeInstruction lib dec) st' (ts_Build inst)"
  using assms
  by (auto simp: New_spl_tokens ts_ValidateAndBuild_def ts_Validate_def ts_Build_def impl_data_def
      intro!: Build_decodes_as [of d _ _ _ "[SIGNER (Meta f), WRITE (Meta fa), WRITE (Meta ta), Meta tp]"])

end

interpretation sol_program: program_data b "SolTransferData_Marshal b" "SolTransferData_Unmarshal b"
  "\<lambda>d. borsh_ok b \<and> sol_data_ok d" for b
  by unfold_locales (simp add: sol_data_codec)

interpretation svm_program: program_data b "SvmTransferData_Marshal b" "SvmTransferData_Unmarshal b"
  "\<lambda>d. borsh_ok b \<and> svm_data_ok d" for b
  by unfold_locales (simp add: svm_data_codec)

text \<open>
  C20. Instructions of both programs round trip, given a correct codec of single values: an instruction of the
  program of deposits, made with all its parameters, passes validation, and from its data and its accounts the
  same kind of instruction with the same transfer data and accounts, flags included, is decoded.
\<close>

theorem svm_instruction_roundtrip:
  assumes "borsh_ok b" "library_ok lib" "svm_data_ok d"
  shows "(case NewTransferLamportsInstruction d f t sp st of
            None \<Rightarrow> False
          | Some (inst, st') \<Rightarrow>
              tl_ValidateAndBuild st' inst = Some (Inr (tl_Build inst)) \<and>
              decodes_as lib (SvmInstruction_Data b) (SvmDecodeInstruction lib b) st' (tl_Build inst)) \<and>
         (case NewTransferSplTokensInstruction d f fa ta tp st of
            None \<Rightarrow> False
          | Some (inst, st') \<Rightarrow>
              ts_ValidateAndBuild st' inst = Some (Inr (ts_Build inst)) \<and>
              decodes_as lib (SvmInstruction_Data b) (SvmDecodeInstruction lib b) st' (ts_Build inst))"
  using svm_program.lamports_roundtrip [of b d lib f t sp st] svm_program.spl_tokens_roundtrip [of b d lib f fa ta tp st] assms
  unfolding SvmInstruction_Data_def SvmDecodeInstruction_def by blast

text \<open>The codec and the library hypotheses hold of the Borsh format itself: little endian, strings after their length.\<close>

fun le_bytes :: "nat \<Rightarrow> int \<Rightarrow> bytes" where
  "le_bytes 0 n = []"
| "le_bytes (Suc k) n = nat (n mod 256) # le_bytes k (n div 256)"

fun le_value :: "bytes \<Rightarrow> int" where
  "le_value [] = 0"
| "le_value (x # xs) = int x + 256 * le_value xs"

definition take_bytes :: "nat \<Rightarrow> bytes decode" where
  "take_bytes n bs = (if length bs < n then Inl ''EOF'' else Inr (take n bs, drop n bs))"

definition borsh_format :: borsh where
  "borsh_format =
     \<lparr>bo_U64 = (\<lambda>n. Inr (le_bytes 8 n)), bo_U32 = (\<lambda>n. Inr (le_bytes 4 n)),
      bo_String = (\<lambda>s. Inr (le_bytes 4 (int (length s)) @ map of_char s)), bo_Array32 = Inr, bo_Nil = Inr [],
      bo_ReadU64 = read_then (take_bytes 8) (\<lambda>x rest. Inr (le_value x, rest)),
      bo_ReadU32 = read_then (take_bytes 4) (\<lambda>x rest. Inr (le_value x, rest)),
      bo_ReadString =
        read_then (take_bytes 4) (\<lambda>n. read_then (take_bytes (nat (le_value n))) (\<lambda>x rest. Inr (map char_of x, rest))),
      bo_ReadArray32 = take_bytes 32\<rparr>"

definition solana_go :: sol_library where
  "solana_go =
     \<lparr>sl_GetAccounts = (\<lambda>slice. map the (filter (\<lambda>m. m \<noteq> None) slice)),
      sl_SetAccounts = (\<lambda>ms. Inr (map Some ms)),
      sl_ReadVariant = (\<lambda>names. read_then (take_bytes 8) (\<lambda>i rest.
        if i = Instruction_TransferLamports then Inr ((i, names ! 0), rest)
        else if i = Instruction_TransferSplTokens then Inr ((i, names ! 1), rest)
        else Inl ''no known type for type''))\<rparr>"

lemma length_le_bytes [simp]: "length (le_bytes k n) = k"
  by (induction k arbitrary: n) simp_all

lemma le_value_bytes: "0 \<le> n \<Longrightarrow> n < 256 ^ k \<Longrightarrow> le_value (le_bytes k n) = n"
proof (induction k arbitrary: n)
  case (Suc k)
  then have "le_value (le_bytes k (n div 256)) = n div 256"
    by (intro Suc.IH) (simp_all add: pos_imp_zdiv_nonneg_iff div_less_iff_less_mult mult.commute)
  then show ?case by simp
qed simp

lemma take_bytes_append: "length x = n \<Longrightarrow> take_bytes n (x @ rest) = Inr (x, rest)"
  by (simp add: take_bytes_def)

lemma borsh_format_ok: "borsh_ok borsh_format"
proof -
  have w: "le_value (le_bytes 8 n) = n" if "0 \<le> n" "n < 2 ^ 64" for n
    using le_value_bytes [of n 8] that by simp
  have v: "le_value (le_bytes 4 n) = n" if "0 \<le> n" "n < 2 ^ 32" for n
    using le_value_bytes [of n 4] that by simp
  have s: "map char_of (map of_char s :: bytes) = s" for s
    by (simp add: comp_def)
  show ?thesis
    unfolding borsh_ok_def codec_ok_def borsh_format_def
    using w v by (auto simp: read_then_def take_bytes_append comp_def)
qed

lemma solana_go_ok: "library_ok solana_go"
proof -
  have f: "filter (\<lambda>m. m \<noteq> None) (map Some ms) = map Some ms" for ms :: "account_meta list"
    by (induction ms) simp_all
  show ?thesis
    by (simp add: library_ok_def solana_go_def f comp_def read_then_def variants_def take_bytes_def
        Instruction_TransferLamports_def Instruction_TransferSplTokens_def)
qed

definition sample_data :: SvmTransferData where
  "sample_data =
     \<lparr>vd_Amount = 1000000, vd_TargetAddr = ''0xAb'', vd_Maker = replicate 32 7, vd_Token = replicate 32 0,
      vd_Destination = 10, vd_Channel = 3, vd_Extra = []\<rparr>"

definition empty_store :: "SvmTransferData store" where
  "empty_store = \<lparr>so_slices = (\<lambda>_. []), so_free = 0, so_data = (\<lambda>_. sample_data), so_dfree = 0\<rparr>"

lemma sample_data_ok: "svm_data_ok sample_data"
  by (simp add: svm_data_ok_def sample_data_def)

theorem svm_instruction_roundtrip_witness:
  "case NewTransferLamportsInstruction sample_data (replicate 32 1) (replicate 32 2) (replicate 32 0) empty_store of
     None \<Rightarrow> False
   | Some (inst, st') \<Rightarrow>
       tl_ValidateAndBuild st' inst = Some (Inr (tl_Build inst)) \<and>
       decodes_as solana_go (SvmInstruction_Data borsh_format) (SvmDecodeInstruction solana_go borsh_format) st' (tl_Build inst)"
  using svm_instruction_roundtrip [OF borsh_format_ok solana_go_ok sample_data_ok] by blast

section \<open>Setting parameters in any order\<close>

datatype 'd tl_op = OpData 'd | OpFrom pubkey | OpTo pubkey | OpSystem pubkey

fun tl_apply :: "'d tl_op \<Rightarrow> TransferLamports \<Rightarrow> 'd store \<Rightarrow> (TransferLamports \<times> 'd store) option" where
  "tl_apply (OpData d) inst st = Some (tl_SetTransferData d inst st)"
| "tl_apply (OpFrom k) inst st = map_option (Pair inst) (tl_SetFromAccount k inst st)"
| "tl_apply (OpTo k) inst st = map_option (Pair inst) (tl_SetToAccount k inst st)"
| "tl_apply (OpSystem k) inst st = map_option (Pair inst) (tl_SetSystemProgramAccount k inst st)"

fun tl_run :: "'d tl_op list \<Rightarrow> TransferLamports \<Rightarrow> 'd store \<Rightarrow> (TransferLamports \<times> 'd store) option" where
  "tl_run [] inst st = Some (inst, st)"
| "tl_run (x # xs) inst st = (case tl_apply x inst st of None \<Rightarrow> None | Some (inst, st) \<Rightarrow> tl_run xs inst st)"

definition last_of :: "'a list \<Rightarrow> 'a option" where
  "last_of xs = (if xs = [] then None else Some (last xs))"

definition set_data :: "'d tl_op list \<Rightarrow> 'd option" where
  "set_data ops = last_of [d. OpData d \<leftarrow> ops]"

definition set_slice :: "'d tl_op list \<Rightarrow> account_slice" where
  \<comment> \<open>the accounts that a sequence of settings leaves: the last of each kind, with its flags\<close>
  "set_slice ops =
     [map_option (\<lambda>k. SIGNER (WRITE (Meta k))) (last_of [k. OpFrom k \<leftarrow> ops]),
      map_option (\<lambda>k. WRITE (Meta k)) (last_of [k. OpTo k \<leftarrow> ops]),
      map_option Meta (last_of [k. OpSystem k \<leftarrow> ops])]"

lemma last_of_snoc [simp]: "last_of (xs @ [x]) = Some x"
  by (simp add: last_of_def)

lemma last_of_Nil [simp]: "last_of [] = None"
  by (simp add: last_of_def)

lemma tl_run_snoc:
  "tl_run (xs @ [x]) inst st = (case tl_run xs inst st of None \<Rightarrow> None | Some (inst, st) \<Rightarrow> tl_apply x inst st)"
  by (induction xs arbitrary: inst st) (auto split: option.splits)

lemma set_data_snoc:
  "set_data (xs @ [OpData d]) = Some d" "set_data (xs @ [OpFrom k]) = set_data xs"
  "set_data (xs @ [OpTo k]) = set_data xs" "set_data (xs @ [OpSystem k]) = set_data xs"
  by (simp_all add: set_data_def)

lemma set_slice_snoc:
  "set_slice (xs @ [OpData d]) = set_slice xs"
  "set_slice (xs @ [OpFrom k]) = (set_slice xs)[0 := Some (SIGNER (WRITE (Meta k)))]"
  "set_slice (xs @ [OpTo k]) = (set_slice xs)[1 := Some (WRITE (Meta k))]"
  "set_slice (xs @ [OpSystem k]) = (set_slice xs)[2 := Some (Meta k)]"
  by (simp_all add: set_slice_def)

lemma length_set_slice [simp]: "length (set_slice ops) = 3"
  by (simp add: set_slice_def)

lemma tl_run_state:
  assumes "NewTransferLamportsInstructionBuilder st = (inst, st0)"
  shows "\<exists>inst' st'. tl_run ops inst st0 = Some (inst', st') \<and>
    tl_Accounts inst' = so_free st \<and> so_slices st' (so_free st) = set_slice ops \<and>
    map_option (so_data st') (tl_TransferData inst') = set_data ops"
proof (induction ops rule: rev_induct)
  case Nil
  then show ?case
    using assms by (auto simp: NewTransferLamportsInstructionBuilder_def make_slice_def set_data_def set_slice_def numeral_eq_Suc)
next
  case (snoc x xs)
  then obtain inst' st' where "tl_run xs inst st0 = Some (inst', st')" "tl_Accounts inst' = so_free st"
    "so_slices st' (so_free st) = set_slice xs" "map_option (so_data st') (tl_TransferData inst') = set_data xs"
    by blast
  then show ?case
    by (cases x) (simp_all add: tl_run_snoc tl_SetTransferData_def new_data_def tl_SetFromAccount_def tl_SetToAccount_def
        tl_SetSystemProgramAccount_def set_account_def set_data_snoc set_slice_snoc)
qed

text \<open>
  C40. A builder takes its parameters in any order and any number of times. No sequence of settings panics, the last
  setting of each parameter counts, and \<open>ValidateAndBuild\<close> reports the first parameter that was never set, in the
  order data, from, to, system program, and builds the instruction with exactly the last settings otherwise.
\<close>

theorem lamports_builder:
  fixes ops :: "'d tl_op list"
  shows "case NewTransferLamportsInstructionBuilder st of
     (inst, st0) \<Rightarrow>
       (case tl_run ops inst st0 of
          None \<Rightarrow> False
        | Some (inst', st') \<Rightarrow>
            impl_data st' (is_Impl (tl_Build inst')) = set_data ops \<and> so_slices st' (tl_Accounts inst') = set_slice ops \<and>
            tl_ValidateAndBuild st' inst' =
              Some (if [d. OpData d \<leftarrow> ops] = [] then Inl ''TransferData parameter is not set''
                    else if [k. OpFrom k \<leftarrow> ops] = [] then Inl ''accounts.From is not set''
                    else if [k. OpTo k \<leftarrow> ops] = [] then Inl ''accounts.To is not set''
                    else if [k. OpSystem k \<leftarrow> ops] = [] then Inl ''accounts.SystemProgram is not set''
                    else Inr (tl_Build inst')))"
proof -
  obtain inst st0 where n: "NewTransferLamportsInstructionBuilder st = (inst, st0)" by fastforce
  obtain inst' st' where run: "tl_run ops inst st0 = Some (inst', st')" "tl_Accounts inst' = so_free st"
    "so_slices st' (so_free st) = set_slice ops" "map_option (so_data st') (tl_TransferData inst') = set_data ops"
    using tl_run_state [OF n, of ops] by blast
  have data: "tl_TransferData inst' = None \<longleftrightarrow> [d. OpData d \<leftarrow> ops] = []"
    using run(4) by (cases "tl_TransferData inst'") (auto simp: set_data_def last_of_def split: if_split_asm)
  show ?thesis
    unfolding n prod.case run option.case using run data
    by (auto simp: tl_ValidateAndBuild_def tl_Validate_def impl_data_def tl_Build_def set_slice_def last_of_def)
qed

section \<open>What a built instruction shares with its builder\<close>

datatype 'd later = Setter "'d tl_op" | Assign 'd  \<comment> \<open>\<open>*inst.TransferData = d\<close>, through the exported field\<close>

fun later_apply :: "'d later \<Rightarrow> TransferLamports \<Rightarrow> 'd store \<Rightarrow> (TransferLamports \<times> 'd store) option" where
  "later_apply (Setter x) inst st = tl_apply x inst st"
| "later_apply (Assign d) inst st =
     map_option (\<lambda>p. (inst, st\<lparr>so_data := (so_data st)(p := d)\<rparr>)) (tl_TransferData inst)"

fun later_run :: "'d later list \<Rightarrow> TransferLamports \<Rightarrow> 'd store \<Rightarrow> (TransferLamports \<times> 'd store) option" where
  "later_run [] inst st = Some (inst, st)"
| "later_run (x # xs) inst st =
     (case later_apply x inst st of None \<Rightarrow> None | Some (inst, st) \<Rightarrow> later_run xs inst st)"

fun shared_data :: "'d \<Rightarrow> 'd later list \<Rightarrow> 'd" where
  \<comment> \<open>the data of the built instruction: what is assigned until the builder is given other data\<close>
  "shared_data d [] = d"
| "shared_data d (Assign d' # xs) = shared_data d' xs"
| "shared_data d (Setter (OpData d') # xs) = d"
| "shared_data d (Setter x # xs) = shared_data d xs"

fun own_data :: "'d \<Rightarrow> 'd later list \<Rightarrow> 'd" where
  \<comment> \<open>the data of the builder: the last set or assigned\<close>
  "own_data d [] = d"
| "own_data d (Assign d' # xs) = own_data d' xs"
| "own_data d (Setter (OpData d') # xs) = own_data d' xs"
| "own_data d (Setter x # xs) = own_data d xs"

definition setters :: "'d later list \<Rightarrow> 'd tl_op list" where
  "setters xs = [x. Setter x \<leftarrow> xs]"

lemma setters_simps [simp]:
  "setters [] = []" "setters (Setter x # xs) = x # setters xs" "setters (Assign d # xs) = setters xs"
  by (simp_all add: setters_def)

lemma later_run_state:
  assumes "tl_TransferData inst = Some q" and "p < so_dfree st" and "q < so_dfree st"
    and "so_slices st (tl_Accounts inst) = set_slice pre"
  shows "\<exists>inst' st' q'. later_run xs inst st = Some (inst', st') \<and> tl_Accounts inst' = tl_Accounts inst \<and>
    so_slices st' (tl_Accounts inst) = set_slice (pre @ setters xs) \<and>
    tl_TransferData inst' = Some q' \<and> so_data st' q' = own_data (so_data st q) xs \<and>
    so_data st' p = (if p = q then shared_data (so_data st p) xs else so_data st p)"
  using assms
proof (induction xs arbitrary: inst st q pre)
  case Nil
  then show ?case by simp
next
  case (Cons x xs)
  show ?case
  proof (cases x)
    case (Assign d)
    let ?st = "st\<lparr>so_data := (so_data st)(q := d)\<rparr>"
    from Cons.IH [of inst q ?st pre] Cons.prems Assign show ?thesis by (cases "p = q") simp_all
  next
    case (Setter y)
    show ?thesis
    proof (cases y)
      case (OpData d)
      let ?inst = "inst\<lparr>tl_TransferData := Some (so_dfree st)\<rparr>"
        and ?st = "st\<lparr>so_data := (so_data st)(so_dfree st := d), so_dfree := Suc (so_dfree st)\<rparr>"
      have "later_run (x # xs) inst st = later_run xs ?inst ?st"
        by (simp add: Setter OpData tl_SetTransferData_def new_data_def)
      moreover have "set_slice (pre @ [OpData d]) = set_slice pre" by (rule set_slice_snoc)
      ultimately show ?thesis
        using Cons.IH [of ?inst "so_dfree st" ?st "pre @ [OpData d]"] Cons.prems 
        by (cases "p = q") (simp_all add: Setter OpData)
    next
      case (OpFrom k)
      let ?st = "st\<lparr>so_slices := (so_slices st)(tl_Accounts inst := set_slice (pre @ [OpFrom k]))\<rparr>"
      have "later_run (x # xs) inst st = later_run xs inst ?st"
        using Cons.prems by (simp add: Setter OpFrom tl_SetFromAccount_def set_account_def set_slice_snoc)
      then show ?thesis using Cons.IH [of inst q ?st "pre @ [OpFrom k]"] Cons.prems
        by (cases "p = q") (simp_all add: Setter OpFrom)
    next
      case (OpTo k)
      let ?st = "st\<lparr>so_slices := (so_slices st)(tl_Accounts inst := set_slice (pre @ [OpTo k]))\<rparr>"
      have "later_run (x # xs) inst st = later_run xs inst ?st"
        using Cons.prems by (simp add: Setter OpTo tl_SetToAccount_def set_account_def set_slice_snoc)
      then show ?thesis using Cons.IH [of inst q ?st "pre @ [OpTo k]"] Cons.prems
        by (cases "p = q") (simp_all add: Setter OpTo)
    next
      case (OpSystem k)
      let ?st = "st\<lparr>so_slices := (so_slices st)(tl_Accounts inst := set_slice (pre @ [OpSystem k]))\<rparr>"
      have "later_run (x # xs) inst st = later_run xs inst ?st"
        using Cons.prems by (simp add: Setter OpSystem tl_SetSystemProgramAccount_def set_account_def set_slice_snoc)
      then show ?thesis using Cons.IH [of inst q ?st "pre @ [OpSystem k]"] Cons.prems
        by (cases "p = q") (simp_all add: Setter OpSystem)
    qed
  qed
qed

text \<open>
  C31. \<open>Build\<close> copies the instruction but not what it refers to. Whatever is done with the builder afterwards, in any
  order, accounts set and transfer data set or assigned through its pointer: the accounts of the instruction built
  before are the builder's own, the last that were set; its transfer data follows what is assigned through the
  builder's pointer, until the builder is given other data with \<open>SetTransferData\<close>, and stays as it is then. So its
  encoding, made when it is sent, is that of this data.
\<close>

theorem build_shares_accounts:
  "case NewTransferLamportsInstruction d f t sp st of
     None \<Rightarrow> False
   | Some (inst, st1) \<Rightarrow>
       (case later_run xs inst st1 of
          None \<Rightarrow> False
        | Some (inst', st2) \<Rightarrow>
            so_slices st2 (impl_accounts (is_Impl (tl_Build inst))) = set_slice ([OpFrom f, OpTo t, OpSystem sp] @ setters xs) \<and>
            so_slices st2 (impl_accounts (is_Impl (tl_Build inst))) = so_slices st2 (impl_accounts (is_Impl (tl_Build inst'))) \<and>
            impl_data st2 (is_Impl (tl_Build inst')) = Some (own_data d xs) \<and>
            impl_data st2 (is_Impl (tl_Build inst)) = Some (shared_data d xs) \<and>
            impl_Marshal b enc st2 (is_Impl (tl_Build inst)) = enc (shared_data d xs))"
proof -
  let ?inst = "\<lparr>tl_TransferData = Some (so_dfree st), tl_Accounts = so_free st\<rparr>"
  let ?st = "\<lparr>so_slices = (so_slices st)(so_free st :=
               [Some (SIGNER (WRITE (Meta f))), Some (WRITE (Meta t)), Some (Meta sp)]), so_free = Suc (so_free st),
            so_data = (so_data st)(so_dfree st := d), so_dfree = Suc (so_dfree st)\<rparr>"
  have "so_slices ?st (tl_Accounts ?inst) = set_slice [OpFrom f, OpTo t, OpSystem sp]"
    by (simp add: set_slice_def last_of_def)
  from later_run_state [OF _ _ _ this, of "so_dfree st" "so_dfree st" xs]
  obtain inst' st' q' where "later_run xs ?inst ?st = Some (inst', st')" "tl_Accounts inst' = so_free st"
    "so_slices st' (so_free st) = set_slice ([OpFrom f, OpTo t, OpSystem sp] @ setters xs)"
    "tl_TransferData inst' = Some q'" "so_data st' q' = own_data d xs" "so_data st' (so_dfree st) = shared_data d xs"
    by auto
  then show ?thesis
    unfolding New_lamports by (simp add: tl_Build_def impl_data_def)
qed

lemma find_map: "find P (map f xs) = map_option f (find (P \<circ> f) xs)"
  by (induction xs) simp_all

lemma check_accounts_first:
  "length ns \<le> length xs \<Longrightarrow>
   check_accounts ns xs =
     Some (map_option (\<lambda>i. ''accounts.'' @ ns ! i @ '' is not set'') (find (\<lambda>i. xs ! i = None) [0..<length ns]))"
proof (induction ns xs rule: check_accounts.induct)
  case (3 n ns a accounts)
  have "find (\<lambda>i. (a # accounts) ! i = None) [0..<Suc (length ns)] =
    (if a = None then Some 0 else map_option Suc (find (\<lambda>i. accounts ! i = None) [0..<length ns]))"
    unfolding upt_conv_Cons [OF zero_less_Suc] map_Suc_upt [symmetric]
    by (simp add: find_map comp_def)
  then show ?case using 3 by (auto simp: option.map_comp comp_def)
qed simp_all

text \<open>
  An instruction of tokens with room for its four accounts is built exactly when its data and all accounts are set;
  otherwise the error names the data, or the first account missing. It never panics.
\<close>

theorem spl_tokens_validate:
  assumes "4 \<le> length (so_slices st (ts_Accounts inst))"
  shows "ts_ValidateAndBuild st inst =
    Some (if ts_TransferData inst = None then Inl ''TransferData parameter is not set''
          else (case find (\<lambda>i. so_slices st (ts_Accounts inst) ! i = None) [0..<4] of
                  None \<Rightarrow> Inr (ts_Build inst)
                | Some i \<Rightarrow> Inl (''accounts.'' @ [''From'', ''FromAta'', ''ToAta'', ''TokenProgram''] ! i @ '' is not set'')))"
proof -
  let ?ns = "[''From'', ''FromAta'', ''ToAta'', ''TokenProgram'']" and ?xs = "so_slices st (ts_Accounts inst)"
  have n: "length ?ns = 4" by simp
  then have "check_accounts ?ns ?xs =
      Some (map_option (\<lambda>i. ''accounts.'' @ ?ns ! i @ '' is not set'') (find (\<lambda>i. ?xs ! i = None) [0..<4]))"
    using assms check_accounts_first [of ?ns ?xs] unfolding n by blast
  then show ?thesis
    unfolding ts_ValidateAndBuild_def ts_Validate_def
    by (cases "find (\<lambda>i. ?xs ! i = None) [0..<4]") (auto simp del: append.simps)
qed

section \<open>Decoded instructions\<close>

text \<open>
  Decoding sets any number of accounts. Validating a decoded instruction of lamports panics exactly when it came
  with fewer than three, and then it was decoded without an error.
\<close>

theorem decoded_validate_panics:
  assumes "library_ok lib" and "SvmDecodeInstruction lib b ms data st = (Inr inst, st')"
    and "is_Impl inst = ImplLamports x"
  shows "tl_Validate st' x = (if length ms < 3 then None else Some None)"
proof -
  have "sl_SetAccounts lib ms = Inr (map Some ms)" using assms(1) by (simp add: library_ok_def)
  then have "tl_TransferData x \<noteq> None \<and> so_slices st' (tl_Accounts x) = map Some ms"
    using assms(2,3)
    by (auto simp: SvmDecodeInstruction_def DecodeInstruction_def make_slice_def new_data_def Instruction_Unmarshal_def read_then_def
        split: sum.splits if_splits)
  then show ?thesis
    by (cases ms; cases "tl ms"; cases "tl (tl ms)") (auto simp: tl_Validate_def)
qed

text \<open>
  The two programs number their instructions alike, and bytes left after the data are not an error: an instruction
  of the program of deposits is decoded as one of the other program, with the amount and the target it carries and
  without its maker, token, destination and channel.
\<close>

theorem sol_decodes_svm:
  assumes b: "borsh_ok b" and lib: "library_ok lib" and d: "svm_data_ok d" and p: "so_data sv p = d"
  shows "\<exists>data inst st'. SvmInstruction_Data b sv (tl_Build \<lparr>tl_TransferData = Some p, tl_Accounts = a\<rparr>) = Inr data \<and>
    SolDecodeInstruction lib b ms data st = (Inr inst, st') \<and>
    impl_data st' (is_Impl inst) = Some \<lparr>sd_Amount = vd_Amount d, sd_TargetAddr = vd_TargetAddr d\<rparr>"
proof -
  obtain x y where x: "bo_U64 b (vd_Amount d) = Inr x" "\<And>r. bo_ReadU64 b (x @ r) = Inr (vd_Amount d, r)"
    and y: "bo_String b (vd_TargetAddr d) = Inr y" "\<And>r. bo_ReadString b (y @ r) = Inr (vd_TargetAddr d, r)"
    using borsh_U64 [OF b, of "vd_Amount d"] borsh_String [OF b, of "vd_TargetAddr d"] d unfolding svm_data_ok_def by blast
  have "\<exists>rest. SvmTransferData_Marshal b d = Inr (x @ y @ rest)"
    using x(1) y(1) borsh_Array32 [OF b, of "vd_Maker d"] borsh_Array32 [OF b, of "vd_Token d"]
      borsh_U32 [OF b, of "vd_Destination d"] borsh_U32 [OF b, of "vd_Channel d"] borsh_String [OF b, of "vd_Extra d"] d
    by (auto simp: svm_data_ok_def SvmTransferData_Marshal_def)
  then obtain rest where "SvmTransferData_Marshal b d = Inr (x @ y @ rest)" by blast
  then show ?thesis
    using lib p x(2) y(2) by (auto simp: SvmInstruction_Data_def Instruction_Data_def tl_Build_def SolDecodeInstruction_def
        DecodeInstruction_def make_slice_def new_data_def Instruction_Unmarshal_def read_then_def
        SolTransferData_Unmarshal_def library_ok_def impl_data_def)
qed

end
