(* ===== verification/SvmProgram.thy ===== *)
theory SvmProgram
  imports SolanaProgram
begin

text \<open>
  The rest of the bindings of the two Solana programs: reading the accounts of an instruction, printing it
  as a tree, the identifier of the program and the registration of its decoder, and the operations of the
  package \<open>src/abi/svm_depositor\<close>, which are those of \<open>SolanaProgram\<close> at its type of transfer data. The
  formats of tree nodes, the dump of a value, the lookup in a slice of accounts and the registry of decoders
  belong to libraries and are arguments. A panic is \<open>None\<close>.
\<close>

section \<open>Reading the accounts\<close>

type_synonym slice_get = "account_slice \<Rightarrow> nat \<Rightarrow> account_meta option"

definition slice_get_ok :: "slice_get \<Rightarrow> bool" where
  \<comment> \<open>the documented \<open>AccountMetaSlice.Get\<close>: nil out of range\<close>
  "slice_get_ok get \<longleftrightarrow> (\<forall>ms i. get ms i = (if i < length ms then ms ! i else None))"

definition tl_GetFromAccount :: "slice_get \<Rightarrow> 'd store \<Rightarrow> TransferLamports \<Rightarrow> account_meta option" where
  "tl_GetFromAccount get st inst = get (so_slices st (tl_Accounts inst)) 0"

definition tl_GetToAccount :: "slice_get \<Rightarrow> 'd store \<Rightarrow> TransferLamports \<Rightarrow> account_meta option" where
  "tl_GetToAccount get st inst = get (so_slices st (tl_Accounts inst)) 1"

definition tl_GetSystemProgramAccount :: "slice_get \<Rightarrow> 'd store \<Rightarrow> TransferLamports \<Rightarrow> account_meta option" where
  "tl_GetSystemProgramAccount get st inst = get (so_slices st (tl_Accounts inst)) 2"

definition ts_GetFromAccount :: "slice_get \<Rightarrow> 'd store \<Rightarrow> TransferSplTokens \<Rightarrow> account_meta option" where
  "ts_GetFromAccount get st inst = get (so_slices st (ts_Accounts inst)) 0"

definition ts_GetFromAtaAccount :: "slice_get \<Rightarrow> 'd store \<Rightarrow> TransferSplTokens \<Rightarrow> account_meta option" where
  "ts_GetFromAtaAccount get st inst = get (so_slices st (ts_Accounts inst)) 1"

definition ts_GetToAtaAccount :: "slice_get \<Rightarrow> 'd store \<Rightarrow> TransferSplTokens \<Rightarrow> account_meta option" where
  "ts_GetToAtaAccount get st inst = get (so_slices st (ts_Accounts inst)) 2"

definition ts_GetTokenProgramAccount :: "slice_get \<Rightarrow> 'd store \<Rightarrow> TransferSplTokens \<Rightarrow> account_meta option" where
  "ts_GetTokenProgramAccount get st inst = get (so_slices st (ts_Accounts inst)) 3"

section \<open>Trees\<close>

datatype tree = Branch string "tree list"

record 'd tree_format =
  tf_Program :: "string \<Rightarrow> pubkey \<Rightarrow> string"
  tf_Instruction :: "string \<Rightarrow> string"
  tf_Param :: "string \<Rightarrow> 'd \<Rightarrow> string"
  tf_Meta :: "string \<Rightarrow> account_meta option \<Rightarrow> string"
  tf_Sdump :: "'d store \<Rightarrow> Instruction \<Rightarrow> string"
  tf_Get :: slice_get

definition instruction_tree ::
  "'d tree_format \<Rightarrow> string \<times> pubkey \<Rightarrow> string \<Rightarrow> 'd option \<Rightarrow> string \<Rightarrow> (string \<times> account_meta option) list \<Rightarrow> tree option" where
  \<comment> \<open>the transfer data is dereferenced\<close>
  "instruction_tree tf program name td accounts_title accounts =
     (case td of
        None \<Rightarrow> None
      | Some d \<Rightarrow>
          Some (Branch (tf_Program tf (fst program) (snd program))
            [Branch (tf_Instruction tf name)
              [Branch ''Params[len=1]'' [Branch (tf_Param tf ''TransferData'' d) []],
               Branch accounts_title (map (\<lambda>(n, a). Branch (tf_Meta tf n a) []) accounts)]]))"

definition tl_EncodeToTree :: "'d tree_format \<Rightarrow> string \<times> pubkey \<Rightarrow> 'd store \<Rightarrow> TransferLamports \<Rightarrow> tree option" where
  "tl_EncodeToTree tf program st inst =
     instruction_tree tf program ''TransferLamports'' (map_option (so_data st) (tl_TransferData inst)) ''Accounts[len=3]''
       [(''         from'', tl_GetFromAccount (tf_Get tf) st inst), (''           to'', tl_GetToAccount (tf_Get tf) st inst),
        (''systemProgram'', tl_GetSystemProgramAccount (tf_Get tf) st inst)]"

definition ts_EncodeToTree :: "'d tree_format \<Rightarrow> string \<times> pubkey \<Rightarrow> 'd store \<Rightarrow> TransferSplTokens \<Rightarrow> tree option" where
  "ts_EncodeToTree tf program st inst =
     instruction_tree tf program ''TransferSplTokens'' (map_option (so_data st) (ts_TransferData inst)) ''Accounts[len=4]''
       [(''        from'', ts_GetFromAccount (tf_Get tf) st inst), (''     fromAta'', ts_GetFromAtaAccount (tf_Get tf) st inst),
        (''       toAta'', ts_GetToAtaAccount (tf_Get tf) st inst),
        (''tokenProgram'', ts_GetTokenProgramAccount (tf_Get tf) st inst)]"

text \<open>
  \<open>EncodeToTree\<close> is a method of pointers to the two instructions. A decoded instruction holds a pointer,
  one that was built a copy, which does not have the method: then the instruction is dumped.
\<close>

datatype origin = Built | Decoded

definition Instruction_EncodeToTree ::
  "'d tree_format \<Rightarrow> string \<times> pubkey \<Rightarrow> 'd store \<Rightarrow> origin \<Rightarrow> Instruction \<Rightarrow> tree option" where
  "Instruction_EncodeToTree tf program st how inst =
     (case how of
        Built \<Rightarrow> Some (Branch (tf_Sdump tf st inst) [])
      | Decoded \<Rightarrow>
          (case is_Impl inst of
             ImplLamports i \<Rightarrow> tl_EncodeToTree tf program st i
           | ImplSplTokens i \<Rightarrow> ts_EncodeToTree tf program st i))"

section \<open>The identifier of a program\<close>

record 'reg package =
  pk_ProgramID :: pubkey
  pk_registry :: 'reg   \<comment> \<open>the decoders that \<open>solana-go\<close> knows\<close>

definition IsZero :: "pubkey \<Rightarrow> bool" where
  "IsZero pk \<longleftrightarrow> pk = replicate 32 0"

definition SetProgramID :: "(pubkey \<Rightarrow> 'reg \<Rightarrow> 'reg option) \<Rightarrow> pubkey \<Rightarrow> 'reg package \<Rightarrow> 'reg package option" where
  \<comment> \<open>\<open>register\<close> adds the decoder of the package, or panics\<close>
  "SetProgramID register pubkey p =
     map_option (\<lambda>reg. \<lparr>pk_ProgramID = pubkey, pk_registry = reg\<rparr>) (register pubkey (pk_registry p))"

definition package_init :: "(pubkey \<Rightarrow> 'reg \<Rightarrow> 'reg option) \<Rightarrow> 'reg package \<Rightarrow> 'reg package option" where
  "package_init register p =
     (if \<not> IsZero (pk_ProgramID p)
      then map_option (\<lambda>reg. p\<lparr>pk_registry := reg\<rparr>) (register (pk_ProgramID p) (pk_registry p)) else Some p)"

definition loaded_package :: "'reg \<Rightarrow> 'reg package" where
  \<comment> \<open>the variable without its initialiser\<close>
  "loaded_package reg = \<lparr>pk_ProgramID = replicate 32 0, pk_registry = reg\<rparr>"

definition Instruction_ProgramID :: "'reg package \<Rightarrow> Instruction \<Rightarrow> pubkey" where
  "Instruction_ProgramID p inst = pk_ProgramID p"

definition registryDecodeInstruction ::
  "sol_library \<Rightarrow> 'd decode \<Rightarrow> account_meta list \<Rightarrow> bytes \<Rightarrow> 'd store \<Rightarrow> (string + Instruction) \<times> 'd store" where
  "registryDecodeInstruction lib dec accounts bytes st =
     (case DecodeInstruction lib dec accounts bytes st of
        (Inl err, st) \<Rightarrow> (Inl err, st)
      | (Inr inst, st) \<Rightarrow> (Inr inst, st))"

section \<open>The package \<open>svm_depositor\<close>\<close>

type_synonym svm_lamports = TransferLamports
type_synonym svm_spl_tokens = TransferSplTokens
type_synonym svm_store = "SvmTransferData store"

definition SvmNewTransferLamportsInstructionBuilder :: "svm_store \<Rightarrow> svm_lamports \<times> svm_store" where
  "SvmNewTransferLamportsInstructionBuilder st = NewTransferLamportsInstructionBuilder st"

definition svm_tl_SetTransferData ::
  "SvmTransferData \<Rightarrow> svm_lamports \<Rightarrow> svm_store \<Rightarrow> svm_lamports \<times> svm_store" where
  "svm_tl_SetTransferData transferData inst st = tl_SetTransferData transferData inst st"

definition svm_tl_SetFromAccount ::
  "pubkey \<Rightarrow> svm_lamports \<Rightarrow> svm_store \<Rightarrow> svm_store option" where
  "svm_tl_SetFromAccount from' inst st = tl_SetFromAccount from' inst st"

definition svm_tl_GetFromAccount ::
  "slice_get \<Rightarrow> svm_store \<Rightarrow> svm_lamports \<Rightarrow> account_meta option" where
  "svm_tl_GetFromAccount get st inst = tl_GetFromAccount get st inst"

definition svm_tl_SetToAccount ::
  "pubkey \<Rightarrow> svm_lamports \<Rightarrow> svm_store \<Rightarrow> svm_store option" where
  "svm_tl_SetToAccount to inst st = tl_SetToAccount to inst st"

definition svm_tl_GetToAccount ::
  "slice_get \<Rightarrow> svm_store \<Rightarrow> svm_lamports \<Rightarrow> account_meta option" where
  "svm_tl_GetToAccount get st inst = tl_GetToAccount get st inst"

definition svm_tl_SetSystemProgramAccount ::
  "pubkey \<Rightarrow> svm_lamports \<Rightarrow> svm_store \<Rightarrow> svm_store option" where
  "svm_tl_SetSystemProgramAccount systemProgram inst st = tl_SetSystemProgramAccount systemProgram inst st"

definition svm_tl_GetSystemProgramAccount ::
  "slice_get \<Rightarrow> svm_store \<Rightarrow> svm_lamports \<Rightarrow> account_meta option" where
  "svm_tl_GetSystemProgramAccount get st inst = tl_GetSystemProgramAccount get st inst"

definition svm_tl_Build :: "svm_lamports \<Rightarrow> Instruction" where
  "svm_tl_Build inst = tl_Build inst"

definition svm_tl_Validate :: "svm_store \<Rightarrow> svm_lamports \<Rightarrow> string option option" where
  "svm_tl_Validate st inst = tl_Validate st inst"

definition svm_tl_ValidateAndBuild ::
  "svm_store \<Rightarrow> svm_lamports \<Rightarrow> (string + Instruction) option" where
  "svm_tl_ValidateAndBuild st inst = tl_ValidateAndBuild st inst"

definition svm_tl_EncodeToTree ::
  "SvmTransferData tree_format \<Rightarrow> pubkey \<Rightarrow> svm_store \<Rightarrow> svm_lamports \<Rightarrow> tree option" where
  "svm_tl_EncodeToTree tf i st inst =
     tl_EncodeToTree tf (''SvmDepositor'', i) st inst"

definition svm_tl_Marshal :: "borsh \<Rightarrow> svm_store \<Rightarrow> svm_lamports \<Rightarrow> string + bytes" where
  "svm_tl_Marshal b st inst = impl_Marshal b (SvmTransferData_Marshal b) st (ImplLamports inst)"

definition SvmNewTransferLamportsInstruction ::
  "SvmTransferData \<Rightarrow> pubkey \<Rightarrow> pubkey \<Rightarrow> pubkey \<Rightarrow> svm_store \<Rightarrow> (svm_lamports \<times> svm_store) option" where
  "SvmNewTransferLamportsInstruction transferData from' to systemProgram st =
     NewTransferLamportsInstruction transferData from' to systemProgram st"

definition SvmNewTransferSplTokensInstructionBuilder :: "svm_store \<Rightarrow> svm_spl_tokens \<times> svm_store" where
  "SvmNewTransferSplTokensInstructionBuilder st = NewTransferSplTokensInstructionBuilder st"

definition svm_ts_SetTransferData ::
  "SvmTransferData \<Rightarrow> svm_spl_tokens \<Rightarrow> svm_store \<Rightarrow> svm_spl_tokens \<times> svm_store" where
  "svm_ts_SetTransferData transferData inst st = ts_SetTransferData transferData inst st"

definition svm_ts_SetFromAccount ::
  "pubkey \<Rightarrow> svm_spl_tokens \<Rightarrow> svm_store \<Rightarrow> svm_store option" where
  "svm_ts_SetFromAccount from' inst st = ts_SetFromAccount from' inst st"

definition svm_ts_GetFromAccount ::
  "slice_get \<Rightarrow> svm_store \<Rightarrow> svm_spl_tokens \<Rightarrow> account_meta option" where
  "svm_ts_GetFromAccount get st inst = ts_GetFromAccount get st inst"

definition svm_ts_SetFromAtaAccount ::
  "pubkey \<Rightarrow> svm_spl_tokens \<Rightarrow> svm_store \<Rightarrow> svm_store option" where
  "svm_ts_SetFromAtaAccount fromAta inst st = ts_SetFromAtaAccount fromAta inst st"

definition svm_ts_GetFromAtaAccount ::
  "slice_get \<Rightarrow> svm_store \<Rightarrow> svm_spl_tokens \<Rightarrow> account_meta option" where
  "svm_ts_GetFromAtaAccount get st inst = ts_GetFromAtaAccount get st inst"

definition svm_ts_SetToAtaAccount ::
  "pubkey \<Rightarrow> svm_spl_tokens \<Rightarrow> svm_store \<Rightarrow> svm_store option" where
  "svm_ts_SetToAtaAccount toAta inst st = ts_SetToAtaAccount toAta inst st"

definition svm_ts_GetToAtaAccount ::
  "slice_get \<Rightarrow> svm_store \<Rightarrow> svm_spl_tokens \<Rightarrow> account_meta option" where
  "svm_ts_GetToAtaAccount get st inst = ts_GetToAtaAccount get st inst"

definition svm_ts_SetTokenProgramAccount ::
  "pubkey \<Rightarrow> svm_spl_tokens \<Rightarrow> svm_store \<Rightarrow> svm_store option" where
  "svm_ts_SetTokenProgramAccount tokenProgram inst st = ts_SetTokenProgramAccount tokenProgram inst st"

definition svm_ts_GetTokenProgramAccount ::
  "slice_get \<Rightarrow> svm_store \<Rightarrow> svm_spl_tokens \<Rightarrow> account_meta option" where
  "svm_ts_GetTokenProgramAccount get st inst = ts_GetTokenProgramAccount get st inst"

definition svm_ts_Build :: "svm_spl_tokens \<Rightarrow> Instruction" where
  "svm_ts_Build inst = ts_Build inst"

definition svm_ts_Validate :: "svm_store \<Rightarrow> svm_spl_tokens \<Rightarrow> string option option" where
  "svm_ts_Validate st inst = ts_Validate st inst"

definition svm_ts_ValidateAndBuild ::
  "svm_store \<Rightarrow> svm_spl_tokens \<Rightarrow> (string + Instruction) option" where
  "svm_ts_ValidateAndBuild st inst = ts_ValidateAndBuild st inst"

definition svm_ts_EncodeToTree ::
  "SvmTransferData tree_format \<Rightarrow> pubkey \<Rightarrow> svm_store \<Rightarrow> svm_spl_tokens \<Rightarrow> tree option" where
  "svm_ts_EncodeToTree tf i st inst =
     ts_EncodeToTree tf (''SvmDepositor'', i) st inst"

definition svm_ts_Marshal :: "borsh \<Rightarrow> svm_store \<Rightarrow> svm_spl_tokens \<Rightarrow> string + bytes" where
  "svm_ts_Marshal b st inst = impl_Marshal b (SvmTransferData_Marshal b) st (ImplSplTokens inst)"

definition SvmNewTransferSplTokensInstruction ::
  "SvmTransferData \<Rightarrow> pubkey \<Rightarrow> pubkey \<Rightarrow> pubkey \<Rightarrow> pubkey \<Rightarrow> svm_store \<Rightarrow> (svm_spl_tokens \<times> svm_store) option" where
  "SvmNewTransferSplTokensInstruction transferData from' fromAta toAta tokenProgram st =
     NewTransferSplTokensInstruction transferData from' fromAta toAta tokenProgram st"

definition SvmInstruction_Accounts ::
  "sol_library \<Rightarrow> svm_store \<Rightarrow> Instruction \<Rightarrow> account_meta list" where
  "SvmInstruction_Accounts lib st inst = Instruction_Accounts lib st inst"

definition SvmInstruction_Unmarshal ::
  "sol_library \<Rightarrow> borsh \<Rightarrow> nat \<Rightarrow> bytes \<Rightarrow> svm_store \<Rightarrow> string + Instruction \<times> svm_store" where
  "SvmInstruction_Unmarshal lib b a bs st = Instruction_Unmarshal lib (SvmTransferData_Unmarshal b) a bs st"

definition SvmInstruction_EncodeToTree ::
  "SvmTransferData tree_format \<Rightarrow> pubkey \<Rightarrow> svm_store \<Rightarrow> origin \<Rightarrow> Instruction \<Rightarrow> tree option" where
  "SvmInstruction_EncodeToTree tf i st how inst =
     Instruction_EncodeToTree tf (''SvmDepositor'', i) st how inst"

definition SvmRegistryDecodeInstruction ::
  "sol_library \<Rightarrow> borsh \<Rightarrow> account_meta list \<Rightarrow> bytes \<Rightarrow> svm_store \<Rightarrow> (string + Instruction) \<times> svm_store" where
  "SvmRegistryDecodeInstruction lib b accounts bytes st =
     registryDecodeInstruction lib (SvmTransferData_Unmarshal b) accounts bytes st"

section \<open>Properties\<close>

lemmas getter_defs = tl_GetFromAccount_def tl_GetToAccount_def tl_GetSystemProgramAccount_def ts_GetFromAccount_def
  ts_GetFromAtaAccount_def ts_GetToAtaAccount_def ts_GetTokenProgramAccount_def

text \<open>
  A new instruction is read as it was given: its getters give the accounts, the payer as the signer and
  writable where the program says so, and the tree shows the transfer data and those accounts.
\<close>

theorem spl_tokens_getters:
  assumes "slice_get_ok (tf_Get tf)"
  shows "\<exists>inst st'. NewTransferSplTokensInstruction d f fa ta tp st = Some (inst, st') \<and>
    ts_GetFromAccount (tf_Get tf) st' inst = Some (SIGNER (Meta f)) \<and>
    ts_GetFromAtaAccount (tf_Get tf) st' inst = Some (WRITE (Meta fa)) \<and>
    ts_GetToAtaAccount (tf_Get tf) st' inst = Some (WRITE (Meta ta)) \<and>
    ts_GetTokenProgramAccount (tf_Get tf) st' inst = Some (Meta tp) \<and>
    ts_EncodeToTree tf program st' inst =
      Some (Branch (tf_Program tf (fst program) (snd program))
        [Branch (tf_Instruction tf ''TransferSplTokens'')
          [Branch ''Params[len=1]'' [Branch (tf_Param tf ''TransferData'' d) []],
           Branch ''Accounts[len=4]''
             [Branch (tf_Meta tf ''        from'' (Some (SIGNER (Meta f)))) [],
              Branch (tf_Meta tf ''     fromAta'' (Some (WRITE (Meta fa)))) [],
              Branch (tf_Meta tf ''       toAta'' (Some (WRITE (Meta ta)))) [],
              Branch (tf_Meta tf ''tokenProgram'' (Some (Meta tp))) []]]])"
  using assms by (simp add: New_spl_tokens slice_get_ok_def getter_defs ts_EncodeToTree_def instruction_tree_def)

text \<open>
  A built instruction is never printed as a tree of its parameters and accounts, but as a dump. The tree of
  a decoded one is there, unless its data is missing: then printing it panics.
\<close>

theorem built_is_dumped:
  "Instruction_EncodeToTree tf program st Built (tl_Build i) = Some (Branch (tf_Sdump tf st (tl_Build i)) []) \<and>
   Instruction_EncodeToTree tf program st Built (ts_Build j) = Some (Branch (tf_Sdump tf st (ts_Build j)) []) \<and>
   (Instruction_EncodeToTree tf program st Decoded (tl_Build i) = None \<longleftrightarrow> tl_TransferData i = None) \<and>
   (Instruction_EncodeToTree tf program st Decoded (ts_Build j) = None \<longleftrightarrow> ts_TransferData j = None)"
  by (simp add: Instruction_EncodeToTree_def tl_Build_def ts_Build_def tl_EncodeToTree_def ts_EncodeToTree_def
      instruction_tree_def split: option.split)

text \<open>
  Loading a package registers no decoder, since its program has no identifier yet. The program of an
  instruction is the identifier that was set last, also if the instruction was built before that.
\<close>

theorem program_id_last_set:
  "package_init register (loaded_package reg) = Some (loaded_package reg) \<and>
   (case SetProgramID register pk p of None \<Rightarrow> register pk (pk_registry p) = None | Some q \<Rightarrow> Instruction_ProgramID q inst = pk)"
  by (auto simp: package_init_def loaded_package_def IsZero_def SetProgramID_def Instruction_ProgramID_def
      split: option.split)

end
