(* ===== verification/EvmBindings.thy ===== *)
theory EvmBindings
  imports Prelude
begin

text \<open>
  The bindings of the EVM contracts, \<open>src/abi/erc20\<close>, \<open>src/abi/depositor\<close> and \<open>src/abi/owlto\<close>: calls and
  transactions, iterators over past events and goroutines that forward new ones. The bound contract,
  which packs and unpacks values and speaks to the node, is go-ethereum's \<open>bind.BoundContract\<close>, an
  argument. A receive from two channels that are both ready takes either.
\<close>

section \<open>The bound contract\<close>

type_synonym address = "nat list"

datatype abi_value =
    AbiAddress address
  | AbiInt int          \<comment> \<open>\<open>*big.Int\<close>\<close>
  | AbiUint8 int
  | AbiString string
  | AbiBool bool
  | AbiBytes "nat list"

record ('l, 't) bound_contract =
  bc_Call :: "int option \<Rightarrow> string \<Rightarrow> abi_value list \<Rightarrow> string + abi_value list"
    \<comment> \<open>at a block, the latest without one\<close>
  bc_Transact :: "int \<Rightarrow> string \<Rightarrow> abi_value list \<Rightarrow> string + 't"
    \<comment> \<open>with the options that the number stands for\<close>
  bc_RawTransact :: "int \<Rightarrow> nat list \<Rightarrow> string + 't"
  bc_Transfer :: "int \<Rightarrow> string + 't"   \<comment> \<open>a plain transfer to the contract\<close>
  bc_FilterLogs :: "int \<Rightarrow> string \<Rightarrow> address list list \<Rightarrow> string option"
    \<comment> \<open>whether the query fails; if not, it opens the channels of an iterator\<close>
  bc_WatchLogs :: "int \<Rightarrow> string \<Rightarrow> address list list \<Rightarrow> string option"
  bc_UnpackLog :: "string \<Rightarrow> 'l \<Rightarrow> abi_value list \<times> string option"
    \<comment> \<open>the fields that were filled, and an error\<close>

section \<open>Calls\<close>

text \<open>\<open>abi.ConvertType\<close> of the first value, which panics unless it has the type.\<close>

fun out_int :: "abi_value list \<Rightarrow> int option" where
  "out_int (AbiInt i # vs) = Some i"
| "out_int _ = None"

fun out_uint8 :: "abi_value list \<Rightarrow> int option" where
  "out_uint8 (AbiUint8 i # vs) = Some i"
| "out_uint8 _ = None"

fun out_string :: "abi_value list \<Rightarrow> string option" where
  "out_string (AbiString s # vs) = Some s"
| "out_string _ = None"

fun out_bool :: "abi_value list \<Rightarrow> bool option" where
  "out_bool (AbiBool x # vs) = Some x"
| "out_bool _ = None"

definition first_out :: "(abi_value list \<Rightarrow> 'a option) \<Rightarrow> string + abi_value list \<Rightarrow> (string + 'a) option" where
  \<comment> \<open>the error of a call, or its first output; \<open>None\<close> is a panic\<close>
  "first_out out r = (case r of Inl err \<Rightarrow> Some (Inl err) | Inr vs \<Rightarrow> map_option Inr (out vs))"

definition Erc20_Allowance :: "('l, 't) bound_contract \<Rightarrow> int option \<Rightarrow> address \<Rightarrow> address \<Rightarrow> (string + int) option" where
  "Erc20_Allowance c opts owner spender =
     first_out out_int (bc_Call c opts ''allowance'' [AbiAddress owner, AbiAddress spender])"

definition Erc20_BalanceOf :: "('l, 't) bound_contract \<Rightarrow> int option \<Rightarrow> address \<Rightarrow> (string + int) option" where
  "Erc20_BalanceOf c opts owner = first_out out_int (bc_Call c opts ''balanceOf'' [AbiAddress owner])"

definition Erc20_Decimals :: "('l, 't) bound_contract \<Rightarrow> int option \<Rightarrow> (string + int) option" where
  "Erc20_Decimals c opts = first_out out_uint8 (bc_Call c opts ''decimals'' [])"

definition Erc20_Name :: "('l, 't) bound_contract \<Rightarrow> int option \<Rightarrow> (string + string) option" where
  "Erc20_Name c opts = first_out out_string (bc_Call c opts ''name'' [])"

definition Erc20_Symbol :: "('l, 't) bound_contract \<Rightarrow> int option \<Rightarrow> (string + string) option" where
  "Erc20_Symbol c opts = first_out out_string (bc_Call c opts ''symbol'' [])"

definition Erc20_TotalSupply :: "('l, 't) bound_contract \<Rightarrow> int option \<Rightarrow> (string + int) option" where
  "Erc20_TotalSupply c opts = first_out out_int (bc_Call c opts ''totalSupply'' [])"

definition IsOwltoDepositor :: "('l, 't) bound_contract \<Rightarrow> int option \<Rightarrow> (string + bool) option" where
  "IsOwltoDepositor c opts = first_out out_bool (bc_Call c opts ''isOwltoDepositor'' [])"

definition IsOwltoTransfer :: "('l, 't) bound_contract \<Rightarrow> int option \<Rightarrow> (string + bool) option" where
  "IsOwltoTransfer c opts = first_out out_bool (bc_Call c opts ''isOwltoTransfer'' [])"

section \<open>Transactions\<close>

definition Erc20_Approve :: "('l, 't) bound_contract \<Rightarrow> int \<Rightarrow> address \<Rightarrow> int \<Rightarrow> string + 't" where
  "Erc20_Approve c opts spender amount = bc_Transact c opts ''approve'' [AbiAddress spender, AbiInt amount]"

definition Erc20_Transfer :: "('l, 't) bound_contract \<Rightarrow> int \<Rightarrow> address \<Rightarrow> int \<Rightarrow> string + 't" where
  "Erc20_Transfer c opts to amount = bc_Transact c opts ''transfer'' [AbiAddress to, AbiInt amount]"

definition Erc20_TransferFrom :: "('l, 't) bound_contract \<Rightarrow> int \<Rightarrow> address \<Rightarrow> address \<Rightarrow> int \<Rightarrow> string + 't" where
  "Erc20_TransferFrom c opts from' to amount =
     bc_Transact c opts ''transferFrom'' [AbiAddress from', AbiAddress to, AbiInt amount]"

definition Erc20_Fallback :: "('l, 't) bound_contract \<Rightarrow> int \<Rightarrow> nat list \<Rightarrow> string + 't" where
  "Erc20_Fallback c opts calldata = bc_RawTransact c opts calldata"

definition Depositor_Deposit ::
  "('l, 't) bound_contract \<Rightarrow> int \<Rightarrow> string \<Rightarrow> address \<Rightarrow> address \<Rightarrow> int \<Rightarrow> int \<Rightarrow> int \<Rightarrow> string + 't" where
  "Depositor_Deposit c opts target ercToken maker amount destination channel =
     bc_Transact c opts ''deposit''
       [AbiString target, AbiAddress ercToken, AbiAddress maker, AbiInt amount, AbiInt destination, AbiInt channel]"

definition Depositor_Receive :: "('l, 't) bound_contract \<Rightarrow> int \<Rightarrow> string + 't" where
  "Depositor_Receive c opts = bc_RawTransact c opts []"

definition Owlto20_Transfer ::
  "('l, 't) bound_contract \<Rightarrow> int \<Rightarrow> string \<Rightarrow> address \<Rightarrow> address \<Rightarrow> int \<Rightarrow> string + 't" where
  "Owlto20_Transfer c opts target ercToken maker amount =
     bc_Transact c opts ''transfer'' [AbiString target, AbiAddress ercToken, AbiAddress maker, AbiInt amount]"

definition Owlto20_Receive :: "('l, 't) bound_contract \<Rightarrow> int \<Rightarrow> string + 't" where
  "Owlto20_Receive c opts = bc_RawTransact c opts []"

section \<open>Events\<close>

record 'l event =
  ev_values :: "abi_value list"
  ev_Raw :: "'l option"   \<comment> \<open>nothing in a new event\<close>

definition unpack_event :: "('l, 't) bound_contract \<Rightarrow> string \<Rightarrow> 'l \<Rightarrow> 'l event \<times> string option" where
  \<comment> \<open>a new event, filled from a log; the log is kept in it unless that failed\<close>
  "unpack_event c name l =
     (case bc_UnpackLog c name l of
        (vs, Some err) \<Rightarrow> (\<lparr>ev_values = vs, ev_Raw = None\<rparr>, Some err)
      | (vs, None) \<Rightarrow> (\<lparr>ev_values = vs, ev_Raw = Some l\<rparr>, None))"

definition parse_event :: "('l, 't) bound_contract \<Rightarrow> string \<Rightarrow> 'l \<Rightarrow> string + 'l event" where
  "parse_event c name l = (case unpack_event c name l of (e, Some err) \<Rightarrow> Inl err | (e, None) \<Rightarrow> Inr e)"

section \<open>Iterators\<close>

record 'l iterator =
  it_Event :: "'l event option"
  it_event :: string
  it_done :: bool
  it_fail :: "string option"

record 'l feed =
  fd_logs :: "'l list"                  \<comment> \<open>what can be received from the channel of logs\<close>
  fd_ended :: "string option option"    \<comment> \<open>what the channel of the subscription's end gives, if it is ready\<close>

definition new_iterator :: "string \<Rightarrow> 'l iterator" where
  "new_iterator name = \<lparr>it_Event = None, it_event = name, it_done = False, it_fail = None\<rparr>"

definition take_log :: "('l, 't) bound_contract \<Rightarrow> 'l \<Rightarrow> 'l iterator \<Rightarrow> bool \<times> 'l iterator" where
  "take_log c l it =
     (case unpack_event c (it_event it) l of
        (e, Some err) \<Rightarrow> (False, it\<lparr>it_Event := Some e, it_fail := Some err\<rparr>)
      | (e, None) \<Rightarrow> (True, it\<lparr>it_Event := Some e\<rparr>))"

function iter_Next :: "('l, 't) bound_contract \<Rightarrow> bool \<Rightarrow> 'l feed \<Rightarrow> 'l iterator \<Rightarrow> (bool \<times> 'l feed \<times> 'l iterator) option" where
  \<comment> \<open>the flag says which channel is received from when both are ready; \<open>None\<close> while none is\<close>
  "iter_Next c logs_first fd it =
     (if it_fail it \<noteq> None then Some (False, fd, it)
      else if it_done it then
        (case fd_logs fd of
           [] \<Rightarrow> Some (False, fd, it)
         | l # ls \<Rightarrow> (case take_log c l it of (r, it) \<Rightarrow> Some (r, fd\<lparr>fd_logs := ls\<rparr>, it)))
      else
        (case fd_logs fd of
           l # ls \<Rightarrow>
             if fd_ended fd = None \<or> logs_first
             then (case take_log c l it of (r, it) \<Rightarrow> Some (r, fd\<lparr>fd_logs := ls\<rparr>, it))
             else iter_Next c logs_first fd (it\<lparr>it_done := True, it_fail := the (fd_ended fd)\<rparr>)
         | [] \<Rightarrow>
             (case fd_ended fd of
                None \<Rightarrow> None
              | Some err \<Rightarrow> iter_Next c logs_first fd (it\<lparr>it_done := True, it_fail := err\<rparr>))))"
  by pat_completeness auto
termination by (relation "measure (\<lambda>(c, logs_first, fd, it). if it_done it then 0 else 1)") auto

definition iter_Error :: "'l iterator \<Rightarrow> string option" where
  "iter_Error it = it_fail it"

declare iter_Next.simps [simp del]

text \<open>Arrivals at the channels and calls of \<open>Next\<close>, in any order; nothing arrives after the end.\<close>

datatype 'l iter_act =
    Arrives 'l
  | Ends "string option"
  | CallNext bool

record 'l iteration =
  im_feed :: "'l feed"
  im_it :: "'l iterator"
  im_got :: "'l event list"    \<comment> \<open>the events that were there when \<open>Next\<close> was true\<close>
  im_over :: bool              \<comment> \<open>\<open>Next\<close> was false\<close>

fun iter_step :: "('l, 't) bound_contract \<Rightarrow> 'l iter_act \<Rightarrow> 'l iteration \<Rightarrow> 'l iteration option" where
  "iter_step c (Arrives l) s =
     (if fd_ended (im_feed s) = None then Some (s\<lparr>im_feed := (im_feed s)\<lparr>fd_logs := fd_logs (im_feed s) @ [l]\<rparr>\<rparr>)
      else None)"
| "iter_step c (Ends err) s =
     (if fd_ended (im_feed s) = None then Some (s\<lparr>im_feed := (im_feed s)\<lparr>fd_ended := Some err\<rparr>\<rparr>) else None)"
| "iter_step c (CallNext logs_first) s =
     (case iter_Next c logs_first (im_feed s) (im_it s) of
        None \<Rightarrow> None
      | Some (r, fd, it) \<Rightarrow>
          Some \<lparr>im_feed = fd, im_it = it,
                im_got = (if r then im_got s @ (case it_Event it of Some e \<Rightarrow> [e] | None \<Rightarrow> []) else im_got s),
                im_over = (im_over s \<or> \<not> r)\<rparr>)"

fun iter_run :: "('l, 't) bound_contract \<Rightarrow> 'l iter_act list \<Rightarrow> 'l iteration \<Rightarrow> 'l iteration option" where
  "iter_run c [] s = Some s"
| "iter_run c (a # acts) s = Option.bind (iter_step c a s) (iter_run c acts)"

definition start_iteration :: "string \<Rightarrow> 'l iteration" where
  "start_iteration name =
     \<lparr>im_feed = \<lparr>fd_logs = [], fd_ended = None\<rparr>, im_it = new_iterator name, im_got = [], im_over = False\<rparr>"

fun arrived :: "'l iter_act list \<Rightarrow> 'l list" where
  "arrived [] = []"
| "arrived (Arrives l # acts) = l # arrived acts"
| "arrived (a # acts) = arrived acts"

lemma arrived_append [simp]: "arrived (xs @ ys) = arrived xs @ arrived ys"
  by (induction xs rule: arrived.induct) simp_all

lemma iter_run_snoc: "iter_run c (acts @ [a]) s = Option.bind (iter_run c acts s) (iter_step c a)"
  by (induction acts arbitrary: s) (auto split: bind_splits)

lemma iter_Next_failed: "it_fail it \<noteq> None \<Longrightarrow> iter_Next c b fd it = Some (False, fd, it)"
  by (simp add: iter_Next.simps)

lemma iter_Next_done:
  "it_fail it = None \<Longrightarrow> it_done it \<Longrightarrow>
   iter_Next c b fd it =
     Some (case fd_logs fd of
             [] \<Rightarrow> (False, fd, it)
           | l # ls \<Rightarrow> (fst (take_log c l it), fd\<lparr>fd_logs := ls\<rparr>, snd (take_log c l it)))"
  by (simp add: iter_Next.simps split: list.split prod.split)

lemma iter_Next_live:
  "it_fail it = None \<Longrightarrow> \<not> it_done it \<Longrightarrow>
   iter_Next c b fd it =
     (case (fd_logs fd, fd_ended fd) of
        ([], None) \<Rightarrow> None
      | (l # ls, None) \<Rightarrow> Some (fst (take_log c l it), fd\<lparr>fd_logs := ls\<rparr>, snd (take_log c l it))
      | (logs, Some err) \<Rightarrow>
          if b \<and> logs \<noteq> []
          then Some (fst (take_log c (hd logs) it), fd\<lparr>fd_logs := tl logs\<rparr>, snd (take_log c (hd logs) it))
          else iter_Next c b fd (it\<lparr>it_done := True, it_fail := err\<rparr>))"
  by (subst iter_Next.simps) (simp split: list.split prod.split option.split)

lemma iter_Next_cases:
  assumes "iter_Next c b fd it = Some (r, fd', it')"
  obtains
    (failed) "it_fail it \<noteq> None" "\<not> r" "fd' = fd" "it' = it"
  | (drained) "it_fail it = None" "fd_logs fd = []" "it_done it \<or> fd_ended fd = Some None"
      "\<not> r" "fd' = fd" "it' = it\<lparr>it_done := True\<rparr>"
  | (log) l ls d where "it_fail it = None" "fd_logs fd = l # ls" "it_done it \<Longrightarrow> d"
      "d \<Longrightarrow> it_done it \<or> fd_ended fd = Some None"
      "fd' = fd\<lparr>fd_logs := ls\<rparr>" "take_log c l (it\<lparr>it_done := d\<rparr>) = (r, it')"
  | (ended) err where "it_fail it = None" "fd_ended fd = Some (Some err)" "\<not> r" "fd' = fd"
      "it' = it\<lparr>it_done := True, it_fail := Some err\<rparr>"
proof -
  have done_case: thesis
    if n: "iter_Next c b fd (it\<lparr>it_done := True\<rparr>) = Some (r, fd', it')" and it: "it_fail it = None"
      and over: "it_done it \<or> fd_ended fd = Some None"
  proof (cases "fd_logs fd")
    case Nil
    then show ?thesis using n it by (intro drained [OF it _ over]) (simp_all add: iter_Next_done)
  next
    case (Cons l ls)
    then show ?thesis using n it
      by (intro log [OF it Cons, of True] over) (simp_all add: iter_Next_done prod_eq_iff)
  qed
  consider "it_fail it \<noteq> None" | "it_fail it = None" "it_done it" | "it_fail it = None" "\<not> it_done it" by blast
  then show ?thesis
  proof cases
    case 1
    then show ?thesis using assms by (intro failed) (simp_all add: iter_Next_failed)
  next
    case 2
    then have "it\<lparr>it_done := True\<rparr> = it" by (cases it) simp
    from done_case [unfolded this, OF assms] 2 show ?thesis by blast
  next
    case 3
    then have same: "it\<lparr>it_done := False\<rparr> = it" by (cases it) simp
    show ?thesis
    proof (cases "fd_ended fd")
      case None
      then obtain l ls where "fd_logs fd = l # ls" using 3 assms by (cases "fd_logs fd") (auto simp: iter_Next_live)
      then show ?thesis using 3 assms None by (intro log [of l ls False, unfolded same]) (auto simp: iter_Next_live prod_eq_iff)
    next
      case (Some err)
      show ?thesis
      proof (cases "b \<and> fd_logs fd \<noteq> []")
        case True
        then obtain l ls where "fd_logs fd = l # ls" by (cases "fd_logs fd") auto
        then show ?thesis using 3 assms Some True
          by (intro log [of l ls False, unfolded same]) (auto simp: iter_Next_live prod_eq_iff)
      next
        case False
        then have n: "iter_Next c b fd (it\<lparr>it_done := True, it_fail := err\<rparr>) = Some (r, fd', it')"
          using 3 assms Some by (cases "fd_logs fd") (auto simp: iter_Next_live)
        show ?thesis
        proof (cases err)
          case None
          then have "it\<lparr>it_done := True, it_fail := err\<rparr> = it\<lparr>it_done := True\<rparr>" using 3 by (cases it) simp
          from done_case [OF n [unfolded this]] 3 Some None show ?thesis by blast
        next
          case (Some e)
          then show ?thesis using n 3 \<open>fd_ended fd = Some err\<close> by (intro ended [of e]) (simp_all add: iter_Next_failed)
        qed
      qed
    qed
  qed
qed

lemma take_log_simps:
  "take_log c l it =
    (case parse_event c (it_event it) l of
       Inl err \<Rightarrow> (False, it\<lparr>it_Event := Some (fst (unpack_event c (it_event it) l)), it_fail := Some err\<rparr>)
     | Inr e \<Rightarrow> (True, it\<lparr>it_Event := Some e\<rparr>))"
  by (auto simp: take_log_def parse_event_def split: prod.split option.split sum.split)

definition iteration_inv :: "('l, 't) bound_contract \<Rightarrow> string \<Rightarrow> 'l iter_act list \<Rightarrow> 'l list \<Rightarrow> 'l iteration \<Rightarrow> bool" where
  \<comment> \<open>the logs seen by the iterator and what it made of them\<close>
  "iteration_inv c name acts seen s \<longleftrightarrow>
     arrived acts = seen @ fd_logs (im_feed s) \<and> (\<forall>x. fd_ended (im_feed s) = Some x \<longrightarrow> Ends x \<in> set acts) \<and>
     it_event (im_it s) = name \<and>
     (case it_fail (im_it s) of
        None \<Rightarrow>
          map (parse_event c name) seen = map Inr (im_got s) \<and>
          (it_done (im_it s) \<longrightarrow> fd_ended (im_feed s) = Some None) \<and>
          (im_over s \<longrightarrow> fd_logs (im_feed s) = [] \<and> fd_ended (im_feed s) = Some None)
      | Some err \<Rightarrow>
          im_over s \<and>
          (map (parse_event c name) seen = map Inr (im_got s) @ [Inl err] \<or>
           Ends (Some err) \<in> set acts \<and> map (parse_event c name) seen = map Inr (im_got s)))"

lemma iteration_inv_step:
  assumes inv: "iteration_inv c name acts seen s" and step: "iter_step c a s = Some s'"
  shows "\<exists>seen'. iteration_inv c name (acts @ [a]) seen' s'"
proof (cases a)
  case (Arrives l)
  then show ?thesis using inv step
    by (intro exI [of _ seen]) (auto simp: iteration_inv_def split: if_splits option.splits)
next
  case (Ends err)
  then show ?thesis using inv step
    by (intro exI [of _ seen]) (auto simp: iteration_inv_def split: if_splits option.splits)
next
  case (CallNext b)
  then obtain r fd it where n: "iter_Next c b (im_feed s) (im_it s) = Some (r, fd, it)"
    and s': "s' = \<lparr>im_feed = fd, im_it = it,
      im_got = (if r then im_got s @ (case it_Event it of Some e \<Rightarrow> [e] | None \<Rightarrow> []) else im_got s),
      im_over = (im_over s \<or> \<not> r)\<rparr>"
    using step by (auto split: option.splits)
  from n show ?thesis
  proof (cases rule: iter_Next_cases)
    case failed
    then show ?thesis using inv CallNext s' by (intro exI [of _ seen]) (auto simp: iteration_inv_def)
  next
    case drained
    then show ?thesis using inv CallNext s' by (intro exI [of _ seen]) (auto simp: iteration_inv_def)
  next
    case (log l ls d)
    then show ?thesis using inv CallNext s'
      by (intro exI [of _ "seen @ [l]"]) (auto simp: iteration_inv_def take_log_simps split: sum.splits)
  next
    case (ended err)
    then show ?thesis using inv CallNext s' by (intro exI [of _ seen]) (auto simp: iteration_inv_def)
  qed
qed

lemma iteration_inv_run:
  "iter_run c acts (start_iteration name) = Some s \<Longrightarrow> \<exists>seen. iteration_inv c name acts seen s"
proof (induction acts arbitrary: s rule: rev_induct)
  case Nil
  then show ?case by (auto simp: iteration_inv_def start_iteration_def new_iterator_def)
next
  case (snoc a acts)
  then show ?case by (auto simp: iter_run_snoc split: bind_splits dest: iteration_inv_step)
qed

text \<open>
  C22. An iterator gives the events of the logs in the order of their arrival, none twice and none left out,
  however arrivals and calls of \<open>Next\<close> interleave and whichever ready channel a call receives from. Once
  \<open>Next\<close> has been false, either \<open>Error\<close> is nil and every log that arrived was given as an event, or \<open>Error\<close> is the
  error of the first log that could not be unpacked, or the error that ended the subscription.
\<close>

theorem iterator_delivers:
  assumes "iter_run c acts (start_iteration name) = Some s"
  shows "\<exists>seen rest. arrived acts = seen @ rest \<and>
    (case iter_Error (im_it s) of
       None \<Rightarrow>
         map (parse_event c name) seen = map Inr (im_got s) \<and> (im_over s \<longrightarrow> rest = [] \<and> Ends None \<in> set acts)
     | Some err \<Rightarrow>
         im_over s \<and>
         (map (parse_event c name) seen = map Inr (im_got s) @ [Inl err] \<or>
          map (parse_event c name) seen = map Inr (im_got s) \<and> Ends (Some err) \<in> set acts))"
proof -
  obtain seen where inv: "iteration_inv c name acts seen s" using iteration_inv_run [OF assms] by blast
  show ?thesis
    by (intro exI [of _ seen] exI [of _ "fd_logs (im_feed s)"])
      (use inv in \<open>auto simp: iteration_inv_def iter_Error_def split: option.splits\<close>)
qed

definition sample_contract :: "(nat, unit) bound_contract" where
  \<comment> \<open>the log zero cannot be unpacked\<close>
  "sample_contract =
     \<lparr>bc_Call = (\<lambda>_ _ _. Inr [AbiInt 5]), bc_Transact = (\<lambda>_ _ _. Inr ()), bc_RawTransact = (\<lambda>_ _. Inr ()),
      bc_Transfer = (\<lambda>_. Inr ()),
      bc_FilterLogs = (\<lambda>_ _ _. None), bc_WatchLogs = (\<lambda>_ _ _. None),
      bc_UnpackLog = (\<lambda>_ l. if l = 0 then ([], Some ''abi: empty'') else ([AbiInt (int l)], None))\<rparr>"

theorem iterator_delivers_witness:
  "\<exists>s. iter_run sample_contract [Arrives 7, Arrives 8, Ends None, CallNext False, CallNext True, CallNext True]
       (start_iteration ''Transfer'') = Some s \<and> map ev_Raw (im_got s) = [Some 7, Some 8] \<and> im_over s"
proof -
  let ?acts = "[Arrives 7, Arrives 8, Ends None, CallNext False, CallNext True, CallNext True]"
  obtain s where s: "iter_run sample_contract ?acts (start_iteration ''Transfer'') = Some s"
    and o: "im_over s" "iter_Error (im_it s) = None"
    by (simp add: start_iteration_def new_iterator_def iter_Next.simps take_log_def unpack_event_def sample_contract_def
        iter_Error_def)
  from iterator_delivers [OF s] o
  have "map Inr (im_got s) = map (parse_event sample_contract ''Transfer'') [7, 8]" by auto
  also have "\<dots> = map Inr [\<lparr>ev_values = [AbiInt 7], ev_Raw = Some 7\<rparr>, \<lparr>ev_values = [AbiInt 8], ev_Raw = Some 8\<rparr>]"
    by (simp add: parse_event_def unpack_event_def sample_contract_def)
  finally have "im_got s = [\<lparr>ev_values = [AbiInt 7], ev_Raw = Some 7\<rparr>, \<lparr>ev_values = [AbiInt 8], ev_Raw = Some 8\<rparr>]"
    by (auto simp: map_eq_Cons_conv)
  with s o show ?thesis by auto
qed

lemma iter_Next_ended:
  assumes "fd_ended fd \<noteq> None"
  shows "\<exists>r fd' it'. iter_Next c b fd it = Some (r, fd', it') \<and> fd_ended fd' \<noteq> None \<and>
    length (fd_logs fd') + (if r then 1 else 0) \<le> length (fd_logs fd)"
proof -
  obtain r fd' it' where n: "iter_Next c b fd it = Some (r, fd', it')"
    using assms by (cases "it_fail it \<noteq> None"; cases "it_done it"; cases "fd_logs fd"; cases "the (fd_ended fd)"; cases b)
      (auto simp: iter_Next_failed iter_Next_done iter_Next_live)
  from n show ?thesis
    by (cases rule: iter_Next_cases) (use n assms in auto)
qed

lemma iterator_stops:
  assumes "fd_ended (im_feed s) \<noteq> None" and "length (fd_logs (im_feed s)) < length choices"
  shows "\<exists>s'. iter_run c (map CallNext choices) s = Some s' \<and> im_over s'"
proof -
  have "\<exists>s'. iter_run c (map CallNext choices) s = Some s' \<and>
      (im_over s \<or> length (fd_logs (im_feed s)) < length choices \<longrightarrow> im_over s')"
    if "fd_ended (im_feed s) \<noteq> None" for choices s
    using that
  proof (induction choices arbitrary: s)
    case (Cons b choices)
    obtain r fd it where n: "iter_Next c b (im_feed s) (im_it s) = Some (r, fd, it)" "fd_ended fd \<noteq> None"
      "length (fd_logs fd) + (if r then 1 else 0) \<le> length (fd_logs (im_feed s))"
      using iter_Next_ended [OF Cons.prems] by blast
    then obtain s' where s': "iter_step c (CallNext b) s = Some s'" "im_feed s' = fd" "im_over s' = (im_over s \<or> \<not> r)"
      by simp
    with n Cons.IH [of s'] show ?case by (auto split: if_splits)
  qed simp
  with assms show ?thesis by blast
qed

lemma iter_run_append: "iter_run c (xs @ ys) s = Option.bind (iter_run c xs s) (iter_run c ys)"
  by (induction xs arbitrary: s) (auto split: bind_splits)

lemma iter_run_arrivals:
  "fd_ended (im_feed s) = None \<Longrightarrow>
   iter_run c (map Arrives ls) s = Some (s\<lparr>im_feed := (im_feed s)\<lparr>fd_logs := fd_logs (im_feed s) @ ls\<rparr>\<rparr>)"
  by (induction ls arbitrary: s) simp_all

lemma Ends_acts [simp]: "Ends x \<notin> Arrives ` A" "Ends x \<notin> CallNext ` B"
  by auto

lemma arrived_Arrives [simp]: "arrived (map Arrives ls) = ls"
  by (induction ls) simp_all

lemma arrived_CallNext [simp]: "arrived (map CallNext choices) = []"
  by (induction choices) simp_all

text \<open>
  C23. A query of past events, all of which can be unpacked, is read to its end: after the logs have arrived and the
  subscription has ended without an error, a loop over \<open>Next\<close> stops after at most one call more than there are
  logs, without an error and with the events of exactly these logs in their order.
\<close>

theorem filter_collects:
  assumes "\<forall>l\<in>set ls. \<exists>e. parse_event c name l = Inr e" and "length ls < length choices"
  shows "\<exists>s. iter_run c (map Arrives ls @ [Ends None] @ map CallNext choices) (start_iteration name) = Some s \<and>
    im_over s \<and> iter_Error (im_it s) = None \<and> map Inr (im_got s) = map (parse_event c name) ls"
proof -
  let ?s = "start_iteration name\<lparr>im_feed := \<lparr>fd_logs = ls, fd_ended = Some None\<rparr>\<rparr>"
  let ?acts = "map Arrives ls @ [Ends None] @ map CallNext choices"
  obtain s where s: "iter_run c (map CallNext choices) ?s = Some s" "im_over s"
    using iterator_stops [of ?s choices c] assms(2) by auto
  then have run: "iter_run c ?acts (start_iteration name) = Some s"
    by (simp add: iter_run_append iter_run_arrivals start_iteration_def)
  obtain seen where inv: "iteration_inv c name ?acts seen s" using iteration_inv_run [OF run] by blast
  then have "set seen \<subseteq> set ls" by (auto simp: iteration_inv_def)
  then have ok: "Inl err \<notin> set (map (parse_event c name) seen)" for err using assms(1) by force
  have "it_fail (im_it s) = None"
  proof (rule ccontr)
    assume "it_fail (im_it s) \<noteq> None"
    then obtain err where "it_fail (im_it s) = Some err" by blast
    then have "map (parse_event c name) seen = map Inr (im_got s) @ [Inl err]" using inv by (auto simp: iteration_inv_def)
    then show False using ok [of err] by simp
  qed
  with inv s(2) run show ?thesis by (auto simp: iteration_inv_def iter_Error_def)
qed

theorem filter_collects_witness:
  "\<exists>s. iter_run sample_contract (map Arrives [7, 8] @ [Ends None] @ map CallNext [True, False, False])
       (start_iteration ''Transfer'') = Some s \<and> im_over s \<and> length (im_got s) = length [7 :: nat, 8]"
proof -
  have "\<forall>l\<in>set [7, 8]. \<exists>e. parse_event sample_contract ''Transfer'' l = Inr e"
    by (simp add: parse_event_def unpack_event_def sample_contract_def)
  from filter_collects [OF this, of "[True, False, False]"] show ?thesis
    by (metis length_map length_Cons lessI less_SucI list.size(3))
qed

section \<open>Forwarding new events\<close>

text \<open>
  The goroutine of a \<open>Watch\<close> operation. It stops with the result of its function, and has then given up its
  subscription.
\<close>

datatype 'l watcher =
    Waiting
  | Sending "'l event"
  | Stopped "string option"

datatype 'l watch_event =
    GetsLog 'l
  | Sends "'l event"
  | SubEnds "string option"
  | Quits

inductive watch_step :: "('l, 't) bound_contract \<Rightarrow> string \<Rightarrow> 'l watcher \<Rightarrow> 'l watch_event \<Rightarrow> 'l watcher \<Rightarrow> bool"
  for c :: "('l, 't) bound_contract" and name :: string where
  log_unpacked: "parse_event c name l = Inr e \<Longrightarrow> watch_step c name Waiting (GetsLog l) (Sending e)"
| log_refused: "parse_event c name l = Inl err \<Longrightarrow> watch_step c name Waiting (GetsLog l) (Stopped (Some err))"
| waiting_ends: "watch_step c name Waiting (SubEnds err) (Stopped err)"
| waiting_quits: "watch_step c name Waiting Quits (Stopped None)"
| event_sent: "watch_step c name (Sending e) (Sends e) Waiting"
| sending_ends: "watch_step c name (Sending e) (SubEnds err) (Stopped err)"
| sending_quits: "watch_step c name (Sending e) Quits (Stopped None)"

inductive_cases watch_stepE: "watch_step c name w x w'"
inductive_simps watch_step_quits [simp]: "watch_step c name w Quits w'"

inductive watch_run :: "('l, 't) bound_contract \<Rightarrow> string \<Rightarrow> 'l watch_event list \<Rightarrow> 'l watcher \<Rightarrow> bool"
  for c :: "('l, 't) bound_contract" and name :: string where
  watch_start: "watch_run c name [] Waiting"
| watch_next: "watch_run c name xs w \<Longrightarrow> watch_step c name w x w' \<Longrightarrow> watch_run c name (xs @ [x]) w'"

fun logs_got :: "'l watch_event list \<Rightarrow> 'l list" where
  "logs_got [] = []"
| "logs_got (GetsLog l # xs) = l # logs_got xs"
| "logs_got (x # xs) = logs_got xs"

fun events_sent :: "'l watch_event list \<Rightarrow> 'l event list" where
  "events_sent [] = []"
| "events_sent (Sends e # xs) = e # events_sent xs"
| "events_sent (x # xs) = events_sent xs"

lemma logs_got_append [simp]: "logs_got (xs @ ys) = logs_got xs @ logs_got ys"
  by (induction xs rule: logs_got.induct) simp_all

lemma events_sent_append [simp]: "events_sent (xs @ ys) = events_sent xs @ events_sent ys"
  by (induction xs rule: events_sent.induct) simp_all

text \<open>
  C24. The goroutine of a \<open>Watch\<close> operation sends the events of the logs it gets, in their order, each once. What it
  has got and not sent is at most one log: the event it is sending, one that was not taken before it
  stopped, or the log whose error it stopped with. Whatever it does, it can be stopped.
\<close>

theorem watch_forwards:
  assumes "watch_run c name xs w"
  shows "(\<exists>unsent. map (parse_event c name) (logs_got xs) = map Inr (events_sent xs) @ unsent \<and>
      (case w of
         Waiting \<Rightarrow> unsent = []
       | Sending e \<Rightarrow> unsent = [Inr e]
       | Stopped result \<Rightarrow> unsent = [] \<or> (\<exists>e. unsent = [Inr e]) \<or> (\<exists>err. unsent = [Inl err] \<and> result = Some err))) \<and>
    ((\<forall>result. w \<noteq> Stopped result) = watch_step c name w Quits (Stopped None))"
  using assms
proof (induction rule: watch_run.induct)
  case watch_start
  then show ?case by auto
next
  case (watch_next xs w x w')
  then show ?case by (elim watch_stepE) (cases w'; fastforce)+
qed

theorem watch_forwards_witness:
  "\<exists>xs unsent. watch_run sample_contract ''Transfer'' xs (Stopped (Some ''abi: empty'')) \<and> logs_got xs = [7, 0] \<and>
     map (parse_event sample_contract ''Transfer'') [7, 0] = map Inr (events_sent xs) @ unsent \<and>
     unsent = [Inl ''abi: empty'']"
proof -
  let ?e = "\<lparr>ev_values = [AbiInt 7], ev_Raw = Some 7\<rparr>"
  have p: "parse_event sample_contract ''Transfer'' 7 = Inr ?e" "parse_event sample_contract ''Transfer'' 0 = Inl ''abi: empty''"
    by (simp_all add: parse_event_def unpack_event_def sample_contract_def)
  have run: "watch_run sample_contract ''Transfer'' ((([] @ [GetsLog 7]) @ [Sends ?e]) @ [GetsLog 0])
      (Stopped (Some ''abi: empty''))"
    by (rule watch_next [OF watch_next [OF watch_next [OF watch_start log_unpacked [OF p(1)]] event_sent]
          log_refused [OF p(2)]])
  from watch_forwards [OF run] p run show ?thesis
    by (intro exI [of _ "(([] @ [GetsLog 7]) @ [Sends ?e]) @ [GetsLog 0]"] exI [of _ "[Inl ''abi: empty'']"]) auto
qed

section \<open>The events of the contracts\<close>

text \<open>
  Opening an iterator or a watch passes one list of topics per indexed parameter; an empty list
  admits every topic. The error is that of the node; otherwise the iterator is new, and the goroutine
  waits.
\<close>

definition open_filter :: "('l, 't) bound_contract \<Rightarrow> int \<Rightarrow> string \<Rightarrow> address list list \<Rightarrow> string + 'l iterator" where
  "open_filter c opts name rules =
     (case bc_FilterLogs c opts name rules of Some err \<Rightarrow> Inl err | None \<Rightarrow> Inr (new_iterator name))"

definition open_watch :: "('l, 't) bound_contract \<Rightarrow> int \<Rightarrow> string \<Rightarrow> address list list \<Rightarrow> string + string \<times> 'l watcher" where
  \<comment> \<open>the event that is watched and the goroutine\<close>
  "open_watch c opts name rules =
     (case bc_WatchLogs c opts name rules of Some err \<Rightarrow> Inl err | None \<Rightarrow> Inr (name, Waiting))"

fun append_rule :: "address list \<Rightarrow> address list \<Rightarrow> address list" where
  "append_rule rule [] = rule"
| "append_rule rule (item # items) = append_rule (rule @ [item]) items"

definition FilterApproval :: "('l, 't) bound_contract \<Rightarrow> int \<Rightarrow> address list \<Rightarrow> address list \<Rightarrow> string + 'l iterator" where
  "FilterApproval c opts owner spender =
     open_filter c opts ''Approval'' [append_rule [] owner, append_rule [] spender]"

definition WatchApproval ::
  "('l, 't) bound_contract \<Rightarrow> int \<Rightarrow> address list \<Rightarrow> address list \<Rightarrow> string + string \<times> 'l watcher" where
  "WatchApproval c opts owner spender =
     open_watch c opts ''Approval'' [append_rule [] owner, append_rule [] spender]"

definition ParseApproval :: "('l, 't) bound_contract \<Rightarrow> 'l \<Rightarrow> string + 'l event" where
  "ParseApproval c l = parse_event c ''Approval'' l"

definition FilterTransfer :: "('l, 't) bound_contract \<Rightarrow> int \<Rightarrow> address list \<Rightarrow> address list \<Rightarrow> string + 'l iterator" where
  "FilterTransfer c opts from' to = open_filter c opts ''Transfer'' [append_rule [] from', append_rule [] to]"

definition WatchTransfer ::
  "('l, 't) bound_contract \<Rightarrow> int \<Rightarrow> address list \<Rightarrow> address list \<Rightarrow> string + string \<times> 'l watcher" where
  "WatchTransfer c opts from' to = open_watch c opts ''Transfer'' [append_rule [] from', append_rule [] to]"

definition ParseTransfer :: "('l, 't) bound_contract \<Rightarrow> 'l \<Rightarrow> string + 'l event" where
  "ParseTransfer c l = parse_event c ''Transfer'' l"

definition FilterDeposit ::
  "('l, 't) bound_contract \<Rightarrow> int \<Rightarrow> address list \<Rightarrow> address list \<Rightarrow> address list \<Rightarrow> string + 'l iterator" where
  "FilterDeposit c opts user token maker =
     open_filter c opts ''Deposit'' [append_rule [] user, append_rule [] token, append_rule [] maker]"

definition WatchDeposit ::
  "('l, 't) bound_contract \<Rightarrow> int \<Rightarrow> address list \<Rightarrow> address list \<Rightarrow> address list \<Rightarrow> string + string \<times> 'l watcher" where
  "WatchDeposit c opts user token maker =
     open_watch c opts ''Deposit'' [append_rule [] user, append_rule [] token, append_rule [] maker]"

definition ParseDeposit :: "('l, 't) bound_contract \<Rightarrow> 'l \<Rightarrow> string + 'l event" where
  "ParseDeposit c l = parse_event c ''Deposit'' l"

end
