(* ===== verification/EvmSessions.thy ===== *)
theory EvmSessions
  imports EvmBindings
begin

text \<open>
  The rest of the bindings of the EVM contracts in \<open>src/abi/erc20\<close>, \<open>src/abi/depositor\<close> and \<open>src/abi/owlto\<close>:
  binding a deployed contract, the raw operations, the sessions, which keep the options of calls and
  transactions, and the events of \<open>owlto20.go\<close>. Parsing the ABI and making the bound contract are those of
  go-ethereum, arguments; a part of the node that a binding does not have is \<open>nil\<close>, here \<open>None\<close>.
\<close>

section \<open>Binding a contract\<close>

record ('l, 't) binding =
  bd_Caller :: "('l, 't) bound_contract"
  bd_Transactor :: "('l, 't) bound_contract"
  bd_Filterer :: "('l, 't) bound_contract"

record ('n, 'l, 't) bind_package =
  bp_GetAbi :: "string \<Rightarrow> string + string"   \<comment> \<open>the ABI of a contract, parsed\<close>
  bp_NewBoundContract :: "address \<Rightarrow> string \<Rightarrow> 'n option \<Rightarrow> 'n option \<Rightarrow> 'n option \<Rightarrow> ('l, 't) bound_contract"
    \<comment> \<open>at an address, with its callers, transactors and filterers\<close>

definition bind_abi ::
  "('n, 'l, 't) bind_package \<Rightarrow> string \<Rightarrow> address \<Rightarrow> 'n option \<Rightarrow> 'n option \<Rightarrow> 'n option \<Rightarrow> string + ('l, 't) bound_contract" where
  "bind_abi bp abi addr caller transactor filterer =
     (case bp_GetAbi bp abi of
        Inl err \<Rightarrow> Inl err
      | Inr parsed \<Rightarrow> Inr (bp_NewBoundContract bp addr parsed caller transactor filterer))"

definition all_parts :: "string + ('l, 't) bound_contract \<Rightarrow> string + ('l, 't) binding" where
  "all_parts r =
     (case r of Inl err \<Rightarrow> Inl err | Inr c \<Rightarrow> Inr \<lparr>bd_Caller = c, bd_Transactor = c, bd_Filterer = c\<rparr>)"

definition bindErc20 ::
  "('n, 'l, 't) bind_package \<Rightarrow> address \<Rightarrow> 'n option \<Rightarrow> 'n option \<Rightarrow> 'n option \<Rightarrow> string + ('l, 't) bound_contract" where
  "bindErc20 bp addr caller transactor filterer =
     bind_abi bp ''Erc20'' addr caller transactor filterer"

definition NewErc20 ::
  "('n, 'l, 't) bind_package \<Rightarrow> address \<Rightarrow> 'n \<Rightarrow> string + ('l, 't) binding" where
  "NewErc20 bp addr backend = all_parts (bindErc20 bp addr (Some backend) (Some backend) (Some backend))"

definition NewErc20Caller ::
  "('n, 'l, 't) bind_package \<Rightarrow> address \<Rightarrow> 'n \<Rightarrow> string + ('l, 't) bound_contract" where
  "NewErc20Caller bp addr caller =
     bindErc20 bp addr (Some caller) None None"

definition NewErc20Transactor ::
  "('n, 'l, 't) bind_package \<Rightarrow> address \<Rightarrow> 'n \<Rightarrow> string + ('l, 't) bound_contract" where
  "NewErc20Transactor bp addr transactor =
     bindErc20 bp addr None (Some transactor) None"

definition NewErc20Filterer ::
  "('n, 'l, 't) bind_package \<Rightarrow> address \<Rightarrow> 'n \<Rightarrow> string + ('l, 't) bound_contract" where
  "NewErc20Filterer bp addr filterer =
     bindErc20 bp addr None None (Some filterer)"

definition bindDepositor ::
  "('n, 'l, 't) bind_package \<Rightarrow> address \<Rightarrow> 'n option \<Rightarrow> 'n option \<Rightarrow> 'n option \<Rightarrow> string + ('l, 't) bound_contract" where
  "bindDepositor bp addr caller transactor filterer =
     bind_abi bp ''Depositor'' addr caller transactor filterer"

definition NewDepositor ::
  "('n, 'l, 't) bind_package \<Rightarrow> address \<Rightarrow> 'n \<Rightarrow> string + ('l, 't) binding" where
  "NewDepositor bp addr backend = all_parts (bindDepositor bp addr (Some backend) (Some backend) (Some backend))"

definition NewDepositorCaller ::
  "('n, 'l, 't) bind_package \<Rightarrow> address \<Rightarrow> 'n \<Rightarrow> string + ('l, 't) bound_contract" where
  "NewDepositorCaller bp addr caller =
     bindDepositor bp addr (Some caller) None None"

definition NewDepositorTransactor ::
  "('n, 'l, 't) bind_package \<Rightarrow> address \<Rightarrow> 'n \<Rightarrow> string + ('l, 't) bound_contract" where
  "NewDepositorTransactor bp addr transactor =
     bindDepositor bp addr None (Some transactor) None"

definition NewDepositorFilterer ::
  "('n, 'l, 't) bind_package \<Rightarrow> address \<Rightarrow> 'n \<Rightarrow> string + ('l, 't) bound_contract" where
  "NewDepositorFilterer bp addr filterer =
     bindDepositor bp addr None None (Some filterer)"

definition bindOwlto20 ::
  "('n, 'l, 't) bind_package \<Rightarrow> address \<Rightarrow> 'n option \<Rightarrow> 'n option \<Rightarrow> 'n option \<Rightarrow> string + ('l, 't) bound_contract" where
  "bindOwlto20 bp addr caller transactor filterer =
     bind_abi bp ''Owlto20'' addr caller transactor filterer"

definition NewOwlto20 ::
  "('n, 'l, 't) bind_package \<Rightarrow> address \<Rightarrow> 'n \<Rightarrow> string + ('l, 't) binding" where
  "NewOwlto20 bp addr backend = all_parts (bindOwlto20 bp addr (Some backend) (Some backend) (Some backend))"

definition NewOwlto20Caller ::
  "('n, 'l, 't) bind_package \<Rightarrow> address \<Rightarrow> 'n \<Rightarrow> string + ('l, 't) bound_contract" where
  "NewOwlto20Caller bp addr caller =
     bindOwlto20 bp addr (Some caller) None None"

definition NewOwlto20Transactor ::
  "('n, 'l, 't) bind_package \<Rightarrow> address \<Rightarrow> 'n \<Rightarrow> string + ('l, 't) bound_contract" where
  "NewOwlto20Transactor bp addr transactor =
     bindOwlto20 bp addr None (Some transactor) None"

definition NewOwlto20Filterer ::
  "('n, 'l, 't) bind_package \<Rightarrow> address \<Rightarrow> 'n \<Rightarrow> string + ('l, 't) bound_contract" where
  "NewOwlto20Filterer bp addr filterer =
     bindOwlto20 bp addr None None (Some filterer)"

section \<open>Raw operations\<close>

definition Erc20Raw_Call ::
  "('l, 't) binding \<Rightarrow> int option \<Rightarrow> string \<Rightarrow> abi_value list \<Rightarrow> string + abi_value list" where
  "Erc20Raw_Call b opts m params =
     bc_Call (bd_Caller b) opts m params"

definition Erc20Raw_Transfer :: "('l, 't) binding \<Rightarrow> int \<Rightarrow> string + 't" where
  "Erc20Raw_Transfer b opts = bc_Transfer (bd_Transactor b) opts"

definition Erc20Raw_Transact ::
  "('l, 't) binding \<Rightarrow> int \<Rightarrow> string \<Rightarrow> abi_value list \<Rightarrow> string + 't" where
  "Erc20Raw_Transact b opts m params =
     bc_Transact (bd_Transactor b) opts m params"

definition Erc20CallerRaw_Call ::
  "('l, 't) bound_contract \<Rightarrow> int option \<Rightarrow> string \<Rightarrow> abi_value list \<Rightarrow> string + abi_value list" where
  "Erc20CallerRaw_Call c opts m params =
     bc_Call c opts m params"

definition Erc20TransactorRaw_Transfer :: "('l, 't) bound_contract \<Rightarrow> int \<Rightarrow> string + 't" where
  "Erc20TransactorRaw_Transfer c opts = bc_Transfer c opts"

definition Erc20TransactorRaw_Transact ::
  "('l, 't) bound_contract \<Rightarrow> int \<Rightarrow> string \<Rightarrow> abi_value list \<Rightarrow> string + 't" where
  "Erc20TransactorRaw_Transact c opts m params =
     bc_Transact c opts m params"

definition DepositorRaw_Call ::
  "('l, 't) binding \<Rightarrow> int option \<Rightarrow> string \<Rightarrow> abi_value list \<Rightarrow> string + abi_value list" where
  "DepositorRaw_Call b opts m params =
     bc_Call (bd_Caller b) opts m params"

definition DepositorRaw_Transfer :: "('l, 't) binding \<Rightarrow> int \<Rightarrow> string + 't" where
  "DepositorRaw_Transfer b opts = bc_Transfer (bd_Transactor b) opts"

definition DepositorRaw_Transact ::
  "('l, 't) binding \<Rightarrow> int \<Rightarrow> string \<Rightarrow> abi_value list \<Rightarrow> string + 't" where
  "DepositorRaw_Transact b opts m params =
     bc_Transact (bd_Transactor b) opts m params"

definition DepositorCallerRaw_Call ::
  "('l, 't) bound_contract \<Rightarrow> int option \<Rightarrow> string \<Rightarrow> abi_value list \<Rightarrow> string + abi_value list" where
  "DepositorCallerRaw_Call c opts m params =
     bc_Call c opts m params"

definition DepositorTransactorRaw_Transfer ::
  "('l, 't) bound_contract \<Rightarrow> int \<Rightarrow> string + 't" where
  "DepositorTransactorRaw_Transfer c opts = bc_Transfer c opts"

definition DepositorTransactorRaw_Transact ::
  "('l, 't) bound_contract \<Rightarrow> int \<Rightarrow> string \<Rightarrow> abi_value list \<Rightarrow> string + 't" where
  "DepositorTransactorRaw_Transact c opts m params =
     bc_Transact c opts m params"

definition Owlto20Raw_Call ::
  "('l, 't) binding \<Rightarrow> int option \<Rightarrow> string \<Rightarrow> abi_value list \<Rightarrow> string + abi_value list" where
  "Owlto20Raw_Call b opts m params =
     bc_Call (bd_Caller b) opts m params"

definition Owlto20Raw_Transfer :: "('l, 't) binding \<Rightarrow> int \<Rightarrow> string + 't" where
  "Owlto20Raw_Transfer b opts = bc_Transfer (bd_Transactor b) opts"

definition Owlto20Raw_Transact ::
  "('l, 't) binding \<Rightarrow> int \<Rightarrow> string \<Rightarrow> abi_value list \<Rightarrow> string + 't" where
  "Owlto20Raw_Transact b opts m params =
     bc_Transact (bd_Transactor b) opts m params"

definition Owlto20CallerRaw_Call ::
  "('l, 't) bound_contract \<Rightarrow> int option \<Rightarrow> string \<Rightarrow> abi_value list \<Rightarrow> string + abi_value list" where
  "Owlto20CallerRaw_Call c opts m params =
     bc_Call c opts m params"

definition Owlto20TransactorRaw_Transfer ::
  "('l, 't) bound_contract \<Rightarrow> int \<Rightarrow> string + 't" where
  "Owlto20TransactorRaw_Transfer c opts = bc_Transfer c opts"

definition Owlto20TransactorRaw_Transact ::
  "('l, 't) bound_contract \<Rightarrow> int \<Rightarrow> string \<Rightarrow> abi_value list \<Rightarrow> string + 't" where
  "Owlto20TransactorRaw_Transact c opts m params =
     bc_Transact c opts m params"

section \<open>Sessions\<close>

record ('l, 't) session =
  se_Contract :: "('l, 't) binding"
  se_CallOpts :: "int option"
  se_TransactOpts :: int

record ('l, 't) caller_session =
  cs_Contract :: "('l, 't) bound_contract"
  cs_CallOpts :: "int option"

record ('l, 't) transactor_session =
  ts_Contract :: "('l, 't) bound_contract"
  ts_TransactOpts :: int

definition Erc20Session_Allowance ::
  "('l, 't) session \<Rightarrow> address \<Rightarrow> address \<Rightarrow> (string + int) option" where
  "Erc20Session_Allowance s owner spender = Erc20_Allowance (bd_Caller (se_Contract s)) (se_CallOpts s) owner spender"

definition Erc20CallerSession_Allowance ::
  "('l, 't) caller_session \<Rightarrow> address \<Rightarrow> address \<Rightarrow> (string + int) option" where
  "Erc20CallerSession_Allowance s owner spender = Erc20_Allowance (cs_Contract s) (cs_CallOpts s) owner spender"

definition Erc20Session_BalanceOf ::
  "('l, 't) session \<Rightarrow> address \<Rightarrow> (string + int) option" where
  "Erc20Session_BalanceOf s owner = Erc20_BalanceOf (bd_Caller (se_Contract s)) (se_CallOpts s) owner"

definition Erc20CallerSession_BalanceOf ::
  "('l, 't) caller_session \<Rightarrow> address \<Rightarrow> (string + int) option" where
  "Erc20CallerSession_BalanceOf s owner = Erc20_BalanceOf (cs_Contract s) (cs_CallOpts s) owner"

definition Erc20Session_Decimals :: "('l, 't) session \<Rightarrow> (string + int) option" where
  "Erc20Session_Decimals s = Erc20_Decimals (bd_Caller (se_Contract s)) (se_CallOpts s)"

definition Erc20CallerSession_Decimals :: "('l, 't) caller_session \<Rightarrow> (string + int) option" where
  "Erc20CallerSession_Decimals s = Erc20_Decimals (cs_Contract s) (cs_CallOpts s)"

definition Erc20Session_Name :: "('l, 't) session \<Rightarrow> (string + string) option" where
  "Erc20Session_Name s = Erc20_Name (bd_Caller (se_Contract s)) (se_CallOpts s)"

definition Erc20CallerSession_Name :: "('l, 't) caller_session \<Rightarrow> (string + string) option" where
  "Erc20CallerSession_Name s = Erc20_Name (cs_Contract s) (cs_CallOpts s)"

definition Erc20Session_Symbol :: "('l, 't) session \<Rightarrow> (string + string) option" where
  "Erc20Session_Symbol s = Erc20_Symbol (bd_Caller (se_Contract s)) (se_CallOpts s)"

definition Erc20CallerSession_Symbol :: "('l, 't) caller_session \<Rightarrow> (string + string) option" where
  "Erc20CallerSession_Symbol s = Erc20_Symbol (cs_Contract s) (cs_CallOpts s)"

definition Erc20Session_TotalSupply :: "('l, 't) session \<Rightarrow> (string + int) option" where
  "Erc20Session_TotalSupply s = Erc20_TotalSupply (bd_Caller (se_Contract s)) (se_CallOpts s)"

definition Erc20CallerSession_TotalSupply :: "('l, 't) caller_session \<Rightarrow> (string + int) option" where
  "Erc20CallerSession_TotalSupply s = Erc20_TotalSupply (cs_Contract s) (cs_CallOpts s)"

definition Erc20Session_Approve ::
  "('l, 't) session \<Rightarrow> address \<Rightarrow> int \<Rightarrow> string + 't" where
  "Erc20Session_Approve s spender amount =
     Erc20_Approve (bd_Transactor (se_Contract s)) (se_TransactOpts s) spender amount"

definition Erc20TransactorSession_Approve ::
  "('l, 't) transactor_session \<Rightarrow> address \<Rightarrow> int \<Rightarrow> string + 't" where
  "Erc20TransactorSession_Approve s spender amount = Erc20_Approve (ts_Contract s) (ts_TransactOpts s) spender amount"

definition Erc20Session_Transfer ::
  "('l, 't) session \<Rightarrow> address \<Rightarrow> int \<Rightarrow> string + 't" where
  "Erc20Session_Transfer s to amount = Erc20_Transfer (bd_Transactor (se_Contract s)) (se_TransactOpts s) to amount"

definition Erc20TransactorSession_Transfer ::
  "('l, 't) transactor_session \<Rightarrow> address \<Rightarrow> int \<Rightarrow> string + 't" where
  "Erc20TransactorSession_Transfer s to amount = Erc20_Transfer (ts_Contract s) (ts_TransactOpts s) to amount"

definition Erc20Session_TransferFrom ::
  "('l, 't) session \<Rightarrow> address \<Rightarrow> address \<Rightarrow> int \<Rightarrow> string + 't" where
  "Erc20Session_TransferFrom s from' to amount =
     Erc20_TransferFrom (bd_Transactor (se_Contract s)) (se_TransactOpts s) from' to amount"

definition Erc20TransactorSession_TransferFrom ::
  "('l, 't) transactor_session \<Rightarrow> address \<Rightarrow> address \<Rightarrow> int \<Rightarrow> string + 't" where
  "Erc20TransactorSession_TransferFrom s from' to amount =
     Erc20_TransferFrom (ts_Contract s) (ts_TransactOpts s) from' to amount"

definition Erc20Session_Fallback :: "('l, 't) session \<Rightarrow> nat list \<Rightarrow> string + 't" where
  "Erc20Session_Fallback s calldata = Erc20_Fallback (bd_Transactor (se_Contract s)) (se_TransactOpts s) calldata"

definition Erc20TransactorSession_Fallback ::
  "('l, 't) transactor_session \<Rightarrow> nat list \<Rightarrow> string + 't" where
  "Erc20TransactorSession_Fallback s calldata = Erc20_Fallback (ts_Contract s) (ts_TransactOpts s) calldata"

definition DepositorSession_IsOwltoDepositor :: "('l, 't) session \<Rightarrow> (string + bool) option" where
  "DepositorSession_IsOwltoDepositor s = IsOwltoDepositor (bd_Caller (se_Contract s)) (se_CallOpts s)"

definition DepositorCallerSession_IsOwltoDepositor ::
  "('l, 't) caller_session \<Rightarrow> (string + bool) option" where
  "DepositorCallerSession_IsOwltoDepositor s = IsOwltoDepositor (cs_Contract s) (cs_CallOpts s)"

definition DepositorSession_Deposit ::
  "('l, 't) session \<Rightarrow> string \<Rightarrow> address \<Rightarrow> address \<Rightarrow> int \<Rightarrow> int \<Rightarrow> int \<Rightarrow> string + 't" where
  "DepositorSession_Deposit s target ercToken maker amount destination channel =
     Depositor_Deposit (bd_Transactor (se_Contract s)) (se_TransactOpts s) target ercToken maker amount destination channel"

definition DepositorTransactorSession_Deposit ::
  "('l, 't) transactor_session \<Rightarrow> string \<Rightarrow> address \<Rightarrow> address \<Rightarrow> int \<Rightarrow> int \<Rightarrow> int \<Rightarrow> string + 't" where
  "DepositorTransactorSession_Deposit s target ercToken maker amount destination channel =
     Depositor_Deposit (ts_Contract s) (ts_TransactOpts s) target ercToken maker amount destination channel"

definition DepositorSession_Receive :: "('l, 't) session \<Rightarrow> string + 't" where
  "DepositorSession_Receive s = Depositor_Receive (bd_Transactor (se_Contract s)) (se_TransactOpts s)"

definition DepositorTransactorSession_Receive :: "('l, 't) transactor_session \<Rightarrow> string + 't" where
  "DepositorTransactorSession_Receive s = Depositor_Receive (ts_Contract s) (ts_TransactOpts s)"

definition Owlto20Session_IsOwltoTransfer :: "('l, 't) session \<Rightarrow> (string + bool) option" where
  "Owlto20Session_IsOwltoTransfer s = IsOwltoTransfer (bd_Caller (se_Contract s)) (se_CallOpts s)"

definition Owlto20CallerSession_IsOwltoTransfer ::
  "('l, 't) caller_session \<Rightarrow> (string + bool) option" where
  "Owlto20CallerSession_IsOwltoTransfer s = IsOwltoTransfer (cs_Contract s) (cs_CallOpts s)"

definition Owlto20Session_Transfer ::
  "('l, 't) session \<Rightarrow> string \<Rightarrow> address \<Rightarrow> address \<Rightarrow> int \<Rightarrow> string + 't" where
  "Owlto20Session_Transfer s target ercToken maker amount =
     Owlto20_Transfer (bd_Transactor (se_Contract s)) (se_TransactOpts s) target ercToken maker amount"

definition Owlto20TransactorSession_Transfer ::
  "('l, 't) transactor_session \<Rightarrow> string \<Rightarrow> address \<Rightarrow> address \<Rightarrow> int \<Rightarrow> string + 't" where
  "Owlto20TransactorSession_Transfer s target ercToken maker amount =
     Owlto20_Transfer (ts_Contract s) (ts_TransactOpts s) target ercToken maker amount"

definition Owlto20Session_Receive :: "('l, 't) session \<Rightarrow> string + 't" where
  "Owlto20Session_Receive s = Owlto20_Receive (bd_Transactor (se_Contract s)) (se_TransactOpts s)"

definition Owlto20TransactorSession_Receive :: "('l, 't) transactor_session \<Rightarrow> string + 't" where
  "Owlto20TransactorSession_Receive s = Owlto20_Receive (ts_Contract s) (ts_TransactOpts s)"

section \<open>The events of \<open>owlto20.go\<close>\<close>

definition Owlto20_FilterDeposit ::
  "('l, 't) bound_contract \<Rightarrow> int \<Rightarrow> address list \<Rightarrow> address list \<Rightarrow> address list \<Rightarrow> string + 'l iterator" where
  "Owlto20_FilterDeposit c opts user token maker =
     open_filter c opts ''Deposit'' [append_rule [] user, append_rule [] token, append_rule [] maker]"

definition Owlto20_WatchDeposit ::
  "('l, 't) bound_contract \<Rightarrow> int \<Rightarrow> address list \<Rightarrow> address list \<Rightarrow> address list \<Rightarrow> string + string \<times> 'l watcher" where
  "Owlto20_WatchDeposit c opts user token maker =
     open_watch c opts ''Deposit'' [append_rule [] user, append_rule [] token, append_rule [] maker]"

definition Owlto20_ParseDeposit :: "('l, 't) bound_contract \<Rightarrow> 'l \<Rightarrow> string + 'l event" where
  "Owlto20_ParseDeposit c l = parse_event c ''Deposit'' l"

section \<open>Properties\<close>

lemmas bind_defs = bind_abi_def all_parts_def bindErc20_def NewErc20_def NewErc20Caller_def NewErc20Transactor_def
  NewErc20Filterer_def

text \<open>
  Whether a contract can be bound depends on its ABI alone, neither on the address nor on the node: all
  constructors fail with the same error or none does, and the three parts of a binding are one bound
  contract, with the node as each of its backends.
\<close>

theorem binding_all_or_none:
  "case NewErc20 bp addr n of
     Inl err \<Rightarrow> NewErc20Caller bp a' m = Inl err \<and> NewErc20Transactor bp a' m = Inl err \<and>
       NewErc20Filterer bp a' m = Inl err \<and> NewErc20 bp a' m = Inl err
   | Inr b \<Rightarrow> bindErc20 bp addr (Some n) (Some n) (Some n) = Inr (bd_Caller b) \<and>
       bd_Transactor b = bd_Caller b \<and> bd_Filterer b = bd_Caller b"
  by (auto simp: bind_defs split: sum.split)

end
