(* ===== verification/Logger.thy ===== *)
theory Logger
  imports GoNum
begin

text \<open>
  \<open>src/log/logger.go\<close>: the format of a log line, the search for the caller, the hooks and the wrappers.
  The logging library decides which entries are written; the names of its levels, the formatting of a
  time and the time zones are arguments.
\<close>

section \<open>Entries\<close>

datatype level = PanicLevel | FatalLevel | ErrorLevel | WarnLevel | InfoLevel | DebugLevel | TraceLevel

datatype log_value = LogString string | LogOther string  \<comment> \<open>with its text under \<open>%v\<close>\<close>

record 't log_entry =
  le_Time :: 't
  le_Level :: level
  le_Message :: string
  le_logId :: "log_value option"  \<comment> \<open>the field \<open>logId\<close>\<close>

definition value_text :: "log_value \<Rightarrow> string" where
  "value_text v = (case v of LogString s \<Rightarrow> s | LogOther s \<Rightarrow> s)"

definition CtxWithFields :: "log_value option \<Rightarrow> log_value" where
  "CtxWithFields requestId = (case requestId of None \<Rightarrow> LogString ''unknown'' | Some v \<Rightarrow> v)"

definition Log :: "'t \<Rightarrow> level \<Rightarrow> string \<Rightarrow> 't log_entry" where
  "Log now lvl message = \<lparr>le_Time = now, le_Level = lvl, le_Message = message, le_logId = None\<rparr>"

definition CtxLog :: "log_value option \<Rightarrow> 't \<Rightarrow> level \<Rightarrow> string \<Rightarrow> 't log_entry" where
  "CtxLog ctxLogId now lvl message = (Log now lvl message)\<lparr>le_logId := Some (CtxWithFields ctxLogId)\<rparr>"

section \<open>The caller\<close>

record frame =
  fr_func :: string
  fr_file :: string
  fr_line :: int

fun strings_Contains :: "string \<Rightarrow> string \<Rightarrow> bool" where
  "strings_Contains [] t = (t = [])"
| "strings_Contains (c # s) t = (prefix t (c # s) \<or> strings_Contains s t)"

definition is_log_frame :: "frame \<Rightarrow> bool" where
  "is_log_frame f = (strings_Contains (fr_func f) ''log.'' \<or> strings_Contains (fr_func f) ''logrus'')"

text \<open>\<open>runtime.Caller(skip)\<close> is the frame at depth \<open>skip\<close> of the stack; the loop starts at 7.\<close>

function find_caller_from :: "frame list \<Rightarrow> nat \<Rightarrow> string \<times> int" where
  "find_caller_from stack skip =
     (if length stack \<le> skip then (''unknown'', 0)
      else if \<not> is_log_frame (stack ! skip) then (fr_file (stack ! skip), fr_line (stack ! skip))
      else find_caller_from stack (Suc skip))"
  by pat_completeness auto
termination by (relation "measure (\<lambda>(stack, skip). length stack - skip)") auto

declare find_caller_from.simps [simp del]

definition findCaller :: "frame list \<Rightarrow> string \<times> int" where
  "findCaller stack = find_caller_from stack 7"

section \<open>The line\<close>

definition esc :: "string \<Rightarrow> string" where
  \<comment> \<open>a terminal sequence\<close>
  "esc s = CHR 0x1B # ''['' @ s @ ''m''"

definition getColorByLevel :: "level \<Rightarrow> string" where
  "getColorByLevel lvl =
     (case lvl of
        DebugLevel \<Rightarrow> esc ''37''
      | InfoLevel \<Rightarrow> esc ''32''
      | WarnLevel \<Rightarrow> esc ''33''
      | ErrorLevel \<Rightarrow> esc ''31''
      | FatalLevel \<Rightarrow> esc ''35''
      | PanicLevel \<Rightarrow> esc ''35''
      | _ \<Rightarrow> esc ''0'')"

definition Base :: "string \<Rightarrow> string" where
  \<comment> \<open>\<open>filepath.Base\<close>: the last element, without trailing slashes\<close>
  "Base path =
     (if path = [] then ''.''
      else let p = rev (dropWhile (\<lambda>c. c = CHR ''/'') (rev path))
           in if p = [] then ''/'' else rev (takeWhile (\<lambda>c. c \<noteq> CHR ''/'') (rev p)))"

definition level_name :: "(level \<Rightarrow> string) \<Rightarrow> level \<Rightarrow> string" where
  "level_name levelString lvl =
     (let l = ToUpper (levelString lvl) in if l = ''WARNING'' then ''WARN'' else l)"

definition logId_text :: "log_value option \<Rightarrow> string" where
  "logId_text v =
     (case v of
        None \<Rightarrow> []
      | Some x \<Rightarrow> if x = LogString ''unknown'' then [] else value_text x @ '' '')"

definition Format :: "(level \<Rightarrow> string) \<Rightarrow> ('t \<Rightarrow> string) \<Rightarrow> frame list \<Rightarrow> bool \<Rightarrow> 't log_entry \<Rightarrow> string" where
  "Format levelString timeFormat stack EnableColors e =
     (let (file, line) = findCaller stack;
          head = timeFormat (le_Time e) @ '' '' @ Base file @ '':'' @ FormatInt line @ '' '' @ logId_text (le_logId e) @ ''['';
          lvl = level_name levelString (le_Level e)
      in if EnableColors
         then head @ getColorByLevel (le_Level e) @ lvl @ esc ''0'' @ ''] '' @ le_Message e @ [CHR 0x0A]
         else head @ lvl @ ''] '' @ le_Message e @ [CHR 0x0A])"

section \<open>Hooks\<close>

definition TimezoneHook_Fire :: "(string \<Rightarrow> string + 'z) \<Rightarrow> ('t \<Rightarrow> 'z \<Rightarrow> 't) \<Rightarrow> string \<Rightarrow> 't log_entry \<Rightarrow> string option \<times> 't log_entry" where
  "TimezoneHook_Fire load in_zone location e =
     (case load location of
        Inl err \<Rightarrow> (Some err, e)
      | Inr loc \<Rightarrow> (None, e\<lparr>le_Time := in_zone (le_Time e) loc\<rparr>))"

definition Hook_Fire ::
  "('t log_entry \<Rightarrow> string + string) \<Rightarrow> (string \<Rightarrow> string option) \<Rightarrow> 't log_entry \<Rightarrow> string list \<Rightarrow> string option \<times> string list" where
  \<comment> \<open>formatter, writer with its errors, and the lines written so far\<close>
  "Hook_Fire formatter write e written =
     (case formatter e of
        Inl err \<Rightarrow> (Some err, written)
      | Inr line \<Rightarrow> (case write line of Some err \<Rightarrow> (Some err, written) | None \<Rightarrow> (None, written @ [line])))"

definition AllLevels :: "level list" where
  "AllLevels = [PanicLevel, FatalLevel, ErrorLevel, WarnLevel, InfoLevel, DebugLevel, TraceLevel]"

section \<open>Setting up\<close>

datatype hook =
    TimezoneHook string
  | FileHook string bool "level list"   \<comment> \<open>the path of the file, colours, and the levels\<close>

fun Levels :: "hook \<Rightarrow> level list" where
  "Levels (TimezoneHook location) = AllLevels"
| "Levels (FileHook path colors logLevels) = logLevels"

record logger =
  lg_EnableColors :: bool    \<comment> \<open>of the formatter of the console\<close>
  lg_Level :: level
  lg_Hooks :: "hook list"
  lg_MaxSize :: int
  lg_MaxBackups :: int
  lg_MaxAge :: int

record process =
  pr_Executable :: "string + string"
  pr_UserHomeDir :: "string + string"
  pr_MkdirAll :: "string \<Rightarrow> string option"
  pr_Join :: "string list \<Rightarrow> string"   \<comment> \<open>\<open>filepath.Join\<close>\<close>
  pr_windows :: bool

definition TrimSuffix :: "string \<Rightarrow> string \<Rightarrow> string" where
  "TrimSuffix s t = (if suffix t s then take (length s - length t) s else s)"

definition getProjectName :: "process \<Rightarrow> string + string" where
  \<comment> \<open>\<open>Inl\<close> is a panic\<close>
  "getProjectName pr =
     (case pr_Executable pr of
        Inl err \<Rightarrow> Inl (''Failed to get executable path: '' @ err)
      | Inr exePath \<Rightarrow>
          (let projectName = Base exePath
           in Inr (if pr_windows pr then TrimSuffix projectName ''.exe'' else projectName)))"

definition logger_init :: "process \<Rightarrow> string + logger" where
  "logger_init pr =
     (case getProjectName pr of
        Inl p \<Rightarrow> Inl p
      | Inr projectName \<Rightarrow>
          (case pr_UserHomeDir pr of
             Inl err \<Rightarrow> Inl (''Failed to get user home directory: '' @ err)
           | Inr homeDir \<Rightarrow>
               (let logDir = pr_Join pr [homeDir, ''logs'', projectName] in
                case pr_MkdirAll pr logDir of
                  Some err \<Rightarrow> Inl (''Failed to create log directory: '' @ err)
                | None \<Rightarrow>
                    Inr \<lparr>lg_EnableColors = True, lg_Level = InfoLevel,
                         lg_Hooks = [TimezoneHook ''Asia/Shanghai'', FileHook (pr_Join pr [logDir, ''app.log'']) False AllLevels],
                         lg_MaxSize = 500, lg_MaxBackups = 5, lg_MaxAge = 28\<rparr>)))"

type_synonym 't fired = "string option \<times> 't log_entry \<times> string list"

fun fire :: "(string \<Rightarrow> string + 'z) \<Rightarrow> ('t \<Rightarrow> 'z \<Rightarrow> 't) \<Rightarrow> (bool \<Rightarrow> 't log_entry \<Rightarrow> string) \<Rightarrow> (string \<Rightarrow> string option) \<Rightarrow>
  hook \<Rightarrow> 't log_entry \<Rightarrow> string list \<Rightarrow> 't fired" where
  \<comment> \<open>an error, the entry, and the lines in the file\<close>
  "fire load in_zone fmt write (TimezoneHook location) e written =
     (case TimezoneHook_Fire load in_zone location e of (err, e) \<Rightarrow> (err, e, written))"
| "fire load in_zone fmt write (FileHook path colors logLevels) e written =
     (case Hook_Fire (\<lambda>e. Inr (fmt colors e)) write e written of (err, written) \<Rightarrow> (err, e, written))"

definition fires_in_order ::
  "(hook \<Rightarrow> 't log_entry \<Rightarrow> string list \<Rightarrow> 't fired) \<Rightarrow> (hook list \<Rightarrow> 't log_entry \<Rightarrow> string list \<Rightarrow> 't fired) \<Rightarrow> bool" where
  \<comment> \<open>the logging library fires the hooks of an entry's level one after the other, up to the first error\<close>
  "fires_in_order one all \<longleftrightarrow>
     (\<forall>e w. all [] e w = (None, e, w)) \<and>
     (\<forall>h hs e w. all (h # hs) e w =
        (if le_Level e \<notin> set (Levels h) then all hs e w
         else case one h e w of (Some err, e, w) \<Rightarrow> (Some err, e, w) | (None, e, w) \<Rightarrow> all hs e w))"

section \<open>Properties\<close>

lemma strings_Contains_iff: "strings_Contains s t \<longleftrightarrow> sublist t s"
  by (induction s) (auto simp: sublist_Cons_right)

lemma find_caller_from_eq:
  "find_caller_from stack skip =
     (case find (\<lambda>f. \<not> is_log_frame f) (drop skip stack) of
        None \<Rightarrow> (''unknown'', 0) | Some f \<Rightarrow> (fr_file f, fr_line f))"
proof (induction stack skip rule: find_caller_from.induct)
  case (1 stack skip)
  show ?case
  proof (cases "length stack \<le> skip")
    case True
    then show ?thesis by (simp add: find_caller_from.simps)
  next
    case False
    then have "drop skip stack = stack ! skip # drop (Suc skip) stack" by (simp add: Cons_nth_drop_Suc)
    with False 1 show ?thesis by (subst find_caller_from.simps) simp
  qed
qed

text \<open>
  The search for the caller ends on every stack: it gives the first frame from the seventh on whose
  function name contains neither \<open>log.\<close> nor \<open>logrus\<close>, and \<open>unknown\<close> when there is none.
\<close>

theorem log_caller_found:
  "findCaller stack =
     (case find (\<lambda>f. \<not> sublist ''log.'' (fr_func f) \<and> \<not> sublist ''logrus'' (fr_func f)) (drop 7 stack) of
        None \<Rightarrow> (''unknown'', 0) | Some f \<Rightarrow> (fr_file f, fr_line f))"
  by (simp add: findCaller_def find_caller_from_eq is_log_frame_def strings_Contains_iff)

lemma log_caller_skips:
  \<comment> \<open>a package whose name ends in \<open>log\<close> is taken for the logger\<close>
  "is_log_frame \<lparr>fr_func = ''example.com/blog.Publish'', fr_file = ''blog.go'', fr_line = 7\<rparr>"
  by (simp add: is_log_frame_def)

text \<open>
  The line of the console and that of the file differ only in the two terminal sequences around the
  level; both end the level with \<open>] \<close> and the message, and carry the id of the request unless it is
  missing or unknown.
\<close>

theorem log_formats_agree:
  "\<exists>head tail. Format ls tf stack False e = head @ level_name ls (le_Level e) @ tail \<and>
     Format ls tf stack True e = head @ getColorByLevel (le_Level e) @ level_name ls (le_Level e) @ esc ''0'' @ tail \<and>
     suffix (logId_text (le_logId e) @ ''['') head \<and> tail = ''] '' @ le_Message e @ [CHR 0x0A]"
proof -
  obtain f l where c: "findCaller stack = (f, l)" by (cases "findCaller stack")
  let ?pre = "tf (le_Time e) @ '' '' @ Base f @ '':'' @ FormatInt l @ '' ''"
  let ?head = "?pre @ logId_text (le_logId e) @ ''[''" and ?tail = "''] '' @ le_Message e @ [CHR 0x0A]"
  have "suffix (logId_text (le_logId e) @ ''['') ?head" by (rule suffixI [of _ ?pre]) simp
  then show ?thesis
    by (intro exI [of _ ?head] exI [of _ ?tail]) (simp add: Format_def c Let_def)
qed

lemma ctx_log_without_id: "logId_text (le_logId (CtxLog None now lvl m)) = []"
  by (simp add: CtxLog_def CtxWithFields_def logId_text_def)

lemma in_AllLevels [simp]: "lvl \<in> set AllLevels"
  by (cases lvl) (simp_all add: AllLevels_def)

text \<open>
  C27. What the logger of a process that started writes to its file: the entry with its time in Shanghai, without
  colours, whatever the level. When that time zone cannot be loaded, as in an image without the zone
  database, no line reaches the file at all.
\<close>

theorem log_file_lines:
  assumes "logger_init pr = Inr lg" and "fires_in_order (fire load in_zone fmt write) all"
  shows "all (lg_Hooks lg) e w =
    (case load ''Asia/Shanghai'' of
       Inl err \<Rightarrow> (Some err, e, w)
     | Inr loc \<Rightarrow>
         (let e = e\<lparr>le_Time := in_zone (le_Time e) loc\<rparr> in
          case write (fmt False e) of Some err \<Rightarrow> (Some err, e, w) | None \<Rightarrow> (None, e, w @ [fmt False e])))"
proof -
  have "\<exists>path. lg_Hooks lg = [TimezoneHook ''Asia/Shanghai'', FileHook path False AllLevels]"
    using assms(1) by (auto simp: logger_init_def Let_def split: sum.splits option.splits)
  then show ?thesis using assms(2)
    by (auto simp: fires_in_order_def TimezoneHook_Fire_def Hook_Fire_def Let_def split: sum.split option.split)
qed

fun fire_all :: "(hook \<Rightarrow> 't log_entry \<Rightarrow> string list \<Rightarrow> 't fired) \<Rightarrow> hook list \<Rightarrow> 't log_entry \<Rightarrow> string list \<Rightarrow> 't fired" where
  "fire_all one [] e w = (None, e, w)"
| "fire_all one (h # hs) e w =
     (if le_Level e \<notin> set (Levels h) then fire_all one hs e w
      else case one h e w of (Some err, e, w) \<Rightarrow> (Some err, e, w) | (None, e, w) \<Rightarrow> fire_all one hs e w)"

definition sample_process :: process where
  "sample_process =
     \<lparr>pr_Executable = Inr ''/opt/maker'', pr_UserHomeDir = Inr ''/root'', pr_MkdirAll = (\<lambda>_. None),
      pr_Join = (\<lambda>ps. concat (map (\<lambda>p. CHR ''/'' # p) ps)), pr_windows = False\<rparr>"

theorem log_file_lines_witness:
  "\<exists>lg. logger_init sample_process = Inr lg \<and>
     fire_all (fire (\<lambda>_. Inl ''unknown time zone'') (\<lambda>t z. t) (\<lambda>_ e. le_Message e) (\<lambda>_. None)) (lg_Hooks lg)
       (Log (0::int) ErrorLevel ''lost'') [] = (Some ''unknown time zone'', Log 0 ErrorLevel ''lost'', [])"
proof -
  obtain lg where lg: "logger_init sample_process = Inr lg"
    by (simp add: logger_init_def getProjectName_def sample_process_def Let_def)
  have order: "fires_in_order one (fire_all one)" for one :: "hook \<Rightarrow> int log_entry \<Rightarrow> string list \<Rightarrow> int fired"
    by (simp add: fires_in_order_def)
  show ?thesis using lg by (intro exI [of _ lg] conjI) (simp_all add: log_file_lines [OF lg order])
qed

end
