(* ===== verification/HttpClient.thy ===== *)
theory HttpClient
  imports Prelude
begin

text \<open>
  \<open>src/network\<close> and \<open>src/httputils\<close>: requests with a JSON answer. The transport, the encoding and
  decoding of JSON and the parsing of a URL are arguments. A result that is decoded into a variable of
  the caller is the value of a successful call.
\<close>

section \<open>Headers\<close>

text \<open>
  The keys of \<open>http.Header\<close> are canonical: if every byte of a key may stand in a token, its letters are
  capitals at the start and after a hyphen and small elsewhere; otherwise the key is left alone.
\<close>

definition is_token_char :: "char \<Rightarrow> bool" where
  "is_token_char c =
     (is_upper c \<or> is_lower c \<or> (let n = (of_char c :: nat) in 48 \<le> n \<and> n \<le> 57) \<or> c \<in> set ''!#$%&*+-.^_`|~'' \<or> c = CHR 0x27)"

fun canonical_from :: "bool \<Rightarrow> string \<Rightarrow> string" where
  "canonical_from up [] = []"
| "canonical_from up (c # s) = (if up then upper_char c else lower_char c) # canonical_from (c = CHR ''-'') s"

definition CanonicalHeaderKey :: "string \<Rightarrow> string" where
  "CanonicalHeaderKey s = (if list_all is_token_char s then canonical_from True s else s)"

type_synonym header = "string \<Rightarrow> string list"

definition Header_Set :: "string \<times> string \<Rightarrow> header \<Rightarrow> header" where
  "Header_Set kv h = h(CanonicalHeaderKey (fst kv) := [snd kv])"

definition Header_Add :: "string \<times> string \<Rightarrow> header \<Rightarrow> header" where
  "Header_Add kv h = h(CanonicalHeaderKey (fst kv) := h (CanonicalHeaderKey (fst kv)) @ [snd kv])"

definition Header_Get :: "header \<Rightarrow> string \<Rightarrow> string" where
  "Header_Get h k = (case h (CanonicalHeaderKey k) of [] \<Rightarrow> [] | v # _ \<Rightarrow> v)"

section \<open>Requests\<close>

record request =
  rq_Method :: string
  rq_Url :: string
  rq_Header :: header
  rq_Body :: string
  rq_Timeout :: int  \<comment> \<open>nanoseconds, 0 for none\<close>

record http_response =
  rp_StatusCode :: int
  rp_Status :: string
  rp_Body :: "string \<times> string option"  \<comment> \<open>what is read, and the error that ends it\<close>

datatype http_error =
    ErrMarshal string | ErrCreate string | ErrSend string | ErrStatus string | ErrRead string | ErrDecode string

record ('d, 'r) transport =
  tr_Marshal :: "'d \<Rightarrow> string + string"
  tr_Unmarshal :: "string \<Rightarrow> string + 'r"
  tr_NewRequest :: "string \<Rightarrow> string \<Rightarrow> string option"  \<comment> \<open>the error for a method and a URL\<close>
  tr_Do :: "request \<Rightarrow> string + http_response"

text \<open>What every function does once the request is sent.\<close>

definition read_response :: "('d, 'r) transport \<Rightarrow> request \<Rightarrow> http_error + 'r" where
  "read_response tr req =
     (case tr_Do tr req of
        Inl err \<Rightarrow> Inl (ErrSend err)
      | Inr resp \<Rightarrow>
          if rp_StatusCode resp \<noteq> 200 then Inl (ErrStatus (rp_Status resp))
          else (case rp_Body resp of
                  (_, Some err) \<Rightarrow> Inl (ErrRead err)
                | (body, None) \<Rightarrow>
                    (case tr_Unmarshal tr body of Inl err \<Rightarrow> Inl (ErrDecode err) | Inr r \<Rightarrow> Inr r)))"

definition json_headers :: header where
  "json_headers = Header_Set (''Accept'', ''application/json'')
     (Header_Set (''Content-Type'', ''application/json'') (\<lambda>_. []))"

definition send_json ::
  "('d, 'r) transport \<Rightarrow> string \<Rightarrow> int \<Rightarrow> (string \<times> string) list \<Rightarrow> 'd option \<Rightarrow> http_error + 'r" where
  \<comment> \<open>the headers in the order in which the map is iterated\<close>
  "send_json tr url timeout headers data =
     (case (case data of None \<Rightarrow> Inr (''GET'', []) | Some d \<Rightarrow> map_sum id (\<lambda>b. (''POST'', b)) (tr_Marshal tr d)) of
        Inl err \<Rightarrow> Inl (ErrMarshal err)
      | Inr (method, body) \<Rightarrow>
          (case tr_NewRequest tr method url of
             Some err \<Rightarrow> Inl (ErrCreate err)
           | None \<Rightarrow> read_response tr
               \<lparr>rq_Method = method, rq_Url = url, rq_Header = fold Header_Set headers json_headers,
                rq_Body = body, rq_Timeout = timeout\<rparr>))"

definition Request :: "('d, 'r) transport \<Rightarrow> string \<Rightarrow> 'd option \<Rightarrow> http_error + 'r" where
  "Request tr url data = send_json tr url 0 [] data"

definition DoRequest ::
  "('d, 'r) transport \<Rightarrow> string \<Rightarrow> int \<Rightarrow> (string \<times> string) list \<Rightarrow> 'd option \<Rightarrow> http_error + 'r" where
  "DoRequest tr url timeoutms headers data = send_json tr url (wrap_s 64 (timeoutms * 1000000)) headers data"

definition doRequest :: "('d, 'r) transport \<Rightarrow> request \<Rightarrow> http_error + 'r" where
  "doRequest tr req = read_response tr req"

definition DoGet :: "('d, 'r) transport \<Rightarrow> int \<Rightarrow> string \<Rightarrow> (string \<times> string) list \<Rightarrow> http_error + 'r" where
  "DoGet tr timeout url headers =
     (case tr_NewRequest tr ''GET'' url of
        Some err \<Rightarrow> Inl (ErrCreate err)
      | None \<Rightarrow> doRequest tr
          \<lparr>rq_Method = ''GET'', rq_Url = url, rq_Header = fold Header_Add headers (\<lambda>_. []),
           rq_Body = [], rq_Timeout = timeout\<rparr>)"

datatype 'd payload = TextPayload string | FormPayload string | JsonPayload 'd  \<comment> \<open>a form by its encoding\<close>

definition DoPost ::
  "('d, 'r) transport \<Rightarrow> int \<Rightarrow> string \<Rightarrow> 'd payload \<Rightarrow> (string \<times> string) list \<Rightarrow> http_error + 'r" where
  "DoPost tr timeout url data headers =
     (case (case data of
              TextPayload v \<Rightarrow> Inr (v, ''text/plain'')
            | FormPayload v \<Rightarrow> Inr (v, ''application/x-www-form-urlencoded'')
            | JsonPayload d \<Rightarrow> map_sum id (\<lambda>b. (b, ''application/json'')) (tr_Marshal tr d)) of
        Inl err \<Rightarrow> Inl (ErrMarshal err)
      | Inr (body, contentType) \<Rightarrow>
          (case tr_NewRequest tr ''POST'' url of
             Some err \<Rightarrow> Inl (ErrCreate err)
           | None \<Rightarrow> read_response tr
               \<lparr>rq_Method = ''POST'', rq_Url = url,
                rq_Header = fold Header_Set headers (Header_Set (''Content-Type'', contentType) (\<lambda>_. [])),
                rq_Body = body, rq_Timeout = timeout\<rparr>))"

section \<open>Properties\<close>

lemma Header_Set_commute:
  "CanonicalHeaderKey (fst a) \<noteq> CanonicalHeaderKey (fst b) \<Longrightarrow>
   Header_Set a \<circ> Header_Set b = Header_Set b \<circ> Header_Set a"
  by (auto simp: Header_Set_def fun_eq_iff)

text \<open>
  The headers of a request do not depend on the order in which the map of headers is iterated, as
  long as no two of its keys are the same header.
\<close>

theorem http_headers_order:
  assumes "mset hs = mset hs'" and "distinct (map (CanonicalHeaderKey \<circ> fst) hs)"
  shows "DoRequest tr url t hs data = DoRequest tr url t hs' data \<and> DoPost tr t url p hs = DoPost tr t url p hs'"
proof -
  have sets: "fold Header_Set hs = fold Header_Set hs'"
    using assms
  proof (intro fold_multiset_equiv)
    fix a b assume ab: "a \<in> set hs" "b \<in> set hs"
    show "Header_Set a \<circ> Header_Set b = Header_Set b \<circ> Header_Set a"
    proof (cases "a = b")
      case False
      with ab assms(2) have "CanonicalHeaderKey (fst a) \<noteq> CanonicalHeaderKey (fst b)"
        by (auto simp: distinct_map inj_on_def)
      then show ?thesis by (rule Header_Set_commute)
    qed simp
  qed simp
  show ?thesis unfolding DoRequest_def DoPost_def send_json_def sets by (rule conjI; rule refl)
qed

definition sample_transport :: "(string, string) transport" where
  \<comment> \<open>a server that answers a request with one of its headers\<close>
  "sample_transport =
     \<lparr>tr_Marshal = Inr, tr_Unmarshal = Inr, tr_NewRequest = (\<lambda>_ _. None),
      tr_Do = (\<lambda>r. Inr \<lparr>rp_StatusCode = 200, rp_Status = ''200 OK'',
                       rp_Body = (Header_Get (rq_Header r) ''accept'', None)\<rparr>)\<rparr>"

theorem http_headers_order_witness:
  "DoRequest sample_transport ''http://a'' 5 [(''x-id'', ''1''), (''accept'', ''text/csv'')] None =
   DoRequest sample_transport ''http://a'' 5 [(''accept'', ''text/csv''), (''x-id'', ''1'')] None"
proof -
  have "distinct (map (CanonicalHeaderKey \<circ> fst) [(''x-id'', ''1''), (''accept'', ''text/csv'')])" by code_simp
  from http_headers_order [OF _ this, of "[(''accept'', ''text/csv''), (''x-id'', ''1'')]" sample_transport "''http://a''" 5 None]
  show ?thesis by simp
qed

lemma same_header: "CanonicalHeaderKey ''content-type'' = CanonicalHeaderKey ''Content-Type''"
  by code_simp

lemma read_response_ok:
  "read_response tr req = Inr r \<longleftrightarrow>
     (\<exists>resp body. tr_Do tr req = Inr resp \<and> rp_StatusCode resp = 200 \<and> rp_Body resp = (body, None) \<and>
        tr_Unmarshal tr body = Inr r)"
  by (auto simp: read_response_def split: sum.splits prod.splits option.splits)

text \<open>
  A request succeeds exactly when its data encodes, the URL is accepted, the server answers with
  status 200, the answer is read to its end and decodes: with data it is a POST, without a GET. Any
  other status is an error, also those of success such as 201.
\<close>

theorem http_request_success:
  "Request tr url data = Inr r \<longleftrightarrow>
     (\<exists>method body resp txt.
        (case data of None \<Rightarrow> method = ''GET'' \<and> body = [] | Some d \<Rightarrow> method = ''POST'' \<and> tr_Marshal tr d = Inr body) \<and>
        tr_NewRequest tr method url = None \<and>
        tr_Do tr \<lparr>rq_Method = method, rq_Url = url, rq_Header = json_headers, rq_Body = body, rq_Timeout = 0\<rparr> = Inr resp \<and>
        rp_StatusCode resp = 200 \<and> rp_Body resp = (txt, None) \<and> tr_Unmarshal tr txt = Inr r)"
  by (cases data; cases "tr_Marshal tr (the data)")
    (auto simp: Request_def send_json_def read_response_ok split: sum.splits option.splits)

end
