(* ===== verification/Tasks.thy ===== *)
theory Tasks
  imports Prelude
begin

text \<open>
  \<open>src/task/task.go\<close>: tasks that run once, periodically, and daily. A run of a task ends normally or in
  a panic, which the deferred function recovers.
\<close>

section \<open>Periodic tasks\<close>

datatype run_end = Finished | Panicked

datatype task_event =
    Ran run_end   \<comment> \<open>one call of the task\<close>
  | Tick          \<comment> \<open>the timer fires in \<open>select\<close>\<close>
  | Done          \<comment> \<open>the context is done in \<open>select\<close>\<close>
  | Cancel        \<comment> \<open>the owner of the context cancels it\<close>

datatype task_pc = AtTask | AtSelect | Returned

record task_state =
  ts_pc :: task_pc
  ts_cancelled :: bool

definition task_init :: "bool \<Rightarrow> task_state" where
  \<comment> \<open>the context may be done before the task is started\<close>
  "task_init cancelled = \<lparr>ts_pc = AtTask, ts_cancelled = cancelled\<rparr>"

inductive periodic :: "task_state \<Rightarrow> task_event \<Rightarrow> task_state \<Rightarrow> bool" where
  run: "ts_pc s = AtTask \<Longrightarrow> periodic s (Ran Finished) (s\<lparr>ts_pc := AtSelect\<rparr>)"
| panic: "ts_pc s = AtTask \<Longrightarrow> periodic s (Ran Panicked) (s\<lparr>ts_pc := Returned\<rparr>)"
| stop: "ts_pc s = AtSelect \<Longrightarrow> ts_cancelled s \<Longrightarrow> periodic s Done (s\<lparr>ts_pc := Returned\<rparr>)"
| tick: "ts_pc s = AtSelect \<Longrightarrow> periodic s Tick (s\<lparr>ts_pc := AtTask\<rparr>)"
| cancel: "periodic s Cancel (s\<lparr>ts_cancelled := True\<rparr>)"

inductive_cases periodic_cases: "periodic s e s'"

inductive periodic_trace :: "task_state \<Rightarrow> task_event list \<Rightarrow> task_state \<Rightarrow> bool" where
  none: "periodic_trace s [] s"
| more: "periodic_trace s es s' \<Longrightarrow> periodic s' e s'' \<Longrightarrow> periodic_trace s (es @ [e]) s''"

definition runs :: "task_event list \<Rightarrow> nat" where
  "runs es = length (filter (\<lambda>e. e = Ran Finished \<or> e = Ran Panicked) es)"

definition ticks :: "task_event list \<Rightarrow> nat" where
  "ticks es = length (filter (\<lambda>e. e = Tick) es)"

text \<open>
  A periodic task runs once per tick of its timer and once before the first, also when its context
  is already done; it returns only after a panic of the task or when the context is done, and then
  never runs again.
\<close>

theorem periodic_runs:
  assumes "periodic_trace (task_init c) es s"
  shows "runs es = ticks es + (if ts_pc s = AtTask then 0 else 1) \<and>
    ts_cancelled s = (c \<or> Cancel \<in> set es) \<and>
    (ts_pc s = Returned \<longleftrightarrow> Ran Panicked \<in> set es \<or> Done \<in> set es) \<and>
    (\<forall>e s'. ts_pc s = Returned \<and> periodic s e s' \<longrightarrow> e = Cancel)"
  using assms
proof (induction "task_init c" es s rule: periodic_trace.induct)
  case none
  then show ?case by (auto simp: task_init_def runs_def ticks_def elim: periodic_cases)
next
  case (more es s' e s'')
  from more(3) more(2) show ?case
    by cases (auto simp: runs_def ticks_def elim: periodic_cases)
qed

theorem periodic_runs_witness:
  "let s = \<lparr>ts_pc = Returned, ts_cancelled = True\<rparr>; es = [Ran Finished, Tick, Ran Finished, Cancel, Done]
   in periodic_trace (task_init False) es s \<and> runs es = ticks es + 1"
proof -
  have "periodic_trace (task_init False) ([] @ [Ran Finished]) \<lparr>ts_pc = AtSelect, ts_cancelled = False\<rparr>"
    by (rule more [OF none]) (use run [of "task_init False"] in \<open>simp add: task_init_def\<close>)
  from more [OF this tick] have "periodic_trace (task_init False) [Ran Finished, Tick] \<lparr>ts_pc = AtTask, ts_cancelled = False\<rparr>"
    by simp
  from more [OF this run] have "periodic_trace (task_init False) [Ran Finished, Tick, Ran Finished]
      \<lparr>ts_pc = AtSelect, ts_cancelled = False\<rparr>" by simp
  from more [OF more [OF this cancel] stop]
  have "periodic_trace (task_init False) [Ran Finished, Tick, Ran Finished, Cancel, Done] \<lparr>ts_pc = Returned, ts_cancelled = True\<rparr>"
    by simp
  with periodic_runs [OF this] show ?thesis by (simp add: Let_def)
qed

section \<open>Daily tasks\<close>

text \<open>
  Times are nanoseconds since the epoch. The zone of the clock, \<open>now.Location()\<close>, is the function from
  seconds since the epoch to the offset from UTC in seconds that is in force then, which is all that
  \<open>Time.Date\<close> and \<open>time.Date\<close> look up in it.
\<close>

abbreviation sec_ns :: int where
  "sec_ns \<equiv> 1000000000"

definition day_ns :: int where
  "day_ns = 24 * 60 * 60 * sec_ns"

definition time_Date :: "(int \<Rightarrow> int) \<Rightarrow> int \<Rightarrow> int \<Rightarrow> int \<Rightarrow> int \<Rightarrow> int" where
  \<comment> \<open>\<open>time.Date\<close> on the local day of \<open>now\<close>: values out of range carry over, and the offset is the one in
     force at the instant that the offset looked up for the local time leads to\<close>
  "time_Date zone now hour minute second =
     (let sec = now div sec_ns;
          day = (sec + zone sec) div 86400;
          unix = day * 86400 + (hour * 60 + minute) * 60 + second;
          utc = unix - zone unix
      in (unix - zone utc) * sec_ns)"

definition daily_wait :: "(int \<Rightarrow> int) \<Rightarrow> int \<Rightarrow> int \<Rightarrow> int \<Rightarrow> int \<Rightarrow> int" where
  \<comment> \<open>how long \<open>ScheduleDailyTask\<close> wants to sleep at the time \<open>now\<close>; \<open>Add\<close> adds 24 hours, not a day\<close>
  "daily_wait zone now hour minute second =
     (let next = time_Date zone now hour minute second;
          next = (if next < now then next + 24 * 60 * 60 * sec_ns else next)
      in next - now)"

definition time_of_day :: "int \<Rightarrow> int \<Rightarrow> int" where
  \<comment> \<open>the local time of day in nanoseconds at an offset of \<open>off\<close> seconds\<close>
  "time_of_day off t = (t + off * sec_ns) mod day_ns"

definition steady :: "(int \<Rightarrow> int) \<Rightarrow> int \<Rightarrow> int \<Rightarrow> int \<Rightarrow> bool" where
  \<comment> \<open>the zone keeps the offset \<open>off\<close> from two days before \<open>t\<close> until two days after \<open>t'\<close>\<close>
  "steady zone off t t' \<longleftrightarrow>
     \<bar>off\<bar> < 86400 \<and>
     (\<forall>s. t div sec_ns - 172800 \<le> s \<and> s \<le> t' div sec_ns + 172800 \<longrightarrow> zone s = off)"

lemma steady_at: "steady zone off t t' \<Longrightarrow> t \<le> now \<Longrightarrow> now \<le> t' \<Longrightarrow> \<bar>d\<bar> \<le> 172800 \<Longrightarrow> zone (now div sec_ns + d) = off"
proof -
  assume st: "steady zone off t t'" and t: "t \<le> now" "now \<le> t'" and d: "\<bar>d\<bar> \<le> 172800"
  have "t div sec_ns \<le> now div sec_ns" "now div sec_ns \<le> t' div sec_ns" using t by (simp_all add: zdiv_mono1)
  with d have "t div sec_ns - 172800 \<le> now div sec_ns + d" "now div sec_ns + d \<le> t' div sec_ns + 172800" by linarith+
  with st show ?thesis unfolding steady_def by blast
qed

lemma steady_sub: "steady zone off t t' \<Longrightarrow> t \<le> u \<Longrightarrow> u' \<le> t' \<Longrightarrow> steady zone off u u'"
  unfolding steady_def using zdiv_mono1 [of t u sec_ns] zdiv_mono1 [of u' t' sec_ns] by force

lemma time_Date_steady:
  assumes "0 \<le> hour" "hour < 24" "0 \<le> minute" "minute < 60" "0 \<le> second" "second < 60"
    and st: "steady zone off now now"
  shows "time_Date zone now hour minute second =
    (now + off * sec_ns) div day_ns * day_ns - off * sec_ns + ((hour * 60 + minute) * 60 + second) * sec_ns"
proof -
  define sec where "sec = now div sec_ns"
  define tod where "tod = (hour * 60 + minute) * 60 + second"
  define day where "day = (sec + off) div 86400"
  have near: "zone (sec + d) = off" if "\<bar>d\<bar> \<le> 172800" for d
    using steady_at [OF st order_refl order_refl that] by (simp add: sec_def)
  have off: "\<bar>off\<bar> < 86400" using st by (simp add: steady_def)
  have tod: "0 \<le> tod" "tod < 86400" using assms(1-6) by (simp_all add: tod_def)
  define r where "r = (sec + off) mod 86400"
  have r: "0 \<le> r" "r < 86400" "day * 86400 = sec + off - r"
    by (simp_all add: r_def day_def minus_mod_eq_div_mult)
  have z1: "zone sec = off" using near [of 0] by simp
  have "day * 86400 + tod = sec + (off - r + tod)" "day * 86400 + tod - off = sec + (tod - r)" using r by simp_all
  moreover have "\<bar>off - r + tod\<bar> \<le> 172800" "\<bar>tod - r\<bar> \<le> 172800" using r tod off by linarith+
  ultimately have z2: "zone (day * 86400 + tod) = off" and z3: "zone (day * 86400 + tod - off) = off"
    using near by metis+
  have "day = (now + off * sec_ns) div sec_ns div 86400" by (simp add: day_def sec_def)
  also have "\<dots> = (now + off * sec_ns) div day_ns" by (simp add: zdiv_zmult2_eq [symmetric] day_ns_def)
  finally have day: "day = (now + off * sec_ns) div day_ns" .
  have "time_Date zone now hour minute second = (day * 86400 + tod - off) * sec_ns"
    unfolding time_Date_def Let_def sec_def [symmetric] z1 day_def [symmetric]
    using z2 z3 by (simp add: tod_def algebra_simps)
  then show ?thesis unfolding day [symmetric] tod_def [symmetric] by (simp add: day_ns_def algebra_simps)
qed

lemma daily_wait_range:
  assumes "0 \<le> hour" "hour < 24" "0 \<le> minute" "minute < 60" "0 \<le> second" "second < 60"
    and st: "steady zone off now now"
  shows "0 \<le> daily_wait zone now hour minute second \<and> daily_wait zone now hour minute second < day_ns \<and>
    time_of_day off (now + daily_wait zone now hour minute second) = ((hour * 60 + minute) * 60 + second) * sec_ns \<and>
    (daily_wait zone now hour minute second = 0 \<longleftrightarrow>
       time_of_day off now = ((hour * 60 + minute) * 60 + second) * sec_ns)"
proof -
  define t where "t = ((hour * 60 + minute) * 60 + second) * sec_ns"
  define r where "r = (now + off * sec_ns) mod day_ns"
  have t: "0 \<le> t" "t < day_ns" using assms(1-6) by (simp_all add: t_def day_ns_def)
  have r: "0 \<le> r" "r < day_ns" by (simp_all add: r_def day_ns_def)
  have "(now + off * sec_ns) div day_ns * day_ns = now + off * sec_ns - r" by (simp add: r_def minus_mod_eq_div_mult)
  then have w: "daily_wait zone now hour minute second = (if t < r then t - r + day_ns else t - r)"
    unfolding daily_wait_def time_Date_steady [OF assms] Let_def t_def [symmetric] day_ns_def [symmetric] by simp
  have "(now + off * sec_ns + (t - r)) mod day_ns = t"
  proof -
    have "(now + off * sec_ns - r) mod day_ns = 0" by (simp add: r_def)
    then have "(now + off * sec_ns - r + t) mod day_ns = t mod day_ns" by (metis add.left_neutral mod_add_left_eq)
    with t show ?thesis by (simp add: algebra_simps)
  qed
  then have "(now + (if t < r then t - r + day_ns else t - r) + off * sec_ns) mod day_ns = t"
    using mod_add_self2 [of "now + off * sec_ns + (t - r)" day_ns] by (auto simp: algebra_simps)
  then show ?thesis unfolding t_def [symmetric] time_of_day_def r_def [symmetric] w using t r by auto
qed

text \<open>
  For a valid time of day, and while the offset of the zone does not change, the task sleeps less than
  a day and wakes at that time of day; it does not sleep at all exactly when it is that time to the
  nanosecond.
\<close>

theorem daily_wait_bounds:
  assumes "0 \<le> hour" "hour < 24" "0 \<le> minute" "minute < 60" "0 \<le> second" "second < 60"
    and "steady zone off now now"
  shows "0 \<le> daily_wait zone now hour minute second \<and> daily_wait zone now hour minute second < day_ns \<and>
    time_of_day off (now + daily_wait zone now hour minute second) = ((hour * 60 + minute) * 60 + second) * sec_ns \<and>
    (daily_wait zone now hour minute second = 0 \<longleftrightarrow>
       time_of_day off now = ((hour * 60 + minute) * 60 + second) * sec_ns)"
  using assms by (rule daily_wait_range)

theorem daily_wait_bounds_witness:
  "daily_wait (\<lambda>_. 8 * 3600) 5 9 30 0 = 5399999999995 \<and> daily_wait (\<lambda>_. 8 * 3600) 5 9 30 0 < day_ns"
  using daily_wait_bounds [of 9 30 0 "\<lambda>_. 8 * 3600" "8 * 3600" 5]
  by (simp add: daily_wait_def time_Date_def day_ns_def steady_def Let_def)

text \<open>
  The loop of a daily task. Every round is given by how late the sleeper wakes, how long the call takes
  and how it ends; the result is the times at which the calls start. \<open>time.Sleep\<close> returns at once for a
  negative duration. The context of the task is not consulted: cancelling it does not end the loop.
\<close>

fun daily_starts :: "(int \<Rightarrow> int) \<Rightarrow> int \<Rightarrow> int \<Rightarrow> int \<Rightarrow> int \<Rightarrow> (int \<times> int \<times> run_end) list \<Rightarrow> int list" where
  "daily_starts zone hour minute second now [] = []"
| "daily_starts zone hour minute second now ((late, dur, e) # rounds) =
     (let start = now + max 0 (daily_wait zone now hour minute second) + late
      in start # (case e of Panicked \<Rightarrow> []
                          | Finished \<Rightarrow> daily_starts zone hour minute second (start + dur) rounds))"

lemma daily_wait_target:
  assumes "0 \<le> hour" "hour < 24" "0 \<le> minute" "minute < 60" "0 \<le> second" "second < 60"
    and "steady zone off (T + d) (T + d)"
    and "time_of_day off T = ((hour * 60 + minute) * 60 + second) * sec_ns" and "0 \<le> d"
  shows "T + d + daily_wait zone (T + d) hour minute second = T + day_ns * ((d + day_ns - 1) div day_ns)"
proof -
  let ?w = "daily_wait zone (T + d) hour minute second"
  have day: "0 < day_ns" by (simp add: day_ns_def)
  have w: "0 \<le> ?w" "?w < day_ns" "time_of_day off (T + d + ?w) = time_of_day off T"
    using daily_wait_range [OF assms(1-7)] assms(8) by simp_all
  have "(d + ?w) mod day_ns = 0"
    using w(3) mod_diff_cong [of "T + d + ?w + off * sec_ns" day_ns "T + off * sec_ns" "T + off * sec_ns" "T + off * sec_ns"]
    by (simp add: time_of_day_def algebra_simps)
  then obtain k where k: "d + ?w = day_ns * k" by auto
  have "(d + day_ns - 1) div day_ns = k"
  proof (rule int_div_pos_eq)
    show "d + day_ns - 1 = day_ns * k + (day_ns - 1 - ?w)" using k by simp
  qed (use w in auto)
  then show ?thesis using k by simp
qed

text \<open>
  C36. While the offset of the zone does not change, from two days before until two days after the calls,
  a daily task whose sleeper is late by less than a day with its call runs once a day: after a call
  that started \<open>late\<close> after the time \<open>T\<close> it was due and took \<open>dur\<close>, the next call is due at \<open>T\<close> plus the
  days of \<open>late + dur\<close> rounded up. So a longer call skips the days it covers, a call that was not late
  and took no time is repeated at once, and a panic ends the task for good.
\<close>

theorem daily_next_run:
  assumes "0 \<le> hour" "hour < 24" "0 \<le> minute" "minute < 60" "0 \<le> second" "second < 60"
    and "0 \<le> late" "0 \<le> dur"
    and "steady zone off now (now + day_ns + late + dur)"
  shows "let T = now + daily_wait zone now hour minute second; days = (late + dur + day_ns - 1) div day_ns
    in daily_starts zone hour minute second now ((late, dur, e) # (late', dur', e') # rounds) =
      (T + late) # (if e = Panicked then []
        else (T + day_ns * days + late') # (if e' = Panicked then []
          else daily_starts zone hour minute second (T + day_ns * days + late' + dur') rounds)) \<and>
      time_of_day off T = ((hour * 60 + minute) * 60 + second) * sec_ns"
proof -
  let ?T = "now + daily_wait zone now hour minute second"
  have day: "0 < day_ns" by (simp add: day_ns_def)
  have "steady zone off now now" by (rule steady_sub [OF assms(9)]) (use assms(7,8) day in simp_all)
  note range = daily_wait_range [OF assms(1-6) this]
  have "steady zone off (?T + (late + dur)) (?T + (late + dur))"
    by (rule steady_sub [OF assms(9)]) (use range assms(7,8) in simp_all)
  note range' = daily_wait_range [OF assms(1-6) this]
  from daily_wait_target [OF assms(1-6) \<open>steady zone off (?T + (late + dur)) _\<close>] range assms(7,8)
  have "?T + (late + dur) + daily_wait zone (?T + (late + dur)) hour minute second =
      ?T + day_ns * ((late + dur + day_ns - 1) div day_ns)"
    by simp
  then have next_due: "?T + late + dur + max 0 (daily_wait zone (?T + late + dur) hour minute second) =
      ?T + day_ns * ((late + dur + day_ns - 1) div day_ns)"
    using range' by (simp add: add.assoc max_absorb2)
  have due: "now + max 0 (daily_wait zone now hour minute second) = ?T" using range by simp
  show ?thesis using range
    by (cases e; cases e')
      (simp_all only: Let_def daily_starts.simps run_end.simps if_True if_False simp_thms due next_due)
qed

theorem daily_next_run_witness:
  "daily_starts (\<lambda>_. 0) 9 0 0 0 [(5, 7, Finished), (0, day_ns, Finished), (1, 2, Panicked), (0, 0, Finished)] =
     [32400000000000 + 5, 32400000000000 + day_ns, 32400000000000 + 2 * day_ns + 1]"
proof -
  have w: "daily_wait (\<lambda>_. 0) 0 9 0 0 = 32400000000000" by (simp add: daily_wait_def time_Date_def)
  have d: "(day_ns + 11) div day_ns = 1" by (simp add: day_ns_def)
  have s: "steady (\<lambda>_. 0) 0 0 (0 + day_ns + 5 + 7)" by (simp add: steady_def)
  show ?thesis
    using daily_next_run [of 9 0 0 5 7, OF _ _ _ _ _ _ _ _ s, of Finished 0 day_ns Finished "[(1, 2, Panicked), (0, 0, Finished)]"]
    by (simp add: w d Let_def) (simp add: daily_wait_def time_Date_def day_ns_def)
qed

section \<open>Days on which the clock is set back\<close>

definition set_back :: "int \<Rightarrow> int \<Rightarrow> int \<Rightarrow> int" where
  \<comment> \<open>a zone whose offset drops from \<open>off\<close> by an hour at 2:00 of the local day \<open>day\<close>, which so has 25 hours\<close>
  "set_back off day s = (if s < day * 86400 - off + 7200 then off else off - 3600)"



text \<open>
  A task due at 9:00 runs twice on such a day, at 8:00 and at 9:00.
\<close>

lemma daily_twice:
  "map (\<lambda>t. (t div sec_ns + set_back (- 14400) 20394 (t div sec_ns)) - 20394 * 86400)
     (daily_starts (set_back (- 14400) 20394) 9 0 0 ((20393 * 86400 + 14400 + 9 * 3600 + 60) * sec_ns)
       [(0, 60 * sec_ns, Finished), (0, 60 * sec_ns, Finished)]) = [8 * 3600, 9 * 3600]"
  by (simp add: daily_wait_def time_Date_def set_back_def)

end
