(* ===== verification/Telemetry.thy ===== *)
theory Telemetry
  imports Prelude
begin

text \<open>
  \<open>src/telemetry\<close>: creating the metrics with their sinks, the global labels, and gathering. The metrics
  libraries are arguments. Effects on the process are recorded in order: the signal handler of the
  in-memory sink is started and stopped, and the global metrics are registered.
\<close>

section \<open>Configuration and state\<close>

datatype label = Label string string  \<comment> \<open>name and value\<close>

definition NewLabel :: "string \<Rightarrow> string \<Rightarrow> label" where
  "NewLabel n v = Label n v"

record TelemetryConfig =
  tc_ServiceName :: string
  tc_Enabled :: bool
  tc_PrometheusRetentionTime :: int
  tc_GlobalLabels :: "string list list"
  tc_MetricsSink :: string
  tc_StatsdAddr :: string
  tc_DatadogHostname :: string

datatype metric_sink = StatsdSink | DogStatsdSink | InmemSink

record Metrics =
  mt_sink :: metric_sink
  mt_prometheusEnabled :: bool

datatype effect = StartSignal | StopSignal | RegisterGlobal "label list"

record metrics_lib =
  ml_Statsd :: "string \<Rightarrow> string option"
  ml_DogStatsd :: "string \<Rightarrow> string \<Rightarrow> string option"
  ml_Prometheus :: "int \<Rightarrow> string option"
  ml_NewGlobal :: "string \<Rightarrow> bool \<Rightarrow> string option"  \<comment> \<open>for the service, with Prometheus or not\<close>

datatype new_result = NewPanics | NewDisabled | NewError string | NewMetrics Metrics

section \<open>New\<close>

definition parse_label :: "string list \<Rightarrow> label option" where
  \<comment> \<open>the first two elements; fewer is an index out of range\<close>
  "parse_label gl = (case gl of n # v # _ \<Rightarrow> Some (NewLabel n v) | _ \<Rightarrow> None)"

fun parse_labels :: "string list list \<Rightarrow> label list option" where
  "parse_labels [] = Some []"
| "parse_labels (gl # gls) =
     (case parse_label gl of
        None \<Rightarrow> None
      | Some l \<Rightarrow> (case parse_labels gls of None \<Rightarrow> None | Some ls \<Rightarrow> Some (l # ls)))"

definition make_sink :: "metrics_lib \<Rightarrow> TelemetryConfig \<Rightarrow> (string + metric_sink) \<times> effect list" where
  "make_sink ml cfg =
     (if tc_MetricsSink cfg = ''statsd'' then
        (case ml_Statsd ml (tc_StatsdAddr cfg) of Some e \<Rightarrow> (Inl e, []) | None \<Rightarrow> (Inr StatsdSink, []))
      else if tc_MetricsSink cfg = ''dogstatsd'' then
        (case ml_DogStatsd ml (tc_StatsdAddr cfg) (tc_DatadogHostname cfg) of
           Some e \<Rightarrow> (Inl e, []) | None \<Rightarrow> (Inr DogStatsdSink, []))
      else (Inr InmemSink, [StartSignal]))"

definition finish_new :: "metrics_lib \<Rightarrow> TelemetryConfig \<Rightarrow> metric_sink \<Rightarrow> string + Metrics" where
  "finish_new ml cfg sink =
     (let prom = 0 < tc_PrometheusRetentionTime cfg
      in case (if prom then ml_Prometheus ml (wrap_s 64 (tc_PrometheusRetentionTime cfg * 1000000000)) else None) of
           Some e \<Rightarrow> Inl e
         | None \<Rightarrow>
             (case ml_NewGlobal ml (tc_ServiceName cfg) prom of
                Some e \<Rightarrow> Inl e
              | None \<Rightarrow> Inr \<lparr>mt_sink = sink, mt_prometheusEnabled = prom\<rparr>))"

definition New :: "metrics_lib \<Rightarrow> TelemetryConfig \<Rightarrow> label list \<Rightarrow> new_result \<times> label list \<times> effect list" where
  \<comment> \<open>with the global labels before and after\<close>
  "New ml cfg globalLabels =
     (if \<not> tc_Enabled cfg then (NewDisabled, globalLabels, [])
      else case (if tc_GlobalLabels cfg = [] then Some globalLabels else parse_labels (tc_GlobalLabels cfg)) of
        None \<Rightarrow> (NewPanics, globalLabels, [])
      | Some labels \<Rightarrow>
          (case make_sink ml cfg of
             (Inl e, effs) \<Rightarrow> (NewError e, labels, effs)
           | (Inr sink, effs) \<Rightarrow>
               (case finish_new ml cfg sink of
                  Inl e \<Rightarrow> (NewError e, labels, effs @ (if sink = InmemSink then [StopSignal] else []))
                | Inr m \<Rightarrow> (NewMetrics m, labels, effs @ [RegisterGlobal labels]))))"

section \<open>Gather\<close>

record gatherers =
  ga_Prometheus :: "string + string"  \<comment> \<open>gathering and encoding the metric families\<close>
  ga_InMemory :: "string + string"    \<comment> \<open>displaying the metrics and encoding them as JSON\<close>

definition gatherPrometheus :: "gatherers \<Rightarrow> Metrics \<Rightarrow> string + string \<times> string" where
  "gatherPrometheus ga m =
     (if \<not> mt_prometheusEnabled m then Inl ''prometheus metrics are not enabled''
      else map_sum id (\<lambda>b. (b, ''text/plain; version=0.0.4; charset=utf-8'')) (ga_Prometheus ga))"

definition gatherGeneric :: "gatherers \<Rightarrow> Metrics \<Rightarrow> string + string \<times> string" where
  "gatherGeneric ga m =
     (if mt_sink m \<noteq> InmemSink then Inl ''non in-memory metrics sink does not support generic format''
      else map_sum id (\<lambda>b. (b, ''application/json'')) (ga_InMemory ga))"

definition Gather :: "gatherers \<Rightarrow> Metrics \<Rightarrow> string \<Rightarrow> string + string \<times> string" where
  "Gather ga m format =
     (if format = ''prometheus'' then gatherPrometheus ga m
      else if format = ''text'' then gatherGeneric ga m
      else if format = [] then gatherGeneric ga m
      else Inl (''unsupported metrics format: '' @ format))"

section \<open>Emitting\<close>

text \<open>The labels that each wrapper hands to the library.\<close>

definition ModuleLabels :: "label list \<Rightarrow> string \<Rightarrow> label list" where
  \<comment> \<open>of \<open>ModuleMeasureSince\<close> and \<open>ModuleSetGauge\<close>\<close>
  "ModuleLabels globalLabels module = NewLabel ''module'' module # globalLabels"

definition WithLabels :: "label list \<Rightarrow> label list \<Rightarrow> label list" where
  \<comment> \<open>of \<open>IncrCounterWithLabels\<close> and \<open>SetGaugeWithLabels\<close>\<close>
  "WithLabels globalLabels labels = labels @ globalLabels"

section \<open>Properties\<close>

lemma parse_labels_None: "parse_labels gls = None \<longleftrightarrow> (\<exists>gl\<in>set gls. length gl < 2)"
  by (induction gls) (auto simp: parse_label_def split: option.splits list.splits)

lemma parse_labels_Some: "parse_labels gls = Some ls \<Longrightarrow> gl \<in> set gls \<Longrightarrow> \<not> length gl < 2"
  using parse_labels_None [of gls] by auto

text \<open>
  Creating the metrics panics exactly on an enabled configuration with a label of fewer than two
  parts; after an error no signal handler is left running and nothing is registered, though the new
  global labels stay; on success the handler runs exactly for the in-memory sink.
\<close>

theorem telemetry_new:
  "(fst (New ml cfg ls) = NewPanics \<longleftrightarrow> tc_Enabled cfg \<and> (\<exists>gl\<in>set (tc_GlobalLabels cfg). length gl < 2)) \<and>
   (case New ml cfg ls of
      (NewError e, ls', effs) \<Rightarrow> effs \<in> {[], [StartSignal, StopSignal]}
    | (NewMetrics m, ls', effs) \<Rightarrow>
        effs = (if mt_sink m = InmemSink then [StartSignal] else []) @ [RegisterGlobal ls'] \<and>
        mt_prometheusEnabled m = (0 < tc_PrometheusRetentionTime cfg) \<and>
        mt_sink m = (if tc_MetricsSink cfg = ''statsd'' then StatsdSink
                     else if tc_MetricsSink cfg = ''dogstatsd'' then DogStatsdSink else InmemSink)
    | (_, ls', effs) \<Rightarrow> effs = [] \<and> ls' = ls)"
  unfolding New_def
  by (cases "tc_Enabled cfg"; cases "tc_GlobalLabels cfg = []"; cases "parse_labels (tc_GlobalLabels cfg)")
    (auto simp: parse_labels_None make_sink_def finish_new_def Let_def dest: parse_labels_Some
      split: option.splits sum.splits if_splits)

text \<open>
  Metrics can be gathered in the generic format exactly with the in-memory sink, and in the format
  of Prometheus exactly when a retention time was configured, provided the gatherer itself succeeds.
\<close>

theorem telemetry_gather:
  "isl (Gather \<lparr>ga_Prometheus = Inr p, ga_InMemory = Inr g\<rparr> m format) \<longleftrightarrow>
     (if format = ''prometheus'' then \<not> mt_prometheusEnabled m
      else if format \<in> {[], ''text''} then mt_sink m \<noteq> InmemSink else True)"
  by (simp add: Gather_def gatherPrometheus_def gatherGeneric_def)

end
