(* ===== verification/Helpers.thy ===== *)
theory Helpers
  imports Logger
begin

text \<open>
  The small packages: values in a context (\<open>src/util/env.go\<close>, \<open>src/util/generate.go\<close>), pointers, the
  referral types, signals, configuration files (\<open>src/config\<close>, \<open>src/system\<close>) and Apollo configuration
  (\<open>src/apollosdk\<close>). The clock, the random source, the signals, the file system and the configuration
  libraries are arguments.
\<close>

section \<open>Context values\<close>

datatype ctx_value = CtxString string | CtxOther string

type_synonym ctx = "(string \<times> ctx_value) list"  \<comment> \<open>the innermost value first\<close>

definition WithValue :: "ctx \<Rightarrow> string \<Rightarrow> ctx_value \<Rightarrow> ctx" where
  "WithValue ctx k v = (k, v) # ctx"

definition string_value :: "ctx \<Rightarrow> string \<Rightarrow> string" where
  \<comment> \<open>a value that is missing or no string counts as empty\<close>
  "string_value ctx k = (case map_of ctx k of Some (CtxString s) \<Rightarrow> s | _ \<Rightarrow> [])"

definition GetEnv :: "ctx \<Rightarrow> string" where
  "GetEnv ctx = string_value ctx ''env''"

definition SetEnv :: "ctx \<Rightarrow> string \<Rightarrow> ctx" where
  "SetEnv ctx env = WithValue ctx ''env'' (CtxString env)"

definition IsTestEnv :: "ctx \<Rightarrow> bool" where
  "IsTestEnv ctx = (GetEnv ctx = ''test'')"

definition IsProdEnv :: "ctx \<Rightarrow> bool" where
  "IsProdEnv ctx = (GetEnv ctx = ''prod'')"

definition GetLogId :: "ctx \<Rightarrow> string" where
  "GetLogId ctx = string_value ctx ''logId''"

definition WithLogIDCtx :: "ctx \<Rightarrow> string \<Rightarrow> ctx" where
  "WithLogIDCtx ctx logId = WithValue ctx ''logId'' (CtxString logId)"

lemmas ctx_defs = WithValue_def string_value_def GetEnv_def SetEnv_def IsTestEnv_def IsProdEnv_def GetLogId_def
  WithLogIDCtx_def

text \<open>
  The environment and the log id of a context are read as they were set, and setting one leaves the
  other alone; a context is never in both environments.
\<close>

theorem ctx_values:
  "GetEnv (SetEnv ctx e) = e \<and> GetLogId (WithLogIDCtx ctx l) = l \<and>
   GetLogId (SetEnv ctx e) = GetLogId ctx \<and> GetEnv (WithLogIDCtx ctx l) = GetEnv ctx \<and>
   \<not> (IsTestEnv ctx \<and> IsProdEnv ctx)"
  by (auto simp: ctx_defs)

section \<open>Log ids\<close>

definition pad_left :: "nat \<Rightarrow> string \<Rightarrow> string" where
  \<comment> \<open>zeros up to a width\<close>
  "pad_left w s = replicate (w - length s) CHR ''0'' @ s"

record date_time =
  dt_year :: nat
  dt_month :: nat
  dt_day :: nat
  dt_hour :: nat
  dt_minute :: nat
  dt_second :: nat

definition timestamp :: "date_time \<Rightarrow> string" where
  \<comment> \<open>the layout \<open>20060102150405\<close>\<close>
  "timestamp d = pad_left 4 (utoa (dt_year d)) @ pad_left 2 (utoa (dt_month d)) @ pad_left 2 (utoa (dt_day d)) @
     pad_left 2 (utoa (dt_hour d)) @ pad_left 2 (utoa (dt_minute d)) @ pad_left 2 (utoa (dt_second d))"

definition GenerateLogID :: "date_time \<Rightarrow> nat \<Rightarrow> string" where
  \<comment> \<open>the time in Shanghai and the random number\<close>
  "GenerateLogID now random =
     (let randomPart = pad_left 18 (utoa random)
      in timestamp now @ (if 18 < length randomPart then take 18 randomPart else randomPart))"

definition date_ok :: "date_time \<Rightarrow> bool" where
  "date_ok d \<longleftrightarrow> dt_year d < 10000 \<and> dt_month d < 100 \<and> dt_day d < 100 \<and> dt_hour d < 100 \<and> dt_minute d < 100 \<and> dt_second d < 100"

lemma length_pad_left: "length s \<le> w \<Longrightarrow> length (pad_left w s) = w"
  by (simp add: pad_left_def)

lemma pad_left_digits: "\<forall>c\<in>set s. is_digit c \<Longrightarrow> \<forall>c\<in>set (pad_left w s). is_digit c"
  by (auto simp: pad_left_def is_digit_def)

lemma pad_left_utoa: "\<forall>c\<in>set (pad_left w (utoa n)). is_digit c"
  by (rule pad_left_digits [OF utoa_digits])

lemma length_timestamp: "date_ok d \<Longrightarrow> length (timestamp d) = 14"
  using length_utoa [of _ 4] length_utoa [of _ 2] by (simp add: timestamp_def date_ok_def length_pad_left)

text \<open>
  A log id always has 32 digits: the 14 of the time and 18 of the random number, which is padded
  with zeros or cut.
\<close>

theorem logid_shape:
  assumes "date_ok now"
  shows "length (GenerateLogID now random) = 32 \<and> (\<forall>c\<in>set (GenerateLogID now random). is_digit c)"
proof
  let ?r = "pad_left 18 (utoa random)"
  have "18 \<le> length ?r" by (simp add: pad_left_def)
  then show "length (GenerateLogID now random) = 32"
    using assms by (simp add: GenerateLogID_def Let_def length_timestamp)
  have "\<forall>c\<in>set ?r. is_digit c" "\<forall>c\<in>set (timestamp now). is_digit c"
    by (simp_all add: timestamp_def ball_Un pad_left_utoa)
  then show "\<forall>c\<in>set (GenerateLogID now random). is_digit c"
    by (auto simp: GenerateLogID_def Let_def dest: in_set_takeD)
qed

theorem logid_shape_witness:
  "length (GenerateLogID \<lparr>dt_year = 2024, dt_month = 2, dt_day = 29, dt_hour = 8, dt_minute = 0, dt_second = 59\<rparr> 7) = 32"
  using logid_shape [of "\<lparr>dt_year = 2024, dt_month = 2, dt_day = 29, dt_hour = 8, dt_minute = 0, dt_second = 59\<rparr>" 7]
  by (simp add: date_ok_def)

section \<open>Pointers and referral types\<close>

definition Ptr :: "'a \<Rightarrow> 'a option" where
  "Ptr v = Some v"

definition GetValue :: "'a \<Rightarrow> 'a option \<Rightarrow> 'a" where
  \<comment> \<open>with the zero value of the type\<close>
  "GetValue zero p = (case p of None \<Rightarrow> zero | Some v \<Rightarrow> v)"

definition IsValidReferralType :: "string \<Rightarrow> bool" where
  "IsValidReferralType t = (t = ''REGULAR'' \<or> t = ''KOL'' \<or> t = ''AFFILIATE'')"

section \<open>Signals\<close>

text \<open>
  \<open>src/system/signal.go\<close>: of the signals that reach the process, as numbers and in their order, the first
  interrupt or termination signal ends the wait; \<open>None\<close> is waiting on.
\<close>

definition QuitCode_Error :: "int \<Rightarrow> string" where
  "QuitCode_Error code = FormatInt code"

definition WaitForQuitSignals :: "int list \<Rightarrow> int option" where
  "WaitForQuitSignals sigs = map_option (\<lambda>s. s + 128) (find (\<lambda>s. s = 2 \<or> s = 15) sigs)"

lemma quit_codes: "WaitForQuitSignals sigs = Some c \<Longrightarrow> c = 130 \<or> c = 143"
  by (auto simp: WaitForQuitSignals_def find_Some_iff)

lemma quit_waits: "WaitForQuitSignals sigs = None \<longleftrightarrow> 2 \<notin> set sigs \<and> 15 \<notin> set sigs"
  by (auto simp: WaitForQuitSignals_def find_None_iff)

section \<open>Configuration files\<close>

definition Ext :: "string \<Rightarrow> string" where
  \<comment> \<open>\<open>filepath.Ext\<close>: from the last dot of the last element\<close>
  "Ext path =
     (let r = takeWhile (\<lambda>c. c \<noteq> CHR ''/'') (rev path)
      in if CHR ''.'' \<in> set r then CHR ''.'' # rev (takeWhile (\<lambda>c. c \<noteq> CHR ''.'') r) else [])"

record filesystem =
  fs_dirs :: "string set"
  fs_files :: "string \<rightharpoonup> string"

record config_env =
  ce_Stat :: "string \<Rightarrow> string option"      \<comment> \<open>an error other than that the directory is missing\<close>
  ce_MkdirAll :: "string \<Rightarrow> string option"
  ce_WriteFile :: "string \<Rightarrow> string option"
  ce_Dir :: "string \<Rightarrow> string"              \<comment> \<open>\<open>filepath.Dir\<close>\<close>

definition MakeDirAll :: "config_env \<Rightarrow> string \<Rightarrow> filesystem \<Rightarrow> string option \<times> filesystem" where
  "MakeDirAll ce home fs =
     (if home \<in> fs_dirs fs then (None, fs)
      else case ce_Stat ce home of
        Some err \<Rightarrow> (Some err, fs)
      | None \<Rightarrow>
          (case ce_MkdirAll ce home of
             Some err \<Rightarrow> (Some err, fs)
           | None \<Rightarrow> (None, fs\<lparr>fs_dirs := insert home (fs_dirs fs)\<rparr>)))"

definition WriteConfigFile ::
  "config_env \<Rightarrow> string \<Rightarrow> string + 'm \<Rightarrow> ('m \<Rightarrow> string + string) \<Rightarrow> filesystem \<Rightarrow> string option \<times> filesystem" where
  \<comment> \<open>the configuration decoded to a map, and its TOML text\<close>
  "WriteConfigFile ce path decoded toml fs =
     (let path = TrimSpace path
      in case decoded of
           Inl err \<Rightarrow> (Some (''error decoding struct to map: '' @ err), fs)
         | Inr configMap \<Rightarrow>
             (case MakeDirAll ce (ce_Dir ce path) fs of
                (Some err, fs) \<Rightarrow> (Some err, fs)
              | (None, fs) \<Rightarrow>
                  if TrimPrefix (Ext path) ''.'' = ''toml'' then
                    (case toml configMap of
                       Inl err \<Rightarrow> (Some (''error marshaling map to TOML: '' @ err), fs)
                     | Inr data \<Rightarrow>
                         (case ce_WriteFile ce path of
                            Some err \<Rightarrow> (Some (''failed to write file: '' @ err), fs)
                          | None \<Rightarrow> (None, fs\<lparr>fs_files := (fs_files fs)(path \<mapsto> data)\<rparr>)))
                  else (Some (''unsupport config file type: '' @ TrimPrefix (Ext path) ''.'' @ '', only toml is support''), fs)))"

text \<open>
  Writing a configuration touches no file but the one named, and that only on success, with the TOML
  text of the configuration and for a name that ends in \<open>.toml\<close>; the directory is there then.
\<close>

theorem config_write:
  "case WriteConfigFile ce path decoded toml fs of
     (Some err, fs') \<Rightarrow> fs_files fs' = fs_files fs
   | (None, fs') \<Rightarrow>
       TrimPrefix (Ext (TrimSpace path)) ''.'' = ''toml'' \<and> ce_Dir ce (TrimSpace path) \<in> fs_dirs fs' \<and>
       (\<exists>m data. decoded = Inr m \<and> toml m = Inr data \<and> fs_files fs' = (fs_files fs)(TrimSpace path \<mapsto> data))"
  by (auto simp: WriteConfigFile_def MakeDirAll_def Let_def split: sum.split option.split prod.split)

record 'v viper =
  vi_ReadInConfig :: "string \<Rightarrow> string \<Rightarrow> string \<Rightarrow> string + 'v"
    \<comment> \<open>the type, the name and the directory of the file\<close>

definition GetConfig ::
  "'v viper \<Rightarrow> (string \<Rightarrow> string) \<Rightarrow> ('v \<Rightarrow> 'c \<Rightarrow> string option \<times> 'c) \<Rightarrow> string \<Rightarrow> 'c \<Rightarrow> string option \<times> 'c" where
  \<comment> \<open>\<open>filepath.Dir\<close>, and the values unmarshalled over the defaults\<close>
  "GetConfig v Dir unmarshal path defaultConfig =
     (let path = TrimSpace path;
          filename = Base path;
          fileType = TrimPrefix (Ext path) ''.''
      in case vi_ReadInConfig v fileType filename (Dir path) of
           Inl err \<Rightarrow> (Some (''failed to read in '' @ path @ '': '' @ err), defaultConfig)
         | Inr values \<Rightarrow>
             (case unmarshal values defaultConfig of
                (Some err, config) \<Rightarrow> (Some (''error extracting app config: '' @ err), config)
              | (None, config) \<Rightarrow> (None, config)))"

lemma config_defaults_kept:
  "vi_ReadInConfig v (TrimPrefix (Ext (TrimSpace path)) ''.'') (Base (TrimSpace path)) (Dir (TrimSpace path)) = Inl err \<Longrightarrow>
   snd (GetConfig v Dir unmarshal path c) = c \<and> fst (GetConfig v Dir unmarshal path c) \<noteq> None"
  by (simp add: GetConfig_def Let_def)

section \<open>Apollo\<close>

record SDKConfig =
  sc_AppID :: string
  sc_Cluster :: string
  sc_MetaAddr :: string
  sc_Namespaces :: "string list"
  sc_Secret :: string
  sc_IsBackupConfig :: bool
  sc_BackupConfigPath :: string

record AppConfig =
  ac_AppID :: string
  ac_Cluster :: string
  ac_IP :: string
  ac_NamespaceName :: string
  ac_Secret :: string
  ac_IsBackupConfig :: bool
  ac_BackupConfigPath :: string

record 'c ApolloSDK =
  as_client :: 'c
  as_config :: SDKConfig

fun strings_Join :: "string list \<Rightarrow> string \<Rightarrow> string" where
  "strings_Join [] sep = []"
| "strings_Join [s] sep = s"
| "strings_Join (s # t # ss) sep = s @ sep @ strings_Join (t # ss) sep"

definition client_config :: "SDKConfig \<Rightarrow> AppConfig" where
  "client_config cfg =
     \<lparr>ac_AppID = sc_AppID cfg, ac_Cluster = sc_Cluster cfg, ac_IP = sc_MetaAddr cfg,
      ac_NamespaceName = strings_Join (sc_Namespaces cfg) '','', ac_Secret = sc_Secret cfg,
      ac_IsBackupConfig = sc_IsBackupConfig cfg, ac_BackupConfigPath = sc_BackupConfigPath cfg\<rparr>"

definition NewApolloSDK :: "(AppConfig \<Rightarrow> string + 'c) \<Rightarrow> SDKConfig \<Rightarrow> string + 'c ApolloSDK" where
  \<comment> \<open>\<open>agollo.StartWithConfig\<close>\<close>
  "NewApolloSDK StartWithConfig cfg =
     (case StartWithConfig (client_config cfg) of
        Inl err \<Rightarrow> Inl (''failed to start Apollo client: '' @ err)
      | Inr client \<Rightarrow> Inr \<lparr>as_client = client, as_config = cfg\<rparr>)"

text \<open>The client is started for exactly the namespaces of the configuration, unless one has a comma.\<close>

lemma namespaces_kept:
  assumes "sc_Namespaces cfg \<noteq> []" "\<forall>n\<in>set (sc_Namespaces cfg). CHR '','' \<notin> set n"
  shows "split_on CHR '','' (ac_NamespaceName (client_config cfg)) = sc_Namespaces cfg"
proof -
  have "split_on CHR '','' (strings_Join ns '','') = ns" if "ns \<noteq> []" "\<forall>n\<in>set ns. CHR '','' \<notin> set n" for ns
    using that by (induction ns "'',''" rule: strings_Join.induct) (simp_all add: split_on_free split_on_key)
  then show ?thesis using assms by (simp add: client_config_def)
qed

definition ApolloGetString :: "(string \<rightharpoonup> string \<Rightarrow> string) \<Rightarrow> string \<Rightarrow> string \<Rightarrow> string + string" where
  \<comment> \<open>the configuration of each namespace: the value of a key, empty if it is missing\<close>
  "ApolloGetString client namespace key =
     (case client namespace of
        None \<Rightarrow> Inl (''namespace '' @ namespace @ '' not found'')
      | Some config \<Rightarrow> Inr (config key))"

definition ApolloGetConfig ::
  "(string \<rightharpoonup> string \<Rightarrow> string) \<Rightarrow> (string \<Rightarrow> string + 'a) \<Rightarrow> (string \<Rightarrow> 'a) option \<Rightarrow> (string \<Rightarrow> string + 'a) option list \<Rightarrow>
   string \<Rightarrow> string \<Rightarrow> string + 'a" where
  \<comment> \<open>\<open>json.Unmarshal\<close> at the result type, and the injection of strings when that type is \<open>string\<close>\<close>
  "ApolloGetConfig client unmarshal of_string parseFunc namespace key =
     (case ApolloGetString client namespace key of
        Inl err \<Rightarrow> Inl err
      | Inr v \<Rightarrow>
          (case parseFunc of
             Some p # _ \<Rightarrow> p v
           | _ \<Rightarrow>
               (case unmarshal v of
                  Inr r \<Rightarrow> Inr r
                | Inl _ \<Rightarrow>
                    (case of_string of
                       Some f \<Rightarrow> Inr (f v)
                     | None \<Rightarrow> Inl (''unable to parse config, value: '' @ v)))))"

end
