(* ===== verification/CacheSpec.thy ===== *)
theory CacheSpec
  imports AsyncCache
begin

text \<open>
  What the asynchronous cache promises, as an abstract cache: keys with a usable value or a failure, and
  the set of keys used since the last expiry tick. Entries, marks, atomic values and the order in which
  the map is visited are gone. Every operation of \<open>AsyncCache\<close> is a step of the abstract cache.

  The abstract cache says what the code does. The comments on \<open>GetOrSet\<close> in \<open>src/asynccache/asynccache.go\<close>
  (lines 42-44 and 179-180) say that the default is set if the key is not yet cached or the fetch failed;
  the code fetches a key that is not cached and sets the default only if that fetch fails, and so does
  \<open>spec_step\<close>.
\<close>

section \<open>The abstract cache\<close>

datatype slot = Good iface | Failed iface string  \<comment> \<open>a failure keeps the value that came with it\<close>

record spec_cache =
  sp_slots :: "string \<rightharpoonup> slot"
  sp_recent :: "string set"

fun slot_result :: "slot \<Rightarrow> iface \<times> go_error" where
  "slot_result (Good v) = (v, None)"
| "slot_result (Failed v err) = (v, Some err)"

fun fetched :: "iface \<times> go_error \<Rightarrow> slot" where
  "fetched (v, None) = Good v"
| "fetched (v, Some err) = Failed v err"

fun refreshed :: "iface \<times> go_error \<Rightarrow> slot \<Rightarrow> slot" where
  "refreshed (v, None) s = Good v"
| "refreshed (v, Some err) (Good x) = Good x"
| "refreshed (v, Some err) (Failed x e) = Failed x err"

definition use :: "string \<Rightarrow> slot \<Rightarrow> spec_cache \<Rightarrow> spec_cache" where
  "use k s a = \<lparr>sp_slots = (sp_slots a)(k \<mapsto> s), sp_recent = insert k (sp_recent a)\<rparr>"

fun spec_step :: "cache_op \<Rightarrow> spec_cache \<Rightarrow> spec_cache" where
  "spec_step (OpSetDefault k v) a = use k (case sp_slots a k of None \<Rightarrow> Good v | Some s \<Rightarrow> s) a"
| "spec_step (OpGet f k) a = use k (case sp_slots a k of None \<Rightarrow> fetched (f k) | Some s \<Rightarrow> s) a"
| "spec_step (OpGetOrSet f k v) a = use k
     (case sp_slots a k of
        None \<Rightarrow> Good (if snd (f k) = None then fst (f k) else v)
      | Some (Failed x e) \<Rightarrow> Good v
      | Some (Good x) \<Rightarrow> Good x) a"
| "spec_step (OpDeleteIf p) a =
     \<lparr>sp_slots = (\<lambda>k. if p k then None else sp_slots a k), sp_recent = {k \<in> sp_recent a. \<not> p k}\<rparr>"
| "spec_step OpExpire a = \<lparr>sp_slots = sp_slots a |` sp_recent a, sp_recent = {}\<rparr>"
| "spec_step (OpRefresh f) a = a\<lparr>sp_slots := (\<lambda>k. map_option (refreshed (f k)) (sp_slots a k))\<rparr>"

section \<open>Abstraction\<close>

definition slot_of :: "entry \<Rightarrow> slot" where
  "slot_of e = (case Error_Load (en_err e) of None \<Rightarrow> Good (en_val e) | Some err \<Rightarrow> Failed (en_val e) err)"

definition abs_cache :: "cache \<Rightarrow> spec_cache" where
  "abs_cache c = \<lparr>sp_slots = (\<lambda>k. map_option slot_of (c k)), sp_recent = {k. \<exists>e. c k = Some e \<and> en_expire e = 0}\<rparr>"

lemma abs_cache_eqI:
  "(\<And>k. sp_slots a k = map_option slot_of (c k)) \<Longrightarrow>
   (\<And>k. k \<in> sp_recent a \<longleftrightarrow> (\<exists>e. c k = Some e \<and> en_expire e = 0)) \<Longrightarrow> abs_cache c = a"
  by (cases a) (auto simp: abs_cache_def)

lemma slot_of_Touch [simp]: "slot_of (Touch e) = slot_of e"
  by (simp add: slot_of_def Touch_def split: option.split)

lemma Error_Touch [simp]: "Error_Load (en_err (Touch e)) = Error_Load (en_err e)"
  by (simp add: Touch_def)

lemma Error_fresh [simp]: "Error_Load (en_err (fresh v err)) = err"
  by (simp add: fresh_def Error_Load_def)

lemma slot_of_fresh [simp]: "slot_of (fresh v err) = fetched (v, err)"
  by (cases err) (simp_all add: slot_of_def fresh_def Error_Load_def)

lemma slot_of_mark [simp]: "slot_of (e\<lparr>en_expire := n\<rparr>) = slot_of e"
  by (simp add: slot_of_def split: option.split)

lemma slot_of_Good_iff: "Error_Load (en_err e) = None \<longleftrightarrow> slot_of e = Good (en_val e)"
  by (simp add: slot_of_def split: option.split)

lemma slot_of_refresh: "refresh_entry opt f k e = Some (ev, e') \<Longrightarrow> slot_of e' = refreshed (f k) (slot_of e)"
  using refresh_entry_effect [of opt f k e ev e']
  by (cases "f k"; cases "snd (f k)") (auto simp: slot_of_def split: option.splits if_splits)

section \<open>Simulation\<close>

lemma simulate_refresh:
  assumes "iter_order c ks" and "refresh opt f ks c = Some (evs, c')"
  shows "abs_cache c' = spec_step (OpRefresh f) (abs_cache c)"
proof (rule abs_cache_eqI)
  fix k
  show "sp_slots (spec_step (OpRefresh f) (abs_cache c)) k = map_option slot_of (c' k)"
    using refresh_at [OF assms, of k] slot_of_refresh by (auto simp: abs_cache_def)
  show "k \<in> sp_recent (spec_step (OpRefresh f) (abs_cache c)) \<longleftrightarrow> (\<exists>e. c' k = Some e \<and> en_expire e = 0)"
    using refresh_entry_kept [OF assms, of k] by (auto simp: abs_cache_def)
qed

lemma simulate_step: "ac_step opt c op c' \<Longrightarrow> abs_cache c' = spec_step op (abs_cache c)"
proof (induction rule: ac_step.induct)
  case (st_refresh c ks f evs c')
  then show ?case by (rule simulate_refresh)
next
  case (st_expire c ks)
  then show ?case
    by (intro abs_cache_eqI) (auto simp: abs_cache_def expire_eq iter_order_def restrict_map_def split: option.splits)
next
  case (st_DeleteIf c ks p)
  then have "k \<in> set ks \<longleftrightarrow> c k \<noteq> None" for k by (auto simp: iter_order_def)
  then show ?case by (intro abs_cache_eqI) (auto simp: abs_cache_def DeleteIf_eq)
next
  case (st_GetOrSet c f k v)
  show ?case
  proof (rule abs_cache_eqI)
    fix k'
    show "sp_slots (spec_step (OpGetOrSet f k v) (abs_cache c)) k' = map_option slot_of (snd (GetOrSet f k v c) k')"
      by (cases "c k") (auto simp: abs_cache_def GetOrSet_at use_def slot_of_def split: option.split)
    show "k' \<in> sp_recent (spec_step (OpGetOrSet f k v) (abs_cache c)) \<longleftrightarrow>
        (\<exists>e. snd (GetOrSet f k v c) k' = Some e \<and> en_expire e = 0)"
      by (auto simp: abs_cache_def GetOrSet_at use_def split: option.split)
  qed
qed (auto intro!: abs_cache_eqI simp: abs_cache_def op_at use_def iter_order_def split: option.splits)

text \<open>
  C5. The cache refines the abstract cache: after any sequence of operations, each visiting the map in
  an order of its own, its abstraction is what the abstract operations make of the abstraction at the
  start. In particular an expiry tick keeps exactly the keys used since the last one; and a \<open>GetOrSet\<close>
  of a key that is not cached leaves the fetched value there, and its default only if the fetch fails,
  which is what the code does and not what its comments say.
\<close>

theorem cache_refines:
  assumes "ac_run opt c ops c'"
  shows "abs_cache c' = fold spec_step ops (abs_cache c)"
  using assms by (induction rule: ac_run.induct) (simp_all add: simulate_step)

theorem cache_refines_witness:
  "abs_cache (snd (ac_Get sample_fetch ''b'' (snd (SetDefault ''a'' None Map.empty)))) =
     \<lparr>sp_slots = [''a'' \<mapsto> Good None, ''b'' \<mapsto> Good (Some (''int'', 7))], sp_recent = {''a'', ''b''}\<rparr>"
proof -
  have "ac_run sample_opt Map.empty [OpSetDefault ''a'' None, OpGet sample_fetch ''b'']
      (snd (ac_Get sample_fetch ''b'' (snd (SetDefault ''a'' None Map.empty))))"
    by (intro run_Cons [OF st_SetDefault] run_Cons [OF st_Get] run_Nil)
  from cache_refines [OF this] show ?thesis
    by (simp add: use_def abs_cache_def sample_fetch_def insert_commute)
qed

text \<open>
  What the operations return is determined by the abstract cache: \<open>Get\<close> answers with the slot or the
  fetch, \<open>GetOrSet\<close> with a usable slot, a fetch that succeeds, or the default, and \<open>Dump\<close> with the
  values of all slots.
\<close>

theorem cache_results:
  "fst (ac_Get f k c) = (case sp_slots (abs_cache c) k of None \<Rightarrow> f k | Some s \<Rightarrow> slot_result s) \<and>
   fst (GetOrSet f k v c) =
     (case sp_slots (abs_cache c) k of
        Some (Good x) \<Rightarrow> x
      | Some (Failed x e) \<Rightarrow> v
      | None \<Rightarrow> if snd (f k) = None then fst (f k) else v) \<and>
   fst (SetDefault k v c) = (sp_slots (abs_cache c) k \<noteq> None)"
  by (cases "c k"; cases "f k")
    (auto simp: abs_cache_def slot_of_def get_defs SetDefault_def Let_def split: option.splits)

end
