(* ===== verification/CacheFlight.thy ===== *)
theory CacheFlight
  imports AsyncCache
begin

text \<open>
  The operations of \<open>src/asynccache/asynccache.go\<close> step by step, interleaved: every goroutine executes
  one call, and one step is one access to the \<open>sync.Map\<close>, to an atomic field of an entry, to the
  \<open>singleflight.Group\<close>, or one call of the \<open>Fetcher\<close>. Entries live at addresses, because a goroutine
  keeps the entry it loaded when the map moves on to another. The handlers are left out.

  The \<open>singleflight.Group\<close> is third-party code: its operations are a parameter, and what its
  documentation promises of them is the predicate \<open>group_contract\<close>, a hypothesis of the theorems that
  need it. A goroutine executes one call, so the leader's number names the flight. A nil value is
  stored by a plain assignment in the code, here one step.

  The step of \<open>Leads\<close> and of \<open>RefreshAt\<close> is the return of the \<open>Fetcher\<close>. A \<open>Fetcher\<close> that does not return
  is a goroutine that never steps again, and one that calls the cache itself is a further call in the
  list, made while its goroutine waits. Schedules may do both, so the theorems, which state what holds
  in every reachable state, cover them; none of them claims that a call returns.
\<close>

section \<open>Goroutines\<close>

datatype call =
    CGet string
  | CGetOrSet string iface
  | CSetDefault string iface
  | CRefresh string   \<comment> \<open>the body of \<open>refresh\<close> for one key\<close>
  | CExpire string    \<comment> \<open>the body of \<open>expire\<close> for one key\<close>
  | CDelete string    \<comment> \<open>the deletion of one key by \<open>DeleteIf\<close>\<close>

fun key_of :: "call \<Rightarrow> string" where
  "key_of (CGet k) = k"
| "key_of (CGetOrSet k d) = k"
| "key_of (CSetDefault k v) = k"
| "key_of (CRefresh k) = k"
| "key_of (CExpire k) = k"
| "key_of (CDelete k) = k"

datatype pc =
    Begin
  | Hit nat                    \<comment> \<open>an entry was loaded\<close>
  | Usable nat                 \<comment> \<open>\<open>GetOrSet\<close> saw no error in it\<close>
  | Failing                    \<comment> \<open>\<open>GetOrSet\<close> saw an error in it\<close>
  | Touched nat
  | HalfRead nat iface         \<comment> \<open>\<open>Get\<close> has read the value, not yet the error\<close>
  | Missed
  | Leads                      \<comment> \<open>runs the function of its flight\<close>
  | FlightFetched iface go_error
  | Published iface go_error
  | Joined nat
  | RefreshAt nat
  | RefreshFailed nat string
  | RefreshSetsErr nat string
  | RefreshGot nat iface
  | RefreshStored nat
  | ExpireAt nat
  | Deletes
  | Returned iface go_error
  | Ended
  | Crashed

record 'g flight_group =
  \<comment> \<open>the \<open>singleflight.Group\<close>: a \<open>Do\<close> begins, the function given to it returns, a waiting \<open>Do\<close> gets its result\<close>
  fg_new :: 'g
  fg_enter :: "nat \<Rightarrow> string \<Rightarrow> 'g \<Rightarrow> nat option \<times> 'g"  \<comment> \<open>\<open>None\<close>: runs its function, \<open>Some l\<close>: waits for the call \<open>l\<close>\<close>
  fg_land :: "nat \<Rightarrow> string \<Rightarrow> iface \<times> go_error \<Rightarrow> 'g \<Rightarrow> 'g"
  fg_answer :: "'g \<Rightarrow> nat \<rightharpoonup> iface \<times> go_error"

record 'g shared =
  sh_heap :: "nat \<Rightarrow> entry"
  sh_next :: nat
  sh_data :: "string \<rightharpoonup> nat"
  sh_group :: 'g
  sh_fetches :: "(string \<times> iface \<times> go_error) list"  \<comment> \<open>all answers of the \<open>Fetcher\<close>, not read by the code\<close>

definition upd_entry :: "nat \<Rightarrow> (entry \<Rightarrow> entry) \<Rightarrow> 'g shared \<Rightarrow> 'g shared" where
  "upd_entry a f sh = sh\<lparr>sh_heap := (sh_heap sh)(a := f (sh_heap sh a))\<rparr>"

definition publish :: "string \<Rightarrow> entry \<Rightarrow> 'g shared \<Rightarrow> 'g shared" where
  \<comment> \<open>a new entry, stored under the key\<close>
  "publish k e sh = sh
     \<lparr>sh_heap := (sh_heap sh)(sh_next sh := e), sh_next := Suc (sh_next sh),
      sh_data := (sh_data sh)(k \<mapsto> sh_next sh)\<rparr>"

definition log_fetch :: "string \<Rightarrow> iface \<times> go_error \<Rightarrow> 'g shared \<Rightarrow> 'g shared" where
  "log_fetch k r sh = sh\<lparr>sh_fetches := (k, r) # sh_fetches sh\<rparr>"

section \<open>One step of one goroutine\<close>

definition begin_step :: "call \<Rightarrow> 'g shared \<Rightarrow> pc \<times> 'g shared" where
  "begin_step c sh =
     (case c of
        CGet k \<Rightarrow> (case sh_data sh k of Some a \<Rightarrow> Hit a | None \<Rightarrow> Missed, sh)
      | CGetOrSet k d \<Rightarrow> (case sh_data sh k of Some a \<Rightarrow> Hit a | None \<Rightarrow> Missed, sh)
      | CSetDefault k v \<Rightarrow>
          (case sh_data sh k of Some a \<Rightarrow> (Hit a, sh) | None \<Rightarrow> (Ended, publish k (fresh v None) sh))
      | CRefresh k \<Rightarrow> (case sh_data sh k of Some a \<Rightarrow> RefreshAt a | None \<Rightarrow> Ended, sh)
      | CExpire k \<Rightarrow> (case sh_data sh k of Some a \<Rightarrow> ExpireAt a | None \<Rightarrow> Ended, sh)
      | CDelete k \<Rightarrow> (Ended, sh\<lparr>sh_data := (sh_data sh)(k := None)\<rparr>))"

definition hit_step :: "call \<Rightarrow> nat \<Rightarrow> 'g shared \<Rightarrow> pc \<times> 'g shared" where
  "hit_step c a sh =
     (case c of
        CGetOrSet k d \<Rightarrow> (if Error_Load (en_err (sh_heap sh a)) \<noteq> None then Failing else Usable a, sh)
      | CSetDefault k v \<Rightarrow> (Ended, upd_entry a Touch sh)
      | _ \<Rightarrow> (Touched a, upd_entry a Touch sh))"

definition touched_step :: "call \<Rightarrow> nat \<Rightarrow> 'g shared \<Rightarrow> pc \<times> 'g shared" where
  "touched_step c a sh =
     (case c of
        CGetOrSet k d \<Rightarrow> (Returned (en_val (sh_heap sh a)) None, sh)
      | _ \<Rightarrow> (HalfRead a (en_val (sh_heap sh a)), sh))"

definition default_of :: "call \<Rightarrow> iface" where
  "default_of c = (case c of CGetOrSet k d \<Rightarrow> d | CSetDefault k v \<Rightarrow> v | _ \<Rightarrow> None)"

definition flight_result :: "call \<Rightarrow> iface \<Rightarrow> go_error \<Rightarrow> iface \<times> go_error" where
  \<comment> \<open>what the function of a flight stores and returns for an answer of the \<open>Fetcher\<close>\<close>
  "flight_result c v err =
     (case c of CGetOrSet k d \<Rightarrow> (if err \<noteq> None then d else v, None) | _ \<Rightarrow> (v, err))"

definition joined_result :: "call \<Rightarrow> iface \<times> go_error \<Rightarrow> pc" where
  "joined_result c r = (case c of CGetOrSet k d \<Rightarrow> Returned (fst r) None | _ \<Rightarrow> Returned (fst r) (snd r))"

definition store_value :: "nat \<Rightarrow> iface \<Rightarrow> 'g shared \<Rightarrow> pc \<times> 'g shared" where
  "store_value a v sh =
     (case (case v of Some x \<Rightarrow> value_Store x (en_val (sh_heap sh a)) | None \<Rightarrow> Some None) of
        None \<Rightarrow> (Crashed, sh)
      | Some v' \<Rightarrow> (RefreshStored a, upd_entry a (\<lambda>e. e\<lparr>en_val := v'\<rparr>) sh))"

definition goroutine_step ::
  "'g flight_group \<Rightarrow> nat \<Rightarrow> iface \<times> go_error \<Rightarrow> call \<Rightarrow> pc \<Rightarrow> 'g shared \<Rightarrow> (pc \<times> 'g shared) option" where
  \<comment> \<open>the step of goroutine \<open>t\<close>, \<open>r\<close> being what the \<open>Fetcher\<close> answers if it is called; \<open>None\<close> when it cannot step\<close>
  "goroutine_step G t r c p sh =
     (case p of
        Begin \<Rightarrow> Some (begin_step c sh)
      | Hit a \<Rightarrow> Some (hit_step c a sh)
      | Usable a \<Rightarrow> Some (Touched a, upd_entry a Touch sh)
      | Failing \<Rightarrow> Some (Returned (default_of c) None, publish (key_of c) (fresh (default_of c) None) sh)
      | Touched a \<Rightarrow> Some (touched_step c a sh)
      | HalfRead a v \<Rightarrow> Some (Returned v (Error_Load (en_err (sh_heap sh a))), sh)
      | Missed \<Rightarrow>
          (case fg_enter G t (key_of c) (sh_group sh) of
             (l, g) \<Rightarrow> Some (case l of Some l \<Rightarrow> Joined l | None \<Rightarrow> Leads, sh\<lparr>sh_group := g\<rparr>))
      | Leads \<Rightarrow> Some (FlightFetched (fst r) (snd r), log_fetch (key_of c) r sh)
      | FlightFetched v err \<Rightarrow>
          (case flight_result c v err of
             (v', err') \<Rightarrow> Some (Published v' err', publish (key_of c) (fresh v' err') sh))
      | Published v err \<Rightarrow>
          Some (Returned v err, sh\<lparr>sh_group := fg_land G t (key_of c) (v, err) (sh_group sh)\<rparr>)
      | Joined l \<Rightarrow> map_option (\<lambda>res. (joined_result c res, sh)) (fg_answer G (sh_group sh) l)
      | RefreshAt a \<Rightarrow>
          Some (case snd r of Some err \<Rightarrow> RefreshFailed a err | None \<Rightarrow> RefreshGot a (fst r), log_fetch (key_of c) r sh)
      | RefreshFailed a err \<Rightarrow>
          Some (if Error_Load (en_err (sh_heap sh a)) \<noteq> None then RefreshSetsErr a err else Ended, sh)
      | RefreshSetsErr a err \<Rightarrow> Some (Ended, upd_entry a (\<lambda>e. e\<lparr>en_err := Error_Store (Some err) (en_err e)\<rparr>) sh)
      | RefreshGot a v \<Rightarrow> Some (store_value a v sh)
      | RefreshStored a \<Rightarrow> Some (Ended, upd_entry a (\<lambda>e. e\<lparr>en_err := Error_Store None (en_err e)\<rparr>) sh)
      | ExpireAt a \<Rightarrow>
          Some (if en_expire (sh_heap sh a) = 0 then (Ended, upd_entry a (\<lambda>e. e\<lparr>en_expire := 1\<rparr>) sh) else (Deletes, sh))
      | Deletes \<Rightarrow> Some (Ended, sh\<lparr>sh_data := (sh_data sh)(key_of c := None)\<rparr>)
      | Returned v err \<Rightarrow> None
      | Ended \<Rightarrow> None
      | Crashed \<Rightarrow> None)"

section \<open>Schedules\<close>

record 'g system =
  sy_threads :: "(call \<times> pc) list"
  sy_shared :: "'g shared"

type_synonym tick = "nat \<times> iface \<times> go_error"  \<comment> \<open>which goroutine steps, and the answer of the \<open>Fetcher\<close>\<close>

definition sys_step :: "'g flight_group \<Rightarrow> tick \<Rightarrow> 'g system \<Rightarrow> 'g system option" where
  "sys_step G x s =
     (case x of (t, r) \<Rightarrow>
        if t < length (sy_threads s) then
          (case sy_threads s ! t of
             (c, p) \<Rightarrow>
               (case goroutine_step G t r c p (sy_shared s) of
                  None \<Rightarrow> None
                | Some (p', sh) \<Rightarrow> Some \<lparr>sy_threads = (sy_threads s)[t := (c, p')], sy_shared = sh\<rparr>))
        else None)"

fun run_schedule :: "'g flight_group \<Rightarrow> tick list \<Rightarrow> 'g system \<Rightarrow> 'g system option" where
  "run_schedule G [] s = Some s"
| "run_schedule G (x # xs) s = Option.bind (sys_step G x s) (run_schedule G xs)"

definition start_calls :: "'g flight_group \<Rightarrow> call list \<Rightarrow> 'g system" where
  "start_calls G cs =
     \<lparr>sy_threads = map (\<lambda>c. (c, Begin)) cs,
      sy_shared = \<lparr>sh_heap = \<lambda>_. new_entry, sh_next = 0, sh_data = Map.empty, sh_group = fg_new G,
                   sh_fetches = []\<rparr>\<rparr>"

definition reachable_from :: "'g flight_group \<Rightarrow> call list \<Rightarrow> 'g system \<Rightarrow> bool" where
  "reachable_from G cs s \<longleftrightarrow> (\<exists>xs. run_schedule G xs (start_calls G cs) = Some s)"

section \<open>What the group promises\<close>

definition group_contract :: "'g flight_group \<Rightarrow> ('g \<Rightarrow> string \<rightharpoonup> nat) \<Rightarrow> bool" where
  \<comment> \<open>the documentation of \<open>Group.Do\<close>: one execution is in flight for a key at a time, a duplicate call
     waits for the original to complete and receives the same results; \<open>flying\<close> tells the flights\<close>
  "group_contract G flying \<longleftrightarrow>
     flying (fg_new G) = Map.empty \<and> fg_answer G (fg_new G) = Map.empty \<and>
     (\<forall>t k g. case fg_enter G t k g of
        (l, g') \<Rightarrow> l = flying g k \<and> fg_answer G g' = fg_answer G g \<and>
          flying g' = (if l = None then (flying g)(k \<mapsto> t) else flying g)) \<and>
     (\<forall>t k r g. flying g k = Some t \<longrightarrow>
        flying (fg_land G t k r g) = (flying g)(k := None) \<and>
        fg_answer G (fg_land G t k r g) = (fg_answer G g)(t \<mapsto> r))"

lemma group_new: "group_contract G flying \<Longrightarrow> flying (fg_new G) = Map.empty \<and> fg_answer G (fg_new G) = Map.empty"
  by (simp add: group_contract_def)

lemma group_enter:
  assumes "group_contract G flying" and "fg_enter G t k g = (l, g')"
  shows "l = flying g k" and "fg_answer G g' = fg_answer G g"
    and "flying g' = (if flying g k = None then (flying g)(k \<mapsto> t) else flying g)"
proof -
  have "case fg_enter G t k g of (l, g') \<Rightarrow> l = flying g k \<and> fg_answer G g' = fg_answer G g \<and>
      flying g' = (if l = None then (flying g)(k \<mapsto> t) else flying g)"
    by (rule assms(1) [unfolded group_contract_def, THEN conjunct2, THEN conjunct2, THEN conjunct1, rule_format])
  then show "l = flying g k" and "fg_answer G g' = fg_answer G g"
    and "flying g' = (if flying g k = None then (flying g)(k \<mapsto> t) else flying g)"
    using assms(2) by simp_all
qed

lemma group_land:
  "group_contract G flying \<Longrightarrow> flying g k = Some t \<Longrightarrow>
   flying (fg_land G t k r g) = (flying g)(k := None) \<and>
   fg_answer G (fg_land G t k r g) = (fg_answer G g)(t \<mapsto> r)"
  unfolding group_contract_def by blast

definition sample_group :: "((string \<rightharpoonup> nat) \<times> (nat \<rightharpoonup> iface \<times> go_error)) flight_group" where
  \<comment> \<open>a group that does just that, for the witnesses\<close>
  "sample_group =
     \<lparr>fg_new = (Map.empty, Map.empty),
      fg_enter = (\<lambda>t k (f, q). (f k, if f k = None then f(k \<mapsto> t) else f, q)),
      fg_land = (\<lambda>t k r (f, q). (f(k := None), q(t \<mapsto> r))),
      fg_answer = snd\<rparr>"

lemma sample_group_contract: "group_contract sample_group fst"
  by (auto simp: group_contract_def sample_group_def)

section \<open>Invariants of a schedule\<close>

definition pc_at :: "'g system \<Rightarrow> nat \<Rightarrow> pc" where
  "pc_at s i = snd (sy_threads s ! i)"

lemma sys_step_view:
  assumes "sys_step G (t, r) s = Some s'" and cs: "map fst (sy_threads s) = cs"
  obtains p' where "t < length cs"
    and "goroutine_step G t r (cs ! t) (pc_at s t) (sy_shared s) = Some (p', sy_shared s')"
    and "pc_at s' = (pc_at s)(t := p')" and "map fst (sy_threads s') = cs"
proof -
  obtain c p p' sh where x: "t < length (sy_threads s)" "sy_threads s ! t = (c, p)"
    "goroutine_step G t r c p (sy_shared s) = Some (p', sh)"
    "s' = \<lparr>sy_threads = (sy_threads s)[t := (c, p')], sy_shared = sh\<rparr>"
    using assms(1) by (auto simp: sys_step_def split: if_splits prod.splits option.splits)
  then have "c = cs ! t" "p = pc_at s t" "t < length cs" using cs by (auto simp: pc_at_def)
  moreover have "pc_at s' = (pc_at s)(t := p')" using x by (auto simp: fun_eq_iff pc_at_def nth_list_update)
  moreover have "map fst (sy_threads s') = cs"
    using x cs by (auto simp: list_eq_iff_nth_eq nth_list_update)
  ultimately show ?thesis using that x by simp
qed

lemma run_schedule_append: "run_schedule G (xs @ ys) s = Option.bind (run_schedule G xs s) (run_schedule G ys)"
  by (induction xs arbitrary: s) (auto split: option.split bind_splits)

lemma reachable_invariant:
  assumes "reachable_from G cs s" and "P (start_calls G cs)"
    and "\<And>x s s'. P s \<Longrightarrow> sys_step G x s = Some s' \<Longrightarrow> P s'"
  shows "P s"
proof -
  have "P s \<Longrightarrow> run_schedule G xs s = Some s' \<Longrightarrow> P s'" for xs s s'
    by (induction xs arbitrary: s) (auto split: bind_splits intro: assms(3))
  then show ?thesis using assms(1,2) unfolding reachable_from_def by blast
qed

fun leading :: "pc \<Rightarrow> bool" where
  "leading Leads = True"
| "leading (FlightFetched v e) = True"
| "leading (Published v e) = True"
| "leading _ = False"

fun joins :: "pc \<Rightarrow> bool" where
  "joins (Joined l) = True"
| "joins _ = False"

lemma joins_iff: "joins p \<longleftrightarrow> (\<exists>l. p = Joined l)" by (cases p) auto

definition flights_inv ::
  "nat \<Rightarrow> (nat \<Rightarrow> string) \<Rightarrow> (nat \<Rightarrow> pc) \<Rightarrow> (string \<rightharpoonup> nat) \<Rightarrow> (nat \<rightharpoonup> iface \<times> go_error) \<Rightarrow> bool" where
  \<comment> \<open>number, keys and program counters of the goroutines, the flights and their results\<close>
  "flights_inv n K P F R \<longleftrightarrow>
     (\<forall>k i. F k = Some i \<longleftrightarrow> i < n \<and> K i = k \<and> leading (P i)) \<and>
     (\<forall>i l. i < n \<and> P i = Joined l \<longrightarrow> l < n \<and> K l = K i \<and> (leading (P l) \<or> R l \<noteq> None)) \<and>
     (\<forall>l v e. R l = Some (v, e) \<longrightarrow> l < n \<and> P l = Returned v e)"

definition flights_ok :: "'g flight_group \<Rightarrow> ('g \<Rightarrow> string \<rightharpoonup> nat) \<Rightarrow> call list \<Rightarrow> 'g system \<Rightarrow> bool" where
  "flights_ok G flying cs s \<longleftrightarrow>
     map fst (sy_threads s) = cs \<and>
     flights_inv (length cs) (\<lambda>i. key_of (cs ! i)) (pc_at s) (flying (sh_group (sy_shared s)))
       (fg_answer G (sh_group (sy_shared s)))"

lemma flights_inv_quiet:
  "flights_inv n K P F R \<Longrightarrow> t < n \<Longrightarrow> leading p' = leading (P t) \<Longrightarrow> \<not> joins p' \<Longrightarrow>
   (\<And>v e. P t \<noteq> Returned v e) \<Longrightarrow> flights_inv n K (P(t := p')) F R"
  unfolding flights_inv_def joins_iff by (intro conjI allI impI; simp split: if_split_asm) metis+

lemma flights_inv_leads:
  "flights_inv n K P F R \<Longrightarrow> t < n \<Longrightarrow> P t = Missed \<Longrightarrow> F (K t) = None \<Longrightarrow>
   flights_inv n K (P(t := Leads)) (F(K t \<mapsto> t)) R"
  unfolding flights_inv_def by (intro conjI allI impI; simp split: if_split_asm) (metis leading.simps option.distinct(1) pc.distinct)+

lemma flights_inv_joins:
  "flights_inv n K P F R \<Longrightarrow> t < n \<Longrightarrow> P t = Missed \<Longrightarrow> F (K t) = Some l \<Longrightarrow>
   flights_inv n K (P(t := Joined l)) F R"
  unfolding flights_inv_def by (intro conjI allI impI; simp split: if_split_asm) (metis leading.simps pc.distinct)+

lemma flights_inv_lands:
  "flights_inv n K P F R \<Longrightarrow> t < n \<Longrightarrow> P t = Published v e \<Longrightarrow>
   flights_inv n K (P(t := Returned v e)) (F(K t := None)) (R(t \<mapsto> (v, e)))"
  unfolding flights_inv_def by (intro conjI allI impI; simp split: if_split_asm) (metis leading.simps option.inject pc.distinct)+

lemmas step_defs = begin_step_def hit_step_def touched_step_def flight_result_def joined_result_def store_value_def
  upd_entry_def publish_def log_fetch_def

lemma step_flights:
  assumes con: "group_contract G flying" and "goroutine_step G t r c p sh = Some (p', sh')"
    and landing: "(\<exists>v e. p = Published v e) \<longrightarrow> flying (sh_group sh) (key_of c) = Some t"
  obtains
    (quiet) "sh_group sh' = sh_group sh" "leading p' = leading p" "\<not> joins p'" "\<And>v e. p \<noteq> Returned v e"
  | (leads) "p = Missed" "p' = Leads" "flying (sh_group sh) (key_of c) = None"
      "flying (sh_group sh') = (flying (sh_group sh))(key_of c \<mapsto> t)"
      "fg_answer G (sh_group sh') = fg_answer G (sh_group sh)"
  | (joins) l where "p = Missed" "p' = Joined l" "flying (sh_group sh) (key_of c) = Some l"
      "flying (sh_group sh') = flying (sh_group sh)" "fg_answer G (sh_group sh') = fg_answer G (sh_group sh)"
  | (lands) v e where "p = Published v e" "p' = Returned v e"
      "flying (sh_group sh') = (flying (sh_group sh))(key_of c := None)"
      "fg_answer G (sh_group sh') = (fg_answer G (sh_group sh))(t \<mapsto> (v, e))"
proof (cases p)
  case Missed
  obtain l g where en: "fg_enter G t (key_of c) (sh_group sh) = (l, g)" by force
  note entered = group_enter [OF con en]
  have step: "p' = (case l of Some l \<Rightarrow> Joined l | None \<Rightarrow> Leads)" "sh_group sh' = g"
    using assms(2) Missed en by (auto simp: goroutine_step_def)
  show ?thesis
  proof (cases l)
    case None
    then show ?thesis using that(2) Missed step entered by simp
  next
    case (Some l')
    then show ?thesis using that(3) Missed step entered by simp
  qed
next
  case (Published v e)
  then show ?thesis using assms(2) that(4) group_land [OF con landing [rule_format], of "(v, e)"]
    by (auto simp: goroutine_step_def)
next
  case Begin
  then show ?thesis using assms(2) that(1)
    by (cases c) (auto simp: goroutine_step_def step_defs split: option.splits)
next
  case (Hit a)
  then show ?thesis using assms(2) that(1) by (cases c) (auto simp: goroutine_step_def step_defs)
next
  case (Touched a)
  then show ?thesis using assms(2) that(1) by (cases c) (auto simp: goroutine_step_def step_defs)
next
  case (FlightFetched v e)
  then show ?thesis using assms(2) that(1) by (cases c) (auto simp: goroutine_step_def step_defs)
next
  case (Joined l)
  then show ?thesis using assms(2) that(1) by (cases c) (auto simp: goroutine_step_def step_defs)
qed (use assms that(1) in \<open>auto simp: goroutine_step_def step_defs split: option.splits if_splits\<close>)

lemma flights_ok_landing:
  assumes "flights_ok G flying cs s" and "t < length cs"
  shows "(\<exists>v e. pc_at s t = Published v e) \<longrightarrow> flying (sh_group (sy_shared s)) (key_of (cs ! t)) = Some t"
  using assms unfolding flights_ok_def flights_inv_def by auto

lemma flights_ok_step:
  assumes con: "group_contract G flying" and ok: "flights_ok G flying cs s" and step: "sys_step G (t, r) s = Some s'"
  shows "flights_ok G flying cs s'"
proof -
  note inv = ok [unfolded flights_ok_def, THEN conjunct2]
  from step obtain p' where t: "t < length cs"
    and g: "goroutine_step G t r (cs ! t) (pc_at s t) (sy_shared s) = Some (p', sy_shared s')"
    and s': "pc_at s' = (pc_at s)(t := p')" "map fst (sy_threads s') = cs"
    by (rule sys_step_view) (use ok in \<open>simp add: flights_ok_def\<close>)
  from con g flights_ok_landing [OF ok t] have "flights_inv (length cs) (\<lambda>i. key_of (cs ! i)) ((pc_at s)(t := p'))
      (flying (sh_group (sy_shared s'))) (fg_answer G (sh_group (sy_shared s')))"
  proof (cases rule: step_flights)
    case quiet
    then show ?thesis using flights_inv_quiet [OF inv t] by simp
  next
    case leads
    then show ?thesis using flights_inv_leads [OF inv t] by simp
  next
    case (joins l)
    then show ?thesis using flights_inv_joins [OF inv t] by simp
  next
    case (lands v e)
    then show ?thesis using flights_inv_lands [OF inv t] by simp
  qed
  then show ?thesis using s' by (simp add: flights_ok_def)
qed

lemma start_calls_view [simp]: "map fst (sy_threads (start_calls G cs)) = cs"
  by (induction cs) (simp_all add: start_calls_def)

lemma pc_at_start [simp]: "i < length cs \<Longrightarrow> pc_at (start_calls G cs) i = Begin"
  by (simp add: start_calls_def pc_at_def)

lemma start_shared [simp]:
  "sh_group (sy_shared (start_calls G cs)) = fg_new G"
  "sh_data (sy_shared (start_calls G cs)) = Map.empty" "sh_fetches (sy_shared (start_calls G cs)) = []"
  by (simp_all add: start_calls_def)

lemma flights_ok_start: "group_contract G flying \<Longrightarrow> flights_ok G flying cs (start_calls G cs)"
  using group_new [of G flying] by (auto simp: flights_ok_def flights_inv_def)

lemma reachable_flights: "group_contract G flying \<Longrightarrow> reachable_from G cs s \<Longrightarrow> flights_ok G flying cs s"
  by (rule reachable_invariant [where P = "flights_ok G flying cs", OF _ flights_ok_start])
    (auto intro: flights_ok_step)

section \<open>Undisturbed calls\<close>

fun finished :: "pc \<Rightarrow> bool" where
  "finished (Returned v e) = True"
| "finished Ended = True"
| "finished Crashed = True"
| "finished _ = False"

definition cache_of :: "'g shared \<Rightarrow> cache" where
  "cache_of sh = (\<lambda>k. map_option (sh_heap sh) (sh_data sh k))"

definition addresses_ok :: "'g shared \<Rightarrow> bool" where
  \<comment> \<open>stored entries are allocated, and no two keys share one\<close>
  "addresses_ok sh \<longleftrightarrow>
     (\<forall>k a. sh_data sh k = Some a \<longrightarrow> a < sh_next sh) \<and>
     (\<forall>k k' a. sh_data sh k = Some a \<and> sh_data sh k' = Some a \<longrightarrow> k = k')"

fun alone :: "'g flight_group \<Rightarrow> nat \<Rightarrow> nat \<Rightarrow> iface \<times> go_error \<Rightarrow> call \<Rightarrow> pc \<times> 'g shared \<Rightarrow> pc \<times> 'g shared" where
  \<comment> \<open>at most \<open>n\<close> steps of goroutine \<open>t\<close> with no other in between\<close>
  "alone G 0 t r c (p, sh) = (p, sh)"
| "alone G (Suc n) t r c (p, sh) =
     (case goroutine_step G t r c p sh of None \<Rightarrow> (p, sh) | Some x \<Rightarrow> alone G n t r c x)"

lemma cache_of_publish:
  assumes "addresses_ok sh"
  shows "cache_of (publish k e sh) = (cache_of sh)(k \<mapsto> e)"
proof
  fix x
  show "cache_of (publish k e sh) x = ((cache_of sh)(k \<mapsto> e)) x"
    using assms by (cases "sh_data sh x") (auto simp: cache_of_def publish_def addresses_ok_def)
qed

lemma cache_of_upd:
  assumes "addresses_ok sh" and "sh_data sh k = Some a"
  shows "cache_of (upd_entry a f sh) = (cache_of sh)(k \<mapsto> f (sh_heap sh a))"
proof
  fix x
  show "cache_of (upd_entry a f sh) x = ((cache_of sh)(k \<mapsto> f (sh_heap sh a))) x"
    using assms by (cases "sh_data sh x") (auto simp: cache_of_def upd_entry_def addresses_ok_def)
qed

lemma cache_of_frame [simp]:
  "cache_of (sh\<lparr>sh_group := g\<rparr>) = cache_of sh"
  "cache_of (log_fetch k r sh) = cache_of sh" "cache_of (sh\<lparr>sh_data := (sh_data sh)(k := None)\<rparr>) = (cache_of sh)(k := None)"
  by (auto simp: cache_of_def log_fetch_def)

lemma addresses_ok_frame [simp]:
  "addresses_ok (sh\<lparr>sh_group := q\<rparr>) = addresses_ok sh" "addresses_ok (log_fetch k r sh) = addresses_ok sh"
  "addresses_ok (upd_entry a g sh) = addresses_ok sh"
  by (simp_all add: addresses_ok_def log_fetch_def upd_entry_def)

lemma frame_simps [simp]:
  "sh_data (upd_entry a f sh) = sh_data sh" "sh_heap (upd_entry a f sh) = (sh_heap sh)(a := f (sh_heap sh a))"
  "sh_data (log_fetch k r sh) = sh_data sh" "sh_heap (log_fetch k r sh) = sh_heap sh"
  "sh_group (log_fetch k r sh) = sh_group sh"
  by (simp_all add: upd_entry_def log_fetch_def)

lemma cache_of_at: "sh_data sh k = Some a \<Longrightarrow> cache_of sh k = Some (sh_heap sh a)"
  "sh_data sh k = None \<Longrightarrow> cache_of sh k = None"
  by (simp_all add: cache_of_def)

definition atomic_call :: "Options \<Rightarrow> iface \<times> go_error \<Rightarrow> call \<Rightarrow> cache \<Rightarrow> ((iface \<times> go_error) option \<times> cache) option" where
  \<comment> \<open>the call as one step of \<open>AsyncCache\<close>\<close>
  "atomic_call opt r c d =
     (case c of
        CGet k \<Rightarrow> Some (apfst Some (ac_Get (\<lambda>_. r) k d))
      | CGetOrSet k v \<Rightarrow> Some (apfst (\<lambda>x. Some (x, None)) (GetOrSet (\<lambda>_. r) k v d))
      | CSetDefault k v \<Rightarrow> Some (None, snd (SetDefault k v d))
      | CRefresh k \<Rightarrow> map_option (\<lambda>x. (None, snd x)) (refresh opt (\<lambda>_. r) [k] d)
      | CExpire k \<Rightarrow> Some (None, snd (expire opt [k] d))
      | CDelete k \<Rightarrow> Some (None, snd (DeleteIf opt (\<lambda>x. x = k) [k] d)))"

fun returned :: "pc \<Rightarrow> (iface \<times> go_error) option" where
  "returned (Returned v err) = Some (v, err)"
| "returned _ = None"

lemma alone_refresh:
  assumes "addresses_ok sh"
  shows "case alone G 5 t r (CRefresh k) (Begin, sh) of (p, sh') \<Rightarrow>
    finished p \<and>
    atomic_call opt r (CRefresh k) (cache_of sh) = (if p = Crashed then None else Some (returned p, cache_of sh'))"
proof (cases "sh_data sh k")
  case None
  then show ?thesis
    by (simp add: eval_nat_numeral goroutine_step_def begin_step_def atomic_call_def cache_of_at)
next
  case (Some a)
  obtain v e where r: "r = (v, e)" by (cases r)
  show ?thesis
  proof (cases e)
    case None
    then show ?thesis using assms Some r
      by (cases v)
        (auto simp: eval_nat_numeral goroutine_step_def begin_step_def store_value_def atomic_call_def refresh_entry_def
          entry_Store_def cache_of_at cache_of_upd split: option.splits)
  next
    case e: (Some m)
    then show ?thesis using assms Some r
      by (auto simp: eval_nat_numeral goroutine_step_def begin_step_def atomic_call_def refresh_entry_def
          cache_of_at cache_of_upd fun_upd_idem)
  qed
qed

lemmas alone_defs = goroutine_step_def begin_step_def hit_step_def touched_step_def flight_result_def default_of_def
  atomic_call_def get_defs SetDefault_keeps cache_of_at cache_of_upd cache_of_publish entry_Store_fresh Touch_def

text \<open>
  Undisturbed by other goroutines, every call whose group lets it run the function itself has within
  five steps exactly the effect and the result of the atomic operation of \<open>AsyncCache\<close>, and it crashes
  exactly where that panics: the link between the two descriptions of the same code.
\<close>

lemma alone_atomic:
  assumes "addresses_ok sh" and "fst (fg_enter G t (key_of c) (sh_group sh)) = None"
  shows "case alone G 5 t r c (Begin, sh) of (p, sh') \<Rightarrow>
    finished p \<and> atomic_call opt r c (cache_of sh) = (if p = Crashed then None else Some (returned p, cache_of sh'))"
proof (cases c)
  case (CRefresh k)
  then show ?thesis using alone_refresh [OF assms(1)] by simp
qed (use assms in \<open>cases "sh_data sh (key_of c)"; cases "fg_enter G t (key_of c) (sh_group sh)";
      auto simp: eval_nat_numeral alone_defs split: prod.splits\<close>)+

end
