(* ===== verification/CacheRaces.thy ===== *)
theory CacheRaces
  imports CacheFlight
begin

text \<open>
  What the interleaved calls of \<open>CacheFlight\<close> return: coherent answers as long as no refresh runs, torn
  ones beside a refresh, a good value overwritten by a late flight, and why \<open>GetOrSet\<close> is not torn.
\<close>

section \<open>Coherent answers\<close>

definition pair_ok :: "call list \<Rightarrow> (string \<times> iface \<times> go_error) list \<Rightarrow> string \<Rightarrow> iface \<Rightarrow> go_error \<Rightarrow> bool" where
  \<comment> \<open>an answer of the \<open>Fetcher\<close> for the key, or a default of a call of the key\<close>
  "pair_ok cs fs k v err \<longleftrightarrow>
     (k, v, err) \<in> set fs \<or> err = None \<and> (CGetOrSet k v \<in> set cs \<or> CSetDefault k v \<in> set cs)"

definition entry_at :: "call list \<Rightarrow> 'g shared \<Rightarrow> string \<Rightarrow> nat \<Rightarrow> bool" where
  "entry_at cs sh k a \<longleftrightarrow>
     a < sh_next sh \<and> pair_ok cs (sh_fetches sh) k (en_val (sh_heap sh a)) (Error_Load (en_err (sh_heap sh a)))"

definition coherent_pc :: "call list \<Rightarrow> 'g shared \<Rightarrow> call \<Rightarrow> pc \<Rightarrow> bool" where
  "coherent_pc cs sh c p \<longleftrightarrow>
     (case p of
        Hit a \<Rightarrow> entry_at cs sh (key_of c) a
      | Usable a \<Rightarrow> entry_at cs sh (key_of c) a
      | Touched a \<Rightarrow> entry_at cs sh (key_of c) a
      | HalfRead a v \<Rightarrow> entry_at cs sh (key_of c) a \<and> v = en_val (sh_heap sh a)
      | ExpireAt a \<Rightarrow> entry_at cs sh (key_of c) a
      | Failing \<Rightarrow> (\<exists>k d. c = CGetOrSet k d)
      | FlightFetched v err \<Rightarrow> (key_of c, v, err) \<in> set (sh_fetches sh)
      | Published v err \<Rightarrow> pair_ok cs (sh_fetches sh) (key_of c) v err
      | Returned v err \<Rightarrow> (\<forall>k. c = CGet k \<longrightarrow> pair_ok cs (sh_fetches sh) k v err)
      | RefreshAt a \<Rightarrow> False | RefreshFailed a e \<Rightarrow> False | RefreshSetsErr a e \<Rightarrow> False
      | RefreshGot a v \<Rightarrow> False | RefreshStored a \<Rightarrow> False
      | _ \<Rightarrow> True)"

definition coherent :: "'g flight_group \<Rightarrow> call list \<Rightarrow> 'g system \<Rightarrow> bool" where
  "coherent G cs s \<longleftrightarrow>
     (\<forall>k a. sh_data (sy_shared s) k = Some a \<longrightarrow> entry_at cs (sy_shared s) k a) \<and>
     (\<forall>i<length cs. coherent_pc cs (sy_shared s) (cs ! i) (pc_at s i)) \<and>
     (\<forall>l v err. fg_answer G (sh_group (sy_shared s)) l = Some (v, err) \<longrightarrow>
        pair_ok cs (sh_fetches (sy_shared s)) (key_of (cs ! l)) v err)"

definition grows :: "'g shared \<Rightarrow> 'g shared \<Rightarrow> bool" where
  \<comment> \<open>what the steps of the other goroutines leave a goroutine to rely on\<close>
  "grows sh sh' \<longleftrightarrow>
     sh_next sh \<le> sh_next sh' \<and> set (sh_fetches sh) \<subseteq> set (sh_fetches sh') \<and>
     (\<forall>a<sh_next sh. en_val (sh_heap sh' a) = en_val (sh_heap sh a) \<and> en_err (sh_heap sh' a) = en_err (sh_heap sh a))"

lemma pair_ok_mono: "pair_ok cs fs k v err \<Longrightarrow> set fs \<subseteq> set fs' \<Longrightarrow> pair_ok cs fs' k v err"
  by (auto simp: pair_ok_def)

lemma entry_at_grows: "grows sh sh' \<Longrightarrow> entry_at cs sh k a \<Longrightarrow> entry_at cs sh' k a"
  by (auto simp: grows_def entry_at_def intro: pair_ok_mono)

lemma coherent_pc_grows: "grows sh sh' \<Longrightarrow> coherent_pc cs sh c p \<Longrightarrow> coherent_pc cs sh' c p"
  by (cases p) (auto simp: coherent_pc_def entry_at_grows, auto simp: grows_def entry_at_def intro: pair_ok_mono)

fun refreshing :: "pc \<Rightarrow> bool" where
  "refreshing (RefreshAt a) = True"
| "refreshing (RefreshFailed a e) = True"
| "refreshing (RefreshSetsErr a e) = True"
| "refreshing (RefreshGot a v) = True"
| "refreshing (RefreshStored a) = True"
| "refreshing _ = False"

lemma goroutine_step_grows:
  "goroutine_step G t r c p sh = Some (p', sh') \<Longrightarrow> \<not> refreshing p \<Longrightarrow> grows sh sh'"
  by (cases p; cases c)
    (auto simp: goroutine_step_def step_defs grows_def Touch_def split: prod.splits option.splits if_splits)

definition data_ok :: "call list \<Rightarrow> 'g shared \<Rightarrow> bool" where
  "data_ok cs sh \<longleftrightarrow> (\<forall>k a. sh_data sh k = Some a \<longrightarrow> entry_at cs sh k a)"

lemma entry_at_publish: "pair_ok cs (sh_fetches sh) k v err \<Longrightarrow> entry_at cs (publish k' (fresh v err) sh) k (sh_next sh)"
  by (simp add: entry_at_def publish_def fresh_def Error_Load_def)

lemma data_ok_grows:
  "data_ok cs sh \<Longrightarrow> grows sh sh' \<Longrightarrow>
   (\<And>k a. sh_data sh' k = Some a \<Longrightarrow> sh_data sh k = Some a \<or> entry_at cs sh' k a) \<Longrightarrow> data_ok cs sh'"
  unfolding data_ok_def by (metis entry_at_grows)

lemma step_data_ok:
  assumes g: "goroutine_step G t r c p sh = Some (p', sh')" and gr: "grows sh sh'"
    and ok: "data_ok cs sh" "coherent_pc cs sh c p" and c: "c \<in> set cs"
  shows "data_ok cs sh'"
proof (rule data_ok_grows [OF ok(1) gr])
  fix k a assume k: "sh_data sh' k = Some a"
  show "sh_data sh k = Some a \<or> entry_at cs sh' k a"
  proof (cases p)
    case Begin
    show ?thesis
    proof (cases c)
      case (CSetDefault k' v)
      have "pair_ok cs (sh_fetches sh) k' v None" using c CSetDefault by (auto simp: pair_ok_def)
      then show ?thesis using g k Begin CSetDefault entry_at_publish [of cs sh k' v None k']
        by (auto simp: goroutine_step_def begin_step_def publish_def split: option.splits if_splits)
    qed (use g k Begin in \<open>auto simp: goroutine_step_def begin_step_def split: option.splits if_splits\<close>)
  next
    case Failing
    then obtain k' d where "c = CGetOrSet k' d" using ok(2) by (auto simp: coherent_pc_def)
    moreover from this c have "pair_ok cs (sh_fetches sh) k' d None" by (auto simp: pair_ok_def)
    ultimately show ?thesis using g k Failing entry_at_publish [of cs sh k' d None k']
      by (auto simp: goroutine_step_def publish_def default_of_def split: if_splits)
  next
    case (FlightFetched v err)
    obtain v' err' where r: "flight_result c v err = (v', err')" by force
    then have "pair_ok cs (sh_fetches sh) (key_of c) v' err'"
      using ok(2) c FlightFetched
      by (cases c) (auto simp: coherent_pc_def flight_result_def pair_ok_def split: if_splits)
    then show ?thesis using g k FlightFetched r entry_at_publish [of cs sh "key_of c" v' err' "key_of c"]
      by (auto simp: goroutine_step_def publish_def split: if_splits)
  qed (use g k in \<open>auto simp: goroutine_step_def hit_step_def touched_step_def store_value_def upd_entry_def log_fetch_def
      split: prod.splits option.splits if_splits call.splits\<close>)
qed

lemma step_coherent_pc:
  assumes g: "goroutine_step G t r c p sh = Some (p', sh')" and gr: "grows sh sh'"
    and ok: "data_ok cs sh" "coherent_pc cs sh c p" and c: "c \<in> set cs" "\<And>k. c \<noteq> CRefresh k"
    and res: "\<And>l v err. p = Joined l \<Longrightarrow> fg_answer G (sh_group sh) l = Some (v, err) \<Longrightarrow> pair_ok cs (sh_fetches sh) (key_of c) v err"
  shows "coherent_pc cs sh' c p'"
proof (cases p)
  case Begin
  then show ?thesis using g ok c(2)
    by (cases c) (auto simp: goroutine_step_def begin_step_def coherent_pc_def data_ok_def split: option.splits)
next
  case (Hit a)
  then have "entry_at cs sh (key_of c) a" using ok(2) by (simp add: coherent_pc_def)
  then have "entry_at cs sh' (key_of c) a" by (rule entry_at_grows [OF gr])
  then show ?thesis using g Hit c(2)
    by (cases c) (auto simp: goroutine_step_def hit_step_def coherent_pc_def)
next
  case (Usable a)
  then have "entry_at cs sh (key_of c) a" using ok(2) by (simp add: coherent_pc_def)
  then have "entry_at cs sh' (key_of c) a" by (rule entry_at_grows [OF gr])
  then show ?thesis using g Usable by (auto simp: goroutine_step_def coherent_pc_def)
next
  case (FlightFetched v err)
  then show ?thesis using g ok(2) c
    by (cases c) (auto simp: goroutine_step_def flight_result_def coherent_pc_def pair_ok_def publish_def split: if_splits)
next
  case (Joined l)
  then show ?thesis using g res
    by (cases c) (auto simp: goroutine_step_def joined_result_def coherent_pc_def)
qed (use g ok(2) c(2) in \<open>auto simp: goroutine_step_def touched_step_def coherent_pc_def log_fetch_def entry_at_def
      split: prod.splits option.splits if_splits call.splits\<close>)

lemma coherent_step:
  assumes con: "group_contract G flying" and ok: "flights_ok G flying cs s" "coherent G cs s" and no: "\<forall>k. CRefresh k \<notin> set cs"
    and step: "sys_step G (t, r) s = Some s'"
  shows "coherent G cs s'"
proof -
  from step obtain p' where t: "t < length cs"
    and g: "goroutine_step G t r (cs ! t) (pc_at s t) (sy_shared s) = Some (p', sy_shared s')"
    and s': "pc_at s' = (pc_at s)(t := p')" "map fst (sy_threads s') = cs"
    by (rule sys_step_view) (use ok in \<open>simp add: flights_ok_def\<close>)
  have c: "cs ! t \<in> set cs" "\<And>k. cs ! t \<noteq> CRefresh k" using t no by (metis nth_mem)+
  have pc: "coherent_pc cs (sy_shared s) (cs ! t) (pc_at s t)" and data: "data_ok cs (sy_shared s)"
    using ok(2) t by (auto simp: coherent_def data_ok_def)
  then have gr: "grows (sy_shared s) (sy_shared s')"
    by (intro goroutine_step_grows [OF g]) (cases "pc_at s t"; simp add: coherent_pc_def)
  note results = ok(2) [unfolded coherent_def, THEN conjunct2, THEN conjunct2, rule_format]
  have joined: "pair_ok cs (sh_fetches (sy_shared s)) (key_of (cs ! t)) v err"
    if "pc_at s t = Joined l" "fg_answer G (sh_group (sy_shared s)) l = Some (v, err)" for l v err
  proof -
    have "key_of (cs ! l) = key_of (cs ! t)"
      using ok(1) t that(1) unfolding flights_ok_def flights_inv_def by blast
    then show ?thesis using results [OF that(2)] by simp
  qed
  have fs: "set (sh_fetches (sy_shared s)) \<subseteq> set (sh_fetches (sy_shared s'))" using gr by (simp add: grows_def)
  have "coherent_pc cs (sy_shared s') (cs ! i) (pc_at s' i)" if "i < length cs" for i
  proof (cases "i = t")
    case True
    then show ?thesis using step_coherent_pc [OF g gr data pc c joined] s' by simp
  next
    case False
    then show ?thesis using ok(2) that s' coherent_pc_grows [OF gr] by (simp add: coherent_def)
  qed
  moreover have "pair_ok cs (sh_fetches (sy_shared s')) (key_of (cs ! l)) v err"
    if res: "fg_answer G (sh_group (sy_shared s')) l = Some (v, err)" for l v err
    using con g flights_ok_landing [OF ok(1) t]
  proof (cases rule: step_flights)
    case (lands v' e')
    show ?thesis
    proof (cases "l = t")
      case True
      then show ?thesis using lands res pc pair_ok_mono [OF _ fs] by (auto simp: coherent_pc_def)
    next
      case False
      then show ?thesis using lands res results pair_ok_mono [OF _ fs] by auto
    qed
  qed (use res results pair_ok_mono [OF _ fs] in auto)
  ultimately show ?thesis using step_data_ok [OF g gr data pc c(1)] by (simp add: coherent_def data_ok_def)
qed

lemma reachable_coherent:
  assumes con: "group_contract G flying" and "reachable_from G cs s" and no: "\<forall>k. CRefresh k \<notin> set cs"
  shows "coherent G cs s"
proof -
  have start: "coherent G cs (start_calls G cs)" using group_new [OF con] by (auto simp: coherent_def coherent_pc_def)
  have "flights_ok G flying cs s \<and> coherent G cs s"
    by (rule reachable_invariant [where P = "\<lambda>s. flights_ok G flying cs s \<and> coherent G cs s", OF assms(2)])
      (auto simp: flights_ok_start [OF con] start intro: flights_ok_step [OF con] coherent_step [OF con _ _ no])
  then show ?thesis ..
qed

text \<open>
  C7. As long as no refresh runs, every \<open>Get\<close> returns a pair that belongs together: an answer that the
  \<open>Fetcher\<close> gave for its key, value and error, or a default that a call of its key brought, without an
  error. This holds for every number and order of calls that set, expire and delete keys, and for
  every \<open>singleflight.Group\<close> that does what its documentation says.
\<close>

theorem get_coherent:
  assumes "group_contract G flying" and "reachable_from G cs s" and "\<forall>k. CRefresh k \<notin> set cs"
    and "i < length cs" and "cs ! i = CGet k" and "pc_at s i = Returned v err"
  shows "(k, v, err) \<in> set (sh_fetches (sy_shared s)) \<or>
    err = None \<and> (CGetOrSet k v \<in> set cs \<or> CSetDefault k v \<in> set cs)"
  using reachable_coherent [OF assms(1-3)] assms(4-6) by (fastforce simp: coherent_def coherent_pc_def pair_ok_def)

lemmas run_simps = start_calls_def sys_step_def goroutine_step_def step_defs fresh_def Touch_def Error_Load_def
  Error_Store_def value_Store_def pc_at_def eval_nat_numeral

theorem get_coherent_witness:
  "\<exists>s. reachable_from sample_group [CGet ''k''] s \<and> pc_at s 0 = Returned (Some (''int'', 7)) None \<and>
     (''k'', Some (''int'', 7), None) \<in> set (sh_fetches (sy_shared s))"
proof -
  obtain s where s: "run_schedule sample_group (replicate 5 (0, Some (''int'', 7), None))
      (start_calls sample_group [CGet ''k'']) = Some s"
    and p: "pc_at s 0 = Returned (Some (''int'', 7)) None"
    by (simp add: run_simps sample_group_def)
  have r: "reachable_from sample_group [CGet ''k''] s" using s unfolding reachable_from_def by blast
  have "(''k'', Some (''int'', 7), None) \<in> set (sh_fetches (sy_shared s))"
    using get_coherent [OF sample_group_contract r _ _ _ p] by simp
  with r p show ?thesis by (intro exI [of _ s] conjI)
qed

section \<open>Refreshes\<close>

definition torn_schedule :: "string \<Rightarrow> string \<times> int \<Rightarrow> tick list" where
  "torn_schedule e x =
     [(0, None, Some e), (0, None, Some e), (0, None, Some e), (0, None, Some e), (0, None, Some e),
      (1, None, None), (1, None, None), (1, None, None),
      (2, Some x, None), (2, Some x, None), (2, Some x, None), (2, Some x, None),
      (1, None, None)]"

text \<open>
  C30. A \<open>Get\<close> reads the value of an entry before its error, and \<open>refresh\<close> writes them in the same order. So
  while a refresh repairs an entry whose first fetch failed, \<open>Get\<close> can return nil without an error, an
  answer that neither the \<open>Fetcher\<close> nor any call ever gave. The documented \<open>singleflight.Group\<close> does not
  prevent it.
\<close>

theorem get_torn:
  assumes "group_contract G flying"
  shows "\<exists>s. run_schedule G (torn_schedule e x) (start_calls G [CGet k, CGet k, CRefresh k]) = Some s \<and>
     pc_at s 0 = Returned None (Some e) \<and> pc_at s 1 = Returned None None \<and>
     sh_fetches (sy_shared s) = [(k, Some x, None), (k, None, Some e)]"
proof -
  obtain l g where en: "fg_enter G 0 k (fg_new G) = (l, g)" by force
  then have "fg_enter G 0 k (fg_new G) = (None, g)"
    using group_enter [OF assms en] group_new [OF assms] by simp
  then show ?thesis
    by (simp add: torn_schedule_def start_calls_def sys_step_def goroutine_step_def step_defs fresh_def Touch_def
        Error_Load_def Error_Store_def value_Store_def pc_at_def)
qed

theorem get_torn_witness:
  "\<exists>s. run_schedule sample_group (torn_schedule ''down'' (''int'', 7))
       (start_calls sample_group [CGet ''k'', CGet ''k'', CRefresh ''k'']) = Some s \<and> pc_at s 1 = Returned None None"
  using get_torn [OF sample_group_contract] by blast

definition late_schedule :: "string \<Rightarrow> string \<times> int \<Rightarrow> tick list" where
  "late_schedule e x =
     (1, None, None) # replicate 5 (0, Some x, None) @ replicate 4 (1, None, Some e) @ replicate 4 (2, None, None)"

text \<open>
  A \<open>Get\<close> does not look at the map again once it is inside \<open>singleflight\<close>. If it missed the key before
  another \<open>Get\<close> cached a good value, but joins too late, it fetches the key again and stores what it
  gets: a failure of this second fetch replaces the good value, and every later \<open>Get\<close> returns the error,
  although no entry was refreshed, deleted or expired.
\<close>

theorem late_flight_overwrites:
  assumes "group_contract G flying"
  shows "\<exists>s. run_schedule G (late_schedule e x) (start_calls G [CGet k, CGet k, CGet k]) = Some s \<and>
     pc_at s 0 = Returned (Some x) None \<and> pc_at s 1 = Returned None (Some e) \<and> pc_at s 2 = Returned None (Some e)"
proof -
  obtain l g where en: "fg_enter G 0 k (fg_new G) = (l, g)" by force
  let ?land = "fg_land G 0 k (Some x, None) g"
  obtain l' g' where en': "fg_enter G 1 k ?land = (l', g')" by force
  have l: "l = None" and "flying g k = Some 0"
    using group_enter [OF assms en] group_new [OF assms] by simp_all
  then have "l' = None" using group_land [OF assms] group_enter [OF assms en'] by simp
  then show ?thesis using en en' l
    by (simp add: late_schedule_def start_calls_def sys_step_def goroutine_step_def step_defs fresh_def Touch_def
      Error_Load_def Error_Store_def value_Store_def pc_at_def eval_nat_numeral)
qed

section \<open>\<open>GetOrSet\<close> reads in the right order\<close>

definition usable_entry :: "entry \<Rightarrow> bool" where
  "usable_entry e \<longleftrightarrow> (Error_Load (en_err e) = None \<longrightarrow> en_val e \<noteq> None)"

definition flight_value :: "call \<Rightarrow> iface \<Rightarrow> go_error \<Rightarrow> bool" where
  \<comment> \<open>what a flight that the call leads may return\<close>
  "flight_value c v err =
     (case c of CGet k \<Rightarrow> True | CGetOrSet k d \<Rightarrow> v \<noteq> None \<and> err = None | _ \<Rightarrow> False)"

definition fetches :: "call \<Rightarrow> bool" where
  "fetches c = (case c of CGet k \<Rightarrow> True | CGetOrSet k d \<Rightarrow> True | _ \<Rightarrow> False)"

definition filled_pc :: "'g shared \<Rightarrow> call \<Rightarrow> pc \<Rightarrow> bool" where
  "filled_pc sh c p \<longleftrightarrow>
     (case p of
        Hit a \<Rightarrow> a < sh_next sh
      | Usable a \<Rightarrow> a < sh_next sh \<and> en_val (sh_heap sh a) \<noteq> None
      | Touched a \<Rightarrow> a < sh_next sh \<and> ((\<exists>k d. c = CGetOrSet k d) \<longrightarrow> en_val (sh_heap sh a) \<noteq> None)
      | Failing \<Rightarrow> (\<exists>k d. c = CGetOrSet k d)
      | Missed \<Rightarrow> fetches c
      | Leads \<Rightarrow> fetches c
      | FlightFetched v err \<Rightarrow> fetches c \<and> (err = None \<longrightarrow> v \<noteq> None)
      | Published v err \<Rightarrow> flight_value c v err
      | HalfRead a v \<Rightarrow> (\<forall>k d. c \<noteq> CGetOrSet k d)
      | RefreshAt a \<Rightarrow> a < sh_next sh
      | RefreshFailed a e \<Rightarrow> a < sh_next sh
      | RefreshSetsErr a e \<Rightarrow> a < sh_next sh
      | RefreshGot a v \<Rightarrow> a < sh_next sh \<and> v \<noteq> None
      | RefreshStored a \<Rightarrow> a < sh_next sh \<and> en_val (sh_heap sh a) \<noteq> None
      | ExpireAt a \<Rightarrow> a < sh_next sh
      | _ \<Rightarrow> True)"

definition heap_filled :: "'g shared \<Rightarrow> bool" where
  "heap_filled sh \<longleftrightarrow> (\<forall>a<sh_next sh. usable_entry (sh_heap sh a)) \<and> (\<forall>k a. sh_data sh k = Some a \<longrightarrow> a < sh_next sh)"

definition keeps_values :: "'g shared \<Rightarrow> 'g shared \<Rightarrow> bool" where
  "keeps_values sh sh' \<longleftrightarrow>
     sh_next sh \<le> sh_next sh' \<and> (\<forall>a<sh_next sh. en_val (sh_heap sh a) \<noteq> None \<longrightarrow> en_val (sh_heap sh' a) \<noteq> None)"

definition good_answer :: "iface \<times> go_error \<Rightarrow> bool" where
  "good_answer r \<longleftrightarrow> (snd r = None \<longrightarrow> fst r \<noteq> None)"

definition good_call :: "call \<Rightarrow> bool" where
  "good_call c \<longleftrightarrow> (case c of CGetOrSet k d \<Rightarrow> d \<noteq> None | CSetDefault k v \<Rightarrow> v \<noteq> None | _ \<Rightarrow> True)"

lemma filled_pc_keeps: "keeps_values sh sh' \<Longrightarrow> filled_pc sh c p \<Longrightarrow> filled_pc sh' c p"
  by (cases p) (auto simp: filled_pc_def keeps_values_def)

lemma value_Store_Some: "value_Store x v = Some v' \<Longrightarrow> v' = Some x"
  by (auto simp: value_Store_def split: option.splits if_splits)

lemma step_keeps_values:
  assumes "goroutine_step G t r c p sh = Some (p', sh')" and "filled_pc sh c p"
  shows "keeps_values sh sh'"
  using assms
  by (cases p; cases c)
    (auto simp: goroutine_step_def step_defs keeps_values_def filled_pc_def Touch_def
      dest: value_Store_Some split: prod.splits option.splits if_splits)

lemma usable_entry_simps [simp]:
  "usable_entry (Touch e) = usable_entry e" "usable_entry (e\<lparr>en_expire := n\<rparr>) = usable_entry e"
  "usable_entry (e\<lparr>en_err := Error_Store (Some m) x\<rparr>)"
  "usable_entry (e\<lparr>en_val := Some y\<rparr>)"
  "en_val e \<noteq> None \<Longrightarrow> usable_entry (e\<lparr>en_err := x\<rparr>)"
  "usable_entry (fresh v err) = good_answer (v, err)"
  by (simp_all add: usable_entry_def Touch_def Error_Load_def Error_Store_def fresh_def good_answer_def)

lemma heap_filled_publish:
  "heap_filled sh \<Longrightarrow> usable_entry e \<Longrightarrow> heap_filled (publish k e sh)"
  by (auto simp: heap_filled_def publish_def less_Suc_eq)

lemma heap_filled_upd:
  "heap_filled sh \<Longrightarrow> usable_entry (f (sh_heap sh a)) \<Longrightarrow> heap_filled (upd_entry a f sh)"
  by (auto simp: heap_filled_def upd_entry_def)

lemma heap_filled_upd_Touch: "heap_filled sh \<Longrightarrow> a < sh_next sh \<Longrightarrow> heap_filled (upd_entry a Touch sh)"
  by (rule heap_filled_upd) (auto simp: heap_filled_def)

lemma heap_filled_frame [simp]:
  "heap_filled (sh\<lparr>sh_group := q\<rparr>) = heap_filled sh"
  "heap_filled (log_fetch k r sh) = heap_filled sh"
  by (simp_all add: heap_filled_def log_fetch_def)

lemma heap_filled_delete: "heap_filled sh \<Longrightarrow> heap_filled (sh\<lparr>sh_data := (sh_data sh)(k := None)\<rparr>)"
  by (auto simp: heap_filled_def)

lemma heap_filled_at: "heap_filled sh \<Longrightarrow> a < sh_next sh \<Longrightarrow> usable_entry (sh_heap sh a)"
  by (simp add: heap_filled_def)

lemma step_heap_filled:
  assumes g: "goroutine_step G t r c p sh = Some (p', sh')" and p: "filled_pc sh c p" and h: "heap_filled sh"
    and good: "good_answer r" "good_call c"
  shows "heap_filled sh'"
proof (cases p)
  case Begin
  then show ?thesis using g h good
    by (cases c) (auto simp: goroutine_step_def begin_step_def good_call_def good_answer_def
        intro: heap_filled_publish heap_filled_delete split: option.splits)
next
  case (Hit a)
  then show ?thesis using g h p
    by (cases c) (auto simp: goroutine_step_def hit_step_def filled_pc_def intro: heap_filled_upd_Touch)
next
  case Failing
  then obtain k d where c: "c = CGetOrSet k d" using p by (auto simp: filled_pc_def)
  have "heap_filled (publish k (fresh d None) sh)"
    using good c by (intro heap_filled_publish [OF h]) (simp add: good_answer_def good_call_def)
  then show ?thesis using g Failing c by (auto simp: goroutine_step_def default_of_def)
next
  case (FlightFetched v err)
  have "heap_filled (publish (key_of c) (fresh v' err') sh)" if "flight_result c v err = (v', err')" for v' err'
    using that p good FlightFetched
    by (intro heap_filled_publish [OF h])
      (cases c; auto simp: filled_pc_def flight_result_def good_answer_def good_call_def split: if_splits)
  then show ?thesis using g FlightFetched by (auto simp: goroutine_step_def split: prod.splits)
next
  case (RefreshGot a v)
  then obtain y where "v = Some y" using p by (auto simp: filled_pc_def)
  then show ?thesis using g h RefreshGot
    by (auto simp: goroutine_step_def store_value_def intro!: heap_filled_upd dest: value_Store_Some split: option.splits)
next
  case (ExpireAt a)
  then show ?thesis using g h p
    by (auto simp: goroutine_step_def filled_pc_def intro!: heap_filled_upd heap_filled_at split: if_splits)
qed (use g h p in \<open>auto simp: goroutine_step_def touched_step_def filled_pc_def
      intro: heap_filled_upd_Touch heap_filled_delete heap_filled_upd split: prod.splits option.splits if_splits call.splits\<close>)

lemma step_filled_pc:
  assumes g: "goroutine_step G t r c p sh = Some (p', sh')" and p: "filled_pc sh c p" and h: "heap_filled sh"
    and good: "good_answer r" "good_call c"
  shows "filled_pc sh' c p'"
proof (cases p)
  case Begin
  then show ?thesis using g h
    by (cases c) (auto simp: goroutine_step_def begin_step_def filled_pc_def heap_filled_def fetches_def split: option.splits)
next
  case (Hit a)
  then show ?thesis using g p heap_filled_at [OF h, of a]
    by (cases c) (auto simp: goroutine_step_def hit_step_def filled_pc_def upd_entry_def usable_entry_def split: if_splits)
next
  case (RefreshGot a v)
  then show ?thesis using g p
    by (auto simp: goroutine_step_def store_value_def filled_pc_def upd_entry_def dest: value_Store_Some split: option.splits)
next
  case (Usable a)
  then show ?thesis using g p by (auto simp: goroutine_step_def filled_pc_def upd_entry_def Touch_def)
next
  case (Joined l)
  then show ?thesis using g by (cases c) (auto simp: goroutine_step_def joined_result_def filled_pc_def)
next
  case (FlightFetched v err)
  then show ?thesis using g p good
    by (cases c) (auto simp: goroutine_step_def flight_result_def filled_pc_def flight_value_def fetches_def good_call_def
        split: if_splits)
qed (use g p good(1) in \<open>auto simp: goroutine_step_def touched_step_def joined_result_def filled_pc_def log_fetch_def good_answer_def
      split: option.splits if_splits call.splits prod.splits\<close>)

definition filled :: "'g flight_group \<Rightarrow> call list \<Rightarrow> 'g system \<Rightarrow> bool" where
  "filled G cs s \<longleftrightarrow>
     map fst (sy_threads s) = cs \<and> heap_filled (sy_shared s) \<and>
     (\<forall>i<length cs. filled_pc (sy_shared s) (cs ! i) (pc_at s i)) \<and>
     (\<forall>l v err. fg_answer G (sh_group (sy_shared s)) l = Some (v, err) \<longrightarrow> flight_value (cs ! l) v err)"

lemma filled_answer:
  "filled G cs s \<Longrightarrow> fg_answer G (sh_group (sy_shared s)) l = Some (v, err) \<Longrightarrow> flight_value (cs ! l) v err"
  unfolding filled_def by blast

lemma filled_step:
  assumes con: "group_contract G flying" and fl: "flights_ok G flying cs s" and ok: "filled G cs s"
    and good: "good_answer r" "list_all good_call cs" and step: "sys_step G (t, r) s = Some s'"
  shows "filled G cs s'"
proof -
  from step obtain p' where t: "t < length cs"
    and g: "goroutine_step G t r (cs ! t) (pc_at s t) (sy_shared s) = Some (p', sy_shared s')"
    and s': "pc_at s' = (pc_at s)(t := p')" "map fst (sy_threads s') = cs"
    by (rule sys_step_view) (use ok in \<open>simp add: filled_def\<close>)
  have p: "filled_pc (sy_shared s) (cs ! t) (pc_at s t)" and h: "heap_filled (sy_shared s)"
    using ok t by (simp_all add: filled_def)
  have c: "good_call (cs ! t)" using good(2) t by (simp add: list_all_length)
  have "filled_pc (sy_shared s') (cs ! i) (pc_at s' i)" if "i < length cs" for i
    using that ok s' step_filled_pc [OF g p h good(1) c] filled_pc_keeps [OF step_keeps_values [OF g p]]
    by (simp add: filled_def)
  moreover have "flight_value (cs ! l) v err"
    if res: "fg_answer G (sh_group (sy_shared s')) l = Some (v, err)" for l v err
    using con g flights_ok_landing [OF fl t]
  proof (cases rule: step_flights)
    case (lands v' e')
    then show ?thesis using res p filled_answer [OF ok] by (cases "l = t") (auto simp: filled_pc_def)
  qed (use res filled_answer [OF ok] in auto)
  ultimately show ?thesis using s' step_heap_filled [OF g p h good(1) c] by (simp add: filled_def)
qed

lemma filled_start: "group_contract G flying \<Longrightarrow> filled G cs (start_calls G cs)"
  using group_new [of G flying] by (simp add: filled_def filled_pc_def) (simp add: heap_filled_def start_calls_def)

lemma filled_run:
  "run_schedule G xs s = Some s' \<Longrightarrow> group_contract G flying \<Longrightarrow> list_all (\<lambda>x. good_answer (snd x)) xs \<Longrightarrow>
   list_all good_call cs \<Longrightarrow> flights_ok G flying cs s \<Longrightarrow> filled G cs s \<Longrightarrow> flights_ok G flying cs s' \<and> filled G cs s'"
proof (induction xs arbitrary: s)
  case (Cons x xs)
  then show ?case by (cases x) (auto split: bind_splits intro: filled_step flights_ok_step)
qed simp

text \<open>
  C8. \<open>GetOrSet\<close> reads the error before the value, so refreshes cannot tear its answer. As long as the
  \<open>Fetcher\<close> never answers nil without an error and no call of the cache brings a nil default, the step
  with which a \<open>GetOrSet\<close> returns gives a value that is not nil, on each of its paths (from a usable
  cached entry, in place of a cached error, from its own flight or from one it joined), whatever runs
  beside it; the one exception is a \<open>GetOrSet\<close> that joined the flight of a \<open>Get\<close>.
\<close>

theorem getorset_not_torn:
  assumes "group_contract G flying" and "run_schedule G xs (start_calls G cs) = Some s"
    and "list_all (\<lambda>x. good_answer (snd x)) xs" and "list_all good_call cs"
    and "i < length cs" and "cs ! i = CGetOrSet k d"
    and "sys_step G (i, r) s = Some s'" and "pc_at s' i = Returned v err"
    and "\<forall>l k'. pc_at s i = Joined l \<longrightarrow> cs ! l \<noteq> CGet k'"
  shows "v \<noteq> None \<and> err = None"
proof -
  have ok: "flights_ok G flying cs s" "filled G cs s"
    using filled_run [OF assms(2,1,3,4) flights_ok_start [OF assms(1)] filled_start [OF assms(1)]] by simp_all
  from assms(7) obtain p' where
    g: "goroutine_step G i r (cs ! i) (pc_at s i) (sy_shared s) = Some (p', sy_shared s')"
    and p': "pc_at s' = (pc_at s)(i := p')"
    by (rule sys_step_view) (use ok in \<open>simp add: filled_def\<close>)
  have pc: "filled_pc (sy_shared s) (CGetOrSet k d) (pc_at s i)" and c: "good_call (CGetOrSet k d)"
    using ok(2) assms(4-6) by (auto simp: filled_def list_all_length)
  have step: "goroutine_step G i r (CGetOrSet k d) (pc_at s i) (sy_shared s) = Some (Returned v err, sy_shared s')"
    using g p' assms(6,8) by simp
  show ?thesis
  proof (cases "pc_at s i")
    case (Joined l)
    then obtain x e where "fg_answer G (sh_group (sy_shared s)) l = Some (x, e)" "v = x" "err = None"
      using step by (auto simp: goroutine_step_def joined_result_def)
    moreover from this have "flight_value (cs ! l) x e" using filled_answer [OF ok(2)] by blast
    ultimately show ?thesis using assms(9) Joined by (auto simp: flight_value_def split: call.splits)
  qed (use step pc c in \<open>auto simp: goroutine_step_def step_defs filled_pc_def flight_value_def default_of_def good_call_def
      split: prod.splits option.splits if_splits\<close>)
qed

theorem getorset_not_torn_witness:
  "\<exists>s s' v. run_schedule sample_group ((0, None, Some ''down'') # replicate 3 (1, None, Some ''down''))
       (start_calls sample_group [CSetDefault ''k'' (Some (''int'', 7)), CGetOrSet ''k'' (Some (''int'', 8))]) = Some s \<and>
     sys_step sample_group (1, None, None) s = Some s' \<and> pc_at s' 1 = Returned v None \<and> v \<noteq> None"
proof -
  let ?cs = "[CSetDefault ''k'' (Some (''int'', 7)), CGetOrSet ''k'' (Some (''int'', 8))]"
  let ?xs = "(0, None, Some ''down'') # replicate 3 (1, None, Some ''down'')"
  obtain s where s: "run_schedule sample_group ?xs (start_calls sample_group ?cs) = Some s"
    and p: "pc_at s 1 = Touched 0"
    and s': "\<exists>s' v. sys_step sample_group (1, None, None) s = Some s' \<and> pc_at s' 1 = Returned v None"
    by (simp add: run_simps)
  then obtain s' v where s': "sys_step sample_group (1, None, None) s = Some s'" "pc_at s' 1 = Returned v None" by blast
  have "list_all (\<lambda>x. good_answer (snd x)) ?xs" "list_all good_call ?cs"
    by (simp_all add: good_answer_def good_call_def eval_nat_numeral)
  from getorset_not_torn [OF sample_group_contract s this _ _ s', of "''k''" "Some (''int'', 8)"] p s s'
  show ?thesis by auto
qed

end
