(* ===== verification/Spec2Isabelle.thy ===== *)
theory Spec2Isabelle
  imports Aggregator Alert Ticker Convert Rfc3339 ChainInfo TokenInfo Util BridgeFee Dtc LpInfo NodeInfo Commission
    MakerAddresses CmsUsers Accounts Listings CircleCctp MultiTransfer Transactions JsonExtract Auth EvmRpc
    RpcInterface EvmTxn SolanaTxn SvmProgram EvmSessions Logger HttpClient Tasks Telemetry Helpers CacheSpec CacheRaces
begin

text \<open>
  A model of \<open>utils-go\<close>, the Go library that the Owlto bridge's services share: managers that serve the
  bridge's database tables from memory (\<open>src/loader\<close>), clients of nine kinds of chains (\<open>src/rpc\<close>), bodies of
  transactions (\<open>src/txn\<close>), a cache that refreshes and expires its entries (\<open>src/asynccache\<close>), and helpers
  around them. The root theory imports the others, and ends with the properties that span several of
  them: from the route tables to the best route, from the chain table to the clients of the chains, and to calls of their common interface.

  \<^bold>\<open>How Go is modelled.\<close> A struct is a record whose fields keep their names after a prefix; a map is a
  partial function, a map of maps the theory \<open>Prelude\<close>'s \<open>get2\<close>, \<open>put2\<close> and \<open>app2\<close>; an error is the left
  side of a sum; a panic is a value of its own (\<open>None\<close>, \<open>Panics\<close> or \<open>Panic\<close>) wherever the code can panic.
  Fixed width integers are \<open>int\<close> with \<open>wrap_s\<close> and \<open>wrap_u\<close> at the places where the code converts or can
  overflow; \<open>big.Int\<close> is \<open>int\<close>, \<open>big.Rat\<close> is \<open>rat\<close>. Strings are lists of bytes; \<open>TrimSpace\<close>, \<open>ToLower\<close> and
  \<open>ToUpper\<close> treat ASCII and the spaces of Unicode. The order in which Go iterates over a map, and in which a
  sort leaves equal elements, is an argument restricted by \<open>iter_order\<close> or \<open>sort_slice_spec\<close>, so theorems
  hold for every order. Databases, nodes, the clock, hashes, the network and third-party libraries are
  arguments; where a property needs more of one than its type, the hypothesis says so and a witness
  gives a concrete instance.

  \<^bold>\<open>Foundations.\<close> \<open>Prelude\<close>: byte strings, maps of maps, iteration orders, sorting, the first minimum of a
  list. \<open>Rows\<close>: queries, scanned rows and the row loop that the managers share, with three interfaces:
  \<open>reloadable\<close> (a load takes effect or leaves what is served), \<open>row_index\<close> (an index holds the last row of
  each key) and \<open>row_group\<close> (an index lists the rows of each key); every manager interprets them on its own
  operations. \<open>GoNum\<close> and \<open>GoFloat\<close>: parsing and printing of numbers as in \<open>strconv\<close>, \<open>math/big\<close> and
  \<open>float64\<close>, with round trips. \<open>Convert\<close>: \<open>src/convert/convert.go\<close>, and \<open>Rfc3339\<close> its conversions to a time, the
  parser of \<open>time.Parse\<close> against a grammar of the texts it takes and the calendar.

  \<^bold>\<open>Managers\<close> (\<open>src/loader\<close>). Each theory has the manager's record, its load from the results of its
  queries, its lookups, and theorems on what a lookup returns after any load or sequence of loads, failed
  ones included. \<open>Aggregator\<close>: routes, fee segments, fees and the best route (\<open>aggregator_route.go\<close>).
  \<open>ChainInfo\<close> (\<open>chain_info.go\<close>), \<open>TokenInfo\<close> (\<open>token_info.go\<close>), \<open>BridgeFee\<close> (\<open>bridge_fee.go\<close>), \<open>Dtc\<close>
  (\<open>dtc.go\<close>), \<open>LpInfo\<close> (\<open>lp_info.go\<close>), \<open>NodeInfo\<close> (\<open>node_info.go\<close>), \<open>Commission\<close>
  (\<open>channel_commission_ratio.go\<close>), \<open>MakerAddresses\<close> (\<open>maker_address.go\<close>), \<open>CmsUsers\<close> (\<open>cms_user.go\<close>),
  \<open>Accounts\<close> (\<open>account.go\<close>, \<open>blacklist_address.go\<close>), \<open>Listings\<close> (\<open>exchange_info.go\<close>, \<open>popular_list.go\<close>,
  \<open>update_price.go\<close>), \<open>CircleCctp\<close> (\<open>circle_cctp_chain.go\<close>), \<open>MultiTransfer\<close> (\<open>multi_transfer_chain.go\<close>,
  \<open>multi_transfer_token.go\<close>), \<open>Transactions\<close> (\<open>src_tx.go\<close>, \<open>dst_tx.go\<close>, \<open>swap_token_info.go\<close>).

  \<^bold>\<open>The cache\<close> (\<open>src/asynccache\<close>). \<open>AsyncCache\<close>: entries and the operations of one cache as atomic steps,
  with the calls that singleflight joins. \<open>CacheSpec\<close>: an abstract cache of values and use marks that every
  run of the operations refines; it follows the code, which for an uncached key of \<open>GetOrSet\<close> stores what
  the \<open>Fetcher\<close> answers, where the comments of the interface say the default. \<open>CacheFlight\<close>: the same
  operations one access at a time, any number of them interleaved; the \<open>singleflight.Group\<close> is an
  argument, and its documentation the hypothesis \<open>group_contract\<close>. Each call alone is the atomic operation
  of \<open>AsyncCache\<close>. \<open>CacheRaces\<close>: which answers interleaved calls can give, and which they cannot. \<open>Ticker\<close>: the tickers that all caches share, their goroutines, mutex and
  stop channel as a step relation; its properties are invariants by rule induction and reachable stuck
  states.

  \<^bold>\<open>Clients and transactions.\<close> \<open>ChainNames\<close>: the constants of \<open>src/owlconsts/chain_name.go\<close>. \<open>TokenCache\<close>:
  the interface \<open>token_source\<close> of a client that caches token information in a token manager of its own,
  and \<open>typed_token_source\<close>, which adds that the information is well-formed; \<open>EvmRpc\<close> (\<open>evm.go\<close>),
  \<open>SolanaRpc\<close> (\<open>solana.go\<close>) and the Sui client interpret it. \<open>ChainRpcs\<close>: the dispatcher \<open>rpc.go\<close> and the
  clients \<open>zkslite.go\<close>, \<open>bfc.go\<close>, \<open>fuel.go\<close>, \<open>starknet.go\<close>, \<open>sui.go\<close>, \<open>ton.go\<close> and \<open>bitcoin.go\<close>. \<open>RpcInterface\<close>: the interface
  \<open>Rpc\<close> of \<open>rpc.go\<close> over clients of all chains, when its operations panic, and what they keep of a client. \<open>EvmTxn\<close>
  and \<open>SolanaTxn\<close>: \<open>src/txn\<close> and \<open>src/util/svm_instruction.go\<close>. \<open>SolanaProgram\<close>: the bindings of the two Solana
  programs (\<open>src/abi/owlto_sol_transfer\<close>, \<open>src/abi/svm_depositor\<close>), builders over slices of accounts and
  transfer data that copies share, and the round trip of instructions, proved once in the locale \<open>program_data\<close> over the codec
  of the transfer data and interpreted for both programs. \<open>SvmProgram\<close>: their getters, trees, program
  identifiers and the operations of the second package. \<open>EvmBindings\<close>: the bindings of the EVM contracts
  (\<open>src/abi/erc20\<close>, \<open>depositor\<close>, \<open>owlto\<close>), their iterators over channels of logs and the goroutines that
  forward events as a step relation. \<open>EvmSessions\<close>: binding a contract, raw operations and sessions.

  \<^bold>\<open>Helpers.\<close> \<open>Util\<close>: addresses, amounts and paging (\<open>src/util\<close>). \<open>Alert\<close>: \<open>src/alert\<close>. \<open>JsonExtract\<close>:
  \<open>src/json_extract\<close>. \<open>Auth\<close>: errors, responses, tokens and the middleware (\<open>src/errors\<close>, \<open>src/response\<close>,
  \<open>src/util/jwt.go\<close>, \<open>src/middleware\<close>). \<open>Logger\<close>: \<open>src/log\<close>, with the setup of its hooks. \<open>HttpClient\<close>: \<open>src/network\<close>,
  \<open>src/httputils\<close>. \<open>Tasks\<close>: \<open>src/task\<close>, periodic tasks as a step relation and the loop of daily ones, in a
  zone whose offset is a function of time. \<open>Telemetry\<close>: \<open>src/telemetry\<close>.
  \<open>Helpers\<close>: context values, log ids, pointers, referral types, signals, configuration files and Apollo.

  \<^bold>\<open>Bounds and termination.\<close> No definition uses fuel. Loops are structural recursion or folds, except the
  Unicode \<open>strip\<close>, the search for a caller and the decoded form of an extension list, which have termination
  proofs, and the extension scan of the Solana client, a \<open>while_option\<close>: it is proved to end on every byte
  string. Widths and moduli are those of the code's types. \<open>agg_weiToUI_exact\<close> is bounded by the exponent
  limit of \<open>big.Rat\<close>.

  \<^bold>\<open>Not modelled.\<close> The Rust contract, which is not Go; the literal table of Sui tokens (\<open>legTokenStr\<close> in \<open>sui.go\<close>,
  an argument); what the metadata of a contract, viper, the Apollo client, the logging library and the
  encoding of JSON do inside; operations of the EVM client that only pass on what the node answers (gas
  prices and the base fee). A load is a step that is not interleaved with lookups: the managers
  publish their indexes under a lock at the end of a load, the exceptions being fields that the code
  writes during a load (the manager's TON client), which the model updates there. The functions of third-party code are taken not to panic
  themselves; the assertions of \<open>GetClient\<close> and reads through nil pointers that third-party code returns
  are modelled. Memory and the cancellation of requests are outside the model.
\<close>

section \<open>Routes: from the tables to the best route\<close>

definition pair_rows :: "int \<Rightarrow> int \<Rightarrow> string \<Rightarrow> RouteConfig list \<Rightarrow> RouteConfig list" where
  \<comment> \<open>the rows of a chain pair and symbol, in the order of the table\<close>
  "pair_rows f t tokenSymbol rs =
     filter (\<lambda>r. rc_FromChainID r = f \<and> rc_ToChainID r = t \<and>
                 ToLower (rc_FromTokenSymbol r) = norm_key tokenSymbol) rs"

definition row_offer ::
  "(string \<Rightarrow> rat) \<Rightarrow> FeeSegment list \<Rightarrow> rat \<Rightarrow> int \<Rightarrow> RouteConfig \<Rightarrow> BestRouteResult option" where
  \<comment> \<open>what a row of the route table charges, read off the rows of the segment table\<close>
  "row_offer bad ss amt decimals r =
     (if isAmountInRouteRange amt r
      then map_option
             (\<lambda>seg. \<lparr>br_Aggregator = rc_AggregateID r, br_Route = r, br_FeeSegment = seg,
                     br_FeeResult = (calculateFee bad amt seg decimals)
                       \<lparr>fr_BestAggregator := rc_AggregateID r\<rparr>,
                     br_IsAggregator = True\<rparr>)
             (find (seg_covers amt) (filter (\<lambda>s. fs_RouteID s = rc_ID r) ss))
      else None)"

lemma GetFeeSegments_loaded:
  "ag_feeSegmentsByRouteID mgr = fold put_segment ss Map.empty \<Longrightarrow>
   GetFeeSegments mgr r = filter (\<lambda>s. fs_RouteID s = r) ss"
  using agg_segment.get_fold [of ss Map.empty r] by (simp add: GetFeeSegments_def)

lemma GetRoutesByChainPairAndSymbol_loaded:
  assumes "(ag_routesByChainPair mgr, ag_routesBySymbol mgr, ag_routesByID mgr) =
    fold put_route rs (Map.empty, Map.empty, Map.empty)"
  shows "GetRoutesByChainPairAndSymbol mgr f t tokenSymbol = pair_rows f t tokenSymbol rs"
proof -
  have "slice_at2 (ag_routesByChainPair mgr) f t = filter (\<lambda>r. rc_FromChainID r = f \<and> rc_ToChainID r = t) rs"
    using agg_pair.get_fold [of rs "(Map.empty, Map.empty, Map.empty)" "(f, t)"]
    by (simp add: assms [symmetric])
  then show ?thesis
    by (auto simp: GetRoutesByChainPairAndSymbol_def pair_rows_def norm_key_def Let_def
        ToUpper_eq_iff_ToLower_eq intro: filter_cong)
qed

lemma LoadAll_installs:
  assumes "snd (LoadAll q1 q2 (Rows rs e) (Rows ss e') mgr) = (None, mgr')"
  shows "(ag_routesByChainPair mgr', ag_routesBySymbol mgr', ag_routesByID mgr') =
      fold put_route (scanned rs) (Map.empty, Map.empty, Map.empty)"
    and "ag_feeSegmentsByRouteID mgr' = fold put_segment (scanned ss) Map.empty"
proof -
  from assms have "answered q1 \<and> answered q2"
    by (cases q1; cases q2) (simp_all add: LoadAll_simps)
  with assms show "(ag_routesByChainPair mgr', ag_routesBySymbol mgr', ag_routesByID mgr') =
      fold put_route (scanned rs) (Map.empty, Map.empty, Map.empty)"
    and "ag_feeSegmentsByRouteID mgr' = fold put_segment (scanned ss) Map.empty"
    by (cases q1; cases q2; auto simp: LoadAll_simps)+
qed

lemma FindBestRoute_cases:
  "FindBestRoute bad mgr f t tokenSymbol amountUI decimals = r \<Longrightarrow>
   case r of
     Inr b \<Rightarrow> \<exists>amt. Rat_SetString amountUI = Some amt \<and> 0 < amt \<and>
       first_min (route_offer bad mgr amt decimals) offer_fee (GetRoutesByChainPairAndSymbol mgr f t tokenSymbol) b
   | Inl _ \<Rightarrow> (\<forall>amt. Rat_SetString amountUI = Some amt \<and> 0 < amt \<longrightarrow>
       (\<forall>x\<in>set (GetRoutesByChainPairAndSymbol mgr f t tokenSymbol). route_offer bad mgr amt decimals x = None))"
  using best_route_first_min best_route_None
  by (fastforce simp: FindBestRoute_def Let_def split: if_split_asm option.split_asm sum.split)

text \<open>
  C3. After a load whose queries were all answered, the answer of \<open>FindBestRoute\<close> is determined by the
  rows of the two tables: it is the first of the cheapest rows of the pair and symbol whose range
  admits the amount and that have a segment for it, charged by the first such segment in the segment
  table, whatever the manager held before; and it is an error only if the amount is not a positive
  number or no row takes it.
\<close>

theorem table_best_route:
  assumes "snd (LoadAll q1 q2 (Rows rs e) (Rows ss e') mgr) = (None, mgr')"
  shows "case FindBestRoute bad mgr' f t tokenSymbol amountUI decimals of
      Inr b \<Rightarrow> \<exists>amt. Rat_SetString amountUI = Some amt \<and> 0 < amt \<and>
        first_min (row_offer bad (scanned ss) amt decimals) offer_fee (pair_rows f t tokenSymbol (scanned rs)) b
    | Inl _ \<Rightarrow> (\<forall>amt. Rat_SetString amountUI = Some amt \<and> 0 < amt \<longrightarrow>
        (\<forall>r\<in>set (pair_rows f t tokenSymbol (scanned rs)). row_offer bad (scanned ss) amt decimals r = None))"
proof -
  note m = LoadAll_installs [OF assms]
  have offer: "route_offer bad mgr' amt decimals = row_offer bad (scanned ss) amt decimals" for amt
    by (simp add: fun_eq_iff route_offer_def row_offer_def findMatchingSegment_def find_segment_find
        GetFeeSegments_loaded [OF m(2)])
  show ?thesis
    using FindBestRoute_cases [where bad = bad and mgr = mgr' and f = f and t = t and tokenSymbol = tokenSymbol
        and amountUI = amountUI and decimals = decimals, OF refl]
    unfolding offer GetRoutesByChainPairAndSymbol_loaded [OF m(1)] .
qed

definition sample_routes :: "RouteConfig query" where
  "sample_routes = Rows [Scanned (sample_route 1 AggregatorAcross), Scanned (sample_route 2 AggregatorRelay)] None"

definition sample_segments :: "FeeSegment query" where
  "sample_segments =
     Rows [Scanned sample_segment, Scanned (sample_segment\<lparr>fs_RouteID := 2, fs_OwltoFeeFixedUI := ''1''\<rparr>)] None"

definition sample_loaded :: AggregatorManager where
  "sample_loaded = snd (snd (LoadAll (Rows [] None) (Rows [] None) sample_routes sample_segments NewAggregatorManager))"

theorem table_best_route_witness:
  "\<exists>b amt. FindBestRoute (\<lambda>_. 0) sample_loaded 1 10 ''usdc'' ''7'' 0 = Inr b \<and>
     br_Aggregator b = AggregatorRelay \<and>
     first_min (row_offer (\<lambda>_. 0) [sample_segment, sample_segment\<lparr>fs_RouteID := 2, fs_OwltoFeeFixedUI := ''1''\<rparr>] amt 0)
       offer_fee [sample_route 1 AggregatorAcross, sample_route 2 AggregatorRelay] b"
proof -
  have run: "map_sum id br_Aggregator (FindBestRoute (\<lambda>_. 0) sample_loaded 1 10 ''usdc'' ''7'' 0) = Inr AggregatorRelay"
    by code_simp
  then obtain b where b: "FindBestRoute (\<lambda>_. 0) sample_loaded 1 10 ''usdc'' ''7'' 0 = Inr b" "br_Aggregator b = AggregatorRelay"
    by (cases "FindBestRoute (\<lambda>_. 0) sample_loaded 1 10 ''usdc'' ''7'' 0") auto
  have rows: "pair_rows 1 10 ''usdc'' [sample_route 1 AggregatorAcross, sample_route 2 AggregatorRelay] =
      [sample_route 1 AggregatorAcross, sample_route 2 AggregatorRelay]" by code_simp
  have "snd (LoadAll (Rows [] None) (Rows [] None) sample_routes sample_segments NewAggregatorManager) = (None, sample_loaded)"
    unfolding sample_loaded_def sample_routes_def sample_segments_def by (simp add: LoadAll_simps)
  from table_best_route [where bad = "\<lambda>_. 0" and f = 1 and t = 10 and tokenSymbol = "''usdc''"
      and amountUI = "''7''" and decimals = 0, OF this [unfolded sample_routes_def sample_segments_def]] b
  show ?thesis by (auto simp: rows)
qed

section \<open>Chains: from the table to the clients\<close>

definition client_fits :: "client option \<Rightarrow> ChainInfo \<Rightarrow> bool" where
  \<comment> \<open>the client of a loaded chain, given the manager's TON client\<close>
  "client_fits ton c \<longleftrightarrow>
     (ci_Backend c = EthereumBackend \<longrightarrow> ci_Client c = Some (EvmClient (ci_RpcEndPoint c))) \<and>
     (ci_Backend c = StarknetBackend \<longrightarrow> ci_Client c = Some (StarknetClient (ci_RpcEndPoint c))) \<and>
     (ci_Backend c = SolanaBackend \<longrightarrow> ci_Client c = Some (SolanaClient (ci_RpcEndPoint c))) \<and>
     (ci_Backend c = SuiBackend \<longrightarrow> ci_Client c = Some (SuiClient (ci_RpcEndPoint c))) \<and>
     (ci_Backend c = FuelBackend \<longrightarrow> ci_Client c = Some (FuelClient (ci_RpcEndPoint c))) \<and>
     (ci_Backend c = TonBackend \<longrightarrow> ton \<noteq> None \<and> ci_Client c = ton)"

definition clients_ok :: "ChainInfoManager \<Rightarrow> bool" where
  "clients_ok m \<longleftrightarrow>
     list_all (client_fits (cm_tonClient m)) (cm_allChains m) \<and>
     (\<forall>cl. cm_tonClient m = Some cl \<longrightarrow> (\<exists>u. cl = TonClient u))"

lemma client_fits_dial:
  assumes "dial d c ton = Inr (cl, ton')"
  shows "client_fits ton' (c\<lparr>ci_Client := cl\<rparr>) \<and> (ton \<noteq> None \<longrightarrow> ton' = ton) \<and>
    (\<forall>t. ton' = Some t \<longrightarrow> ton = Some t \<or> (\<exists>u. t = TonClient u))"
  using assms
  by (auto simp: dial_def client_fits_def backend_defs Let_def split: if_split_asm option.split_asm)

lemma client_fits_later: "client_fits ton c \<Longrightarrow> (ton \<noteq> None \<longrightarrow> ton' = ton) \<Longrightarrow> client_fits ton' c"
  by (auto simp: client_fits_def)

lemma clients_load_chain:
  assumes "clients_ok m"
  shows "clients_ok (snd (load_chain d row m)) \<and>
    (cm_tonClient m \<noteq> None \<longrightarrow> cm_tonClient (snd (load_chain d row m)) = cm_tonClient m)"
proof (cases "dial d (trim_chain row) (cm_tonClient m)")
  case (Inl e)
  then show ?thesis using assms by (cases e) (simp add: load_chain_def)
next
  case (Inr r)
  obtain cl ton where r: "dial d (trim_chain row) (cm_tonClient m) = Inr (cl, ton)" using Inr by (cases r) auto
  note f = client_fits_dial [OF r]
  have "list_all (client_fits ton) (cm_allChains m)"
    using assms f client_fits_later by (auto simp: clients_ok_def list_all_iff)
  then show ?thesis
    using r f assms by (auto simp: load_chain_def put_chain_def clients_ok_def Let_def)
qed

lemma clients_LoadAllChains:
  assumes ok: "clients_ok m"
  shows "clients_ok (snd (LoadAllChains d q m))"
proof (cases q)
  case (QueryErr e)
  then show ?thesis using ok by (simp add: LoadAllChains_def)
next
  case (Rows rs err)
  let ?init = "NewChainInfoManager\<lparr>cm_tonClient := cm_tonClient m\<rparr>"
  let ?inv = "\<lambda>s. clients_ok s \<and> (cm_tonClient m \<noteq> None \<longrightarrow> cm_tonClient s = cm_tonClient m)"
  have "?inv ?init" using ok by (simp add: clients_ok_def NewChainInfoManager_def)
  then have "?inv (snd (scan_loop ''scan t_chain_info row error'' (load_chain d) rs ?init))"
    by (rule scan_loop_invariant [rotated]) (metis clients_load_chain)
  moreover from this have "client_fits (cm_tonClient (snd (scan_loop ''scan t_chain_info row error'' (load_chain d) rs ?init))) c"
    if "c \<in> set (cm_allChains m)" for c
    using that ok by (auto simp: clients_ok_def list_all_iff intro: client_fits_later)
  ultimately show ?thesis using Rows ok
    by (cases err) (auto simp: LoadAllChains_def case_prod_unfold Let_def clients_ok_def list_all_iff)
qed

lemma clients_history: "clients_ok (chain_history loads)"
proof -
  have "clients_ok (fold (\<lambda>(d, q) m. snd (LoadAllChains d q m)) loads m)" if "clients_ok m" for m
    using that by (induction loads arbitrary: m) (auto simp: clients_LoadAllChains)
  moreover have "clients_ok NewChainInfoManager" by (simp add: clients_ok_def NewChainInfoManager_def)
  ultimately show ?thesis unfolding chain_history_def by blast
qed

lemma client_of_loaded:
  "c \<in> set (GetAllChains (chain_history loads)) \<Longrightarrow> client_fits (cm_tonClient (chain_history loads)) c"
  using clients_history [of loads] by (simp add: clients_ok_def list_all_iff GetAllChains_def)

text \<open>
  C13. A chain that the chain table serves, after any sequence of loads, has the client its backend
  needs: making its client of \<open>src/rpc\<close> never panics, nor does the assertion of its node client, which
  is the one dialled at its own address; and a TON chain has a client without connecting again,
  whatever connecting would answer.
\<close>

theorem loaded_chains_served:
  assumes "c \<in> set (GetAllChains (chain_history loads))"
  shows "GetRpc c \<noteq> Panics \<and>
    (if ci_Backend c = EthereumBackend then EvmGetClient c = Returns (EvmClient (ci_RpcEndPoint c))
     else if ci_Backend c = StarknetBackend then StarknetGetClient c = Returns (StarknetClient (ci_RpcEndPoint c))
     else if ci_Backend c = SolanaBackend then SolanaGetClient c = Returns (SolanaClient (ci_RpcEndPoint c))
     else if ci_Backend c = FuelBackend then FuelGetClient c = Returns (FuelClient (ci_RpcEndPoint c))
     else if ci_Backend c = TonBackend then TonGetClient ts c = (Returns (Inr ()), c)
     else True)"
proof -
  note f = client_of_loaded [OF assms]
  have ton: "ci_Backend c = TonBackend \<Longrightarrow> \<exists>u. ci_Client c = Some (TonClient u)"
    using f clients_history [of loads] by (auto simp: client_fits_def clients_ok_def)
  show ?thesis
  proof
    show "GetRpc c \<noteq> Panics"
      using f by (auto simp: GetRpc_def NewSuiRpc_def client_fits_def backend_defs split: if_split_asm)
  qed (use f ton in \<open>auto simp: client_fits_def get_client_defs TonGetClient_def\<close>)
qed

definition sample_dialers :: dialers where
  "sample_dialers = \<lparr>dl_evm = \<lambda>_. None, dl_starknet = \<lambda>_. Some ''down'', dl_ton = \<lambda>_. None\<rparr>"

definition sample_chain_loads :: "(dialers \<times> ChainInfo query) list" where
  "sample_chain_loads =
     [(sample_dialers, Rows [Scanned (sample_chain\<lparr>ci_Backend := TonBackend, ci_Name := ''Ton''\<rparr>),
        Scanned (sample_chain\<lparr>ci_Backend := TonBackend, ci_Name := ''TonTestnet'', ci_IsTestnet := 1\<rparr>),
        Scanned (sample_chain\<lparr>ci_Backend := SuiBackend, ci_Name := ''Sui''\<rparr>)] None)]"

lemma sample_chain_table:
  "map (\<lambda>c. (ci_Backend c, ci_IsTestnet c, ci_Client c)) (GetAllChains (chain_history sample_chain_loads)) =
     [(6, 0, Some (TonClient ConfigURLMainnet)), (6, 1, Some (TonClient ConfigURLMainnet)),
      (9, 0, Some (SuiClient (TrimSpace ''http://node'')))]"
  by (simp add: chain_history_def sample_chain_loads_def LoadAllChains_def load_chain_def dial_def Let_def
      trim_chain_def put_chain_def GetAllChains_def sample_dialers_def sample_chain_def NewChainInfoManager_def
      backend_defs)

theorem loaded_chains_served_witness:
  "GetRpc (GetAllChains (chain_history sample_chain_loads) ! 2) \<noteq> Panics \<and>
   ci_Backend (GetAllChains (chain_history sample_chain_loads) ! 2) = SuiBackend"
proof -
  note t = arg_cong [OF sample_chain_table, of length] arg_cong [OF sample_chain_table, of "\<lambda>xs. xs ! 2"]
  then have l: "2 < length (GetAllChains (chain_history sample_chain_loads))" by simp
  show ?thesis using loaded_chains_served [OF nth_mem [OF l]] t(2) l by (simp add: backend_defs)
qed

text \<open>
  All TON chains of the table have the same client, also when some are testnets and others are not:
  the network is that of the first TON chain that was ever dialled.
\<close>

theorem ton_client_shared:
  assumes "c \<in> set (GetAllChains (chain_history loads))" and "c' \<in> set (GetAllChains (chain_history loads))"
    and "ci_Backend c = TonBackend" and "ci_Backend c' = TonBackend"
  shows "ci_Client c = ci_Client c' \<and> ci_Client c \<noteq> None"
  using client_of_loaded [OF assms(1)] client_of_loaded [OF assms(2)] assms(3,4)
  by (simp add: client_fits_def)

theorem ton_client_shared_witness:
  "let cs = GetAllChains (chain_history sample_chain_loads) in
   ci_IsTestnet (cs ! 0) = 0 \<and> ci_IsTestnet (cs ! 1) = 1 \<and> ci_Client (cs ! 0) = ci_Client (cs ! 1)"
proof -
  let ?cs = "GetAllChains (chain_history sample_chain_loads)"
  have l: "length ?cs = 3" using arg_cong [OF sample_chain_table, of length] by simp
  have t: "ci_Backend (?cs ! 0) = 6 \<and> ci_IsTestnet (?cs ! 0) = 0" "ci_Backend (?cs ! 1) = 6 \<and> ci_IsTestnet (?cs ! 1) = 1"
    using arg_cong [OF sample_chain_table, of "\<lambda>xs. xs ! 0"] arg_cong [OF sample_chain_table, of "\<lambda>xs. xs ! 1"] l
    by simp_all
  have m: "?cs ! 0 \<in> set ?cs" "?cs ! 1 \<in> set ?cs" using l by simp_all
  from ton_client_shared [OF m] t show ?thesis by (simp add: Let_def backend_defs)
qed




end
